(* ===== verification/Prelude.thy ===== *)
theory Prelude
  imports Main "HOL-Library.Word"
begin

text \<open>
  What every component shares: the widths of the machine integers, the results of Rust calls
  (a value, an error of the code, a panic), stateful calls that return such a result together
  with the state they leave, byte ranges of a buffer with the bounds checks of Rust's slices, the
  little-endian encodings, and checked or saturating integer operations.
\<close>

type_synonym u8 = "8 word"
type_synonym u16 = "16 word"
type_synonym u64 = "64 word"

type_synonym bytes = "u8 list"

named_theorems act_simps \<open>evaluation of stateful calls\<close>
named_theorems range_simps \<open>byte ranges of a buffer\<close>

subsection \<open>Results of Rust calls\<close>

text \<open>
  \<open>Ok\<close> and \<open>Err\<close> are the constructors of Rust's \<open>Result\<close>; \<open>Panics\<close> is an unwinding panic (a
  failed slice bounds check, an \<open>unwrap\<close> of an error, an arithmetic overflow in a build that
  checks it).  \<open>rbind\<close> is the \<open>?\<close> operator.
\<close>

datatype ('e, 'a) outcome = Ok 'a | Err 'e | Panics

primrec rbind :: "('e, 'a) outcome \<Rightarrow> ('a \<Rightarrow> ('e, 'b) outcome) \<Rightarrow> ('e, 'b) outcome" where
  "rbind (Ok x) f = f x"
| "rbind (Err e) f = Err e"
| "rbind Panics f = Panics"

primrec map_err :: "('e \<Rightarrow> 'f) \<Rightarrow> ('e, 'a) outcome \<Rightarrow> ('f, 'a) outcome" where
  "map_err g (Ok x) = Ok x"
| "map_err g (Err e) = Err (g e)"
| "map_err g Panics = Panics"

primrec unwrap :: "'a option \<Rightarrow> ('e, 'a) outcome" where
  "unwrap None = Panics"
| "unwrap (Some x) = Ok x"

primrec ok_or :: "'e \<Rightarrow> 'a option \<Rightarrow> ('e, 'a) outcome" where
  "ok_or e None = Err e"
| "ok_or e (Some x) = Ok x"

lemma rbind_eq_Ok [simp]: "rbind r f = Ok y \<longleftrightarrow> (\<exists>x. r = Ok x \<and> f x = Ok y)"
  by (cases r) auto

lemma rbind_Ok_right [simp]: "rbind r Ok = r"
  by (cases r) auto

lemma unwrap_eq_Ok [simp]: "unwrap x = Ok y \<longleftrightarrow> x = Some y"
  by (cases x) auto

lemma ok_or_eq_Ok [simp]: "ok_or e x = Ok y \<longleftrightarrow> x = Some y"
  by (cases x) auto

lemma map_err_eq_Ok [simp]: "map_err g r = Ok y \<longleftrightarrow> r = Ok y"
  by (cases r) auto

subsection \<open>Stateful calls\<close>

text \<open>
  A method that takes \<open>&mut self\<close> (or writes through a pointer) takes the state and returns its
  result with the state it leaves, also when the result is an error or a panic.
\<close>

type_synonym ('s, 'e, 'a) act = "'s \<Rightarrow> ('e, 'a) outcome \<times> 's"

definition act_return :: "'a \<Rightarrow> ('s, 'e, 'a) act" where
  "act_return x = (\<lambda>s. (Ok x, s))"

definition act_lift :: "('e, 'a) outcome \<Rightarrow> ('s, 'e, 'a) act" where
  "act_lift r = (\<lambda>s. (r, s))"

definition act_bind :: "('s, 'e, 'a) act \<Rightarrow> ('a \<Rightarrow> ('s, 'e, 'b) act) \<Rightarrow> ('s, 'e, 'b) act" where
  "act_bind m f = (\<lambda>s. case m s of
     (Ok x, t) \<Rightarrow> f x t
   | (Err e, t) \<Rightarrow> (Err e, t)
   | (Panics, t) \<Rightarrow> (Panics, t))"

definition act_map_err :: "('e \<Rightarrow> 'f) \<Rightarrow> ('s, 'e, 'a) act \<Rightarrow> ('s, 'f, 'a) act" where
  "act_map_err g m = (\<lambda>s. case m s of (r, t) \<Rightarrow> (map_err g r, t))"

lemma act_return_apply [simp, act_simps]: "act_return x s = (Ok x, s)"
  by (simp add: act_return_def)

lemma act_lift_apply [simp, act_simps]: "act_lift r s = (r, s)"
  by (simp add: act_lift_def)

lemma act_bind_Ok [simp, act_simps]: "m s = (Ok x, t) \<Longrightarrow> act_bind m f s = f x t"
  by (simp add: act_bind_def)

lemma act_bind_Err [simp, act_simps]: "m s = (Err e, t) \<Longrightarrow> act_bind m f s = (Err e, t)"
  by (simp add: act_bind_def)

lemma act_bind_Panics [simp, act_simps]: "m s = (Panics, t) \<Longrightarrow> act_bind m f s = (Panics, t)"
  by (simp add: act_bind_def)

lemma act_bind_eq_Ok:
  "act_bind m f s = (Ok y, u) \<longleftrightarrow> (\<exists>x t. m s = (Ok x, t) \<and> f x t = (Ok y, u))"
  by (auto simp: act_bind_def split: prod.splits outcome.splits)

lemma act_map_err_apply [simp, act_simps]:
  "m s = (r, t) \<Longrightarrow> act_map_err g m s = (map_err g r, t)"
  by (simp add: act_map_err_def)

text \<open>A relation between the states before and after that every call of a sequence keeps.\<close>

lemma act_bind_frame:
  assumes "\<And>s r t. m s = (r, t) \<Longrightarrow> R s t"
    and "\<And>x s r t. f x s = (r, t) \<Longrightarrow> R s t"
    and "\<And>s t u. R s t \<Longrightarrow> R t u \<Longrightarrow> R s u"
    and "act_bind m f s = (r, u)"
  shows "R s u"
  using assms(4) assms(1)[of s] assms(2) assms(3)
  by (auto simp: act_bind_def split: prod.splits outcome.splits)

subsection \<open>Machine integers\<close>

text \<open>
  A \<open>usize\<close> that counts or indexes is a \<open>nat\<close>; the additions of the code are checked against
  the width of \<open>usize\<close> (64 bits) and panic beyond it, as a build with overflow checks does.
\<close>

definition usize_add :: "nat \<Rightarrow> nat \<Rightarrow> ('e, nat) outcome" where
  "usize_add a b = (if a + b < 2 ^ 64 then Ok (a + b) else Panics)"

definition usize_sub :: "nat \<Rightarrow> nat \<Rightarrow> ('e, nat) outcome" where
  "usize_sub a b = (if b \<le> a then Ok (a - b) else Panics)"

definition saturating_add :: "u64 \<Rightarrow> u64 \<Rightarrow> u64" where
  "saturating_add a b = (if unat a + unat b < 2 ^ 64 then a + b else - 1)"

definition saturating_sub :: "'w::len word \<Rightarrow> 'w word \<Rightarrow> 'w word" where
  "saturating_sub a b = (if b \<le> a then a - b else 0)"

definition saturating_mul :: "u64 \<Rightarrow> u64 \<Rightarrow> u64" where
  "saturating_mul a b = (if unat a * unat b < 2 ^ 64 then a * b else - 1)"

definition checked_add :: "u64 \<Rightarrow> u64 \<Rightarrow> u64 option" where
  "checked_add a b = (if unat a + unat b < 2 ^ 64 then Some (a + b) else None)"

lemma usize_add_eq_Ok [simp]: "usize_add a b = Ok c \<longleftrightarrow> c = a + b \<and> a + b < 2 ^ 64"
  by (auto simp: usize_add_def)

lemma usize_add_Ok: "a + b < 2 ^ 64 \<Longrightarrow> usize_add a b = Ok (a + b)"
  by (simp add: usize_add_def)

lemma usize_add_Panics [simp]: "usize_add a b = Panics \<longleftrightarrow> 2 ^ 64 \<le> a + b"
  by (auto simp: usize_add_def)

lemma usize_add_no_Err [simp]: "usize_add a b \<noteq> Err e"
  by (auto simp: usize_add_def)

lemma unat_u64_less [simp]: "unat (x :: u64) < 2 ^ 64" "unat (x :: u64) < 18446744073709551616"
  using unsigned_less[of x] by simp_all

lemma unat_max_u64: "unat (- 1 :: u64) = 2 ^ 64 - 1"
  by (simp add: unsigned_minus_1_eq_mask mask_eq_exp_minus_1)

lemma unat_add_u64: "unat a + unat b < 2 ^ 64 \<Longrightarrow> unat (a + b) = unat a + unat (b :: u64)"
  by (simp add: unat_word_ariths)

lemma unat_sub_word: "b \<le> a \<Longrightarrow> unat (a - b) = unat a - unat (b :: 'w::len word)"
  by (rule unat_sub)

lemma unat_saturating_add:
  "unat (saturating_add a b) = min (unat a + unat b) (2 ^ 64 - 1)"
  by (simp add: saturating_add_def unat_add_u64 unat_max_u64)

lemma unat_saturating_sub: "unat (saturating_sub a b) = unat a - unat b"
  by (simp add: saturating_sub_def unat_sub_word word_le_nat_alt)

lemma unat_saturating_mul:
  "unat (saturating_mul a b) = min (unat a * unat b) (2 ^ 64 - 1)"
  by (simp add: saturating_mul_def unat_word_ariths unat_max_u64)

lemma checked_add_eq_Some:
  "checked_add a b = Some c \<longleftrightarrow> unat a + unat b < 2 ^ 64 \<and> c = a + b"
  by (auto simp: checked_add_def)

subsection \<open>Searching a list\<close>

text \<open>\<open>iter().position(p)\<close>.\<close>

primrec position :: "('a \<Rightarrow> bool) \<Rightarrow> 'a list \<Rightarrow> nat option" where
  "position p [] = None"
| "position p (x # xs) = (if p x then Some 0 else map_option Suc (position p xs))"

lemma position_Some:
  "position p xs = Some i \<Longrightarrow> i < length xs \<and> p (xs ! i)"
  by (induction xs arbitrary: i) (auto split: if_splits)

lemma position_None: "position p xs = None \<longleftrightarrow> (\<forall>x \<in> set xs. \<not> p x)"
  by (induction xs) auto

end
