(* ===== verification/Byte_Ranges.thy ===== *)
theory Byte_Ranges
  imports Prelude
begin

text \<open>
  Byte ranges of a buffer (Rust's \<open>xs[i..j]\<close>, \<open>xs[i..j].fill(v)\<close> and
  \<open>xs[i..j].copy_from_slice(ys)\<close>, with the bounds check that panics), little-endian integers, and
  \<open>align_offset\<close> of the standard library.
\<close>

subsection \<open>Reading and overwriting ranges\<close>

definition bytes_at :: "'a list \<Rightarrow> nat \<Rightarrow> nat \<Rightarrow> 'a list" where
  "bytes_at xs i n = take n (drop i xs)"

definition overwrite :: "'a list \<Rightarrow> nat \<Rightarrow> 'a list \<Rightarrow> 'a list" where
  "overwrite xs i ys = take i xs @ ys @ drop (i + length ys) xs"

definition slice_range :: "'a list \<Rightarrow> nat \<Rightarrow> nat \<Rightarrow> ('e, 'a list) outcome" where
  "slice_range xs i j = (if i \<le> j \<and> j \<le> length xs then Ok (bytes_at xs i (j - i)) else Panics)"

definition slice_from :: "'a list \<Rightarrow> nat \<Rightarrow> 'a list option" where
  "slice_from xs i = (if i \<le> length xs then Some (drop i xs) else None)"

definition index_checked :: "'a list \<Rightarrow> nat \<Rightarrow> ('e, 'a) outcome" where
  "index_checked xs i = (if i < length xs then Ok (xs ! i) else Panics)"

lemma index_checked_Ok: "i < length xs \<Longrightarrow> index_checked xs i = Ok (xs ! i)"
  by (simp add: index_checked_def)

lemma index_checked_eq_Ok [simp]: "index_checked xs i = Ok x \<longleftrightarrow> i < length xs \<and> x = xs ! i"
  by (auto simp: index_checked_def)

lemma length_bytes_at [simp, range_simps]: "length (bytes_at xs i n) = min n (length xs - i)"
  by (simp add: bytes_at_def)

lemma length_overwrite [simp, range_simps]:
  "i + length ys \<le> length xs \<Longrightarrow> length (overwrite xs i ys) = length xs"
  by (simp add: overwrite_def)

lemma overwrite_Nil [simp, range_simps]: "overwrite xs i [] = xs"
  by (simp add: overwrite_def)

lemma bytes_at_0 [simp, range_simps]: "bytes_at xs i 0 = []"
  by (simp add: bytes_at_def)

lemma overwrite_append [range_simps]:
  "i + length ys \<le> length xs \<Longrightarrow>
   overwrite (overwrite xs i ys) (i + length ys) zs = overwrite xs i (ys @ zs)"
  by (cases ys) (auto simp: overwrite_def min_def ac_simps)

lemma overwrite_middle [range_simps]:
  "length b = length b' \<Longrightarrow> i = length a \<Longrightarrow> overwrite (a @ b @ c) i b' = a @ b' @ c"
  by (simp add: overwrite_def)

lemma bytes_at_middle [range_simps]: "i = length a \<Longrightarrow> n = length b \<Longrightarrow> bytes_at (a @ b @ c) i n = b"
  by (simp add: bytes_at_def)

lemma bytes_at_append_left [range_simps]: "i + n \<le> length a \<Longrightarrow> bytes_at (a @ b) i n = bytes_at a i n"
  by (simp add: bytes_at_def)

lemma bytes_at_append_right [range_simps]:
  "length a \<le> i \<Longrightarrow> bytes_at (a @ b) i n = bytes_at b (i - length a) n"
  by (simp add: bytes_at_def)

lemma bytes_at_all [simp, range_simps]: "length xs \<le> n \<Longrightarrow> bytes_at xs 0 n = xs"
  by (simp add: bytes_at_def)

lemma bytes_at_bytes_at:
  "j + m \<le> n \<Longrightarrow> bytes_at (bytes_at xs i n) j m = bytes_at xs (i + j) m"
  by (simp add: bytes_at_def drop_take add.commute min_def)

lemma bytes_at_overwrite_inside:
  assumes "i + length ys \<le> length xs" "j + n \<le> length ys"
  shows "bytes_at (overwrite xs i ys) (i + j) n = bytes_at ys j n"
  using assms by (simp add: bytes_at_def overwrite_def)

lemma bytes_at_overwrite_same [simp]:
  "i + length ys \<le> length xs \<Longrightarrow> n = length ys \<Longrightarrow> bytes_at (overwrite xs i ys) i n = ys"
  using bytes_at_overwrite_inside[of i ys xs 0 n] by simp

lemma bytes_at_overwrite_disjoint:
  assumes "i + length ys \<le> length xs" "j + n \<le> i \<or> i + length ys \<le> j"
  shows "bytes_at (overwrite xs i ys) j n = bytes_at xs j n"
  using assms(2)
proof
  assume "j + n \<le> i"
  with assms(1) show ?thesis
    by (simp add: bytes_at_def overwrite_def take_drop min_def)
next
  assume "i + length ys \<le> j"
  with assms(1) show ?thesis
    by (simp add: bytes_at_def overwrite_def)
qed

lemma nth_overwrite:
  assumes "i + length ys \<le> length xs" "k < length xs"
  shows "overwrite xs i ys ! k = (if i \<le> k \<and> k < i + length ys then ys ! (k - i) else xs ! k)"
  using assms by (auto simp: overwrite_def nth_append min_def)

lemma slice_range_Ok: "i + n \<le> length xs \<Longrightarrow> slice_range xs i (i + n) = Ok (bytes_at xs i n)"
  by (simp add: slice_range_def)

subsection \<open>Little-endian integers\<close>

primrec le_bytes :: "nat \<Rightarrow> nat \<Rightarrow> bytes" where
  "le_bytes 0 v = []"
| "le_bytes (Suc n) v = of_nat (v mod 256) # le_bytes n (v div 256)"

primrec le_nat :: "bytes \<Rightarrow> nat" where
  "le_nat [] = 0"
| "le_nat (b # bs) = unat b + 256 * le_nat bs"

definition u64_le :: "u64 \<Rightarrow> bytes" where
  "u64_le x = le_bytes 8 (unat x)"

definition u64_from_le :: "bytes \<Rightarrow> u64" where
  "u64_from_le bs = of_nat (le_nat bs)"

lemma length_le_bytes [simp]: "length (le_bytes n v) = n"
  by (induction n arbitrary: v) auto

lemma le_bytes_numeral [simp]:
  "le_bytes (numeral k) v = of_nat (v mod 256) # le_bytes (pred_numeral k) (v div 256)"
  by (simp only: numeral_eq_Suc le_bytes.simps)

lemma le_nat_le_bytes: "le_nat (le_bytes n v) = v mod 256 ^ n"
proof (induction n arbitrary: v)
  case (Suc n)
  have "unat (of_nat (v mod 256) :: u8) = v mod 256"
    by (simp add: unsigned_of_nat take_bit_eq_mod)
  then show ?case
    by (simp add: Suc.IH mod_mult2_eq)
qed simp

lemma le_nat_less: "le_nat bs < 256 ^ length bs"
proof (induction bs)
  case (Cons b bs)
  have "unat b < 256"
    using unsigned_less[of b] by simp
  with Cons show ?case
    by simp
qed simp

lemma length_u64_le [simp]: "length (u64_le x) = 8"
  by (simp add: u64_le_def del: le_bytes_numeral)

lemma u64_from_le_u64_le [simp]: "u64_from_le (u64_le x) = x"
proof -
  have "unat x < 256 ^ 8"
    using unsigned_less[of x] by simp
  then show ?thesis
    by (simp add: u64_from_le_def u64_le_def le_nat_le_bytes del: le_bytes_numeral)
qed

lemma unat_u64_from_le: "length bs = 8 \<Longrightarrow> unat (u64_from_le bs) = le_nat bs"
  using le_nat_less[of bs] by (simp add: u64_from_le_def unsigned_of_nat take_bit_nat_eq_self)

lemma u64_le_inject [simp]: "u64_le x = u64_le y \<longleftrightarrow> x = y"
  by (metis u64_from_le_u64_le)

subsection \<open>Alignment\<close>

text \<open>
  \<open>(n as *const u8).align_offset(a)\<close> is the number of bytes to add to the address \<open>n\<close> for it to
  be a multiple of \<open>a\<close>, a power of two (the standard library panics otherwise).
\<close>

definition is_power_of_two :: "nat \<Rightarrow> bool" where
  "is_power_of_two a \<longleftrightarrow> a \<in> set (map (\<lambda>k. 2 ^ k) [0..<64])"

definition align_offset :: "nat \<Rightarrow> nat \<Rightarrow> ('e, nat) outcome" where
  "align_offset n a = (if is_power_of_two a then Ok ((a - n mod a) mod a) else Panics)"

definition padding :: "nat \<Rightarrow> nat \<Rightarrow> nat" where
  "padding a n = (a - n mod a) mod a"

lemma align_offset_eq_Ok [simp]:
  "align_offset n a = Ok k \<longleftrightarrow> is_power_of_two a \<and> k = padding a n"
  by (auto simp: align_offset_def padding_def)

lemma align_offset_Ok: "is_power_of_two a \<Longrightarrow> align_offset n a = Ok (padding a n)"
  by simp

lemma power_of_two_pos: "is_power_of_two a \<Longrightarrow> 0 < a"
  by (auto simp: is_power_of_two_def)

lemma padding_less: "0 < a \<Longrightarrow> padding a n < a"
  by (simp add: padding_def)

lemma padding_aligned: "0 < a \<Longrightarrow> a dvd n + padding a n"
proof -
  assume a: "0 < a"
  have "(n mod a + padding a n) mod a = 0"
  proof (cases "n mod a = 0")
    case True
    with a show ?thesis by (simp add: padding_def)
  next
    case False
    with a have "a - n mod a < a" by simp
    with a show ?thesis by (simp add: padding_def less_imp_le_nat)
  qed
  then show ?thesis
    by (simp add: mod_simps dvd_eq_mod_eq_0)
qed

end
