(* ===== verification/Pubkeys.thy ===== *)
theory Pubkeys
  imports Byte_Ranges "HOL-Library.List_Lexorder"
begin

text \<open>
  A public key is an array of 32 bytes; its derived order, which the program cache's sorted
  vectors rely on, is the lexicographic order of the bytes.
\<close>

typedef pubkey = "{bs :: bytes. length bs = 32}"
  morphisms pubkey_bytes Pubkey
  by (rule exI[of _ "replicate 32 0"]) simp

lemma length_pubkey_bytes [simp]: "length (pubkey_bytes k) = 32"
  using pubkey_bytes[of k] by simp

lemma pubkey_bytes_Pubkey [simp]: "length bs = 32 \<Longrightarrow> pubkey_bytes (Pubkey bs) = bs"
  by (simp add: Pubkey_inverse)

lemma Pubkey_pubkey_bytes [simp]: "Pubkey (pubkey_bytes k) = k"
  by (rule pubkey_bytes_inverse)

definition pubkey_default :: pubkey where
  "pubkey_default = Pubkey (replicate 32 0)"

text \<open>\<open>Pubkey::try_from\<close> of a byte slice, and the key whose bytes are all the same.\<close>

definition pubkey_try_from :: "bytes \<Rightarrow> pubkey option" where
  "pubkey_try_from bs = (if length bs = 32 then Some (Pubkey bs) else None)"

definition pubkey_repeat :: "u8 \<Rightarrow> pubkey" where
  "pubkey_repeat b = Pubkey (replicate 32 b)"

lemma pubkey_try_from_bytes [simp]: "pubkey_try_from (pubkey_bytes k) = Some k"
  by (simp add: pubkey_try_from_def)

lemma pubkey_default_bytes [simp]: "pubkey_bytes pubkey_default = replicate 32 0"
  by (simp add: pubkey_default_def)

lemma pubkey_repeat_bytes [simp]: "pubkey_bytes (pubkey_repeat b) = replicate 32 b"
  by (simp add: pubkey_repeat_def)

lemma pubkey_repeat_eq [simp]: "pubkey_repeat a = pubkey_repeat b \<longleftrightarrow> a = b"
  by (simp add: pubkey_repeat_def Pubkey_inject)

lemma pubkey_repeat_0 [simp]: "pubkey_repeat 0 = pubkey_default"
  by (simp add: pubkey_repeat_def pubkey_default_def)

instantiation pubkey :: equal
begin

definition equal_pubkey :: "pubkey \<Rightarrow> pubkey \<Rightarrow> bool" where
  "equal_pubkey k l \<longleftrightarrow> pubkey_bytes k = pubkey_bytes l"

instance
  by standard (simp add: equal_pubkey_def pubkey_bytes_inject)

end

instantiation pubkey :: linorder
begin

definition less_eq_pubkey :: "pubkey \<Rightarrow> pubkey \<Rightarrow> bool" where
  "less_eq_pubkey k l \<longleftrightarrow> pubkey_bytes k \<le> pubkey_bytes l"

definition less_pubkey :: "pubkey \<Rightarrow> pubkey \<Rightarrow> bool" where
  "less_pubkey k l \<longleftrightarrow> pubkey_bytes k < pubkey_bytes l"

instance
  by standard (auto simp: less_eq_pubkey_def less_pubkey_def pubkey_bytes_inject less_le)

end

end
