(* ===== verification/Errors.thy ===== *)
theory Errors
  imports Pubkeys
begin

text \<open>
  The error values of the instruction executor: \<open>errors.rs\<close>, \<open>syscall_errors.rs\<close> and the errors of
  the crates it builds on, as far as the code names their variants.  A variant the code never
  names is one of the \<open>Other\<close> constructors.
\<close>

text \<open>\<open>InstructionExecutorError\<close>.\<close>

datatype instruction_executor_error =
    InvalidInstruction
  | InvalidAccount
  | MissingProgram

text \<open>The standard library's \<open>Utf8Error\<close>: \<open>valid_up_to\<close> and \<open>error_len\<close>.\<close>

record utf8_error =
  valid_up_to :: nat
  error_len :: "nat option"

text \<open>\<open>SyscallError\<close>.  A Rust \<open>String\<close> is the list of its UTF-8 bytes.\<close>

datatype syscall_error =
    InvalidString utf8_error bytes
  | Abort
  | Panic bytes u64 u64
  | InvokeContextBorrowFailed
  | MalformedSignerSeed utf8_error bytes
  | BadSeeds
  | ProgramNotSupported
  | UnalignedPointer
  | TooManySigners
  | InstructionTooLarge nat nat
  | TooManyAccounts
  | CopyOverlapping
  | ReturnDataTooLarge u64 u64
  | TooManySlices
  | InvalidLength
  | MaxInstructionDataLenExceeded u64 u64
  | MaxInstructionAccountsExceeded u64 u64
  | MaxInstructionAccountInfosExceeded u64 u64
  | InvalidAttribute
  | InvalidPointer
  | ArithmeticOverflow

text \<open>Errors of the virtual machine and of the runtime.\<close>

datatype access_type = Load | Store

datatype ebpf_error =
    AccessViolation access_type u64 u64 string
  | StackAccessViolation access_type u64 u64 int
  | OtherEbpfError nat

datatype instruction_error =
    InvalidArgument
  | InvalidAccountData
  | OtherInstructionError nat

text \<open>
  \<open>Box<dyn Error>\<close>, which the syscalls return, and \<open>anyhow::Error\<close>, which the executor throws.
\<close>

datatype error_obj =
    SyscallErr syscall_error
  | EbpfErr ebpf_error
  | InstructionErr instruction_error

datatype transaction_error =
    AccountNotFound
  | ProgramAccountNotFound
  | CallChainTooDeep
  | OtherTransactionError nat

datatype anyhow_error =
    ExecutorError instruction_executor_error
  | InstructionFailure instruction_error
  | RegistryFailure string
  | TransactionFailure transaction_error
  | IoFailure
  | Message string

end
