(* ===== verification/Externals.thy ===== *)
theory Externals
  imports Errors
begin

text \<open>
  The crates the program builds on (\<open>solana_sdk\<close>, \<open>solana_rbpf\<close>) are not part of the repository:
  their constants and functions are fields of the records of this theory, arguments of the
  definitions that use them.  What the code relies on is stated by the predicates
  \<open>aligned_memory_laws\<close> and \<open>sdk_laws\<close>, which the theorems that need it name as hypotheses.
\<close>

subsection \<open>Constants and functions of the SDK\<close>

record sdk =
  MAX_PERMITTED_DATA_INCREASE :: nat
  BPF_ALIGN_OF_U128 :: nat
  NON_DUP_MARKER :: u8
  ENTRYPOINT_SUCCESS :: u64
  HEAP_LENGTH :: nat
  MAX_RETURN_DATA :: nat
  MAX_SEEDS :: nat
  MAX_SEED_LEN :: nat
  instruction_error_from :: "u64 \<Rightarrow> instruction_error"
  create_program_address :: "bytes list \<Rightarrow> pubkey \<Rightarrow> pubkey option"

definition sdk_laws :: "'x sdk_scheme \<Rightarrow> bool" where
  "sdk_laws S \<longleftrightarrow> is_power_of_two (BPF_ALIGN_OF_U128 S) \<and> 16 * MAX_SEEDS S < 2 ^ 64"

text \<open>The documented values, with the two functions left open.\<close>

definition documented_sdk ::
  "(u64 \<Rightarrow> instruction_error) \<Rightarrow> (bytes list \<Rightarrow> pubkey \<Rightarrow> pubkey option) \<Rightarrow> sdk" where
  "documented_sdk from cpa =
     \<lparr>MAX_PERMITTED_DATA_INCREASE = 10240, BPF_ALIGN_OF_U128 = 8, NON_DUP_MARKER = 255,
      ENTRYPOINT_SUCCESS = 0, HEAP_LENGTH = 32768, MAX_RETURN_DATA = 1024, MAX_SEEDS = 16,
      MAX_SEED_LEN = 32, instruction_error_from = from, create_program_address = cpa\<rparr>"

lemma is_power_of_two_8: "is_power_of_two 8"
  unfolding is_power_of_two_def by (rule image_set[THEN equalityD1, THEN subsetD]) (rule image_eqI[of _ _ 3], auto)

lemma documented_sdk_laws [simp]: "sdk_laws (documented_sdk from cpa)"
  by (simp add: sdk_laws_def documented_sdk_def is_power_of_two_8)

subsection \<open>Accounts\<close>

text \<open>\<open>solana_sdk::account::Account\<close>, with the fields the code reads and builds.\<close>

record account =
  lamports :: u64
  data :: bytes
  owner :: pubkey
  executable :: bool
  rent_epoch :: u64

text \<open>\<open>Account::default()\<close>.\<close>

definition account_default :: account where
  "account_default =
     \<lparr>lamports = 0, data = [], owner = pubkey_default, executable = False, rent_epoch = 0\<rparr>"

text \<open>\<open>AccountMeta\<close>.\<close>

record account_meta =
  meta_pubkey :: pubkey
  meta_is_signer :: bool
  meta_is_writable :: bool

subsection \<open>Aligned memory\<close>

text \<open>
  \<open>solana_rbpf::aligned_memory::AlignedMemory\<close>.  \<open>am_set_slice m bs\<close> is the memory after the slice
  borrowed by \<open>as_slice_mut\<close> was overwritten with \<open>bs\<close>.  An allocation that fails panics
  (\<open>None\<close>), as does none of the others: \<open>am_fill_write\<close> returns an I/O error (\<open>None\<close>), the
  unchecked writes have undefined behaviour beyond the capacity, and the laws say nothing of it.
\<close>

record 'm aligned_memory =
  am_with_capacity :: "nat \<Rightarrow> 'm option"
  am_zero_filled :: "nat \<Rightarrow> 'm option"
  am_len :: "'m \<Rightarrow> nat"
  am_slice :: "'m \<Rightarrow> bytes"
  am_set_slice :: "'m \<Rightarrow> bytes \<Rightarrow> 'm"
  am_fill_write :: "'m \<Rightarrow> nat \<Rightarrow> u8 \<Rightarrow> 'm option"
  am_write_unchecked :: "'m \<Rightarrow> bytes \<Rightarrow> 'm"
  am_write_all_unchecked :: "'m \<Rightarrow> bytes \<Rightarrow> 'm"

definition aligned_memory_laws :: "'m aligned_memory \<Rightarrow> ('m \<Rightarrow> nat) \<Rightarrow> bool" where
  "aligned_memory_laws M cap \<longleftrightarrow>
     (\<forall>m. am_len M m = length (am_slice M m)) \<and>
     (\<forall>n m. am_with_capacity M n = Some m \<longrightarrow> am_slice M m = [] \<and> cap m = n) \<and>
     (\<forall>n m. am_zero_filled M n = Some m \<longrightarrow> am_slice M m = replicate n 0) \<and>
     (\<forall>m bs. length bs = am_len M m \<longrightarrow>
        am_slice M (am_set_slice M m bs) = bs \<and> cap (am_set_slice M m bs) = cap m) \<and>
     (\<forall>m n v. am_len M m + n \<le> cap m \<longrightarrow>
        (\<exists>m'. am_fill_write M m n v = Some m' \<and>
           am_slice M m' = am_slice M m @ replicate n v \<and> cap m' = cap m)) \<and>
     (\<forall>m bs. am_len M m + length bs \<le> cap m \<longrightarrow>
        am_slice M (am_write_unchecked M m bs) = am_slice M m @ bs \<and>
        cap (am_write_unchecked M m bs) = cap m) \<and>
     (\<forall>m bs. am_len M m + length bs \<le> cap m \<longrightarrow>
        am_slice M (am_write_all_unchecked M m bs) = am_slice M m @ bs \<and>
        cap (am_write_all_unchecked M m bs) = cap m)"

text \<open>The laws one by one.\<close>

lemma am_len: "aligned_memory_laws M cap \<Longrightarrow> am_len M m = length (am_slice M m)"
  unfolding aligned_memory_laws_def by blast

lemma am_with_capacity:
  "aligned_memory_laws M cap \<Longrightarrow> am_with_capacity M n = Some m \<Longrightarrow> am_slice M m = [] \<and> cap m = n"
  unfolding aligned_memory_laws_def by blast

lemma am_zero_filled:
  "aligned_memory_laws M cap \<Longrightarrow> am_zero_filled M n = Some m \<Longrightarrow> am_slice M m = replicate n 0"
  unfolding aligned_memory_laws_def by blast

lemma am_set_slice:
  "aligned_memory_laws M cap \<Longrightarrow> length bs = length (am_slice M m) \<Longrightarrow>
   am_slice M (am_set_slice M m bs) = bs \<and> cap (am_set_slice M m bs) = cap m"
  unfolding aligned_memory_laws_def by simp

lemma am_fill_write:
  assumes "aligned_memory_laws M cap" "am_len M m + n \<le> cap m"
  obtains m' where "am_fill_write M m n v = Some m'"
    "am_slice M m' = am_slice M m @ replicate n v" "cap m' = cap m"
  using assms unfolding aligned_memory_laws_def by blast

lemma am_write_unchecked:
  "aligned_memory_laws M cap \<Longrightarrow> length (am_slice M m) + length bs \<le> cap m \<Longrightarrow>
   am_slice M (am_write_unchecked M m bs) = am_slice M m @ bs \<and>
   cap (am_write_unchecked M m bs) = cap m"
  unfolding aligned_memory_laws_def by simp

lemma am_write_all_unchecked:
  "aligned_memory_laws M cap \<Longrightarrow> length (am_slice M m) + length bs \<le> cap m \<Longrightarrow>
   am_slice M (am_write_all_unchecked M m bs) = am_slice M m @ bs \<and>
   cap (am_write_all_unchecked M m bs) = cap m"
  unfolding aligned_memory_laws_def by simp

lemmas am_laws = am_len am_set_slice am_write_unchecked am_write_all_unchecked

text \<open>A memory that is its capacity and its contents satisfies the laws.\<close>

definition vec_memory :: "(nat \<times> bytes) aligned_memory" where
  "vec_memory =
     \<lparr>am_with_capacity = (\<lambda>n. Some (n, [])),
      am_zero_filled = (\<lambda>n. Some (n, replicate n 0)),
      am_len = (\<lambda>(c, bs). length bs),
      am_slice = snd,
      am_set_slice = (\<lambda>(c, _) bs. (c, bs)),
      am_fill_write = (\<lambda>(c, bs) n v.
        if length bs + n \<le> c then Some (c, bs @ replicate n v) else None),
      am_write_unchecked = (\<lambda>(c, bs) ys. (c, bs @ ys)),
      am_write_all_unchecked = (\<lambda>(c, bs) ys. (c, bs @ ys))\<rparr>"

lemma vec_memory_laws [simp]: "aligned_memory_laws vec_memory fst"
  by (auto simp: aligned_memory_laws_def vec_memory_def)

end
