(* ===== verification/Account_Sizes.thy ===== *)
theory Account_Sizes
  imports Externals
begin

text \<open>
  \<open>account_sizes.rs\<close>: the trait \<open>AccountSizes\<close> is the dictionary \<open>account_sizes_impl\<close> that the
  generic executor is passed, its two implementations are the dictionaries \<open>vec_account_sizes\<close>
  and \<open>pair_account_sizes\<close>, and the contract the executor relies on is the locale
  \<open>account_sizes\<close>, which both implementations satisfy.
\<close>

record 'a account_sizes_impl =
  as_len :: "'a \<Rightarrow> nat"
  as_size :: "'a \<Rightarrow> nat \<Rightarrow> nat option"  \<comment> \<open>\<open>None\<close>: the index panics\<close>

definition vec_account_sizes :: "nat list account_sizes_impl" where
  "vec_account_sizes =
     \<lparr>as_len = length,
      as_size = (\<lambda>xs i. if i < length xs then Some (xs ! i) else None)\<rparr>"

definition pair_account_sizes :: "(nat \<times> nat) account_sizes_impl" where
  "pair_account_sizes = \<lparr>as_len = (\<lambda>(n, s). n), as_size = (\<lambda>(n, s) _. Some s)\<rparr>"

text \<open>All sizes of the accounts, in order.\<close>

definition sizes_of :: "'a account_sizes_impl \<Rightarrow> 'a \<Rightarrow> nat list" where
  "sizes_of A a = map (\<lambda>i. the (as_size A a i)) [0..<as_len A a]"

lemma length_sizes_of [simp]: "length (sizes_of A a) = as_len A a"
  by (simp add: sizes_of_def)

locale account_sizes =
  fixes A :: "'a account_sizes_impl"
  assumes size_in_range: "i < as_len A a \<Longrightarrow> as_size A a i \<noteq> None"
begin

lemma size_nth [simp]: "i < as_len A a \<Longrightarrow> as_size A a i = Some (sizes_of A a ! i)"
  using size_in_range by (force simp: sizes_of_def)

end

interpretation vec_sizes: account_sizes vec_account_sizes
  by unfold_locales (simp add: vec_account_sizes_def)

interpretation pair_sizes: account_sizes pair_account_sizes
  by unfold_locales (auto simp: pair_account_sizes_def)

lemma sizes_of_vec [simp]: "sizes_of vec_account_sizes xs = xs"
  by (rule nth_equalityI) (simp_all add: sizes_of_def vec_account_sizes_def)

lemma sizes_of_pair [simp]: "sizes_of pair_account_sizes (n, s) = replicate n s"
  by (simp add: sizes_of_def pair_account_sizes_def map_replicate_const)

end
