(* ===== verification/Account_Buffer.thy ===== *)
theory Account_Buffer
  imports Externals
begin

text \<open>
  The serializer of \<open>instruction_executor/mod.rs\<close>: the primitive writes, which append to the
  buffer when no position is given and overwrite at the position otherwise, and the two
  functions that write one account.  Every one of them is shown to write a known run of bytes
  (\<open>writes\<close>), and a sequence of writes writes the concatenation.
\<close>

subsection \<open>Primitive writes\<close>

text \<open>
  \<open>write_pod\<close> is the generic \<open>write::<T>\<close>; the value it stores is given by its bytes in memory.  The three functions
  return the position after the bytes written.
\<close>

definition put_range :: "'m aligned_memory \<Rightarrow> nat \<Rightarrow> bytes \<Rightarrow> ('m, 'e, unit) act" where
  "put_range M at bs = (\<lambda>m.
     if at + length bs \<le> am_len M m
     then (Ok (), am_set_slice M m (overwrite (am_slice M m) at bs))
     else (Panics, m))"

definition write_pod :: "'m aligned_memory \<Rightarrow> nat option \<Rightarrow> bytes \<Rightarrow> ('m, 'e, nat) act" where
  "write_pod M at val = (case at of
     Some p \<Rightarrow> act_bind (put_range M p val) (\<lambda>_. act_return (p + length val))
   | None \<Rightarrow> (\<lambda>m. let m' = am_write_unchecked M m val in (Ok (am_len M m'), m')))"

definition write_all :: "'m aligned_memory \<Rightarrow> nat option \<Rightarrow> bytes \<Rightarrow> ('m, 'e, nat) act" where
  "write_all M at val = (case at of
     Some p \<Rightarrow> act_bind (put_range M p val) (\<lambda>_. act_return (p + length val))
   | None \<Rightarrow> (\<lambda>m. let m' = am_write_all_unchecked M m val in (Ok (am_len M m'), m')))"

text \<open>The error of \<open>fill_write\<close> is an I/O error, without data the callers read.\<close>

definition fill_write ::
  "'m aligned_memory \<Rightarrow> nat option \<Rightarrow> nat \<Rightarrow> u8 \<Rightarrow> ('m, unit, nat) act" where
  "fill_write M at num val = (case at of
     Some p \<Rightarrow> act_bind (put_range M p (replicate num val)) (\<lambda>_. act_return (p + num))
   | None \<Rightarrow> (\<lambda>m. case am_fill_write M m num val of
        None \<Rightarrow> (Err (), m)
      | Some m' \<Rightarrow> (Ok (am_len M m'), m')))"

subsection \<open>Writing one account\<close>

text \<open>\<open>at = at.map(|_| next)\<close>.\<close>

abbreviation advance :: "nat option \<Rightarrow> nat \<Rightarrow> nat option" where
  "advance at next \<equiv> map_option (\<lambda>_. next) at"

definition write_account ::
  "sdk \<Rightarrow> 'm aligned_memory \<Rightarrow> nat \<Rightarrow> nat option \<Rightarrow> pubkey \<Rightarrow> account \<Rightarrow> bool \<Rightarrow> bool \<Rightarrow> bool \<Rightarrow>
   ('m, anyhow_error, nat) act" where
  "write_account S M account_size at0 key account is_signer is_writable is_executable =
     act_bind (write_pod M at0 [NON_DUP_MARKER S]) (\<lambda>next. let at1 = advance at0 next in
     act_bind (write_pod M at1 [of_bool is_signer]) (\<lambda>next. let at2 = advance at1 next in
     act_bind (write_pod M at2 [of_bool is_writable]) (\<lambda>next. let at3 = advance at2 next in
     act_bind (write_pod M at3 [of_bool is_executable]) (\<lambda>next. let at4 = advance at3 next in
     act_bind (write_all M at4 [0, 0, 0, 0]) (\<lambda>next. let at5 = advance at4 next in
     act_bind (write_all M at5 (pubkey_bytes key)) (\<lambda>next. let at6 = advance at5 next in
     act_bind (write_all M at6 (pubkey_bytes (owner account))) (\<lambda>next. let at7 = advance at6 next in
     act_bind (write_pod M at7 (u64_le (lamports account))) (\<lambda>next. let at8 = advance at7 next in
     act_bind (write_pod M at8 (u64_le (of_nat account_size))) (\<lambda>next. let at9 = advance at8 next in
     act_bind (write_all M at9 (data account)) (\<lambda>next. let at10 = advance at9 next in
     act_bind (act_lift (align_offset account_size (BPF_ALIGN_OF_U128 S))) (\<lambda>align.
     act_bind (act_lift (usize_sub account_size (length (data account)))) (\<lambda>unused.
     act_bind (act_map_err (\<lambda>_. InstructionFailure InvalidArgument)
       (fill_write M at10 (unused + MAX_PERMITTED_DATA_INCREASE S + align) 0)) (\<lambda>next.
     let at11 = advance at10 next in
     write_pod M at11 (u64_le (rent_epoch account)))))))))))))))"

definition write_empty_account ::
  "sdk \<Rightarrow> 'm aligned_memory \<Rightarrow> nat \<Rightarrow> ('m, anyhow_error, unit) act" where
  "write_empty_account S M data_size =
     act_bind (write_pod M None [NON_DUP_MARKER S]) (\<lambda>_.
     act_bind (write_pod M None [0]) (\<lambda>_.
     act_bind (write_pod M None [0]) (\<lambda>_.
     act_bind (write_pod M None [0]) (\<lambda>_.
     act_bind (write_all M None [0, 0, 0, 0]) (\<lambda>_.
     act_bind (write_all M None (pubkey_bytes pubkey_default)) (\<lambda>_.
     act_bind (write_all M None (pubkey_bytes pubkey_default)) (\<lambda>_.
     act_bind (write_pod M None (u64_le 0)) (\<lambda>_.
     act_bind (write_pod M None (u64_le (of_nat data_size))) (\<lambda>_.
     act_bind (act_lift (align_offset data_size (BPF_ALIGN_OF_U128 S))) (\<lambda>align.
     act_bind (act_map_err (\<lambda>_. InstructionFailure InvalidArgument)
       (fill_write M None (data_size + MAX_PERMITTED_DATA_INCREASE S + align) 0)) (\<lambda>_.
     act_bind (write_pod M None (u64_le 0)) (\<lambda>_. act_return ()))))))))))))"

subsection \<open>The bytes of an account\<close>

text \<open>
  The serialized form the virtual machine's entrypoint reads: markers and flags, four bytes of
  padding, key, owner, lamports, the length of the data, the data, the space reserved for its
  growth and alignment, the rent epoch.
\<close>

record slot =
  sl_signer :: bool
  sl_writable :: bool
  sl_executable :: bool
  sl_key :: pubkey
  sl_owner :: pubkey
  sl_lamports :: u64
  sl_data :: bytes
  sl_rent_epoch :: u64

definition slot_header :: "sdk \<Rightarrow> slot \<Rightarrow> bytes" where
  "slot_header S a =
     [NON_DUP_MARKER S, of_bool (sl_signer a), of_bool (sl_writable a), of_bool (sl_executable a),
      0, 0, 0, 0] @
     pubkey_bytes (sl_key a) @ pubkey_bytes (sl_owner a) @ u64_le (sl_lamports a) @
     u64_le (of_nat (length (sl_data a)))"

definition reserved :: "sdk \<Rightarrow> nat \<Rightarrow> nat" where
  "reserved S sz = MAX_PERMITTED_DATA_INCREASE S + padding (BPF_ALIGN_OF_U128 S) sz"

definition slot_bytes :: "sdk \<Rightarrow> slot \<Rightarrow> bytes" where
  "slot_bytes S a =
     slot_header S a @ sl_data a @ replicate (reserved S (length (sl_data a))) 0 @
     u64_le (sl_rent_epoch a)"

definition slot_size :: "sdk \<Rightarrow> nat \<Rightarrow> nat" where
  "slot_size S sz = 96 + sz + reserved S sz"

definition empty_slot :: "nat \<Rightarrow> slot" where
  "empty_slot sz =
     \<lparr>sl_signer = False, sl_writable = False, sl_executable = False, sl_key = pubkey_default,
      sl_owner = pubkey_default, sl_lamports = 0, sl_data = replicate sz 0, sl_rent_epoch = 0\<rparr>"

text \<open>What \<open>write_account\<close> stores of an account: its data padded with zeros to the slot's size.\<close>

definition filled_slot :: "nat \<Rightarrow> pubkey \<Rightarrow> account \<Rightarrow> bool \<Rightarrow> bool \<Rightarrow> bool \<Rightarrow> slot" where
  "filled_slot sz key account is_signer is_writable is_executable =
     \<lparr>sl_signer = is_signer, sl_writable = is_writable, sl_executable = is_executable,
      sl_key = key, sl_owner = owner account, sl_lamports = lamports account,
      sl_data = data account @ replicate (sz - length (data account)) 0,
      sl_rent_epoch = rent_epoch account\<rparr>"

lemma length_slot_header [simp]: "length (slot_header S a) = 88"
  by (simp add: slot_header_def)

lemma length_slot_bytes [simp]: "length (slot_bytes S a) = slot_size S (length (sl_data a))"
  by (simp add: slot_bytes_def slot_size_def)

lemma length_filled_slot [simp]:
  "length (data account) \<le> sz \<Longrightarrow>
   length (sl_data (filled_slot sz key account is_signer is_writable is_executable)) = sz"
  by (simp add: filled_slot_def)

lemma length_empty_slot [simp]: "length (sl_data (empty_slot sz)) = sz"
  by (simp add: empty_slot_def)

subsection \<open>What a sequence of writes leaves\<close>

text \<open>
  \<open>writes M cap w bs\<close>: without a position \<open>w\<close> appends \<open>bs\<close>, if the capacity allows it (the
  unchecked writes are undefined otherwise), and with a position it overwrites the bytes there,
  if they are in range; it returns the position after \<open>bs\<close> and never fails.
\<close>

definition writes ::
  "'m aligned_memory \<Rightarrow> ('m \<Rightarrow> nat) \<Rightarrow> (nat option \<Rightarrow> ('m, 'e, nat) act) \<Rightarrow> bytes \<Rightarrow> bool" where
  "writes M cap w bs \<longleftrightarrow>
     (\<forall>m. am_len M m + length bs \<le> cap m \<longrightarrow>
        (\<exists>m'. w None m = (Ok (am_len M m + length bs), m') \<and>
           am_slice M m' = am_slice M m @ bs \<and> cap m' = cap m)) \<and>
     (\<forall>m p. p + length bs \<le> am_len M m \<longrightarrow>
        (\<exists>m'. w (Some p) m = (Ok (p + length bs), m') \<and>
           am_slice M m' = overwrite (am_slice M m) p bs \<and> cap m' = cap m))"

lemma writesI:
  assumes "\<And>m. am_len M m + length bs \<le> cap m \<Longrightarrow>
      \<exists>m'. w None m = (Ok (am_len M m + length bs), m') \<and>
        am_slice M m' = am_slice M m @ bs \<and> cap m' = cap m"
    and "\<And>m p. p + length bs \<le> am_len M m \<Longrightarrow>
      \<exists>m'. w (Some p) m = (Ok (p + length bs), m') \<and>
        am_slice M m' = overwrite (am_slice M m) p bs \<and> cap m' = cap m"
  shows "writes M cap w bs"
  using assms by (simp add: writes_def)

lemma writes_None:
  assumes "writes M cap w bs" "am_len M m + length bs \<le> cap m"
  obtains m' where "w None m = (Ok (am_len M m + length bs), m')"
    "am_slice M m' = am_slice M m @ bs" "cap m' = cap m"
  using assms unfolding writes_def by blast

lemma writes_Some:
  assumes "writes M cap w bs" "p + length bs \<le> am_len M m"
  obtains m' where "w (Some p) m = (Ok (p + length bs), m')"
    "am_slice M m' = overwrite (am_slice M m) p bs" "cap m' = cap m"
  using assms unfolding writes_def by blast

lemma put_range_Ok [act_simps]:
  "p + length bs \<le> am_len M m \<Longrightarrow>
   put_range M p bs m = (Ok (), am_set_slice M m (overwrite (am_slice M m) p bs))"
  by (simp add: put_range_def)

lemma writes_write_pod:
  assumes "aligned_memory_laws M cap"
  shows "writes M cap (\<lambda>at. write_pod M at bs) bs"
proof (rule writesI, goal_cases)
  case (1 m)
  with assms show ?case
    by (simp add: am_laws write_pod_def)
next
  case (2 m p)
  with assms show ?case
    by (simp add: am_laws write_pod_def act_simps)
qed

lemma writes_write_all:
  assumes "aligned_memory_laws M cap"
  shows "writes M cap (\<lambda>at. write_all M at bs) bs"
proof (rule writesI, goal_cases)
  case (1 m)
  with assms show ?case
    by (simp add: am_laws write_all_def)
next
  case (2 m p)
  with assms show ?case
    by (simp add: am_laws write_all_def act_simps)
qed

lemma writes_fill_write:
  assumes "aligned_memory_laws M cap"
  shows "writes M cap (\<lambda>at. fill_write M at n v) (replicate n v)"
proof (rule writesI, goal_cases)
  case (1 m)
  then obtain m' where "am_fill_write M m n v = Some m'"
    "am_slice M m' = am_slice M m @ replicate n v" "cap m' = cap m"
    using assms by (auto elim: am_fill_write)
  with assms show ?case
    by (simp add: am_laws fill_write_def)
next
  case (2 m p)
  with assms show ?case
    by (simp add: am_laws fill_write_def act_simps)
qed

lemma writes_map_err:
  assumes "writes M cap w bs"
  shows "writes M cap (\<lambda>at. act_map_err g (w at)) bs"
proof (rule writesI, goal_cases)
  case (1 m)
  with assms show ?case
    by (auto elim!: writes_None)
next
  case (2 m p)
  with assms show ?case
    by (auto elim!: writes_Some)
qed

text \<open>The sequencing rule, in the shape of the code: the second write starts where the first ended.\<close>

lemma writes_seq:
  assumes laws: "aligned_memory_laws M cap"
    and w: "writes M cap w bs" and v: "writes M cap v cs"
  shows "writes M cap (\<lambda>at. act_bind (w at) (\<lambda>next. Let (advance at next) v)) (bs @ cs)"
proof (rule writesI, goal_cases)
  case (1 m)
  then obtain m1 where m1: "w None m = (Ok (am_len M m + length bs), m1)"
    "am_slice M m1 = am_slice M m @ bs" "cap m1 = cap m"
    using writes_None[OF w, of m] by auto
  then have len: "am_len M m1 = am_len M m + length bs"
    using laws by (simp add: am_laws)
  with 1 m1 have "am_len M m1 + length cs \<le> cap m1"
    by simp
  from writes_None[OF v this] obtain m2 where
    "v None m1 = (Ok (am_len M m1 + length cs), m2)"
    "am_slice M m2 = am_slice M m1 @ cs" "cap m2 = cap m1" .
  with m1 len show ?case
    by simp
next
  case (2 m p)
  then obtain m1 where m1: "w (Some p) m = (Ok (p + length bs), m1)"
    "am_slice M m1 = overwrite (am_slice M m) p bs" "cap m1 = cap m"
    using writes_Some[OF w, of p m] by auto
  with laws 2 have "p + length bs + length cs \<le> am_len M m1"
    by (simp add: am_laws)
  from writes_Some[OF v this] obtain m2 where
    "v (Some (p + length bs)) m1 = (Ok (p + length bs + length cs), m2)"
    "am_slice M m2 = overwrite (am_slice M m1) (p + length bs) cs" "cap m2 = cap m1" .
  with m1 2 laws show ?case
    by (simp add: am_laws overwrite_append)
qed

lemma writes_lift:
  assumes "r = Ok x" "writes M cap (f x) bs"
  shows "writes M cap (\<lambda>at. act_bind (act_lift r) (\<lambda>y. f y at)) bs"
  using assms by (simp add: writes_def)

lemmas writes_leaf = writes_write_pod writes_write_all writes_fill_write

lemma writes_cong: "writes M cap w bs \<Longrightarrow> bs = cs \<Longrightarrow> writes M cap w cs"
  by simp

lemma usize_sub_Ok: "b \<le> a \<Longrightarrow> usize_sub a b = Ok (a - b)"
  by (simp add: usize_sub_def)

lemma writes_write_account:
  assumes laws: "aligned_memory_laws M cap" and sdk: "sdk_laws S"
    and fits: "length (data account) \<le> sz"
  shows "writes M cap
    (\<lambda>at. write_account S M sz at key account is_signer is_writable is_executable)
    (slot_bytes S (filled_slot sz key account is_signer is_writable is_executable))"
proof -
  have align: "align_offset sz (BPF_ALIGN_OF_U128 S) = Ok (padding (BPF_ALIGN_OF_U128 S) sz)"
    using sdk by (simp add: sdk_laws_def align_offset_Ok)
  show ?thesis
    unfolding write_account_def
    by (rule writes_cong, (rule writes_seq[OF laws] writes_leaf[OF laws] writes_map_err
          writes_lift[OF align] writes_lift[OF usize_sub_Ok[OF fits]])+)
      (use fits in \<open>simp add: slot_bytes_def slot_header_def filled_slot_def reserved_def
        flip: replicate_add\<close>)
qed

subsection \<open>Appending\<close>

text \<open>
  \<open>appends M cap n a bs x\<close>: from a memory of \<open>n\<close> bytes, and within its capacity, \<open>a\<close> appends \<open>bs\<close>
  and returns \<open>x\<close>.
\<close>

definition appends ::
  "'m aligned_memory \<Rightarrow> ('m \<Rightarrow> nat) \<Rightarrow> nat \<Rightarrow> ('m, 'e, 'a) act \<Rightarrow> bytes \<Rightarrow> 'a \<Rightarrow> bool" where
  "appends M cap n a bs x \<longleftrightarrow>
     (\<forall>m. length (am_slice M m) = n \<longrightarrow> n + length bs \<le> cap m \<longrightarrow>
        (\<exists>m'. a m = (Ok x, m') \<and> am_slice M m' = am_slice M m @ bs \<and> cap m' = cap m))"

lemma appendsD:
  assumes "appends M cap n a bs x" "length (am_slice M m) = n" "n + length bs \<le> cap m"
  obtains m' where "a m = (Ok x, m')" "am_slice M m' = am_slice M m @ bs" "cap m' = cap m"
  using assms unfolding appends_def by blast

lemma appends_writes:
  assumes "aligned_memory_laws M cap" "writes M cap w bs"
  shows "appends M cap n (w None) bs (n + length bs)"
  unfolding appends_def using assms by (auto simp: am_laws elim: writes_None)

lemma appends_seq:
  assumes a: "appends M cap n a bs x" and f: "appends M cap (n + length bs) (f x) cs y"
  shows "appends M cap n (act_bind a f) (bs @ cs) y"
  unfolding appends_def
proof (intro allI impI)
  fix m
  assume n: "length (am_slice M m) = n" and room: "n + length (bs @ cs) \<le> cap m"
  then obtain m1 where m1: "a m = (Ok x, m1)" "am_slice M m1 = am_slice M m @ bs" "cap m1 = cap m"
    using appendsD[OF a, of m] by auto
  with n room obtain m2 where
    "f x m1 = (Ok y, m2)" "am_slice M m2 = am_slice M m1 @ cs" "cap m2 = cap m1"
    using appendsD[OF f, of m1] by auto
  with m1 show "\<exists>m'. act_bind a f m = (Ok y, m') \<and> am_slice M m' = am_slice M m @ bs @ cs \<and>
      cap m' = cap m"
    by simp
qed

lemma appends_lift:
  "r = Ok x \<Longrightarrow> appends M cap n (f x) bs y \<Longrightarrow> appends M cap n (act_bind (act_lift r) f) bs y"
  by (simp add: appends_def)

lemma appends_return: "appends M cap n (act_return x) [] x"
  by (simp add: appends_def)

lemma appends_cong:
  "appends M cap n a bs x \<Longrightarrow> bs = cs \<Longrightarrow> x = y \<Longrightarrow> appends M cap n a cs y"
  by simp

lemma appends_write_empty_account:
  assumes laws: "aligned_memory_laws M cap" and sdk: "sdk_laws S"
  shows "appends M cap n (write_empty_account S M sz) (slot_bytes S (empty_slot sz)) ()"
proof -
  have align: "align_offset sz (BPF_ALIGN_OF_U128 S) = Ok (padding (BPF_ALIGN_OF_U128 S) sz)"
    using sdk by (simp add: sdk_laws_def align_offset_Ok)
  show ?thesis
    unfolding write_empty_account_def
    by (rule appends_cong, (rule appends_seq appends_lift[OF align] appends_return
          appends_writes[OF laws writes_leaf(1)[OF laws]]
          appends_writes[OF laws writes_leaf(2)[OF laws]]
          appends_writes[OF laws writes_map_err[OF writes_leaf(3)[OF laws]]])+)
      (simp_all add: slot_bytes_def slot_header_def empty_slot_def reserved_def add.assoc
        flip: replicate_add)
qed

end
