(* ===== verification/Context.thy ===== *)
theory Context
  imports Errors
begin

text \<open>
  \<open>context.rs\<close>: the context that the virtual machine passes to every syscall.  The sysvar cache
  and the log collector are types of other crates, here the type variables \<open>'sv\<close> and \<open>'lg\<close>.
\<close>

record ('sv, 'lg) invoke_context =
  sysvars :: 'sv
  instruction_remaining :: u64
  log_collector :: "'lg option"
  program_id :: pubkey
  return_data :: "pubkey \<times> bytes"

text \<open>\<open>InvokeContext::new\<close>; the argument is \<open>SysvarCache::default()\<close>.\<close>

definition invoke_context_new :: "'sv \<Rightarrow> ('sv, 'lg) invoke_context" where
  "invoke_context_new default_sysvars =
     \<lparr>sysvars = default_sysvars, instruction_remaining = (- 1) div 256, log_collector = None,
      program_id = pubkey_default, return_data = (pubkey_default, [])\<rparr>"

definition get_check_aligned :: "('sv, 'lg) invoke_context \<Rightarrow> bool" where
  "get_check_aligned c = False"

definition get_check_size :: "('sv, 'lg) invoke_context \<Rightarrow> bool" where
  "get_check_size c = False"

text \<open>\<open>ContextObject\<close>: tracing is a no-op, the instruction meter never goes below zero.\<close>

definition trace :: "u64 list \<Rightarrow> ('sv, 'lg) invoke_context \<Rightarrow> ('sv, 'lg) invoke_context" where
  "trace state c = c"

definition consume :: "u64 \<Rightarrow> ('sv, 'lg) invoke_context \<Rightarrow> ('sv, 'lg) invoke_context" where
  "consume amount c =
     c\<lparr>instruction_remaining := saturating_sub (instruction_remaining c) amount\<rparr>"

definition get_remaining :: "('sv, 'lg) invoke_context \<Rightarrow> u64" where
  "get_remaining c = instruction_remaining c"

lemma unat_get_remaining_consume:
  "unat (get_remaining (consume k c)) = unat (get_remaining c) - unat k"
  by (simp add: get_remaining_def consume_def unat_saturating_sub)

lemma get_remaining_new: "get_remaining (invoke_context_new sv) = 2 ^ 56 - 1"
  by (simp add: get_remaining_def invoke_context_new_def word_unat_eq_iff unat_div unat_max_u64)

end
