(* ===== verification/Registry.thy ===== *)
theory Registry
  imports Externals
begin

text \<open>
  \<open>get_syscalls\<close> of \<open>syscalls/mod.rs\<close>: the table of the functions that programs may call.  The
  registry itself (\<open>FunctionRegistry\<close>, keyed by a hash of the name, an error when two names
  collide) belongs to \<open>solana_rbpf\<close> and is a parameter.
\<close>

datatype builtin =
    SyscallAbort
  | SyscallPanic
  | SyscallLog
  | SyscallTryFindProgramAddress
  | SyscallGetClockSysvar
  | SyscallMemcpy
  | SyscallSetReturnData
  | SyscallGetReturnData

record 'reg function_registry =
  registry_default :: 'reg
  register_function_hashed :: "'reg \<Rightarrow> string \<Rightarrow> builtin \<Rightarrow> string + 'reg"
  registry_lookup :: "'reg \<Rightarrow> string \<Rightarrow> builtin option"

text \<open>One \<open>result.register_function_hashed(name, f)?\<close>.\<close>

definition register ::
  "'reg function_registry \<Rightarrow> string \<Rightarrow> builtin \<Rightarrow> 'reg \<Rightarrow> (anyhow_error, 'reg) outcome" where
  "register F name f result =
     (case register_function_hashed F result name f of
        Inl e \<Rightarrow> Err (RegistryFailure e)
      | Inr result' \<Rightarrow> Ok result')"

definition get_syscalls :: "'reg function_registry \<Rightarrow> (anyhow_error, 'reg) outcome" where
  "get_syscalls F =
     rbind (register F ''abort'' SyscallAbort (registry_default F)) (\<lambda>result.
     rbind (register F ''sol_panic_'' SyscallPanic result) (\<lambda>result.
     rbind (register F ''sol_log_'' SyscallLog result) (\<lambda>result.
     rbind (register F ''sol_try_find_program_address'' SyscallTryFindProgramAddress result) (\<lambda>result.
     rbind (register F ''sol_get_clock_sysvar'' SyscallGetClockSysvar result) (\<lambda>result.
     rbind (register F ''sol_memcpy_'' SyscallMemcpy result) (\<lambda>result.
     rbind (register F ''sol_set_return_data'' SyscallSetReturnData result) (\<lambda>result.
     register F ''sol_get_return_data'' SyscallGetReturnData result)))))))"

text \<open>
  The documented behaviour of the registry: a key that is free (the hash function tells the names
  apart) can be registered, is then found, and the other keys are found as before.
\<close>

definition registry_laws :: "'reg function_registry \<Rightarrow> (string \<Rightarrow> 'h) \<Rightarrow> bool" where
  "registry_laws F hash \<longleftrightarrow>
     registry_lookup F (registry_default F) = Map.empty \<and>
     (\<forall>r s f. (\<forall>t. registry_lookup F r t \<noteq> None \<longrightarrow> hash t \<noteq> hash s) \<longrightarrow>
        (\<exists>r'. register_function_hashed F r s f = Inr r' \<and>
           registry_lookup F r' = (registry_lookup F r)(s \<mapsto> f))) \<and>
     (\<forall>r s f t. registry_lookup F r t \<noteq> None \<longrightarrow> hash t = hash s \<longrightarrow>
        (\<exists>e. register_function_hashed F r s f = Inl e))"

text \<open>The names and the functions, in the order of registration.\<close>

definition syscall_table :: "(string \<times> builtin) list" where
  "syscall_table =
     [(''abort'', SyscallAbort), (''sol_panic_'', SyscallPanic), (''sol_log_'', SyscallLog),
      (''sol_try_find_program_address'', SyscallTryFindProgramAddress),
      (''sol_get_clock_sysvar'', SyscallGetClockSysvar), (''sol_memcpy_'', SyscallMemcpy),
      (''sol_set_return_data'', SyscallSetReturnData),
      (''sol_get_return_data'', SyscallGetReturnData)]"

fun register_all ::
  "'reg function_registry \<Rightarrow> (string \<times> builtin) list \<Rightarrow> 'reg \<Rightarrow> (anyhow_error, 'reg) outcome" where
  "register_all F [] r = Ok r"
| "register_all F ((s, f) # t) r = rbind (register F s f r) (register_all F t)"

lemma register_all_fun [simp]:
  "register_all F [] = Ok"
  "register_all F ((s, f) # t) = (\<lambda>r. rbind (register F s f r) (register_all F t))"
  by (simp_all add: fun_eq_iff)

lemma get_syscalls_table: "get_syscalls F = register_all F syscall_table (registry_default F)"
  by (simp add: get_syscalls_def syscall_table_def)

lemma register_all_lookup:
  assumes laws: "registry_laws F hash"
    and "distinct (map (hash \<circ> fst) t)"
    and "\<And>s. registry_lookup F r s \<noteq> None \<Longrightarrow> hash s \<notin> set (map (hash \<circ> fst) t)"
  shows "\<exists>r'. register_all F t r = Ok r' \<and> registry_lookup F r' = registry_lookup F r ++ map_of t"
  using assms(2,3)
proof (induction t arbitrary: r)
  case (Cons p t)
  obtain s f where p: "p = (s, f)"
    by (cases p)
  have "\<forall>u. registry_lookup F r u \<noteq> None \<longrightarrow> hash u \<noteq> hash s"
    using Cons.prems(2) p by fastforce
  then obtain r1 where r1: "register_function_hashed F r s f = Inr r1"
    "registry_lookup F r1 = (registry_lookup F r)(s \<mapsto> f)"
    using laws unfolding registry_laws_def by blast
  have "\<exists>r'. register_all F t r1 = Ok r' \<and> registry_lookup F r' = registry_lookup F r1 ++ map_of t"
    using Cons.prems p r1(2) by (intro Cons.IH) (auto split: if_splits)
  moreover have "s \<notin> dom (map_of t)"
    using Cons.prems(1) p by (simp add: dom_map_of_conv_image_fst image_comp[symmetric]) blast
  moreover have "m ++ map_of (p # t) = (m ++ map_of t)(s \<mapsto> f)" for m
    using p by (simp add: fun_eq_iff map_add_def)
  ultimately show ?case
    using p r1 by (auto simp: register_def map_add_upd_left simp del: map_of.simps)
qed simp

text \<open>
  A registry without collisions finds exactly the eight syscalls, each under its own name.
\<close>

lemma get_syscalls_lookup:
  assumes laws: "registry_laws F hash" and inj: "inj_on hash (fst ` set syscall_table)"
  shows "\<exists>r. get_syscalls F = Ok r \<and> registry_lookup F r = map_of syscall_table"
proof -
  have "distinct (map fst syscall_table)"
    by (simp add: syscall_table_def)
  with inj have "distinct (map (hash \<circ> fst) syscall_table)"
    by (simp add: distinct_map comp_inj_on_iff flip: map_map)
  moreover have "registry_lookup F (registry_default F) = Map.empty"
    using laws by (simp add: registry_laws_def)
  ultimately show ?thesis
    using register_all_lookup[OF laws, of syscall_table "registry_default F"]
    by (simp add: get_syscalls_table)
qed

end
