(* ===== verification/Executor.thy ===== *)
theory Executor
  imports Account_Sizes Account_Buffer Context Registry
begin

text \<open>
  \<open>InstructionExecutor\<close> of \<open>instruction_executor/mod.rs\<close>: its state, and its public methods.  The
  ELF loader, the just-in-time compiler and the virtual machine are functions of \<open>solana_rbpf\<close>,
  fields of the record \<open>rbpf\<close>.
\<close>

subsection \<open>The virtual machine's interface\<close>

record 'cfg config =
  max_call_depth :: nat
  external_internal_function_hash_collision :: bool
  config_rest :: 'cfg

text \<open>A memory region given to the machine: the program's read-only data, or a writable buffer.\<close>

datatype 'exe memory_region =
    RoRegion 'exe
  | WritableGapped bytes u64 nat
  | Writable bytes u64

text \<open>
  \<open>vm_run\<close> is \<open>EbpfVm::new\<close> with \<open>execute_program\<close>: it is given the runtime, the regions, the size
  of the stack, the executable, whether to interpret it, and the context, and returns the
  program's result (the display of the error, or the code) with the context and the three writable
  buffers (stack, heap, input) as the run left them.
\<close>

record ('rt, 'reg, 'exe, 'cfg, 'ctx) rbpf =
  registry :: "'reg function_registry"
  config_default_rest :: 'cfg
  config_stack_size :: "'cfg config \<Rightarrow> nat"
  new_loader :: "'cfg config \<Rightarrow> 'reg \<Rightarrow> 'rt"
  from_elf :: "bytes \<Rightarrow> 'rt \<Rightarrow> string + 'exe"
  jit_compile :: "'exe \<Rightarrow> string + 'exe"
  jit_target :: bool
  has_compiled_program :: "'exe \<Rightarrow> bool"
  get_config :: "'exe \<Rightarrow> 'cfg config"
  MM_STACK_START :: u64
  MM_HEAP_START :: u64
  MM_INPUT_START :: u64
  memory_mapping_new :: "'exe memory_region list \<Rightarrow> 'cfg config \<Rightarrow> 'exe \<Rightarrow> bool"
  vm_run :: "'rt \<Rightarrow> 'exe memory_region list \<Rightarrow> nat \<Rightarrow> 'exe \<Rightarrow> bool \<Rightarrow> 'ctx \<Rightarrow>
    (string + u64) \<times> 'ctx \<times> bytes \<times> bytes \<times> bytes"

text \<open>The machine changes the bytes of the buffers it is given, never their number.\<close>

definition vm_laws :: "('rt, 'reg, 'exe, 'cfg, 'ctx) rbpf \<Rightarrow> bool" where
  "vm_laws R \<longleftrightarrow>
     (\<forall>rt ro st gap hp inp n e b c res c' st' hp' inp'.
        vm_run R rt [ro, WritableGapped st (MM_STACK_START R) gap, Writable hp (MM_HEAP_START R),
          Writable inp (MM_INPUT_START R)] n e b c = (res, c', st', hp', inp') \<longrightarrow>
        length st' = length st \<and> length hp' = length hp \<and> length inp' = length inp)"

subsection \<open>The state of the executor\<close>

record ('a, 'm, 'rt, 'exe, 'sv, 'lg) instruction_executor =
  ex_context :: "('sv, 'lg) invoke_context"
  ex_runtime :: 'rt
  ex_instruction_size :: nat
  ex_account_sizes :: 'a
  ex_instruction_offset :: nat
  ex_account_offsets :: "nat list"
  ex_program_id_offset :: nat
  ex_buffer :: 'm
  ex_stack :: 'm
  ex_heap :: 'm
  ex_executable :: "'exe option"

subsection \<open>Construction\<close>

text \<open>The bytes one account takes, added to the running size as the loop of \<open>new\<close> adds them.\<close>

definition add_account_size ::
  "sdk \<Rightarrow> 'a account_sizes_impl \<Rightarrow> 'a \<Rightarrow> nat \<Rightarrow> nat \<Rightarrow> (anyhow_error, nat) outcome" where
  "add_account_size S A sizes i sz0 =
     rbind (usize_add sz0 1) (\<lambda>sz1.
     rbind (usize_add sz1 (1 + 1 + 1 + 4 + 32 + 32 + 8)) (\<lambda>sz2.
     rbind (unwrap (as_size A sizes i)) (\<lambda>n.
     rbind (align_offset n (BPF_ALIGN_OF_U128 S)) (\<lambda>align.
     rbind (usize_add 8 n) (\<lambda>x.
     rbind (usize_add x align) (\<lambda>y.
     rbind (usize_add y (MAX_PERMITTED_DATA_INCREASE S)) (\<lambda>z.
     rbind (usize_add sz2 z) (\<lambda>sz3.
     usize_add sz3 8))))))))"

fun add_account_sizes ::
  "sdk \<Rightarrow> 'a account_sizes_impl \<Rightarrow> 'a \<Rightarrow> nat list \<Rightarrow> nat \<Rightarrow> (anyhow_error, nat) outcome" where
  "add_account_sizes S A sizes [] sz = Ok sz"
| "add_account_sizes S A sizes (i # is) sz =
     rbind (add_account_size S A sizes i sz) (add_account_sizes S A sizes is)"

definition buffer_capacity ::
  "sdk \<Rightarrow> 'a account_sizes_impl \<Rightarrow> nat \<Rightarrow> 'a \<Rightarrow> (anyhow_error, nat) outcome" where
  "buffer_capacity S A instruction_size sizes =
     rbind (add_account_sizes S A sizes [0..<as_len A sizes] 8) (\<lambda>sz.
     rbind (usize_add 8 instruction_size) (\<lambda>x.
     rbind (usize_add sz x) (\<lambda>sz. usize_add sz 32)))"

text \<open>\<open>buffer.len()\<close>.\<close>

definition buffer_len :: "'m aligned_memory \<Rightarrow> ('m, 'e, nat) act" where
  "buffer_len M = (\<lambda>m. (Ok (am_len M m), m))"

text \<open>The second loop of \<open>new\<close>: reserve every account, collecting the offsets.\<close>

fun write_empty_accounts ::
  "sdk \<Rightarrow> 'm aligned_memory \<Rightarrow> 'a account_sizes_impl \<Rightarrow> 'a \<Rightarrow> nat list \<Rightarrow> nat list \<Rightarrow>
   ('m, anyhow_error, nat list) act" where
  "write_empty_accounts S M A sizes [] offsets = act_return offsets"
| "write_empty_accounts S M A sizes (i # is) offsets =
     act_bind (buffer_len M) (\<lambda>offset.
     act_bind (act_lift (unwrap (as_size A sizes i))) (\<lambda>n.
     act_bind (write_empty_account S M n) (\<lambda>_.
     write_empty_accounts S M A sizes is (offsets @ [offset]))))"

text \<open>Everything \<open>new\<close> writes; the result is the offsets of accounts, instruction and program id.\<close>

definition write_initial ::
  "sdk \<Rightarrow> 'm aligned_memory \<Rightarrow> 'a account_sizes_impl \<Rightarrow> nat \<Rightarrow> 'a \<Rightarrow>
   ('m, anyhow_error, nat list \<times> nat \<times> nat) act" where
  "write_initial S M A instruction_size sizes =
     act_bind (write_pod M None (u64_le (of_nat (as_len A sizes)))) (\<lambda>_.
     act_bind (write_empty_accounts S M A sizes [0..<as_len A sizes] []) (\<lambda>account_offsets.
     act_bind (buffer_len M) (\<lambda>instruction_offset.
     act_bind (write_pod M None (u64_le (of_nat instruction_size))) (\<lambda>_.
     act_bind (act_map_err (\<lambda>_. IoFailure) (fill_write M None instruction_size 0)) (\<lambda>_.
     act_bind (buffer_len M) (\<lambda>program_id_offset.
     act_bind (write_all M None (pubkey_bytes pubkey_default)) (\<lambda>_.
     act_return (account_offsets, instruction_offset, program_id_offset))))))))"

definition executor_config :: "('rt, 'reg, 'exe, 'cfg, 'ctx) rbpf \<Rightarrow> 'cfg config" where
  "executor_config R =
     \<lparr>max_call_depth = 64, external_internal_function_hash_collision = True,
      config_rest = config_default_rest R\<rparr>"

definition executor_new ::
  "sdk \<Rightarrow> 'm aligned_memory \<Rightarrow> ('rt, 'reg, 'exe, 'cfg, ('sv, 'lg) invoke_context) rbpf \<Rightarrow> 'sv \<Rightarrow>
   'a account_sizes_impl \<Rightarrow> nat \<Rightarrow> 'a \<Rightarrow>
   (anyhow_error, ('a, 'm, 'rt, 'exe, 'sv, 'lg) instruction_executor) outcome" where
  "executor_new S M R default_sysvars A instruction_size sizes =
     rbind (buffer_capacity S A instruction_size sizes) (\<lambda>size.
     rbind (unwrap (am_with_capacity M size)) (\<lambda>buffer0.
     case write_initial S M A instruction_size sizes buffer0 of (written, buffer) \<Rightarrow>
     rbind written (\<lambda>(account_offsets, instruction_offset, program_id_offset).
     rbind (get_syscalls (registry R)) (\<lambda>syscalls.
     let config = executor_config R; runtime = new_loader R config syscalls in
     rbind (unwrap (am_zero_filled M (config_stack_size R config))) (\<lambda>stack.
     rbind (unwrap (am_zero_filled M (HEAP_LENGTH S))) (\<lambda>heap.
     Ok \<lparr>ex_context = invoke_context_new default_sysvars, ex_runtime = runtime,
         ex_instruction_size = instruction_size, ex_account_sizes = sizes,
         ex_instruction_offset = instruction_offset, ex_account_offsets = account_offsets,
         ex_program_id_offset = program_id_offset, ex_buffer = buffer, ex_stack = stack,
         ex_heap = heap, ex_executable = None\<rparr>))))))"

subsection \<open>Updates\<close>

text \<open>A write to the buffer, as a call on the executor.\<close>

definition on_buffer ::
  "('m, 'e, 'b) act \<Rightarrow> (('a, 'm, 'rt, 'exe, 'sv, 'lg) instruction_executor, 'e, 'b) act" where
  "on_buffer w = (\<lambda>ex. case w (ex_buffer ex) of (r, b) \<Rightarrow> (r, ex\<lparr>ex_buffer := b\<rparr>))"

definition load_executable ::
  "('rt, 'reg, 'exe, 'cfg, 'ctx) rbpf \<Rightarrow> 'rt \<Rightarrow> bytes \<Rightarrow> bool \<Rightarrow> (anyhow_error, 'exe) outcome" where
  "load_executable R rt elf jit =
     (case from_elf R elf rt of
        Inl e \<Rightarrow> Err (Message e)
      | Inr exe \<Rightarrow>
          if jit \<and> jit_target R
          then (case jit_compile R exe of Inl e \<Rightarrow> Err (Message e) | Inr exe' \<Rightarrow> Ok exe')
          else Ok exe)"

definition update_program ::
  "'m aligned_memory \<Rightarrow> ('rt, 'reg, 'exe, 'cfg, ('sv, 'lg) invoke_context) rbpf \<Rightarrow> pubkey \<Rightarrow>
   account \<Rightarrow> bool \<Rightarrow>
   (('a, 'm, 'rt, 'exe, 'sv, 'lg) instruction_executor, anyhow_error, unit) act" where
  "update_program M R pid account jit =
     act_bind (\<lambda>ex. (load_executable R (ex_runtime ex) (data account) jit, ex)) (\<lambda>exe.
     act_bind (\<lambda>ex. (Ok (), ex\<lparr>ex_executable := Some exe,
                              ex_context := (ex_context ex)\<lparr>program_id := pid\<rparr>\<rparr>)) (\<lambda>_ ex.
     act_bind (on_buffer (write_all M (Some (ex_program_id_offset ex)) (pubkey_bytes pid)))
       (\<lambda>_. act_return ()) ex))"

definition update_instruction ::
  "'m aligned_memory \<Rightarrow> bytes \<Rightarrow>
   (('a, 'm, 'rt, 'exe, 'sv, 'lg) instruction_executor, anyhow_error, unit) act" where
  "update_instruction M instruction = (\<lambda>ex.
     if ex_instruction_size ex < length instruction then (Err (ExecutorError InvalidInstruction), ex)
     else act_bind
       (on_buffer (write_pod M (Some (ex_instruction_offset ex)) (u64_le (of_nat (ex_instruction_size ex)))))
       (\<lambda>_. act_bind (on_buffer (write_all M (Some (ex_instruction_offset ex + 8)) instruction))
       (\<lambda>_. act_return ())) ex)"

definition update_account ::
  "sdk \<Rightarrow> 'm aligned_memory \<Rightarrow> 'a account_sizes_impl \<Rightarrow> nat \<Rightarrow> pubkey \<Rightarrow> account \<Rightarrow>
   bool \<Rightarrow> bool \<Rightarrow> bool \<Rightarrow>
   (('a, 'm, 'rt, 'exe, 'sv, 'lg) instruction_executor, anyhow_error, unit) act" where
  "update_account S M A i key account is_signer is_writable is_executable = (\<lambda>ex.
     act_bind (act_lift (unwrap (as_size A (ex_account_sizes ex) i))) (\<lambda>account_size.
     if account_size < length (data account) then act_lift (Err (ExecutorError InvalidAccount))
     else
       act_bind (act_lift (index_checked (ex_account_offsets ex) i)) (\<lambda>offset.
       act_bind (on_buffer (write_account S M account_size (Some offset) key account
         is_signer is_writable is_executable)) (\<lambda>_. act_return ()))) ex)"

subsection \<open>Execution\<close>

text \<open>\<open>self.stack.as_slice_mut()[..len].fill(0)\<close>, and the same for the heap.\<close>

definition zero_memory :: "'m aligned_memory \<Rightarrow> 'm \<Rightarrow> 'm" where
  "zero_memory M m = am_set_slice M m (replicate (am_len M m) 0)"

definition vm_regions ::
  "('rt, 'reg, 'exe, 'cfg, 'ctx) rbpf \<Rightarrow> 'exe \<Rightarrow> bytes \<Rightarrow> bytes \<Rightarrow> bytes \<Rightarrow> 'exe memory_region list" where
  "vm_regions R exe stack heap input =
     [RoRegion exe, WritableGapped stack (MM_STACK_START R) 0, Writable heap (MM_HEAP_START R),
      Writable input (MM_INPUT_START R)]"

definition execution_result ::
  "sdk \<Rightarrow> string + u64 \<Rightarrow> (anyhow_error, unit) outcome" where
  "execution_result S res = (case res of
     Inr code \<Rightarrow> if code = ENTRYPOINT_SUCCESS S then Ok ()
                 else Err (InstructionFailure (instruction_error_from S code))
   | Inl e \<Rightarrow> Err (Message e))"

definition execute ::
  "sdk \<Rightarrow> 'm aligned_memory \<Rightarrow> ('rt, 'reg, 'exe, 'cfg, ('sv, 'lg) invoke_context) rbpf \<Rightarrow>
   (('a, 'm, 'rt, 'exe, 'sv, 'lg) instruction_executor, anyhow_error, unit) act" where
  "execute S M R = (\<lambda>ex0.
     let ex1 = ex0\<lparr>ex_stack := zero_memory M (ex_stack ex0)\<rparr>;
         ex2 = ex1\<lparr>ex_heap := zero_memory M (ex_heap ex1)\<rparr> in
     case ex_executable ex2 of
       None \<Rightarrow> (Err (ExecutorError MissingProgram), ex2)
     | Some exe \<Rightarrow>
         let config = get_config R exe;
             regions = vm_regions R exe (am_slice M (ex_stack ex2)) (am_slice M (ex_heap ex2))
               (am_slice M (ex_buffer ex2));
             ex3 = ex2\<lparr>ex_context := (ex_context ex2)\<lparr>return_data := (pubkey_default, [])\<rparr>\<rparr> in
         if \<not> memory_mapping_new R regions config exe then (Panics, ex3)
         else
           (case vm_run R (ex_runtime ex3) regions (config_stack_size R config) exe
               (\<not> (jit_target R \<and> has_compiled_program R exe)) (ex_context ex3) of
              (res, ctx, stack, heap, input) \<Rightarrow>
                (execution_result S res,
                 ex3\<lparr>ex_context := ctx,
                     ex_stack := am_set_slice M (ex_stack ex3) stack,
                     ex_heap := am_set_slice M (ex_heap ex3) heap,
                     ex_buffer := am_set_slice M (ex_buffer ex3) input\<rparr>)))"

subsection \<open>Results\<close>

definition get_return_data ::
  "('a, 'm, 'rt, 'exe, 'sv, 'lg) instruction_executor \<Rightarrow> (pubkey \<times> bytes) option" where
  "get_return_data ex =
     (let rd = return_data (ex_context ex) in if snd rd = [] then None else Some rd)"

text \<open>Reading an account back: every read checks its bounds, and so does the addition of the
  length, which the program may have changed.\<close>

definition read_account :: "sdk \<Rightarrow> bytes \<Rightarrow> nat \<Rightarrow> ('e, account) outcome" where
  "read_account S buf account_offset =
     (let offset0 = account_offset + 3 in
     rbind (index_checked buf offset0) (\<lambda>b. let is_executable = (b = 1); offset1 = offset0 + 37 in
     rbind (slice_range buf offset1 (offset1 + 32)) (\<lambda>owner_bytes.
     rbind (unwrap (pubkey_try_from owner_bytes)) (\<lambda>owner. let offset2 = offset1 + 32 in
     rbind (slice_range buf offset2 (offset2 + 8)) (\<lambda>lamports_bytes.
     let lamports = u64_from_le lamports_bytes; offset3 = offset2 + 8 in
     rbind (slice_range buf offset3 (offset3 + 8)) (\<lambda>len_bytes.
     let data_len = unat (u64_from_le len_bytes); offset4 = offset3 + 8 in
     rbind (usize_add offset4 data_len) (\<lambda>data_end.
     rbind (slice_range buf offset4 data_end) (\<lambda>data.
     rbind (align_offset data_len (BPF_ALIGN_OF_U128 S)) (\<lambda>align.
     let offset5 = data_end + (align + MAX_PERMITTED_DATA_INCREASE S) in
     rbind (slice_range buf offset5 (offset5 + 8)) (\<lambda>rent_bytes.
     Ok \<lparr>lamports = lamports, data = data, owner = owner, executable = is_executable,
         rent_epoch = u64_from_le rent_bytes\<rparr>))))))))))"

definition get_account ::
  "sdk \<Rightarrow> 'm aligned_memory \<Rightarrow> ('a, 'm, 'rt, 'exe, 'sv, 'lg) instruction_executor \<Rightarrow> nat \<Rightarrow>
   ('e, account) outcome" where
  "get_account S M ex i =
     rbind (index_checked (ex_account_offsets ex) i) (read_account S (am_slice M (ex_buffer ex)))"

end
