(* ===== verification/Executor_Layout.thy ===== *)
theory Executor_Layout
  imports Executor
begin

text \<open>
  The abstract state of the executor's input buffer (the accounts in their slots, the instruction
  data, the program id), the bytes that represent it, and the refinement lemmas: \<open>new\<close>
  represents the empty input, each update of the code is the corresponding update of the abstract
  state, and \<open>get_account\<close> reads the slot back.
\<close>

subsection \<open>The abstract input and its image\<close>

record input_state =
  in_slots :: "slot list"
  in_instruction :: bytes
  in_program :: pubkey

definition input_image :: "sdk \<Rightarrow> input_state \<Rightarrow> bytes" where
  "input_image S st =
     u64_le (of_nat (length (in_slots st))) @ concat (map (slot_bytes S) (in_slots st)) @
     u64_le (of_nat (length (in_instruction st))) @ in_instruction st @
     pubkey_bytes (in_program st)"

definition initial_input :: "nat list \<Rightarrow> nat \<Rightarrow> input_state" where
  "initial_input sizes instruction_size =
     \<lparr>in_slots = map empty_slot sizes, in_instruction = replicate instruction_size 0,
      in_program = pubkey_default\<rparr>"

definition slot_offset :: "sdk \<Rightarrow> nat list \<Rightarrow> nat \<Rightarrow> nat" where
  "slot_offset S sizes i = 8 + sum_list (map (slot_size S) (take i sizes))"

definition image_size :: "sdk \<Rightarrow> nat list \<Rightarrow> nat \<Rightarrow> nat" where
  "image_size S sizes instruction_size =
     slot_offset S sizes (length sizes) + 8 + instruction_size + 32"

abbreviation slot_sizes :: "input_state \<Rightarrow> nat list" where
  "slot_sizes st \<equiv> map (\<lambda>a. length (sl_data a)) (in_slots st)"

lemma length_concat_slots [simp]:
  "length (concat (map (slot_bytes S) as)) = sum_list (map (\<lambda>a. slot_size S (length (sl_data a))) as)"
  by (simp add: length_concat comp_def)

lemma length_concat_empty_slots [simp]:
  "length (concat (map (\<lambda>n. slot_bytes S (empty_slot n)) ns)) = sum_list (map (slot_size S) ns)"
  by (simp add: length_concat comp_def)

lemma length_input_image:
  "length (input_image S st) = image_size S (slot_sizes st) (length (in_instruction st))"
  by (simp add: input_image_def image_size_def slot_offset_def comp_def)

text \<open>The image around slot \<open>i\<close>, and around the instruction.\<close>

definition before_slot :: "sdk \<Rightarrow> input_state \<Rightarrow> nat \<Rightarrow> bytes" where
  "before_slot S st i =
     u64_le (of_nat (length (in_slots st))) @ concat (map (slot_bytes S) (take i (in_slots st)))"

definition after_slot :: "sdk \<Rightarrow> input_state \<Rightarrow> nat \<Rightarrow> bytes" where
  "after_slot S st i =
     concat (map (slot_bytes S) (drop (Suc i) (in_slots st))) @
     u64_le (of_nat (length (in_instruction st))) @ in_instruction st @
     pubkey_bytes (in_program st)"

lemma length_before_slot:
  "length (before_slot S st i) = slot_offset S (slot_sizes st) i"
  by (simp add: before_slot_def slot_offset_def comp_def take_map)

lemma image_at_slot:
  assumes "i < length (in_slots st)"
  shows "input_image S st = before_slot S st i @ slot_bytes S (in_slots st ! i) @ after_slot S st i"
proof -
  have "concat (map (slot_bytes S) (in_slots st)) =
    concat (map (slot_bytes S) (take i (in_slots st) @ in_slots st ! i # drop (Suc i) (in_slots st)))"
    using assms by (simp flip: id_take_nth_drop)
  then show ?thesis
    by (simp add: input_image_def before_slot_def after_slot_def)
qed

lemma image_update_slot:
  assumes "i < length (in_slots st)"
  shows "input_image S (st\<lparr>in_slots := (in_slots st)[i := a]\<rparr>) =
    before_slot S st i @ slot_bytes S a @ after_slot S st i"
  using assms image_at_slot[of i "st\<lparr>in_slots := (in_slots st)[i := a]\<rparr>" S]
  by (simp add: before_slot_def after_slot_def)

definition before_instruction :: "sdk \<Rightarrow> input_state \<Rightarrow> bytes" where
  "before_instruction S st =
     u64_le (of_nat (length (in_slots st))) @ concat (map (slot_bytes S) (in_slots st))"

lemma length_before_instruction:
  "length (before_instruction S st) = slot_offset S (slot_sizes st) (length (in_slots st))"
  by (simp add: before_instruction_def slot_offset_def comp_def)

lemma image_at_instruction:
  "input_image S st = before_instruction S st @ u64_le (of_nat (length (in_instruction st))) @
     in_instruction st @ pubkey_bytes (in_program st)"
  by (simp add: input_image_def before_instruction_def)

subsection \<open>The representation relation\<close>

definition represents ::
  "sdk \<Rightarrow> 'm aligned_memory \<Rightarrow> 'a account_sizes_impl \<Rightarrow>
   ('a, 'm, 'rt, 'exe, 'sv, 'lg) instruction_executor \<Rightarrow> input_state \<Rightarrow> bool" where
  "represents S M A ex st \<longleftrightarrow>
     am_slice M (ex_buffer ex) = input_image S st \<and>
     length (input_image S st) < 2 ^ 64 \<and>
     slot_sizes st = sizes_of A (ex_account_sizes ex) \<and>
     length (in_instruction st) = ex_instruction_size ex \<and>
     ex_account_offsets ex = map (slot_offset S (slot_sizes st)) [0..<length (in_slots st)] \<and>
     ex_instruction_offset ex = slot_offset S (slot_sizes st) (length (in_slots st)) \<and>
     ex_program_id_offset ex = ex_instruction_offset ex + 8 + ex_instruction_size ex"

text \<open>
  The part of it that no run of a program can change: the number of bytes and the offsets.  Every update
  needs only this part, and overwrites the bytes of one component.
\<close>

definition layout ::
  "sdk \<Rightarrow> 'm aligned_memory \<Rightarrow> 'a account_sizes_impl \<Rightarrow>
   ('a, 'm, 'rt, 'exe, 'sv, 'lg) instruction_executor \<Rightarrow> bool" where
  "layout S M A ex \<longleftrightarrow>
     (let sizes = sizes_of A (ex_account_sizes ex) in
      length (am_slice M (ex_buffer ex)) = image_size S sizes (ex_instruction_size ex) \<and>
      image_size S sizes (ex_instruction_size ex) < 2 ^ 64 \<and>
      ex_account_offsets ex = map (slot_offset S sizes) [0..<length sizes] \<and>
      ex_instruction_offset ex = slot_offset S sizes (length sizes) \<and>
      ex_program_id_offset ex = ex_instruction_offset ex + 8 + ex_instruction_size ex)"

lemma represents_iff:
  "represents S M A ex st \<longleftrightarrow>
     layout S M A ex \<and> am_slice M (ex_buffer ex) = input_image S st \<and>
     slot_sizes st = sizes_of A (ex_account_sizes ex) \<and> length (in_instruction st) = ex_instruction_size ex"
proof -
  have "length (in_slots st) = as_len A (ex_account_sizes ex)"
    if "slot_sizes st = sizes_of A (ex_account_sizes ex)"
    using that by (metis length_map length_sizes_of)
  then show ?thesis
    by (auto simp: represents_def layout_def Let_def length_input_image)
qed

lemma represents_layout: "represents S M A ex st \<Longrightarrow> layout S M A ex"
  by (simp add: represents_iff)

lemma layout_buffer:
  "layout S M A ex \<Longrightarrow> length (am_slice M b) = length (am_slice M (ex_buffer ex)) \<Longrightarrow>
   layout S M A (ex\<lparr>ex_buffer := b\<rparr>)"
  by (simp add: layout_def Let_def)

lemma slot_offset_Suc:
  "i < length sizes \<Longrightarrow> slot_offset S sizes (Suc i) = slot_offset S sizes i + slot_size S (sizes ! i)"
  by (simp add: slot_offset_def take_Suc_conv_app_nth)

lemma slot_offset_mono: "i \<le> j \<Longrightarrow> slot_offset S sizes i \<le> slot_offset S sizes j"
  unfolding slot_offset_def
  by (metis add_left_mono append_take_drop_id le_add1 map_append min.absorb1 sum_list_append take_take)

lemma slot_in_image:
  assumes "i < length sizes"
  shows "slot_offset S sizes i + slot_size S (sizes ! i) \<le> image_size S sizes isz"
  using slot_offset_mono[of "Suc i" "length sizes" S sizes] assms
  by (simp add: slot_offset_Suc image_size_def)

subsection \<open>Construction\<close>

lemma add_account_size_eq:
  assumes "account_sizes A" "sdk_laws S" "i < as_len A sizes"
  shows "add_account_size S A sizes i sz = usize_add sz (slot_size S (sizes_of A sizes ! i))"
  using assms
  by (simp add: add_account_size_def account_sizes.size_nth sdk_laws_def align_offset_Ok
      usize_add_def slot_size_def reserved_def)

lemma add_account_sizes_eq:
  assumes "account_sizes A" "sdk_laws S" "\<And>i. i \<in> set is \<Longrightarrow> i < as_len A sizes" "sz < 2 ^ 64"
  shows "add_account_sizes S A sizes is sz =
    usize_add sz (sum_list (map (\<lambda>i. slot_size S (sizes_of A sizes ! i)) is))"
  using assms(3,4)
proof (induction "is" arbitrary: sz)
  case (Cons i "is")
  then show ?case
    using assms(1,2) by (cases "sz + slot_size S (sizes_of A sizes ! i) < 2 ^ 64")
      (simp_all add: add_account_size_eq usize_add_def add.assoc)
qed (simp add: usize_add_def)

lemma map_sizes_of:
  "map (\<lambda>i. f (sizes_of A sizes ! i)) [0..<as_len A sizes] = map f (sizes_of A sizes)"
  by (rule nth_equalityI) simp_all

lemma buffer_capacity_eq:
  assumes "account_sizes A" "sdk_laws S"
  shows "buffer_capacity S A isz sizes =
    (if image_size S (sizes_of A sizes) isz < 2 ^ 64
     then Ok (image_size S (sizes_of A sizes) isz) else Panics)"
proof -
  have "add_account_sizes S A sizes [0..<as_len A sizes] 8 =
    usize_add 8 (sum_list (map (slot_size S) (sizes_of A sizes)))"
    using assms by (subst add_account_sizes_eq) (simp_all add: map_sizes_of)
  then show ?thesis
    by (simp add: buffer_capacity_def usize_add_def image_size_def slot_offset_def)
qed

fun running_offsets :: "nat \<Rightarrow> nat list \<Rightarrow> nat list" where
  "running_offsets n [] = []"
| "running_offsets n (x # xs) = n # running_offsets (n + x) xs"

lemma running_offsets_eq:
  "running_offsets n xs = map (\<lambda>i. n + sum_list (take i xs)) [0..<length xs]"
proof (induction xs arbitrary: n)
  case (Cons x xs)
  show ?case
    by (simp only: running_offsets.simps Cons.IH list.size(4) add_0_right add_Suc_right map_upt_Suc)
      (simp add: add.assoc)
qed simp

lemma appends_len:
  "aligned_memory_laws M cap \<Longrightarrow> appends M cap n (buffer_len M) [] n"
  by (simp add: appends_def buffer_len_def am_laws)

lemma appends_write_empty_accounts:
  assumes laws: "aligned_memory_laws M cap" and sdk: "sdk_laws S" and A: "account_sizes A"
    and "\<And>i. i \<in> set is \<Longrightarrow> i < as_len A sizes"
  shows "appends M cap n (write_empty_accounts S M A sizes is offsets)
    (concat (map (\<lambda>i. slot_bytes S (empty_slot (sizes_of A sizes ! i))) is))
    (offsets @ running_offsets n (map (\<lambda>i. slot_size S (sizes_of A sizes ! i)) is))"
  using assms(4)
proof (induction "is" arbitrary: n offsets)
  case Nil
  then show ?case
    using appends_return[of M cap n offsets] by (simp add: act_return_def)
next
  case (Cons i "is")
  let ?bs = "slot_bytes S (empty_slot (sizes_of A sizes ! i))"
  have sz: "unwrap (as_size A sizes i) = Ok (sizes_of A sizes ! i)"
    using A Cons.prems by (simp add: account_sizes.size_nth)
  have "appends M cap (n + length ?bs) (write_empty_accounts S M A sizes is (offsets @ [n]))
    (concat (map (\<lambda>i. slot_bytes S (empty_slot (sizes_of A sizes ! i))) is))
    ((offsets @ [n]) @ running_offsets (n + length ?bs)
      (map (\<lambda>i. slot_size S (sizes_of A sizes ! i)) is))"
    using Cons.prems by (intro Cons.IH) simp
  then have "appends M cap n (write_empty_accounts S M A sizes (i # is) offsets)
    ([] @ ?bs @ concat (map (\<lambda>i. slot_bytes S (empty_slot (sizes_of A sizes ! i))) is))
    ((offsets @ [n]) @ running_offsets (n + length ?bs)
      (map (\<lambda>i. slot_size S (sizes_of A sizes ! i)) is))"
    unfolding write_empty_accounts.simps
    by (intro appends_seq[OF appends_len[OF laws]] appends_lift[OF sz]
        appends_seq[OF appends_write_empty_account[OF laws sdk]]) simp
  then show ?case
    by simp
qed

lemma appends_write_initial:
  assumes laws: "aligned_memory_laws M cap" and sdk: "sdk_laws S" and A: "account_sizes A"
  shows "appends M cap 0 (write_initial S M A isz sizes)
    (input_image S (initial_input (sizes_of A sizes) isz))
    (map (slot_offset S (sizes_of A sizes)) [0..<as_len A sizes],
     slot_offset S (sizes_of A sizes) (as_len A sizes),
     slot_offset S (sizes_of A sizes) (as_len A sizes) + 8 + isz)"
proof -
  have slots: "appends M cap 8 (write_empty_accounts S M A sizes [0..<as_len A sizes] [])
    (concat (map (\<lambda>n. slot_bytes S (empty_slot n)) (sizes_of A sizes)))
    (map (slot_offset S (sizes_of A sizes)) [0..<as_len A sizes])"
    by (rule appends_cong[OF appends_write_empty_accounts[OF laws sdk A]])
      (simp_all add: map_sizes_of map_sizes_of[of "\<lambda>n. slot_bytes S (empty_slot n)"]
        running_offsets_eq slot_offset_def take_map)
  note leaf = appends_writes[OF laws writes_leaf(1)[OF laws]]
    appends_writes[OF laws writes_leaf(2)[OF laws]]
    appends_writes[OF laws writes_map_err[OF writes_leaf(3)[OF laws]]]
  show ?thesis
    unfolding write_initial_def
    by (rule appends_cong, rule appends_seq[OF leaf(1)], rule appends_seq,
        simp only: length_u64_le add_0, rule slots,
        (rule appends_seq[OF appends_len[OF laws]] appends_seq[OF leaf(1)]
          appends_seq[OF leaf(2)] appends_seq[OF leaf(3)] appends_return)+)
      (simp_all add: input_image_def initial_input_def comp_def slot_offset_def)
qed

text \<open>
  Construction: \<open>new\<close> panics exactly when the buffer's size does not fit \<open>usize\<close> or memory cannot be
  allocated; otherwise it represents the empty input.  The capacity computed by the first loop is
  the number of bytes written, so no unchecked write leaves the allocation.
\<close>

lemma executor_new_Ok:
  assumes laws: "aligned_memory_laws M cap" and sdk: "sdk_laws S" and A: "account_sizes A"
    and new: "executor_new S M R sv A isz sizes = Ok ex"
  shows "represents S M A ex (initial_input (sizes_of A sizes) isz)"
    and "cap (ex_buffer ex) = length (am_slice M (ex_buffer ex))"
    and "ex_executable ex = None" and "ex_context ex = invoke_context_new sv"
    and "am_slice M (ex_heap ex) = replicate (HEAP_LENGTH S) 0"
    and "am_slice M (ex_stack ex) = replicate (config_stack_size R (executor_config R)) 0"
    and "ex_account_sizes ex = sizes" and "ex_instruction_size ex = isz"
    and "rbind (get_syscalls (registry R)) (\<lambda>syscalls. Ok (new_loader R (executor_config R) syscalls)) = Ok (ex_runtime ex)"
proof -
  let ?st = "initial_input (sizes_of A sizes) isz"
  have len: "length (input_image S ?st) = image_size S (sizes_of A sizes) isz"
    by (simp add: length_input_image initial_input_def comp_def)
  from new obtain buf0 where fits: "image_size S (sizes_of A sizes) isz < 2 ^ 64"
    and buf0: "am_with_capacity M (image_size S (sizes_of A sizes) isz) = Some buf0"
    by (auto simp: executor_new_def buffer_capacity_eq[OF A sdk] split: if_splits)
  then have "am_slice M buf0 = []" "cap buf0 = image_size S (sizes_of A sizes) isz"
    using am_with_capacity[OF laws] by auto
  with len obtain buf where buf:
    "write_initial S M A isz sizes buf0 =
      (Ok (map (slot_offset S (sizes_of A sizes)) [0..<as_len A sizes],
           slot_offset S (sizes_of A sizes) (as_len A sizes),
           slot_offset S (sizes_of A sizes) (as_len A sizes) + 8 + isz), buf)"
    "am_slice M buf = input_image S ?st" "cap buf = length (input_image S ?st)"
    using appendsD[OF appends_write_initial[OF laws sdk A, of isz sizes], of buf0] by auto
  from new buf obtain stack heap where
    stack: "am_zero_filled M (config_stack_size R (executor_config R)) = Some stack"
    and heap: "am_zero_filled M (HEAP_LENGTH S) = Some heap"
    and ex: "ex_context ex = invoke_context_new sv" "ex_instruction_size ex = isz"
      "ex_account_sizes ex = sizes"
      "ex_instruction_offset ex = slot_offset S (sizes_of A sizes) (as_len A sizes)"
      "ex_account_offsets ex = map (slot_offset S (sizes_of A sizes)) [0..<as_len A sizes]"
      "ex_program_id_offset ex = slot_offset S (sizes_of A sizes) (as_len A sizes) + 8 + isz"
      "ex_buffer ex = buf" "ex_stack ex = stack" "ex_heap ex = heap" "ex_executable ex = None"
      "rbind (get_syscalls (registry R)) (\<lambda>syscalls. Ok (new_loader R (executor_config R) syscalls)) = Ok (ex_runtime ex)"
    using fits buf0 by (auto simp: executor_new_def buffer_capacity_eq[OF A sdk] Let_def)
  have shape: "slot_sizes ?st = sizes_of A sizes" "length (in_slots ?st) = as_len A sizes"
    "length (in_instruction ?st) = isz"
    by (simp_all add: initial_input_def comp_def)
  show "represents S M A ex ?st"
    using ex buf shape fits len by (simp add: represents_def)
  show "cap (ex_buffer ex) = length (am_slice M (ex_buffer ex))"
    using ex buf by simp
  show "am_slice M (ex_heap ex) = replicate (HEAP_LENGTH S) 0"
    "am_slice M (ex_stack ex) = replicate (config_stack_size R (executor_config R)) 0"
    using ex stack heap am_zero_filled[OF laws] by auto
  show "ex_executable ex = None" "ex_context ex = invoke_context_new sv"
    "ex_account_sizes ex = sizes" "ex_instruction_size ex = isz"
    "rbind (get_syscalls (registry R)) (\<lambda>syscalls. Ok (new_loader R (executor_config R) syscalls)) = Ok (ex_runtime ex)"
    using ex by auto
qed

lemma executor_new_total:
  assumes laws: "aligned_memory_laws M cap" and sdk: "sdk_laws S" and A: "account_sizes A"
    and fits: "image_size S (sizes_of A sizes) isz < 2 ^ 64"
    and alloc: "am_with_capacity M (image_size S (sizes_of A sizes) isz) \<noteq> None"
      "am_zero_filled M (config_stack_size R (executor_config R)) \<noteq> None"
      "am_zero_filled M (HEAP_LENGTH S) \<noteq> None"
    and reg: "get_syscalls (registry R) = Ok syscalls"
  shows "\<exists>ex. executor_new S M R sv A isz sizes = Ok ex"
proof -
  let ?st = "initial_input (sizes_of A sizes) isz"
  from alloc obtain buf0 stack heap where
    mem: "am_with_capacity M (image_size S (sizes_of A sizes) isz) = Some buf0"
      "am_zero_filled M (config_stack_size R (executor_config R)) = Some stack"
      "am_zero_filled M (HEAP_LENGTH S) = Some heap"
    by blast
  have len: "length (input_image S ?st) = image_size S (sizes_of A sizes) isz"
    by (simp add: length_input_image initial_input_def comp_def)
  have "\<exists>r buf. write_initial S M A isz sizes buf0 = (Ok r, buf)"
    by (rule appendsD[OF appends_write_initial[OF laws sdk A, of isz sizes], of buf0])
      (use am_with_capacity[OF laws mem(1)] len in auto)
  then obtain r buf where "write_initial S M A isz sizes buf0 = (Ok r, buf)"
    by blast
  then show ?thesis
    using fits mem reg
    by (cases r) (simp add: executor_new_def buffer_capacity_eq[OF A sdk] Let_def del: rbind_eq_Ok)
qed

lemma executor_new_overflow:
  assumes "sdk_laws S" "account_sizes A" "2 ^ 64 \<le> image_size S (sizes_of A sizes) isz"
  shows "executor_new S M R sv A isz sizes = Panics"
  using assms by (simp add: executor_new_def buffer_capacity_eq)

subsection \<open>Updates\<close>

text \<open>A write in range, as a call on the executor: only the buffer changes.\<close>

lemma on_buffer_writes:
  assumes "writes M cap w bs" "p + length bs \<le> am_len M (ex_buffer ex)"
  obtains b where "on_buffer (w (Some p)) ex = (Ok (p + length bs), ex\<lparr>ex_buffer := b\<rparr>)"
    "am_slice M b = overwrite (am_slice M (ex_buffer ex)) p bs"
proof -
  from writes_Some[OF assms] obtain b where "w (Some p) (ex_buffer ex) = (Ok (p + length bs), b)"
    "am_slice M b = overwrite (am_slice M (ex_buffer ex)) p bs" .
  then show ?thesis
    by (intro that[of b]) (simp_all add: on_buffer_def)
qed

lemma slot_sizes_update:
  assumes "length (sl_data a) = slot_sizes st ! i"
  shows "slot_sizes (st\<lparr>in_slots := (in_slots st)[i := a]\<rparr>) = slot_sizes st"
  using assms by (metis input_state.select_convs(1) input_state.surjective
      input_state.update_convs(1) list_update_id map_update)

lemma represents_update_slot:
  assumes laws: "aligned_memory_laws M cap" and rep: "represents S M A ex st"
    and i: "i < length (in_slots st)" and size: "length (sl_data a) = slot_sizes st ! i"
    and b: "am_slice M b =
      overwrite (am_slice M (ex_buffer ex)) (slot_offset S (slot_sizes st) i) (slot_bytes S a)"
  shows "represents S M A (ex\<lparr>ex_buffer := b\<rparr>) (st\<lparr>in_slots := (in_slots st)[i := a]\<rparr>)"
proof -
  let ?st = "st\<lparr>in_slots := (in_slots st)[i := a]\<rparr>"
  have "am_slice M (ex_buffer ex) = input_image S st"
    using rep by (simp add: represents_def)
  moreover have "length (slot_bytes S (in_slots st ! i)) = length (slot_bytes S a)"
    using i size by simp
  ultimately have "am_slice M b = input_image S ?st"
    by (simp only: b image_at_slot[OF i] image_update_slot[OF i] overwrite_middle
        length_before_slot[symmetric])
  moreover have "length (input_image S ?st) = length (input_image S st)"
    using slot_sizes_update[OF size] by (simp add: length_input_image)
  ultimately show ?thesis
    using rep slot_sizes_update[OF size] by (simp add: represents_def)
qed

lemma layout_size:
  assumes A: "account_sizes A" and i: "i < as_len A (ex_account_sizes ex)"
  shows "as_size A (ex_account_sizes ex) i = Some (sizes_of A (ex_account_sizes ex) ! i)"
  using assms by (simp add: account_sizes.size_nth)

lemma represents_size:
  assumes A: "account_sizes A" and rep: "represents S M A ex st" and i: "i < length (in_slots st)"
  shows "as_size A (ex_account_sizes ex) i = Some (slot_sizes st ! i)"
proof -
  have sizes: "sizes_of A (ex_account_sizes ex) = slot_sizes st"
    using rep by (simp add: represents_def)
  then have "as_len A (ex_account_sizes ex) = length (in_slots st)"
    by (metis length_map length_sizes_of)
  with i A sizes show ?thesis
    by (simp add: account_sizes.size_nth)
qed

lemma update_account_writes:
  assumes laws: "aligned_memory_laws M cap" and sdk: "sdk_laws S" and A: "account_sizes A"
    and lay: "layout S M A ex" and sizes: "sizes = sizes_of A (ex_account_sizes ex)"
    and i: "i < length sizes" and fits: "length (data account) \<le> sizes ! i"
  obtains b where
    "update_account S M A i key account is_signer is_writable is_executable ex =
      (Ok (), ex\<lparr>ex_buffer := b\<rparr>)"
    "am_slice M b = overwrite (am_slice M (ex_buffer ex)) (slot_offset S sizes i)
      (slot_bytes S (filled_slot (sizes ! i) key account is_signer is_writable is_executable))"
proof -
  let ?n = "sizes ! i" and ?p = "slot_offset S sizes i"
  let ?a = "filled_slot ?n key account is_signer is_writable is_executable"
  have size: "as_size A (ex_account_sizes ex) i = Some ?n"
    using layout_size[OF A] i by (simp add: sizes)
  have offset: "index_checked (ex_account_offsets ex) i = Ok ?p"
    using lay i by (simp add: layout_def Let_def sizes)
  have "?p + length (slot_bytes S ?a) \<le> am_len M (ex_buffer ex)"
    using slot_in_image[OF i, of S] fits lay laws by (simp add: am_laws layout_def Let_def sizes)
  from on_buffer_writes[OF writes_write_account[OF laws sdk fits] this]
  obtain b where "on_buffer (write_account S M ?n (Some ?p) key account is_signer is_writable is_executable) ex
      = (Ok (?p + length (slot_bytes S ?a)), ex\<lparr>ex_buffer := b\<rparr>)"
    "am_slice M b = overwrite (am_slice M (ex_buffer ex)) ?p (slot_bytes S ?a)" .
  then show ?thesis
    using fits by (intro that[of b]) (simp_all add: update_account_def size offset)
qed

lemma update_account_Ok:
  assumes laws: "aligned_memory_laws M cap" and sdk: "sdk_laws S" and A: "account_sizes A"
    and rep: "represents S M A ex st" and i: "i < length (in_slots st)"
    and fits: "length (data account) \<le> slot_sizes st ! i"
  obtains b where
    "update_account S M A i key account is_signer is_writable is_executable ex =
      (Ok (), ex\<lparr>ex_buffer := b\<rparr>)"
    "represents S M A (ex\<lparr>ex_buffer := b\<rparr>) (st\<lparr>in_slots := (in_slots st)[i :=
      filled_slot (slot_sizes st ! i) key account is_signer is_writable is_executable]\<rparr>)"
proof -
  have sizes: "slot_sizes st = sizes_of A (ex_account_sizes ex)"
    using rep by (simp add: represents_def)
  have "i < length (slot_sizes st)"
    using i by simp
  from update_account_writes[OF laws sdk A represents_layout[OF rep] sizes this fits]
  obtain b where b: "update_account S M A i key account is_signer is_writable is_executable ex =
      (Ok (), ex\<lparr>ex_buffer := b\<rparr>)"
    "am_slice M b = overwrite (am_slice M (ex_buffer ex)) (slot_offset S (slot_sizes st) i)
      (slot_bytes S (filled_slot (slot_sizes st ! i) key account is_signer is_writable is_executable))" .
  have "represents S M A (ex\<lparr>ex_buffer := b\<rparr>) (st\<lparr>in_slots := (in_slots st)[i :=
      filled_slot (slot_sizes st ! i) key account is_signer is_writable is_executable]\<rparr>)"
    by (rule represents_update_slot[OF laws rep i _ b(2)]) (simp add: fits)
  with b(1) show ?thesis
    by (rule that)
qed

lemma update_account_too_long:
  assumes "as_size A (ex_account_sizes ex) i = Some n" "n < length (data account)"
  shows "update_account S M A i key account is_signer is_writable is_executable ex =
    (Err (ExecutorError InvalidAccount), ex)"
  using assms by (simp add: update_account_def)

lemma update_account_out_of_range:
  assumes "represents S M A ex st" "length (in_slots st) \<le> i"
  shows "update_account S M A i key account is_signer is_writable is_executable ex
    \<in> {(Err (ExecutorError InvalidAccount), ex), (Panics, ex)}"
  using assms by (cases "as_size A (ex_account_sizes ex) i")
    (auto simp: update_account_def represents_def index_checked_def)

lemma overwrite_prefix:
  "length ys \<le> length xs \<Longrightarrow> overwrite (a @ xs @ c) (length a) ys = a @ (ys @ drop (length ys) xs) @ c"
  by (simp add: overwrite_def)

definition patch_instruction :: "bytes \<Rightarrow> input_state \<Rightarrow> input_state" where
  "patch_instruction instruction st =
     st\<lparr>in_instruction := instruction @ drop (length instruction) (in_instruction st)\<rparr>"

lemma update_instruction_writes:
  fixes M :: "'m aligned_memory"
  assumes laws: "aligned_memory_laws M cap" and lay: "layout S M A ex"
    and fits: "length instruction \<le> ex_instruction_size ex"
  obtains b where
    "update_instruction M instruction ex = (Ok (), ex\<lparr>ex_buffer := b\<rparr>)"
    "am_slice M b = overwrite (am_slice M (ex_buffer ex)) (ex_instruction_offset ex)
      (u64_le (of_nat (ex_instruction_size ex)) @ instruction)"
proof -
  let ?p = "ex_instruction_offset ex" and ?n = "u64_le (of_nat (ex_instruction_size ex))"
  have room: "?p + 8 + length instruction \<le> length (am_slice M (ex_buffer ex))"
    using lay fits by (simp add: layout_def Let_def image_size_def)
  then have "?p + length ?n \<le> am_len M (ex_buffer ex)"
    using laws by (simp add: am_laws)
  from on_buffer_writes[OF writes_write_pod[OF laws] this]
  obtain b1 where
    b1: "on_buffer (write_pod M (Some ?p) ?n :: ('m, anyhow_error, nat) act) ex = (Ok (?p + length ?n), ex\<lparr>ex_buffer := b1\<rparr>)"
      "am_slice M b1 = overwrite (am_slice M (ex_buffer ex)) ?p ?n" .
  let ?ex1 = "ex\<lparr>ex_buffer := b1\<rparr>"
  have "?p + 8 + length instruction \<le> am_len M (ex_buffer ?ex1)"
    using laws room by (simp add: am_laws b1(2))
  from on_buffer_writes[OF writes_write_all[OF laws] this] obtain b2 where
    b2: "on_buffer (write_all M (Some (?p + 8)) instruction :: ('m, anyhow_error, nat) act) ?ex1 =
        (Ok (?p + 8 + length instruction), ?ex1\<lparr>ex_buffer := b2\<rparr>)"
      "am_slice M b2 = overwrite (am_slice M (ex_buffer ?ex1)) (?p + 8) instruction" .
  have "am_slice M b2 = overwrite (am_slice M (ex_buffer ex)) ?p (?n @ instruction)"
    using overwrite_append[of ?p ?n "am_slice M (ex_buffer ex)" instruction] room
    by (simp add: b2(2) b1(2))
  moreover have "update_instruction M instruction ex = (Ok (), ex\<lparr>ex_buffer := b2\<rparr>)"
    using fits by (simp add: update_instruction_def b1(1) b2(1))
  ultimately show ?thesis
    using that by blast
qed

lemma update_instruction_Ok:
  fixes M :: "'m aligned_memory"
  assumes laws: "aligned_memory_laws M cap" and rep: "represents S M A ex st"
    and fits: "length instruction \<le> ex_instruction_size ex"
  obtains b where
    "update_instruction M instruction ex = (Ok (), ex\<lparr>ex_buffer := b\<rparr>)"
    "represents S M A (ex\<lparr>ex_buffer := b\<rparr>) (patch_instruction instruction st)"
proof -
  let ?n = "u64_le (of_nat (ex_instruction_size ex))"
  let ?pre = "before_instruction S st" and ?pid = "pubkey_bytes (in_program st)"
  have p: "ex_instruction_offset ex = length ?pre"
    and slice: "am_slice M (ex_buffer ex) = ?pre @ (?n @ in_instruction st) @ ?pid"
    and len: "length (in_instruction st) = ex_instruction_size ex"
    using rep by (simp_all add: represents_def length_before_instruction image_at_instruction)
  from update_instruction_writes[OF laws represents_layout[OF rep] fits] obtain b where
    b: "update_instruction M instruction ex = (Ok (), ex\<lparr>ex_buffer := b\<rparr>)"
      "am_slice M b = overwrite (am_slice M (ex_buffer ex)) (length ?pre) (?n @ instruction)"
    unfolding p .
  have "am_slice M b = ?pre @ ?n @ (instruction @ drop (length instruction) (in_instruction st)) @ ?pid"
    using overwrite_prefix[of "?n @ instruction" "?n @ in_instruction st" ?pre ?pid] fits len
    by (simp add: b(2) slice)
  then have "represents S M A (ex\<lparr>ex_buffer := b\<rparr>) (patch_instruction instruction st)"
    using rep fits
    by (simp add: represents_def patch_instruction_def image_at_instruction before_instruction_def)
  with b(1) show ?thesis
    by (rule that)
qed

lemma update_instruction_too_long:
  "ex_instruction_size ex < length instruction \<Longrightarrow>
   update_instruction M instruction ex = (Err (ExecutorError InvalidInstruction), ex)"
  by (simp add: update_instruction_def)

lemma update_program_writes:
  fixes M :: "'m aligned_memory" and R :: "('rt, 'reg, 'exe, 'cfg, ('sv, 'lg) invoke_context) rbpf"
  assumes laws: "aligned_memory_laws M cap" and lay: "layout S M A ex"
    and load: "load_executable R (ex_runtime ex) (data account) jit = Ok exe"
  obtains b where
    "update_program M R pid account jit ex =
      (Ok (), ex\<lparr>ex_executable := Some exe, ex_context := (ex_context ex)\<lparr>program_id := pid\<rparr>,
                ex_buffer := b\<rparr>)"
    "am_slice M b = overwrite (am_slice M (ex_buffer ex)) (ex_program_id_offset ex) (pubkey_bytes pid)"
proof -
  let ?ex1 = "ex\<lparr>ex_executable := Some exe, ex_context := (ex_context ex)\<lparr>program_id := pid\<rparr>\<rparr>"
  let ?p = "ex_program_id_offset ex"
  have "?p + length (pubkey_bytes pid) \<le> am_len M (ex_buffer ?ex1)"
    using laws lay by (simp add: am_laws layout_def Let_def image_size_def)
  from on_buffer_writes[OF writes_write_all[OF laws] this] obtain b where
    "on_buffer (write_all M (Some ?p) (pubkey_bytes pid) :: ('m, anyhow_error, nat) act) ?ex1 =
        (Ok (?p + length (pubkey_bytes pid)), ?ex1\<lparr>ex_buffer := b\<rparr>)"
      "am_slice M b = overwrite (am_slice M (ex_buffer ?ex1)) ?p (pubkey_bytes pid)" .
  then show ?thesis
    by (intro that[of b]) (simp_all add: update_program_def load)
qed

lemma update_program_Ok:
  fixes M :: "'m aligned_memory" and R :: "('rt, 'reg, 'exe, 'cfg, ('sv, 'lg) invoke_context) rbpf"
  assumes laws: "aligned_memory_laws M cap" and rep: "represents S M A ex st"
    and load: "load_executable R (ex_runtime ex) (data account) jit = Ok exe"
  obtains b where
    "update_program M R pid account jit ex =
      (Ok (), ex\<lparr>ex_executable := Some exe, ex_context := (ex_context ex)\<lparr>program_id := pid\<rparr>,
                ex_buffer := b\<rparr>)"
    "represents S M A (ex\<lparr>ex_executable := Some exe, ex_context := (ex_context ex)\<lparr>program_id := pid\<rparr>,
                ex_buffer := b\<rparr>) (st\<lparr>in_program := pid\<rparr>)"
proof -
  let ?pre = "before_instruction S st @ u64_le (of_nat (length (in_instruction st))) @ in_instruction st"
  have p: "ex_program_id_offset ex = length ?pre"
    and slice: "am_slice M (ex_buffer ex) = ?pre @ pubkey_bytes (in_program st) @ []"
    using rep by (simp_all add: represents_def length_before_instruction image_at_instruction)
  from update_program_writes[OF laws represents_layout[OF rep] load] obtain b where
    b: "update_program M R pid account jit ex =
      (Ok (), ex\<lparr>ex_executable := Some exe, ex_context := (ex_context ex)\<lparr>program_id := pid\<rparr>, ex_buffer := b\<rparr>)"
      "am_slice M b = overwrite (am_slice M (ex_buffer ex)) (length ?pre) (pubkey_bytes pid)"
    unfolding p .
  have "am_slice M b = ?pre @ pubkey_bytes pid"
    using overwrite_middle[of "pubkey_bytes (in_program st)" "pubkey_bytes pid" _ ?pre "[]"]
    by (simp add: b(2) slice)
  then have "represents S M A (ex\<lparr>ex_executable := Some exe,
      ex_context := (ex_context ex)\<lparr>program_id := pid\<rparr>, ex_buffer := b\<rparr>) (st\<lparr>in_program := pid\<rparr>)"
    using rep by (simp add: represents_def image_at_instruction before_instruction_def)
  with b(1) show ?thesis
    by (rule that)
qed

lemma update_program_fails:
  assumes "load_executable R (ex_runtime ex) (data account) jit = Err e"
  shows "update_program M R pid account jit ex = (Err e, ex)"
  using assms by (simp add: update_program_def)

subsection \<open>Reading an account back\<close>

text \<open>The account that \<open>get_account\<close> makes of a slot.\<close>

definition slot_account :: "slot \<Rightarrow> account" where
  "slot_account a =
     \<lparr>lamports = sl_lamports a, data = sl_data a, owner = sl_owner a,
      executable = sl_executable a, rent_epoch = sl_rent_epoch a\<rparr>"

lemma slice_in_slot:
  assumes "length p = n" "k + l \<le> length s"
  shows "slice_range (p @ s @ q) (n + k) (n + k + l) = Ok (bytes_at s k l)"
  using assms by (simp add: slice_range_def bytes_at_append_right bytes_at_append_left)

text \<open>
  What \<open>get_account\<close> makes of a header and data followed by as many bytes as are reserved for data
  of that length, whatever they are, and by eight more.
\<close>

lemma read_account_parts:
  assumes sdk: "sdk_laws S" and gap: "length gap = reserved S (length (sl_data a))"
    and e: "length e = 8"
    and bound: "length (p @ (slot_header S a @ sl_data a @ gap @ e) @ q) < 2 ^ 64"
  shows "read_account S (p @ (slot_header S a @ sl_data a @ gap @ e) @ q) (length p) =
    Ok ((slot_account a)\<lparr>rent_epoch := u64_from_le e\<rparr>)"
proof -
  let ?s = "slot_header S a @ sl_data a @ gap @ e"
  let ?n = "length (sl_data a)" and ?buf = "p @ ?s @ q" and ?o = "length p"
  let ?pad = "padding (BPF_ALIGN_OF_U128 S) ?n + MAX_PERMITTED_DATA_INCREASE S"
  have fields: "?s ! 3 = of_bool (sl_executable a)"
    "bytes_at ?s 40 32 = pubkey_bytes (sl_owner a)"
    "bytes_at ?s 72 8 = u64_le (sl_lamports a)"
    "bytes_at ?s 80 8 = u64_le (of_nat ?n)"
    "bytes_at ?s 88 ?n = sl_data a"
    by (simp_all add: slot_header_def bytes_at_def)
  have last: "bytes_at ?s (88 + ?n + ?pad) 8 = e"
    using bytes_at_middle[of "88 + ?n + ?pad" "slot_header S a @ sl_data a @ gap" 8 e "[]"] gap e
    by (simp add: reserved_def ac_simps)
  have len: "length ?s = 96 + ?n + ?pad"
    using gap e by (simp add: reserved_def)
  have sl: "slice_range ?buf (?o + k) (?o + k + l) = Ok (bytes_at ?s k l)"
    if "k + l \<le> 96 + ?n + ?pad" for k l
    using that len by (intro slice_in_slot) simp_all
  have slices:
    "slice_range ?buf (?o + 3 + 37) (?o + 3 + 37 + 32) = Ok (pubkey_bytes (sl_owner a))"
    "slice_range ?buf (?o + 3 + 37 + 32) (?o + 3 + 37 + 32 + 8) = Ok (u64_le (sl_lamports a))"
    "slice_range ?buf (?o + 3 + 37 + 32 + 8) (?o + 3 + 37 + 32 + 8 + 8) = Ok (u64_le (of_nat ?n))"
    "slice_range ?buf (?o + 3 + 37 + 32 + 8 + 8) (?o + 3 + 37 + 32 + 8 + 8 + ?n) = Ok (sl_data a)"
    "slice_range ?buf (?o + 3 + 37 + 32 + 8 + 8 + ?n + ?pad) (?o + 3 + 37 + 32 + 8 + 8 + ?n + ?pad + 8)
      = Ok e"
    using sl[of 40 32] sl[of 72 8] sl[of 80 8] sl[of 88 ?n] sl[of "88 + ?n + ?pad" 8]
    by (simp_all only: fields last) (simp_all add: ac_simps)
  have flag: "index_checked ?buf (?o + 3) = Ok (of_bool (sl_executable a))"
    using fields(1) len by (simp add: nth_append del: append_assoc)
  have n: "unat (of_nat ?n :: u64) = ?n"
    using bound len by (simp add: unsigned_of_nat take_bit_nat_eq_self)
  have stop: "usize_add (?o + 3 + 37 + 32 + 8 + 8) ?n = Ok (?o + 3 + 37 + 32 + 8 + 8 + ?n)"
    using bound len by simp
  have align: "align_offset ?n (BPF_ALIGN_OF_U128 S) = Ok (padding (BPF_ALIGN_OF_U128 S) ?n)"
    using sdk by (simp add: sdk_laws_def)
  show ?thesis
    by (simp only: read_account_def Let_def slices flag n stop align rbind.simps unwrap.simps
        pubkey_try_from_bytes u64_from_le_u64_le slot_account_def) simp
qed

lemma read_account_slot:
  assumes sdk: "sdk_laws S" and bound: "length (p @ slot_bytes S a @ q) < 2 ^ 64"
  shows "read_account S (p @ slot_bytes S a @ q) (length p) = Ok (slot_account a)"
  using read_account_parts[OF sdk, of "replicate (reserved S (length (sl_data a))) 0" a
      "u64_le (sl_rent_epoch a)" p q] bound
  by (simp add: slot_bytes_def slot_account_def)

lemma get_account_represents:
  assumes sdk: "sdk_laws S" and rep: "represents S M A ex st"
  shows "get_account S M ex i =
    (if i < length (in_slots st) then Ok (slot_account (in_slots st ! i)) else Panics)"
proof (cases "i < length (in_slots st)")
  case True
  have "am_slice M (ex_buffer ex) = input_image S st" "length (input_image S st) < 2 ^ 64"
    using rep by (simp_all add: represents_def)
  with True have "read_account S (am_slice M (ex_buffer ex)) (slot_offset S (slot_sizes st) i) =
      Ok (slot_account (in_slots st ! i))"
    using read_account_slot[OF sdk, of "before_slot S st i" "in_slots st ! i" "after_slot S st i"]
    by (simp add: image_at_slot length_before_slot)
  with rep True show ?thesis
    by (simp add: get_account_def represents_def index_checked_def)
next
  case False
  with rep show ?thesis
    by (simp add: get_account_def represents_def index_checked_def)
qed

text \<open>Reading an account from a buffer of the right layout, whatever its bytes are.\<close>

lemma get_account_layout:
  assumes "sdk_laws S" and lay: "layout S M A ex" and "bs = am_slice M (ex_buffer ex)"
    and "sizes = sizes_of A (ex_account_sizes ex)" and inside: "i < length sizes"
    and "p = slot_offset S sizes i" and "n = unat (u64_from_le (bytes_at bs (p + 80) 8))"
  shows "get_account S M ex i =
    (if p + 88 + n + reserved S n + 8 \<le> length bs
     then Ok \<lparr>lamports = u64_from_le (bytes_at bs (p + 72) 8), data = bytes_at bs (p + 88) n,
       owner = Pubkey (bytes_at bs (p + 40) 32), executable = (bs ! (p + 3) = 1),
       rent_epoch = u64_from_le (bytes_at bs (p + 88 + n + reserved S n) 8)\<rparr>
     else Panics)"
proof -
  have room: "p + 96 \<le> length bs" and bound: "length bs < 2 ^ 64"
    using slot_in_image[OF inside, of S "ex_instruction_size ex"] lay
    by (simp_all add: assms(3,4,6) layout_def Let_def slot_size_def)
  have offset: "index_checked (ex_account_offsets ex) i = Ok p"
    using lay inside by (simp add: layout_def Let_def assms(4,6) index_checked_def)
  have fixed: "slice_range bs (p + 3 + 37) (p + 3 + 37 + 32) = Ok (bytes_at bs (p + 40) 32)"
    "slice_range bs (p + 3 + 37 + 32) (p + 3 + 37 + 32 + 8) = Ok (bytes_at bs (p + 72) 8)"
    "slice_range bs (p + 3 + 37 + 32 + 8) (p + 3 + 37 + 32 + 8 + 8) = Ok (bytes_at bs (p + 80) 8)"
    "index_checked bs (p + 3) = Ok (bs ! (p + 3))"
    using room by (simp_all add: slice_range_def index_checked_def ac_simps)
  have owner: "pubkey_try_from (bytes_at bs (p + 40) 32) = Some (Pubkey (bytes_at bs (p + 40) 32))"
    using room by (simp add: pubkey_try_from_def)
  have align: "align_offset n (BPF_ALIGN_OF_U128 S) = Ok (padding (BPF_ALIGN_OF_U128 S) n)"
    using assms(1) by (simp add: sdk_laws_def)
  show ?thesis
  proof (cases "p + 88 + n \<le> length bs")
    case True
    then have data: "usize_add (p + 3 + 37 + 32 + 8 + 8) n = Ok (p + 88 + n)"
      "slice_range bs (p + 3 + 37 + 32 + 8 + 8) (p + 88 + n) = Ok (bytes_at bs (p + 88) n)"
      using bound by (simp_all add: slice_range_def ac_simps)
    have rent: "slice_range bs (p + 88 + n + (padding (BPF_ALIGN_OF_U128 S) n + MAX_PERMITTED_DATA_INCREASE S))
        (p + 88 + n + (padding (BPF_ALIGN_OF_U128 S) n + MAX_PERMITTED_DATA_INCREASE S) + 8) =
      (if p + 88 + n + reserved S n + 8 \<le> length bs then Ok (bytes_at bs (p + 88 + n + reserved S n) 8) else Panics)"
      by (simp add: slice_range_def reserved_def ac_simps)
    show ?thesis
      by (simp only: get_account_def offset read_account_def Let_def fixed owner align data rent rbind.simps
          unwrap.simps assms(3,7)[symmetric]) simp
  next
    case False
    then show ?thesis
      by (simp only: get_account_def offset read_account_def Let_def fixed owner rbind.simps unwrap.simps
          assms(3,7)[symmetric]) (simp add: usize_add_def slice_range_def)
  qed
qed

subsection \<open>Execution\<close>

lemma zero_memory_slice:
  "aligned_memory_laws M cap \<Longrightarrow> am_slice M (zero_memory M m) = replicate (am_len M m) 0"
  by (simp add: zero_memory_def am_laws)

definition run_regions ::
  "'m aligned_memory \<Rightarrow> ('rt, 'reg, 'exe, 'cfg, ('sv, 'lg) invoke_context) rbpf \<Rightarrow> 'exe \<Rightarrow>
   ('a, 'm, 'rt, 'exe, 'sv, 'lg) instruction_executor \<Rightarrow> 'exe memory_region list" where
  "run_regions M R exe ex =
     vm_regions R exe (replicate (am_len M (ex_stack ex)) 0) (replicate (am_len M (ex_heap ex)) 0)
       (am_slice M (ex_buffer ex))"

lemma execute_Some:
  assumes laws: "aligned_memory_laws M cap" and vm: "vm_laws R" and exe: "ex_executable ex = Some exe"
    and regions: "regions = run_regions M R exe ex"
    and mm: "memory_mapping_new R regions (get_config R exe) exe"
    and run: "vm_run R (ex_runtime ex) regions (config_stack_size R (get_config R exe)) exe
        (\<not> (jit_target R \<and> has_compiled_program R exe))
        ((ex_context ex)\<lparr>return_data := (pubkey_default, [])\<rparr>) = (res, ctx, stack, heap, input)"
  shows "\<exists>ex'. execute S M R ex = (execution_result S res, ex') \<and>
    ex_context ex' = ctx \<and> am_slice M (ex_stack ex') = stack \<and> am_slice M (ex_heap ex') = heap \<and>
    am_slice M (ex_buffer ex') = input \<and> ex_executable ex' = Some exe"
proof -
  have "length stack = am_len M (ex_stack ex)" "length heap = am_len M (ex_heap ex)"
    "length input = length (am_slice M (ex_buffer ex))"
    using vm run unfolding regions vm_laws_def run_regions_def vm_regions_def
    by (metis length_replicate)+
  then show ?thesis
    using exe mm run laws
    by (simp add: execute_def Let_def regions run_regions_def zero_memory_slice am_laws)
qed

lemma execute_None:
  assumes "ex_executable ex = None"
  shows "execute S M R ex = (Err (ExecutorError MissingProgram),
    ex\<lparr>ex_stack := zero_memory M (ex_stack ex), ex_heap := zero_memory M (ex_heap ex)\<rparr>)"
  using assms by (simp add: execute_def Let_def)

lemma execute_mapping_panics:
  assumes "aligned_memory_laws M cap" "ex_executable ex = Some exe"
    "\<not> memory_mapping_new R (run_regions M R exe ex) (get_config R exe) exe"
  shows "fst (execute S M R ex) = Panics \<and> ex_buffer (snd (execute S M R ex)) = ex_buffer ex \<and>
    ex_context (snd (execute S M R ex)) = (ex_context ex)\<lparr>return_data := (pubkey_default, [])\<rparr>"
  using assms by (simp add: execute_def Let_def run_regions_def zero_memory_slice)

subsection \<open>An account the program resized\<close>

text \<open>
  The entrypoint's ABI lets a program set a new length and new data within the reserved space; the
  rent epoch stays where the serializer put it, after the space for the original length.
\<close>

definition resized_slot_bytes :: "sdk \<Rightarrow> slot \<Rightarrow> bytes \<Rightarrow> bytes \<Rightarrow> bytes" where
  "resized_slot_bytes S a new_data space =
     slot_header S (a\<lparr>sl_data := new_data\<rparr>) @ new_data @ space @ u64_le (sl_rent_epoch a)"

text \<open>\<open>get_account\<close> looks for the rent epoch behind the space that belongs to the new length.\<close>

lemma read_account_resized:
  assumes sdk: "sdk_laws S" and tail: "tail = space @ u64_le (sl_rent_epoch a) @ q"
    and inside: "reserved S (length new_data) + 8 \<le> length tail"
    and bound: "length (p @ resized_slot_bytes S a new_data space @ q) < 2 ^ 64"
  shows "read_account S (p @ resized_slot_bytes S a new_data space @ q) (length p) =
    Ok ((slot_account a)\<lparr>data := new_data,
      rent_epoch := u64_from_le (bytes_at tail (reserved S (length new_data)) 8)\<rparr>)"
proof -
  let ?a = "a\<lparr>sl_data := new_data\<rparr>" and ?r = "reserved S (length new_data)"
  let ?e = "bytes_at tail ?r 8" and ?q = "drop (?r + 8) tail"
  have "tail = take ?r tail @ ?e @ ?q"
    unfolding bytes_at_def by (metis append_take_drop_id drop_drop add.commute)
  then have shape: "p @ resized_slot_bytes S a new_data space @ q =
      p @ (slot_header S ?a @ sl_data ?a @ take ?r tail @ ?e) @ ?q"
    by (simp add: resized_slot_bytes_def tail)
  have gap: "length (take ?r tail) = reserved S (length (sl_data ?a))" and e: "length ?e = 8"
    using inside by simp_all
  show ?thesis
    unfolding shape using read_account_parts[OF sdk gap e, of p ?q] bound[unfolded shape]
    by (simp add: slot_account_def)
qed

end
