(* ===== verification/Samples.thy ===== *)
theory Samples
  imports Executor_Layout
begin

text \<open>
  Concrete parameters, on which the theorems with hypotheses are exercised: the documented
  constants of the SDK, a registry that is a list, a virtual machine that only accepts programs
  whose ELF file is not empty and returns the first byte of the program's input as its code, and
  an executor built directly from an abstract input.
\<close>

definition sample_sdk :: sdk where
  "sample_sdk = documented_sdk (\<lambda>c. OtherInstructionError (unat c)) (\<lambda>seeds pid. None)"

lemma sample_sdk_laws [simp]: "sdk_laws sample_sdk"
  by (simp add: sample_sdk_def)

lemma sample_sdk_sel [simp]:
  "BPF_ALIGN_OF_U128 sample_sdk = 8" "MAX_PERMITTED_DATA_INCREASE sample_sdk = 10240"
  "NON_DUP_MARKER sample_sdk = 255" "HEAP_LENGTH sample_sdk = 32768"
  "ENTRYPOINT_SUCCESS sample_sdk = 0" "MAX_RETURN_DATA sample_sdk = 1024"
  "MAX_SEEDS sample_sdk = 16" "MAX_SEED_LEN sample_sdk = 32"
  "instruction_error_from sample_sdk c = OtherInstructionError (unat c)"
  by (simp_all add: sample_sdk_def documented_sdk_def)

definition list_registry :: "(string \<times> builtin) list function_registry" where
  "list_registry =
     \<lparr>registry_default = [],
      register_function_hashed = (\<lambda>r s f.
        if map_of r s = None then Inr ((s, f) # r) else Inl ''collision''),
      registry_lookup = map_of\<rparr>"

lemma list_registry_laws: "registry_laws list_registry (\<lambda>s. s)"
  by (auto simp: registry_laws_def list_registry_def)

type_synonym sample_context = "(unit, unit) invoke_context"

definition sample_rbpf ::
  "((string \<times> builtin) list, (string \<times> builtin) list, bytes, unit, sample_context) rbpf" where
  "sample_rbpf =
     \<lparr>registry = list_registry, config_default_rest = (), config_stack_size = (\<lambda>c. 64),
      new_loader = (\<lambda>c reg. reg),
      from_elf = (\<lambda>elf rt. if elf = [] then Inl ''not an ELF file'' else Inr elf),
      jit_compile = Inr, jit_target = True, has_compiled_program = (\<lambda>exe. False),
      get_config = (\<lambda>exe. \<lparr>max_call_depth = 64, external_internal_function_hash_collision = True,
        config_rest = ()\<rparr>),
      MM_STACK_START = 0x200000000, MM_HEAP_START = 0x300000000, MM_INPUT_START = 0x400000000,
      memory_mapping_new = (\<lambda>regions c exe. True),
      vm_run = (\<lambda>rt regions n exe interpreted ctx.
        case regions of
          [ro, WritableGapped st a g, Writable hp b, Writable inp c] \<Rightarrow>
            (Inr (ucast (hd (inp @ [0]))), ctx, st, hp, inp)
        | _ \<Rightarrow> (Inl ''regions'', ctx, [], [], []))\<rparr>"

lemma sample_vm_laws: "vm_laws sample_rbpf"
  by (auto simp: vm_laws_def sample_rbpf_def)

text \<open>The executor that holds an abstract input, with the sizes of its slots in a vector.\<close>

definition executor_of ::
  "sdk \<Rightarrow> input_state \<Rightarrow> bytes option \<Rightarrow>
   (nat list, nat \<times> bytes, (string \<times> builtin) list, bytes, unit, unit) instruction_executor" where
  "executor_of S st exe =
     \<lparr>ex_context = invoke_context_new (), ex_runtime = [],
      ex_instruction_size = length (in_instruction st),
      ex_account_sizes = slot_sizes st,
      ex_instruction_offset = slot_offset S (slot_sizes st) (length (in_slots st)),
      ex_account_offsets = map (slot_offset S (slot_sizes st)) [0..<length (in_slots st)],
      ex_program_id_offset =
        slot_offset S (slot_sizes st) (length (in_slots st)) + 8 + length (in_instruction st),
      ex_buffer = (length (input_image S st), input_image S st),
      ex_stack = (64, replicate 64 0), ex_heap = (32, replicate 32 0), ex_executable = exe\<rparr>"

lemma represents_executor_of:
  "length (input_image S st) < 2 ^ 64 \<Longrightarrow>
   represents S vec_memory vec_account_sizes (executor_of S st exe) st"
  by (simp add: represents_def executor_of_def vec_memory_def)

definition sample_input :: input_state where
  "sample_input =
     \<lparr>in_slots = [empty_slot 3, empty_slot 0], in_instruction = [1, 2, 3, 4],
      in_program = pubkey_repeat 7\<rparr>"

definition sample_account :: account where
  "sample_account =
     \<lparr>lamports = 500, data = [9, 8], owner = pubkey_repeat 5, executable = True, rent_epoch = 77\<rparr>"

definition sample_executor ::
  "(nat list, nat \<times> bytes, (string \<times> builtin) list, bytes, unit, unit) instruction_executor" where
  "sample_executor = executor_of sample_sdk sample_input None"

lemma sample_slots [simp]:
  "in_slots sample_input = [empty_slot 3, empty_slot 0]" "in_instruction sample_input = [1, 2, 3, 4]"
  "in_program sample_input = pubkey_repeat 7"
  by (simp_all add: sample_input_def)

lemma vec_slice [simp]: "am_slice vec_memory (n, bs) = bs"
  by (simp add: vec_memory_def)

lemma sample_instruction_size [simp]: "ex_instruction_size sample_executor = 4"
  by (simp add: sample_executor_def executor_of_def)

lemma length_sample_image: "length (input_image sample_sdk sample_input) < 2 ^ 64"
  by (simp add: length_input_image image_size_def slot_offset_def slot_size_def reserved_def
      padding_def)

lemma represents_sample:
  "represents sample_sdk vec_memory vec_account_sizes sample_executor sample_input"
  unfolding sample_executor_def by (rule represents_executor_of[OF length_sample_image])

text \<open>An executor on the sample parameters can be made whenever its buffer fits.\<close>

lemma sample_new_fits:
  assumes "account_sizes A" and "image_size sample_sdk (sizes_of A sizes) isz < 2 ^ 64"
  obtains ex0 where "executor_new sample_sdk vec_memory sample_rbpf () A isz sizes = Ok ex0"
proof -
  obtain syscalls where reg: "get_syscalls (registry sample_rbpf) = Ok syscalls"
    using get_syscalls_lookup[OF list_registry_laws] by (auto simp: sample_rbpf_def)
  show ?thesis
    using that executor_new_total[OF vec_memory_laws sample_sdk_laws assms _ _ _ reg, of "()"]
    by (auto simp: vec_memory_def)
qed

end
