(* ===== verification/Executor_Properties.thy ===== *)
theory Executor_Properties
  imports Samples
begin

text \<open>
  Properties of the instruction executor, over the refinement lemmas of \<open>Executor_Layout\<close>:
  construction, updates, reading accounts back, and execution.
\<close>

subsection \<open>Construction\<close>

text \<open>
  C1.  \<open>InstructionExecutor::new\<close> succeeds whenever the layout fits \<open>usize\<close>, memory can be
  allocated and the hash of the registry tells the names of the syscalls apart.  The buffer it leaves is
  the serialized empty input, the offsets it records are those of the accounts, the instruction and
  the program id in it, and the capacity it computed beforehand is exactly the number of bytes written, so
  none of the unchecked writes leaves the allocation.  Programs are loaded into a runtime in which
  exactly the eight syscalls are found, each under its name.
\<close>

theorem executor_new_represents:
  assumes "aligned_memory_laws M cap" and "sdk_laws S" and "account_sizes A"
    and "image_size S (sizes_of A sizes) isz < 2 ^ 64"
    and "am_with_capacity M (image_size S (sizes_of A sizes) isz) \<noteq> None"
    and "am_zero_filled M (config_stack_size R (executor_config R)) \<noteq> None"
    and "am_zero_filled M (HEAP_LENGTH S) \<noteq> None"
    and "registry_laws (registry R) hash" and "inj_on hash (fst ` set syscall_table)"
  shows "\<exists>ex syscalls. executor_new S M R sv A isz sizes = Ok ex \<and>
    represents S M A ex (initial_input (sizes_of A sizes) isz) \<and>
    cap (ex_buffer ex) = length (am_slice M (ex_buffer ex)) \<and>
    ex_executable ex = None \<and> ex_context ex = invoke_context_new sv \<and>
    ex_runtime ex = new_loader R (executor_config R) syscalls \<and>
    registry_lookup (registry R) syscalls = map_of syscall_table"
proof -
  obtain syscalls where reg: "get_syscalls (registry R) = Ok syscalls"
    and table: "registry_lookup (registry R) syscalls = map_of syscall_table"
    using get_syscalls_lookup[OF assms(8,9)] by blast
  from executor_new_total[OF assms(1-7) reg] obtain ex where ex: "executor_new S M R sv A isz sizes = Ok ex"
    by blast
  note facts = executor_new_Ok[OF assms(1-3) ex]
  from facts(9) reg have "ex_runtime ex = new_loader R (executor_config R) syscalls"
    by simp
  with ex facts(1-4) table show ?thesis
    by blast
qed

theorem executor_new_represents_witness:
  "\<exists>ex. executor_new sample_sdk vec_memory sample_rbpf () vec_account_sizes 4 [3, 0] = Ok ex \<and>
    represents sample_sdk vec_memory vec_account_sizes ex (initial_input [3, 0] 4) \<and>
    fst (ex_buffer ex) = length (am_slice vec_memory (ex_buffer ex)) \<and>
    ex_executable ex = None \<and> ex_context ex = invoke_context_new () \<and>
    map_of (ex_runtime ex) ''sol_memcpy_'' = Some SyscallMemcpy"
proof -
  have fits: "image_size sample_sdk (sizes_of vec_account_sizes [3, 0]) 4 < 2 ^ 64"
    by (simp add: image_size_def slot_offset_def slot_size_def reserved_def padding_def)
  have alloc: "am_with_capacity vec_memory n \<noteq> None" "am_zero_filled vec_memory n \<noteq> None" for n
    by (simp_all add: vec_memory_def)
  have laws: "registry_laws (registry sample_rbpf) (\<lambda>s. s)"
    using list_registry_laws by (simp add: sample_rbpf_def)
  have rt: "new_loader sample_rbpf c rs = rs" "registry_lookup (registry sample_rbpf) = map_of" for c rs
    by (simp_all add: sample_rbpf_def list_registry_def)
  show ?thesis
    using executor_new_represents[OF vec_memory_laws sample_sdk_laws vec_sizes.account_sizes_axioms
        fits alloc(1) alloc(2) alloc(2) laws, of "()"]
    by (auto simp: rt syscall_table_def)
qed

subsection \<open>Updates\<close>

text \<open>
  C4.  What is read back: after a successful \<open>update_account\<close>, \<open>get_account\<close> of the slot returns the
  account's lamports, owner and rent epoch, the flag \<open>is_executable\<close> that was passed, and the data
  padded with zeros to the size of the slot; every other account reads as before.
\<close>

theorem update_then_get_account:
  assumes "aligned_memory_laws M cap" and "sdk_laws S" and "account_sizes A"
    and "represents S M A ex st"
    and "i < length (in_slots st)" and "length (data account) \<le> slot_sizes st ! i"
  shows "\<exists>ex'. update_account S M A i key account is_signer is_writable is_executable ex =
      (Ok (), ex') \<and>
    get_account S M ex' i = Ok \<lparr>lamports = lamports account,
      data = data account @ replicate (slot_sizes st ! i - length (data account)) 0,
      owner = owner account, executable = is_executable, rent_epoch = rent_epoch account\<rparr> \<and>
    (\<forall>j. j \<noteq> i \<longrightarrow> get_account S M ex' j = get_account S M ex j)"
proof -
  from update_account_Ok[OF assms] obtain b where
    upd: "update_account S M A i key account is_signer is_writable is_executable ex =
      (Ok (), ex\<lparr>ex_buffer := b\<rparr>)"
    and rep: "represents S M A (ex\<lparr>ex_buffer := b\<rparr>) (st\<lparr>in_slots := (in_slots st)[i :=
      filled_slot (slot_sizes st ! i) key account is_signer is_writable is_executable]\<rparr>)" .
  note get = get_account_represents[OF assms(2) rep] get_account_represents[OF assms(2,4)]
  show ?thesis
    using upd assms(5) by (intro exI[of _ "ex\<lparr>ex_buffer := b\<rparr>"])
      (simp add: get slot_account_def filled_slot_def)
qed

theorem update_then_get_account_witness:
  "\<exists>ex'. update_account sample_sdk vec_memory vec_account_sizes 0 (pubkey_repeat 6) sample_account
      True False True sample_executor = (Ok (), ex') \<and>
    get_account sample_sdk vec_memory ex' 0 = Ok (sample_account\<lparr>data := [9, 8, 0]\<rparr>) \<and>
    (\<forall>j. j \<noteq> 0 \<longrightarrow> get_account sample_sdk vec_memory ex' j =
      get_account sample_sdk vec_memory sample_executor j)"
  using update_then_get_account[OF vec_memory_laws sample_sdk_laws vec_sizes.account_sizes_axioms
      represents_sample, of 0 sample_account "pubkey_repeat 6" True False True]
  by (simp add: sample_account_def)

text \<open>
  C5.  \<open>update_instruction\<close> refines overwriting the first bytes of the instruction data: it always
  stores the pre-allocated size as the length, and the bytes of the previous instruction beyond the
  new one stay, so a program reads them as part of the new instruction.  An instruction longer
  than the pre-allocated space is refused and changes nothing.
\<close>

theorem update_instruction_refines:
  assumes "aligned_memory_laws M cap" and "represents S M A ex st"
  shows "if length instruction \<le> ex_instruction_size ex
    then \<exists>b. update_instruction M instruction ex = (Ok (), ex\<lparr>ex_buffer := b\<rparr>) \<and>
      represents S M A (ex\<lparr>ex_buffer := b\<rparr>) (st\<lparr>in_instruction :=
        instruction @ drop (length instruction) (in_instruction st)\<rparr>)
    else update_instruction M instruction ex = (Err (ExecutorError InvalidInstruction), ex)"
proof (cases "length instruction \<le> ex_instruction_size ex")
  case True
  from update_instruction_Ok[OF assms True] obtain b where
    "update_instruction M instruction ex = (Ok (), ex\<lparr>ex_buffer := b\<rparr>)"
    "represents S M A (ex\<lparr>ex_buffer := b\<rparr>) (patch_instruction instruction st)" .
  with True show ?thesis
    by (auto simp: patch_instruction_def)
next
  case False
  then show ?thesis
    by (simp add: update_instruction_too_long)
qed

theorem update_instruction_refines_witness:
  "\<exists>b. update_instruction vec_memory [9] sample_executor =
      (Ok (), sample_executor\<lparr>ex_buffer := b\<rparr>) \<and>
    represents sample_sdk vec_memory vec_account_sizes (sample_executor\<lparr>ex_buffer := b\<rparr>)
      (sample_input\<lparr>in_instruction := [9, 2, 3, 4]\<rparr>)"
  using update_instruction_refines[OF vec_memory_laws represents_sample, of "[9]"]
  by (simp add: sample_executor_def executor_of_def)

subsection \<open>Execution\<close>

text \<open>
  C7.  \<open>execute\<close> with a program: the machine is run on the program's read-only region, a zeroed
  stack, a zeroed heap and the buffer as the updates left it, with the return data cleared; it is
  interpreted unless a compiled program exists on a target that can run it.  The result is success
  exactly for the code \<open>SUCCESS\<close>, an instruction error for any other code and a message for an
  error of the machine, and in every case the executor holds the context and buffers of the run.
\<close>

theorem execute_runs_program:
  assumes "aligned_memory_laws M cap" and "vm_laws R" and "ex_executable ex = Some exe"
    and "regions = [RoRegion exe,
        WritableGapped (replicate (am_len M (ex_stack ex)) 0) (MM_STACK_START R) 0,
        Writable (replicate (am_len M (ex_heap ex)) 0) (MM_HEAP_START R),
        Writable (am_slice M (ex_buffer ex)) (MM_INPUT_START R)]"
    and "memory_mapping_new R regions (get_config R exe) exe"
    and "vm_run R (ex_runtime ex) regions (config_stack_size R (get_config R exe)) exe
        (\<not> (jit_target R \<and> has_compiled_program R exe))
        ((ex_context ex)\<lparr>return_data := (pubkey_default, [])\<rparr>) = (res, ctx, stack, heap, input)"
  shows "\<exists>ex'. execute S M R ex =
      (case res of
         Inl e \<Rightarrow> Err (Message e)
       | Inr code \<Rightarrow> if code = ENTRYPOINT_SUCCESS S then Ok ()
           else Err (InstructionFailure (instruction_error_from S code)), ex') \<and>
    ex_context ex' = ctx \<and> am_slice M (ex_stack ex') = stack \<and> am_slice M (ex_heap ex') = heap \<and>
    am_slice M (ex_buffer ex') = input \<and> ex_executable ex' = Some exe"
proof -
  have "regions = run_regions M R exe ex"
    by (simp add: assms(4) run_regions_def vm_regions_def)
  from execute_Some[OF assms(1-3) this assms(5,6)] show ?thesis
    by (simp add: execution_result_def)
qed

theorem execute_runs_program_witness:
  "\<exists>ex'. execute sample_sdk vec_memory sample_rbpf (sample_executor\<lparr>ex_executable := Some [9]\<rparr>) =
      (Err (InstructionFailure (OtherInstructionError 2)), ex') \<and>
    am_slice vec_memory (ex_buffer ex') = input_image sample_sdk sample_input"
proof -
  let ?ex = "sample_executor\<lparr>ex_executable := Some [9 :: u8]\<rparr>"
  have len: "am_len vec_memory (ex_stack sample_executor) = 64"
    "am_len vec_memory (ex_heap sample_executor) = 32"
    by (simp_all add: sample_executor_def executor_of_def vec_memory_def)
  have input: "am_slice vec_memory (ex_buffer sample_executor) = input_image sample_sdk sample_input"
    using represents_sample by (simp add: represents_def)
  have code: "hd (input_image sample_sdk sample_input @ [0]) = 2"
    by (simp add: input_image_def u64_le_def)
  have run: "vm_run sample_rbpf (ex_runtime ?ex)
      [RoRegion [9], WritableGapped (replicate (am_len vec_memory (ex_stack ?ex)) 0) (MM_STACK_START sample_rbpf) 0,
       Writable (replicate (am_len vec_memory (ex_heap ?ex)) 0) (MM_HEAP_START sample_rbpf),
       Writable (am_slice vec_memory (ex_buffer ?ex)) (MM_INPUT_START sample_rbpf)] n [9] b ctx =
      (Inr 2, ctx, replicate 64 0, replicate 32 0, input_image sample_sdk sample_input)" for n b ctx
    using code by (simp add: sample_rbpf_def len input)
  have mm: "memory_mapping_new sample_rbpf rs c e" for rs c e
    by (simp add: sample_rbpf_def)
  show ?thesis
    using execute_runs_program[OF vec_memory_laws sample_vm_laws _ refl mm run, of sample_sdk]
    by (auto simp: len input)
qed

text \<open>
  C8.  Isolation: what a run leaves in the stack, the heap or the return data cannot influence the
  next one.  Two executors that agree on the rest of their state have the same result, context
  and buffer after \<open>execute\<close>.
\<close>

theorem execute_isolated:
  assumes "aligned_memory_laws M cap" and "vm_laws R"
    and "ex_executable ex2 = ex_executable ex1" and "ex_runtime ex2 = ex_runtime ex1"
    and "am_slice M (ex_buffer ex2) = am_slice M (ex_buffer ex1)"
    and "am_len M (ex_stack ex2) = am_len M (ex_stack ex1)"
    and "am_len M (ex_heap ex2) = am_len M (ex_heap ex1)"
    and "ex_context ex2 = (ex_context ex1)\<lparr>return_data := rd\<rparr>" and "ex_executable ex1 \<noteq> None"
  shows "fst (execute S M R ex2) = fst (execute S M R ex1) \<and>
    ex_context (snd (execute S M R ex2)) = ex_context (snd (execute S M R ex1)) \<and>
    am_slice M (ex_buffer (snd (execute S M R ex2))) = am_slice M (ex_buffer (snd (execute S M R ex1)))"
proof -
  obtain exe where exe: "ex_executable ex1 = Some exe" "ex_executable ex2 = Some exe"
    using assms(3,9) by auto
  have regions: "run_regions M R exe ex2 = run_regions M R exe ex1"
    using assms(5-7) by (simp add: run_regions_def)
  show ?thesis
  proof (cases "memory_mapping_new R (run_regions M R exe ex1) (get_config R exe) exe")
    case True
    let ?run = "\<lambda>ex. vm_run R (ex_runtime ex) (run_regions M R exe ex) (config_stack_size R (get_config R exe))
      exe (\<not> (jit_target R \<and> has_compiled_program R exe))
      ((ex_context ex)\<lparr>return_data := (pubkey_default, [])\<rparr>)"
    obtain res ctx stack heap input where run: "?run ex1 = (res, ctx, stack, heap, input)"
      by (cases "?run ex1")
    then have run2: "?run ex2 = (res, ctx, stack, heap, input)"
      using assms(4,8) regions by simp
    from execute_Some[OF assms(1,2) exe(1) refl True run, where S = S]
      execute_Some[OF assms(1,2) exe(2) refl True[folded regions] run2, where S = S]
    show ?thesis
      by fastforce
  next
    case False
    then have "\<not> memory_mapping_new R (run_regions M R exe ex2) (get_config R exe) exe"
      using regions by simp
    from execute_mapping_panics[OF assms(1) exe(2) this, of S]
      execute_mapping_panics[OF assms(1) exe(1) False, of S] assms(5,8)
    show ?thesis
      by simp
  qed
qed

theorem execute_isolated_witness:
  "fst (execute sample_sdk vec_memory sample_rbpf
      (sample_executor\<lparr>ex_executable := Some [9], ex_stack := (64, replicate 64 1)\<rparr>)) =
   fst (execute sample_sdk vec_memory sample_rbpf (sample_executor\<lparr>ex_executable := Some [9]\<rparr>))"
  using execute_isolated[OF vec_memory_laws sample_vm_laws,
      of "sample_executor\<lparr>ex_executable := Some [9], ex_stack := (64, replicate 64 1)\<rparr>"
        "sample_executor\<lparr>ex_executable := Some [9]\<rparr>" "(pubkey_default, [])" sample_sdk]
  by (simp add: sample_executor_def executor_of_def vec_memory_def invoke_context_new_def)

text \<open>
  C10.  A program may change the length of an account's data, to a greater or a smaller one, within the space
  reserved for it, and leave what it likes in the space behind the data; every other byte stays in its place.
  \<open>get_account\<close> then returns the new data, but looks for the rent epoch as far behind the data as new data
  of that length would have it: it returns the eight bytes that stand there, in the space, the rent epoch or
  what follows the account, and panics when they leave the buffer.  It returns the rent epoch of the
  account when the space behind the data is that of the new length, so when the alignment absorbs the change.
\<close>

theorem get_account_resized_rent_epoch:
  assumes "sdk_laws S" and "represents S M A ex st" and "in_slots st = before @ a # others" and "i = length before"
    and "length new_data + length space = length (sl_data a) + reserved S (length (sl_data a))"
    and "am_slice M buf = before_slot S st i @ resized_slot_bytes S a new_data space @ after_slot S st i"
    and "tail = space @ u64_le (sl_rent_epoch a) @ after_slot S st i" and "place = reserved S (length new_data)"
    and "found = \<lparr>lamports = sl_lamports a, data = new_data, owner = sl_owner a, executable = sl_executable a,
      rent_epoch = u64_from_le (bytes_at tail place 8)\<rparr>"
  shows "get_account S M (ex\<lparr>ex_buffer := buf\<rparr>) i = (if place + 8 \<le> length tail then Ok found else Panics) \<and>
    (place = length space \<longrightarrow> place + 8 \<le> length tail \<and> rent_epoch found = sl_rent_epoch a)"
proof
  let ?ex = "ex\<lparr>ex_buffer := buf\<rparr>" and ?p = "before_slot S st i" and ?bs = "am_slice M buf"
  have i: "i < length (in_slots st)" and slot: "in_slots st ! i = a"
    using assms(3,4) by simp_all
  have image: "am_slice M (ex_buffer ex) = ?p @ slot_bytes S a @ after_slot S st i"
    using assms(2) image_at_slot[OF i, of S] slot by (simp add: represents_def)
  have size: "length (resized_slot_bytes S a new_data space) = length (slot_bytes S a)"
    using assms(5) by (simp add: resized_slot_bytes_def slot_size_def length_slot_bytes)
  then have lay: "layout S M A ?ex"
    using layout_buffer[OF represents_layout[OF assms(2)], of buf] by (simp add: assms(6) image)
  have bound: "length ?bs < 2 ^ 64"
    using lay by (simp add: layout_def Let_def)
  have p: "slot_offset S (slot_sizes st) i = length ?p"
    by (simp add: length_before_slot)
  show "get_account S M ?ex i = (if place + 8 \<le> length tail then Ok found else Panics)"
  proof (cases "place + 8 \<le> length tail")
    case True
    have "i < length (ex_account_offsets ?ex)" "ex_account_offsets ?ex ! i = length ?p"
      using assms(2) i by (simp_all add: represents_def length_before_slot)
    then show ?thesis
      using True bound
      by (simp add: get_account_def index_checked_Ok assms(6,9) slot_account_def
          read_account_resized[OF assms(1,7) True[unfolded assms(8)], of ?p] assms(8)[symmetric] del: rbind_eq_Ok)
  next
    case False
    have sizes: "slot_sizes st = sizes_of A (ex_account_sizes ?ex)"
      using assms(2) by (simp add: represents_def)
    have inside: "i < length (slot_sizes st)"
      using i by simp
    have new: "length new_data < 2 ^ 64"
      using bound by (simp add: assms(6) resized_slot_bytes_def)
    have "bytes_at ?bs (length ?p + 80) 8 = u64_le (of_nat (length new_data))"
      by (simp add: assms(6) resized_slot_bytes_def slot_header_def bytes_at_def)
    then have n: "length new_data = unat (u64_from_le (bytes_at ?bs (length ?p + 80) 8))"
      using new by (simp add: unsigned_of_nat take_bit_nat_eq_self)
    have "length ?bs = length ?p + 88 + length new_data + length tail"
      using assms(5) by (simp add: assms(6,7) size length_slot_bytes slot_size_def)
    with False assms(8) have "\<not> length ?p + 88 + length new_data + reserved S (length new_data) + 8 \<le> length ?bs"
      by simp
    with get_account_layout[OF assms(1) lay _ sizes inside p[symmetric] n] False show ?thesis
      by simp
  qed
next
  show "place = length space \<longrightarrow> place + 8 \<le> length tail \<and> rent_epoch found = sl_rent_epoch a"
    by (auto simp: assms(7,9) bytes_at_def)
qed

text \<open>
  An account without data that grew by eight bytes: the length of the instruction is read as its rent epoch.
  And one that lost its three bytes: the bytes that the program left in the space are.
\<close>

theorem get_account_resized_rent_epoch_witness:
  "get_account sample_sdk vec_memory (sample_executor\<lparr>ex_buffer := (0, before_slot sample_sdk sample_input 1 @
      resized_slot_bytes sample_sdk (empty_slot 0) [1, 2, 3, 4, 5, 6, 7, 8] (replicate 10232 0) @
      after_slot sample_sdk sample_input 1)\<rparr>) 1 =
    Ok \<lparr>lamports = 0, data = [1, 2, 3, 4, 5, 6, 7, 8], owner = pubkey_default, executable = False,
       rent_epoch = 4\<rparr> \<and>
   get_account sample_sdk vec_memory (sample_executor\<lparr>ex_buffer := (0, before_slot sample_sdk sample_input 0 @
      resized_slot_bytes sample_sdk (empty_slot 3) [] (replicate 10240 0 @ u64_le 99) @
      after_slot sample_sdk sample_input 0)\<rparr>) 0 =
    Ok \<lparr>lamports = 0, data = [], owner = pubkey_default, executable = False, rent_epoch = 99\<rparr>"
proof -
  have shape: "in_slots sample_input = [empty_slot 3] @ empty_slot 0 # []" "1 = length [empty_slot 3]"
    "in_slots sample_input = [] @ empty_slot 3 # [empty_slot 0]" "0 = length ([] :: slot list)"
    by simp_all
  have empty: "length (sl_data (empty_slot n)) = n" "sl_lamports (empty_slot n) = 0" "sl_rent_epoch (empty_slot n) = 0"
    "sl_owner (empty_slot n) = pubkey_default" "sl_executable (empty_slot n) = False" for n
    by (simp_all add: empty_slot_def)
  have room: "length [1 :: u8, 2, 3, 4, 5, 6, 7, 8] + length (replicate 10232 (0 :: u8)) =
      length (sl_data (empty_slot 0)) + reserved sample_sdk (length (sl_data (empty_slot 0)))"
    "length ([] :: bytes) + length (replicate 10240 0 @ u64_le 99) =
      length (sl_data (empty_slot 3)) + reserved sample_sdk (length (sl_data (empty_slot 3)))"
    by (simp_all add: empty reserved_def padding_def)
  have places: "reserved sample_sdk (length [1 :: u8, 2, 3, 4, 5, 6, 7, 8]) = 10240"
    "reserved sample_sdk (length ([] :: bytes)) = 10240"
    by (simp_all add: reserved_def padding_def)
  have rest: "after_slot sample_sdk sample_input 1 = u64_le 4 @ [1, 2, 3, 4] @ pubkey_bytes (pubkey_repeat 7)"
    by (simp add: after_slot_def)
  have epochs: "bytes_at (replicate 10232 0 @ u64_le 0 @ u64_le 4 @ xs) 10240 8 = u64_le 4"
    "bytes_at ((replicate 10240 0 @ u64_le 99) @ ys) 10240 8 = u64_le 99" for xs ys
    by (simp_all add: bytes_at_def)
  have vals: "u64_from_le (u64_le n) = n"
    "(10240 + 8 \<le> length (replicate 10232 0 @ u64_le 0 @ u64_le 4 @ xs)) = True"
    "(10240 + 8 \<le> length ((replicate 10240 0 @ u64_le 99) @ ys)) = True" for n xs ys
    by simp_all
  note found = get_account_resized_rent_epoch[OF sample_sdk_laws represents_sample _ _ _ _ refl refl refl,
      THEN conjunct1]
  show ?thesis
    by (intro conjI; subst found[OF shape(1,2) room(1)] found[OF shape(3,4) room(2)];
        simp only: places vec_slice empty rest epochs vals if_True simp_thms)
qed

end
