(* ===== verification/Call_Sequences.thy ===== *)
theory Call_Sequences
  imports Prelude
begin

text \<open>
  Sequences of calls on a state: every call is made, whatever the ones before it returned, and the results
  are collected.  A simulation of single calls is a simulation of sequences, and so is an invariant.
\<close>

fun run_calls :: "('c \<Rightarrow> 's \<Rightarrow> 'r \<times> 's) \<Rightarrow> 'c list \<Rightarrow> 's \<Rightarrow> 'r list \<times> 's" where
  "run_calls f [] s = ([], s)"
| "run_calls f (c # cs) s =
     (case f c s of (r, s') \<Rightarrow> case run_calls f cs s' of (rs, s'') \<Rightarrow> (r # rs, s''))"

locale call_simulation =
  fixes concrete :: "'c \<Rightarrow> 's \<Rightarrow> 'r \<times> 's"
    and abstract :: "'c \<Rightarrow> 't \<Rightarrow> 'r \<times> 't"
    and related :: "'s \<Rightarrow> 't \<Rightarrow> bool"
  assumes simulates: "related s t \<Longrightarrow>
    fst (concrete c s) = fst (abstract c t) \<and> related (snd (concrete c s)) (snd (abstract c t))"
begin

lemma simulates_calls:
  "related s t \<Longrightarrow>
   fst (run_calls concrete cs s) = fst (run_calls abstract cs t) \<and>
   related (snd (run_calls concrete cs s)) (snd (run_calls abstract cs t))"
proof (induction cs arbitrary: s t)
  case (Cons c cs)
  obtain r s1 where s1: "concrete c s = (r, s1)"
    by (cases "concrete c s")
  obtain r' t1 where t1: "abstract c t = (r', t1)"
    by (cases "abstract c t")
  from simulates[OF Cons.prems, of c] s1 t1 have "r' = r" "related s1 t1"
    by simp_all
  with Cons.IH[of s1 t1] s1 t1 show ?case
    by (cases "run_calls concrete cs s1"; cases "run_calls abstract cs t1") simp
qed simp

end

end
