(* ===== verification/Executor_Sessions.thy ===== *)
theory Executor_Sessions
  imports Executor_Layout Call_Sequences
begin

text \<open>
  How an \<open>InstructionExecutor\<close> is used: sequences of updates, which are a simulation of the same updates
  on the abstract input; arbitrary uses, in which programs run and may write whatever they like into the
  buffer; and the use after a run, when everything is updated again.
\<close>

subsection \<open>Sequences of updates\<close>

datatype executor_call =
    ProgramCall pubkey account bool
  | InstructionCall bytes
  | AccountCall nat pubkey account bool bool bool

primrec run_call ::
  "sdk \<Rightarrow> 'm aligned_memory \<Rightarrow> ('rt, 'reg, 'exe, 'cfg, ('sv, 'lg) invoke_context) rbpf \<Rightarrow>
   'a account_sizes_impl \<Rightarrow> executor_call \<Rightarrow>
   (('a, 'm, 'rt, 'exe, 'sv, 'lg) instruction_executor, anyhow_error, unit) act" where
  "run_call S M R A (ProgramCall pid account jit) = update_program M R pid account jit"
| "run_call S M R A (InstructionCall instruction) = update_instruction M instruction"
| "run_call S M R A (AccountCall i key account is_signer is_writable is_executable) =
     update_account S M A i key account is_signer is_writable is_executable"

text \<open>The same calls on the abstract input and the program.\<close>

type_synonym 'exe abstract_executor = "input_state \<times> 'exe option"

primrec abstract_call ::
  "('rt, 'reg, 'exe, 'cfg, ('sv, 'lg) invoke_context) rbpf \<Rightarrow> 'rt \<Rightarrow> 'a account_sizes_impl \<Rightarrow> 'a \<Rightarrow>
   executor_call \<Rightarrow> ('exe abstract_executor, anyhow_error, unit) act" where
  "abstract_call R rt A sizes (ProgramCall pid account jit) = (\<lambda>(st, exe).
     case load_executable R rt (data account) jit of
       Ok exe' \<Rightarrow> (Ok (), (st\<lparr>in_program := pid\<rparr>, Some exe'))
     | Err e \<Rightarrow> (Err e, (st, exe))
     | Panics \<Rightarrow> (Panics, (st, exe)))"
| "abstract_call R rt A sizes (InstructionCall instruction) = (\<lambda>(st, exe).
     if length instruction \<le> length (in_instruction st)
     then (Ok (), (patch_instruction instruction st, exe))
     else (Err (ExecutorError InvalidInstruction), (st, exe)))"
| "abstract_call R rt A sizes (AccountCall i key account is_signer is_writable is_executable) = (\<lambda>(st, exe).
     case as_size A sizes i of
       None \<Rightarrow> (Panics, (st, exe))
     | Some n \<Rightarrow>
         if n < length (data account) then (Err (ExecutorError InvalidAccount), (st, exe))
         else if length (in_slots st) \<le> i then (Panics, (st, exe))
         else (Ok (), (st\<lparr>in_slots := (in_slots st)[i :=
           filled_slot n key account is_signer is_writable is_executable]\<rparr>, exe)))"

definition session_related ::
  "sdk \<Rightarrow> 'm aligned_memory \<Rightarrow> ('m \<Rightarrow> nat) \<Rightarrow> 'a account_sizes_impl \<Rightarrow> 'rt \<Rightarrow> 'a \<Rightarrow> nat \<times> nat \<Rightarrow>
   ('a, 'm, 'rt, 'exe, 'sv, 'lg) instruction_executor \<Rightarrow> 'exe abstract_executor \<Rightarrow> bool" where
  "session_related S M cap A rt sizes lens ex ast \<longleftrightarrow>
     aligned_memory_laws M cap \<and> sdk_laws S \<and> account_sizes A \<and>
     represents S M A ex (fst ast) \<and> ex_executable ex = snd ast \<and>
     program_id (ex_context ex) = in_program (fst ast) \<and>
     ex_runtime ex = rt \<and> ex_account_sizes ex = sizes \<and>
     (length (am_slice M (ex_stack ex)), length (am_slice M (ex_heap ex))) = lens"

lemma session_step:
  assumes rel: "session_related S M cap A rt sizes lens ex (st, exe)"
  shows "fst (run_call S M R A c ex) = fst (abstract_call R rt A sizes c (st, exe)) \<and>
    session_related S M cap A rt sizes lens (snd (run_call S M R A c ex))
      (snd (abstract_call R rt A sizes c (st, exe)))"
proof (cases c)
  case (ProgramCall pid account jit)
  have laws: "aligned_memory_laws M cap" and rep: "represents S M A ex st" and rt: "ex_runtime ex = rt"
    using rel by (simp_all add: session_related_def)
  show ?thesis
  proof (cases "load_executable R rt (data account) jit")
    case (Ok exe')
    with rt have "load_executable R (ex_runtime ex) (data account) jit = Ok exe'"
      by simp
    from update_program_Ok[OF laws rep this, of pid] obtain b where
      b: "update_program M R pid account jit ex = (Ok (), ex\<lparr>ex_executable := Some exe',
        ex_context := (ex_context ex)\<lparr>program_id := pid\<rparr>, ex_buffer := b\<rparr>)"
      "represents S M A (ex\<lparr>ex_executable := Some exe', ex_context := (ex_context ex)\<lparr>program_id := pid\<rparr>,
        ex_buffer := b\<rparr>) (st\<lparr>in_program := pid\<rparr>)" .
    show ?thesis
      using rel b by (simp add: session_related_def ProgramCall Ok)
  next
    case (Err e)
    with rel rt ProgramCall show ?thesis
      by (simp add: update_program_fails)
  next
    case Panics
    then show ?thesis
      by (auto simp: load_executable_def split: sum.splits if_splits)
  qed
next
  case (InstructionCall instruction)
  have laws: "aligned_memory_laws M cap" and rep: "represents S M A ex st"
    and len: "length (in_instruction st) = ex_instruction_size ex"
    using rel by (simp_all add: session_related_def represents_def)
  show ?thesis
  proof (cases "length instruction \<le> ex_instruction_size ex")
    case True
    from update_instruction_Ok[OF laws rep True] obtain b where
      b: "update_instruction M instruction ex = (Ok (), ex\<lparr>ex_buffer := b\<rparr>)"
      "represents S M A (ex\<lparr>ex_buffer := b\<rparr>) (patch_instruction instruction st)" .
    show ?thesis
      using rel b True len by (simp add: session_related_def InstructionCall)
        (simp add: patch_instruction_def)
  next
    case False
    with rel len InstructionCall show ?thesis
      by (simp add: update_instruction_too_long)
  qed
next
  case (AccountCall i key account is_signer is_writable is_executable)
  have laws: "aligned_memory_laws M cap" and sdk: "sdk_laws S" and A: "account_sizes A"
    and rep: "represents S M A ex st" and sizes: "ex_account_sizes ex = sizes"
    using rel by (simp_all add: session_related_def)
  show ?thesis
  proof (cases "i < length (in_slots st)")
    case True
    note size = represents_size[OF A rep True]
    show ?thesis
    proof (cases "length (data account) \<le> slot_sizes st ! i")
      case fits: True
      from update_account_Ok[OF laws sdk A rep True fits] obtain b where
        b: "update_account S M A i key account is_signer is_writable is_executable ex =
          (Ok (), ex\<lparr>ex_buffer := b\<rparr>)"
        "represents S M A (ex\<lparr>ex_buffer := b\<rparr>) (st\<lparr>in_slots := (in_slots st)[i :=
          filled_slot (slot_sizes st ! i) key account is_signer is_writable is_executable]\<rparr>)" .
      show ?thesis
        using rel b size sizes True fits by (simp add: session_related_def AccountCall)
    next
      case False
      with rel AccountCall size sizes True show ?thesis
        by (simp add: update_account_too_long)
    qed
  next
    case False
    with rel rep sizes AccountCall show ?thesis
      by (cases "as_size A sizes i")
        (auto simp: update_account_def represents_def index_checked_def)
  qed
qed

interpretation session: call_simulation "run_call S M R A" "abstract_call R rt A sizes"
  "session_related S M cap A rt sizes lens" for S M R A rt sizes cap lens
  by unfold_locales (use session_step in \<open>metis prod.exhaust_sel\<close>)

subsection \<open>Arbitrary uses\<close>

text \<open>
  Everything a caller can do with an executor: any update with any arguments, whatever it returns, a run of
  the program, which may leave any bytes in the buffer, and any change of the context, which
  \<open>context_mut\<close> hands out.
\<close>

inductive executor_step ::
  "sdk \<Rightarrow> 'm aligned_memory \<Rightarrow> ('rt, 'reg, 'exe, 'cfg, ('sv, 'lg) invoke_context) rbpf \<Rightarrow>
   'a account_sizes_impl \<Rightarrow> ('a, 'm, 'rt, 'exe, 'sv, 'lg) instruction_executor \<Rightarrow>
   ('a, 'm, 'rt, 'exe, 'sv, 'lg) instruction_executor \<Rightarrow> bool"
  for S M R A where
  step_call: "executor_step S M R A ex (snd (run_call S M R A c ex))"
| step_execute: "executor_step S M R A ex (snd (execute S M R ex))"
| step_context: "executor_step S M R A ex (ex\<lparr>ex_context := ctx\<rparr>)"

inductive executor_uses ::
  "sdk \<Rightarrow> 'm aligned_memory \<Rightarrow> ('rt, 'reg, 'exe, 'cfg, ('sv, 'lg) invoke_context) rbpf \<Rightarrow>
   'a account_sizes_impl \<Rightarrow> ('a, 'm, 'rt, 'exe, 'sv, 'lg) instruction_executor \<Rightarrow>
   ('a, 'm, 'rt, 'exe, 'sv, 'lg) instruction_executor \<Rightarrow> bool"
  for S M R A where
  uses_refl: "executor_uses S M R A ex ex"
| uses_step: "executor_uses S M R A ex ex' \<Longrightarrow> executor_step S M R A ex' ex'' \<Longrightarrow>
    executor_uses S M R A ex ex''"

inductive_cases executor_stepE: "executor_step S M R A ex ex'"

text \<open>What none of it changes.\<close>

definition executor_shape ::
  "'m aligned_memory \<Rightarrow> ('a, 'm, 'rt, 'exe, 'sv, 'lg) instruction_executor \<Rightarrow>
   'a \<times> nat \<times> 'rt \<times> (nat list \<times> nat \<times> nat) \<times> nat \<times> nat \<times> nat" where
  "executor_shape M ex =
     (ex_account_sizes ex, ex_instruction_size ex, ex_runtime ex,
      (ex_account_offsets ex, ex_instruction_offset ex, ex_program_id_offset ex),
      length (am_slice M (ex_buffer ex)), length (am_slice M (ex_stack ex)), length (am_slice M (ex_heap ex)))"

lemma layout_shape:
  "executor_shape M ex' = executor_shape M ex \<Longrightarrow> layout S M A ex' \<longleftrightarrow> layout S M A ex"
  by (simp add: executor_shape_def layout_def Let_def)

lemma execute_shape:
  assumes laws: "aligned_memory_laws M cap" and vm: "vm_laws R"
  shows "executor_shape M (snd (execute S M R ex)) = executor_shape M ex"
proof (cases "ex_executable ex")
  case None
  then show ?thesis
    using laws by (simp add: execute_None executor_shape_def zero_memory_slice am_laws)
next
  case (Some exe)
  let ?ctx = "(ex_context ex)\<lparr>return_data := (pubkey_default, [])\<rparr>"
  obtain res ctx stack heap input where run: "vm_run R (ex_runtime ex) (run_regions M R exe ex)
      (config_stack_size R (get_config R exe)) exe (\<not> (jit_target R \<and> has_compiled_program R exe)) ?ctx =
      (res, ctx, stack, heap, input)"
    by (metis prod_cases5)
  then have "length stack = am_len M (ex_stack ex)" "length heap = am_len M (ex_heap ex)"
    "length input = length (am_slice M (ex_buffer ex))"
    using vm unfolding vm_laws_def run_regions_def vm_regions_def by (metis length_replicate)+
  then show ?thesis
    using laws Some run[unfolded run_regions_def]
    by (simp add: execute_def Let_def zero_memory_slice am_laws executor_shape_def)
qed

text \<open>Every update on a layout that stands, with its result for all arguments.\<close>

lemma update_account_total:
  assumes laws: "aligned_memory_laws M cap" and sdk: "sdk_laws S" and A: "account_sizes A"
    and lay: "layout S M A ex"
  shows "fst (update_account S M A i key account is_signer is_writable is_executable ex) =
      (case as_size A (ex_account_sizes ex) i of
         None \<Rightarrow> Panics
       | Some n \<Rightarrow> if n < length (data account) then Err (ExecutorError InvalidAccount)
           else if i < as_len A (ex_account_sizes ex) then Ok () else Panics) \<and>
    executor_shape M (snd (update_account S M A i key account is_signer is_writable is_executable ex)) =
      executor_shape M ex"
proof (cases "i < as_len A (ex_account_sizes ex)")
  case i: True
  let ?sizes = "sizes_of A (ex_account_sizes ex)"
  have inside: "i < length ?sizes"
    using i by simp
  note size = layout_size[OF A i]
  show ?thesis
  proof (cases "length (data account) \<le> ?sizes ! i")
    case True
    from update_account_writes[OF laws sdk A lay refl inside True] obtain b where
      b: "update_account S M A i key account is_signer is_writable is_executable ex = (Ok (), ex\<lparr>ex_buffer := b\<rparr>)"
      "am_slice M b = overwrite (am_slice M (ex_buffer ex)) (slot_offset S ?sizes i)
        (slot_bytes S (filled_slot (?sizes ! i) key account is_signer is_writable is_executable))" .
    have "slot_offset S ?sizes i + slot_size S (?sizes ! i) \<le> length (am_slice M (ex_buffer ex))"
      using lay slot_in_image[OF inside] by (simp add: layout_def Let_def)
    with b True i size show ?thesis
      by (simp add: executor_shape_def)
  next
    case False
    with size show ?thesis
      by (simp add: update_account_too_long)
  qed
next
  case False
  then have "index_checked (ex_account_offsets ex) i = (Panics :: (anyhow_error, nat) outcome)"
    using lay by (simp add: layout_def Let_def index_checked_def)
  with False show ?thesis
    by (cases "as_size A (ex_account_sizes ex) i") (simp_all add: update_account_def)
qed

lemma update_instruction_total:
  assumes laws: "aligned_memory_laws M cap" and lay: "layout S M A ex"
  shows "fst (update_instruction M instruction ex) =
      (if length instruction \<le> ex_instruction_size ex then Ok () else Err (ExecutorError InvalidInstruction)) \<and>
    executor_shape M (snd (update_instruction M instruction ex)) = executor_shape M ex"
proof (cases "length instruction \<le> ex_instruction_size ex")
  case True
  from update_instruction_writes[OF laws lay True] obtain b where
    b: "update_instruction M instruction ex = (Ok (), ex\<lparr>ex_buffer := b\<rparr>)"
    "am_slice M b = overwrite (am_slice M (ex_buffer ex)) (ex_instruction_offset ex)
      (u64_le (of_nat (ex_instruction_size ex)) @ instruction)" .
  have "ex_instruction_offset ex + (8 + length instruction) \<le> length (am_slice M (ex_buffer ex))"
    using lay True by (simp add: layout_def Let_def image_size_def)
  with b True show ?thesis
    by (simp add: executor_shape_def)
qed (simp add: update_instruction_too_long)

lemma update_program_total:
  assumes laws: "aligned_memory_laws M cap" and lay: "layout S M A ex"
  shows "fst (update_program M R pid account jit ex) =
      rbind (load_executable R (ex_runtime ex) (data account) jit) (\<lambda>_. Ok ()) \<and>
    executor_shape M (snd (update_program M R pid account jit ex)) = executor_shape M ex"
proof (cases "load_executable R (ex_runtime ex) (data account) jit")
  case (Ok exe)
  from update_program_writes[OF laws lay Ok] obtain b where
    b: "update_program M R pid account jit ex =
      (Ok (), ex\<lparr>ex_executable := Some exe, ex_context := (ex_context ex)\<lparr>program_id := pid\<rparr>, ex_buffer := b\<rparr>)"
    "am_slice M b = overwrite (am_slice M (ex_buffer ex)) (ex_program_id_offset ex) (pubkey_bytes pid)" .
  have "ex_program_id_offset ex + 32 \<le> length (am_slice M (ex_buffer ex))"
    using lay by (simp add: layout_def Let_def image_size_def)
  with b Ok show ?thesis
    by (simp add: executor_shape_def)
next
  case (Err e)
  then show ?thesis
    by (simp add: update_program_fails)
next
  case Panics
  then show ?thesis
    by (simp add: update_program_def)
qed

lemma load_executable_no_panic: "load_executable R rt elf jit \<noteq> Panics"
  by (auto simp: load_executable_def split: sum.split)

lemma run_call_shape:
  assumes laws: "aligned_memory_laws M cap" and sdk: "sdk_laws S" and A: "account_sizes A"
    and lay: "layout S M A ex"
  shows "executor_shape M (snd (run_call S M R A c ex)) = executor_shape M ex"
  using update_account_total[OF assms] update_instruction_total[OF laws lay] update_program_total[OF laws lay, of R]
  by (cases c) simp_all

lemma executor_uses_shape:
  assumes laws: "aligned_memory_laws M cap" and sdk: "sdk_laws S" and A: "account_sizes A" and vm: "vm_laws R"
    and uses: "executor_uses S M R A ex ex'" and lay: "layout S M A ex"
  shows "executor_shape M ex' = executor_shape M ex"
  using uses lay
proof (induction rule: executor_uses.induct)
  case (uses_step ex ex' ex'')
  then have shape: "executor_shape M ex' = executor_shape M ex" and lay': "layout S M A ex'"
    using layout_shape[of M ex' ex S A] by simp_all
  from uses_step.hyps(2) have "executor_shape M ex'' = executor_shape M ex'"
    by (cases rule: executor_step.cases)
      (simp_all add: run_call_shape[OF laws sdk A lay'] execute_shape[OF laws vm], simp add: executor_shape_def)
  with shape show ?case
    by simp
qed simp

lemma new_layout:
  assumes "aligned_memory_laws M cap" "sdk_laws S" "account_sizes A" "executor_new S M R sv A isz sizes = Ok ex"
  shows "layout S M A ex"
  by (rule represents_layout[OF executor_new_Ok(1)[OF assms]])

subsection \<open>Everything updated again\<close>

text \<open>The accounts, one after the other, from slot \<open>i\<close> on; none is marked as executable.\<close>

fun update_accounts ::
  "sdk \<Rightarrow> 'm aligned_memory \<Rightarrow> 'a account_sizes_impl \<Rightarrow> nat \<Rightarrow> (account_meta \<times> account) list \<Rightarrow>
   (('a, 'm, 'rt, 'exe, 'sv, 'lg) instruction_executor, anyhow_error, unit) act" where
  "update_accounts S M A i [] = act_return ()"
| "update_accounts S M A i ((meta, account) # rest) =
     act_bind (update_account S M A i (meta_pubkey meta) account (meta_is_signer meta) (meta_is_writable meta) False)
       (\<lambda>_. update_accounts S M A (Suc i) rest)"

definition filled_slots :: "nat list \<Rightarrow> (account_meta \<times> account) list \<Rightarrow> slot list" where
  "filled_slots sizes accounts =
     map (\<lambda>(n, meta, account). filled_slot n (meta_pubkey meta) account (meta_is_signer meta)
       (meta_is_writable meta) False) (zip sizes accounts)"

abbreviation fitting :: "nat list \<Rightarrow> (account_meta \<times> account) list \<Rightarrow> bool" where
  "fitting sizes accounts \<equiv> list_all2 (\<lambda>n (meta, account). length (data account) \<le> n) sizes accounts"

lemma filled_slots_sizes:
  "fitting sizes accounts \<Longrightarrow> map (\<lambda>a. length (sl_data a)) (filled_slots sizes accounts) = sizes"
  by (induction sizes accounts rule: list_all2_induct) (auto simp: filled_slots_def)

lemma filled_slots_bytes:
  "fitting sizes accounts \<Longrightarrow>
   length (concat (map (slot_bytes S) (filled_slots sizes accounts))) = sum_list (map (slot_size S) sizes)"
  by (induction sizes accounts rule: list_all2_induct) (auto simp: filled_slots_def)

lemma overwrite_adjacent:
  assumes "length xs = n" "p + n \<le> length zs"
  shows "take (p + n) (overwrite zs p xs) = take p zs @ xs"
    and "p + n \<le> q \<Longrightarrow> drop q (overwrite zs p xs) = drop q zs"
  using assms by (simp_all add: overwrite_def min_def)

lemma update_accounts_writes:
  assumes laws: "aligned_memory_laws M cap" and sdk: "sdk_laws S" and A: "account_sizes A"
  shows "layout S M A ex \<Longrightarrow> sizes = sizes_of A (ex_account_sizes ex) \<Longrightarrow> fitting (drop i sizes) accounts \<Longrightarrow>
    i \<le> length sizes \<Longrightarrow>
    \<exists>b. update_accounts S M A i accounts ex = (Ok (), ex\<lparr>ex_buffer := b\<rparr>) \<and>
      am_slice M b = take (slot_offset S sizes i) (am_slice M (ex_buffer ex)) @
        concat (map (slot_bytes S) (filled_slots (drop i sizes) accounts)) @
        drop (slot_offset S sizes (length sizes)) (am_slice M (ex_buffer ex))"
proof (induction accounts arbitrary: i ex)
  case Nil
  then show ?case
    by (auto simp: filled_slots_def intro!: exI[of _ "ex_buffer ex"])
next
  case (Cons ma accounts)
  obtain meta account where ma: "ma = (meta, account)"
    by (cases ma)
  have i: "i < length sizes"
    using Cons.prems(3) by (cases "i < length sizes") auto
  then have dropi: "drop i sizes = sizes ! i # drop (Suc i) sizes"
    by (simp add: Cons_nth_drop_Suc)
  then have fits: "length (data account) \<le> sizes ! i" and rest: "fitting (drop (Suc i) sizes) accounts"
    using Cons.prems(3) ma by auto
  let ?slice = "am_slice M (ex_buffer ex)" and ?o = "slot_offset S sizes"
  let ?a = "filled_slot (sizes ! i) (meta_pubkey meta) account (meta_is_signer meta) (meta_is_writable meta) False"
  have room: "?o i + slot_size S (sizes ! i) \<le> length ?slice"
    using slot_in_image[OF i] Cons.prems(1,2) by (simp add: layout_def Let_def)
  from update_account_writes[OF laws sdk A Cons.prems(1,2) i fits] obtain b where
    b: "update_account S M A i (meta_pubkey meta) account (meta_is_signer meta) (meta_is_writable meta) False ex =
      (Ok (), ex\<lparr>ex_buffer := b\<rparr>)" "am_slice M b = overwrite ?slice (?o i) (slot_bytes S ?a)" .
  let ?ex = "ex\<lparr>ex_buffer := b\<rparr>"
  have "layout S M A ?ex"
    using room fits b(2) by (intro layout_buffer[OF Cons.prems(1)]) simp
  from Cons.IH[OF this _ rest] i Cons.prems(2) obtain c where
    c: "update_accounts S M A (Suc i) accounts ?ex = (Ok (), ?ex\<lparr>ex_buffer := c\<rparr>)"
    "am_slice M c = take (?o (Suc i)) (am_slice M b) @
      concat (map (slot_bytes S) (filled_slots (drop (Suc i) sizes) accounts)) @
      drop (?o (length sizes)) (am_slice M b)"
    by auto
  have "take (?o (Suc i)) (am_slice M b) = take (?o i) ?slice @ slot_bytes S ?a"
    "drop (?o (length sizes)) (am_slice M b) = drop (?o (length sizes)) ?slice"
    using overwrite_adjacent[of "slot_bytes S ?a" "slot_size S (sizes ! i)" "?o i" ?slice] room fits
      slot_offset_mono[of "Suc i" "length sizes" S sizes] i
    by (simp_all add: b(2) slot_offset_Suc)
  with c b(1) show ?case
    by (intro exI[of _ c]) (simp add: ma dropi filled_slots_def)
qed

text \<open>The updates before a run, in the order in which the drivers of the repository make them.\<close>

definition prepare ::
  "sdk \<Rightarrow> 'm aligned_memory \<Rightarrow> ('rt, 'reg, 'exe, 'cfg, ('sv, 'lg) invoke_context) rbpf \<Rightarrow>
   'a account_sizes_impl \<Rightarrow> pubkey \<Rightarrow> account \<Rightarrow> bool \<Rightarrow> bytes \<Rightarrow> (account_meta \<times> account) list \<Rightarrow>
   (('a, 'm, 'rt, 'exe, 'sv, 'lg) instruction_executor, anyhow_error, unit) act" where
  "prepare S M R A pid program_data jit ix_data accounts =
     act_bind (update_program M R pid program_data jit) (\<lambda>_.
     act_bind (update_instruction M ix_data) (\<lambda>_.
     update_accounts S M A 0 accounts))"

lemma prepare_writes:
  assumes laws: "aligned_memory_laws M cap" and sdk: "sdk_laws S" and A: "account_sizes A"
    and lay: "layout S M A ex" and sizes: "sizes = sizes_of A (ex_account_sizes ex)"
    and load: "load_executable R (ex_runtime ex) (data program_data) jit = Ok exe"
    and ix: "length ix_data \<le> ex_instruction_size ex" and fits: "fitting sizes accounts"
    and st: "st = \<lparr>in_slots = filled_slots sizes accounts, in_instruction = ix_data @
      bytes_at (am_slice M (ex_buffer ex)) (ex_instruction_offset ex + 8 + length ix_data)
        (ex_instruction_size ex - length ix_data), in_program = pid\<rparr>"
  obtains b where
    "prepare S M R A pid program_data jit ix_data accounts ex = (Ok (), ex\<lparr>ex_executable := Some exe,
      ex_context := (ex_context ex)\<lparr>program_id := pid\<rparr>, ex_buffer := b\<rparr>)"
    "am_slice M b = take 8 (am_slice M (ex_buffer ex)) @ drop 8 (input_image S st)"
proof -
  let ?old = "am_slice M (ex_buffer ex)" and ?n = "slot_offset S sizes (length sizes)"
  let ?isz = "ex_instruction_size ex"
  let ?len = "u64_le (of_nat ?isz)" and ?k = "length ix_data"
  let ?stale = "bytes_at ?old (?n + 8 + ?k) (?isz - ?k)"
  have offs: "ex_instruction_offset ex = ?n" "ex_program_id_offset ex = ?n + 8 + ?isz"
    "length ?old = ?n + 8 + ?isz + 32"
    using lay by (simp_all add: layout_def Let_def sizes image_size_def)
  from update_program_writes[OF laws lay load] obtain b1 where
    b1: "update_program M R pid program_data jit ex = (Ok (), ex\<lparr>ex_executable := Some exe,
      ex_context := (ex_context ex)\<lparr>program_id := pid\<rparr>, ex_buffer := b1\<rparr>)"
    "am_slice M b1 = overwrite ?old (?n + 8 + ?isz) (pubkey_bytes pid)"
    unfolding offs .
  let ?ex1 = "ex\<lparr>ex_executable := Some exe, ex_context := (ex_context ex)\<lparr>program_id := pid\<rparr>, ex_buffer := b1\<rparr>"
  have slice1: "am_slice M b1 = take (?n + 8 + ?isz) ?old @ pubkey_bytes pid"
    by (simp add: b1(2) overwrite_def offs)
  have lay1: "layout S M A ?ex1"
    using lay by (simp add: layout_def Let_def slice1 offs)
  have "?k \<le> ex_instruction_size ?ex1"
    using ix by simp
  from update_instruction_writes[OF laws lay1 this] obtain b2 where
    b2: "update_instruction M ix_data ?ex1 = (Ok (), ?ex1\<lparr>ex_buffer := b2\<rparr>)"
    "am_slice M b2 = overwrite (am_slice M b1) ?n (?len @ ix_data)"
    using offs(1) by auto
  have slice2: "am_slice M b2 = take ?n ?old @ ?len @ ix_data @ ?stale @ pubkey_bytes pid"
    using ix by (simp add: b2(2) slice1 overwrite_def offs min_def bytes_at_def drop_take add.assoc)
  let ?ex2 = "?ex1\<lparr>ex_buffer := b2\<rparr>"
  have lay2: "layout S M A ?ex2"
    using lay ix by (simp add: layout_def Let_def slice2 offs)
  from update_accounts_writes[OF laws sdk A lay2, of sizes 0 accounts] fits obtain b3 where
    b3: "update_accounts S M A 0 accounts ?ex2 = (Ok (), ?ex2\<lparr>ex_buffer := b3\<rparr>)"
    "am_slice M b3 = take 8 (am_slice M b2) @ concat (map (slot_bytes S) (filled_slots sizes accounts)) @
      drop ?n (am_slice M b2)"
    by (auto simp: sizes slot_offset_def)
  have "8 \<le> ?n"
    by (simp add: slot_offset_def)
  then have "am_slice M b3 = take 8 ?old @ drop 8 (input_image S st)"
    using ix by (simp add: b3(2) slice2 st input_image_def offs)
  moreover have "prepare S M R A pid program_data jit ix_data accounts ex = (Ok (), ?ex1\<lparr>ex_buffer := b3\<rparr>)"
    using b1(1) b2(1) b3(1) by (simp add: prepare_def)
  ultimately show ?thesis
    by (intro that[of b3]) simp_all
qed

text \<open>On an executor that represents an input, a shorter instruction leaves the rest of the old one.\<close>

lemma prepare_start:
  assumes laws: "aligned_memory_laws M cap" and rep: "represents S M A ex st0"
    and load: "load_executable R (ex_runtime ex) (data program_data) jit = Ok exe"
    and ix: "length ix_bytes \<le> ex_instruction_size ex"
  obtains b where
    "prepare S M R A pid program_data jit ix_bytes accounts ex = update_accounts S M A 0 accounts
      (ex\<lparr>ex_executable := Some exe, ex_context := (ex_context ex)\<lparr>program_id := pid\<rparr>, ex_buffer := b\<rparr>)"
    "represents S M A (ex\<lparr>ex_executable := Some exe, ex_context := (ex_context ex)\<lparr>program_id := pid\<rparr>,
      ex_buffer := b\<rparr>) (patch_instruction ix_bytes (st0\<lparr>in_program := pid\<rparr>))"
proof -
  let ?ex = "\<lambda>b. ex\<lparr>ex_executable := Some exe, ex_context := (ex_context ex)\<lparr>program_id := pid\<rparr>, ex_buffer := b\<rparr>"
  from update_program_Ok[OF laws rep load, of pid] obtain b1 where
    b1: "update_program M R pid program_data jit ex = (Ok (), ?ex b1)"
      "represents S M A (?ex b1) (st0\<lparr>in_program := pid\<rparr>)" .
  have "length ix_bytes \<le> ex_instruction_size (?ex b1)"
    using ix by simp
  from update_instruction_Ok[OF laws b1(2) this] obtain b2 where
    "update_instruction M ix_bytes (?ex b1) = (Ok (), ?ex b2)"
    "represents S M A (?ex b2) (patch_instruction ix_bytes (st0\<lparr>in_program := pid\<rparr>))"
    by auto
  with b1(1) show ?thesis
    by (intro that[of b2]) (simp_all add: prepare_def)
qed

lemma prepare_represents:
  assumes laws: "aligned_memory_laws M cap" and sdk: "sdk_laws S" and A: "account_sizes A"
    and rep: "represents S M A ex st0" and sizes: "sizes = sizes_of A (ex_account_sizes ex)"
    and load: "load_executable R (ex_runtime ex) (data program_data) jit = Ok exe"
    and ix: "length ix_bytes \<le> ex_instruction_size ex" and fits: "fitting sizes accounts"
    and st: "st = \<lparr>in_slots = filled_slots sizes accounts,
      in_instruction = ix_bytes @ drop (length ix_bytes) (in_instruction st0), in_program = pid\<rparr>"
  shows "\<exists>b. prepare S M R A pid program_data jit ix_bytes accounts ex = (Ok (), ex\<lparr>ex_executable := Some exe,
      ex_context := (ex_context ex)\<lparr>program_id := pid\<rparr>, ex_buffer := b\<rparr>) \<and>
    represents S M A (ex\<lparr>ex_executable := Some exe, ex_context := (ex_context ex)\<lparr>program_id := pid\<rparr>,
      ex_buffer := b\<rparr>) st"
proof -
  let ?ex = "\<lambda>b. ex\<lparr>ex_executable := Some exe, ex_context := (ex_context ex)\<lparr>program_id := pid\<rparr>, ex_buffer := b\<rparr>"
  from prepare_start[OF laws rep load ix, of pid accounts] obtain b2 where
    b2: "prepare S M R A pid program_data jit ix_bytes accounts ex = update_accounts S M A 0 accounts (?ex b2)"
      "represents S M A (?ex b2) (patch_instruction ix_bytes (st0\<lparr>in_program := pid\<rparr>))" .
  let ?st2 = "patch_instruction ix_bytes (st0\<lparr>in_program := pid\<rparr>)"
  from update_accounts_writes[OF laws sdk A represents_layout[OF b2(2)], of sizes 0 accounts] fits sizes
  obtain b where b: "update_accounts S M A 0 accounts (?ex b2) = (Ok (), ?ex b)"
      "am_slice M b = take 8 (am_slice M b2) @ concat (map (slot_bytes S) (filled_slots sizes accounts)) @
        drop (slot_offset S sizes (length sizes)) (am_slice M b2)"
    by (auto simp: slot_offset_def)
  have slots: "slot_sizes st = sizes" "length (in_slots st) = length sizes"
    using filled_slots_sizes[OF fits] by (auto simp: st dest: arg_cong[of _ _ length])
  have old: "slot_sizes ?st2 = sizes" "length (in_slots ?st2) = length sizes"
      "am_slice M b2 = input_image S ?st2"
    using b2(2) sizes by (auto simp: represents_def dest: arg_cong[of _ _ length])
  have "drop (slot_offset S sizes (length sizes)) (am_slice M b2) =
      u64_le (of_nat (length (in_instruction ?st2))) @ in_instruction ?st2 @ pubkey_bytes (in_program ?st2)"
    unfolding old(3) image_at_instruction using old(1,2) by (simp add: length_before_instruction)
  moreover have "take 8 (am_slice M b2) = u64_le (of_nat (length (in_slots st)))"
    unfolding old(3) using old(2) slots by (simp add: input_image_def)
  ultimately have image: "am_slice M b = input_image S st"
    by (simp add: b(2) input_image_def st patch_instruction_def)
  have len: "length (in_instruction st) = ex_instruction_size ex"
    using b2(2) by (simp add: represents_def st patch_instruction_def)
  have "length (input_image S st) = length (am_slice M b2)"
    using old(1) slots(1) b2(2) len by (simp add: old(3) length_input_image represents_def)
  then have "layout S M A (?ex b)"
    using layout_buffer[OF represents_layout[OF b2(2)], of b] by (simp add: image)
  then have "represents S M A (?ex b) st"
    using image slots len sizes by (simp add: represents_iff)
  then show ?thesis
    using b2(1) b(1) by auto
qed

end
