(* ===== verification/Entrypoint.thy ===== *)
theory Entrypoint
  imports Executor_Layout "HOL-Library.Monad_Syntax"
begin

text \<open>
  The format of a program's input from the side of its reader: a parser for the documented layout of the
  entrypoint's parameters, for accounts that are given once.  It is written from the layout, not from the
  serializer, and reads back every serialized input.
\<close>

definition split_off :: "nat \<Rightarrow> bytes \<Rightarrow> (bytes \<times> bytes) option" where
  "split_off n bs = (if n \<le> length bs then Some (take n bs, drop n bs) else None)"

definition read_u64 :: "bytes \<Rightarrow> (u64 \<times> bytes) option" where
  "read_u64 bs = map_option (\<lambda>(v, rest). (u64_from_le v, rest)) (split_off 8 bs)"

definition parse_slot :: "sdk \<Rightarrow> bytes \<Rightarrow> (slot \<times> bytes) option" where
  "parse_slot S bs = do {
     (flags, bs) \<leftarrow> split_off 8 bs;
     if flags ! 0 \<noteq> NON_DUP_MARKER S then None else do {
     (key, bs) \<leftarrow> split_off 32 bs;
     (own, bs) \<leftarrow> split_off 32 bs;
     (balance, bs) \<leftarrow> read_u64 bs;
     (len, bs) \<leftarrow> read_u64 bs;
     (content, bs) \<leftarrow> split_off (unat len) bs;
     (_, bs) \<leftarrow> split_off (reserved S (unat len)) bs;
     (epoch, bs) \<leftarrow> read_u64 bs;
     Some (\<lparr>sl_signer = flags ! 1 \<noteq> 0, sl_writable = flags ! 2 \<noteq> 0, sl_executable = flags ! 3 \<noteq> 0,
       sl_key = Pubkey key, sl_owner = Pubkey own, sl_lamports = balance, sl_data = content,
       sl_rent_epoch = epoch\<rparr>, bs) } }"

primrec parse_slots :: "sdk \<Rightarrow> nat \<Rightarrow> bytes \<Rightarrow> (slot list \<times> bytes) option" where
  "parse_slots S 0 bs = Some ([], bs)"
| "parse_slots S (Suc n) bs = do {
     (a, bs) \<leftarrow> parse_slot S bs;
     (as, bs) \<leftarrow> parse_slots S n bs;
     Some (a # as, bs) }"

definition parse_input :: "sdk \<Rightarrow> bytes \<Rightarrow> input_state option" where
  "parse_input S bs = do {
     (count, bs) \<leftarrow> read_u64 bs;
     (slots, bs) \<leftarrow> parse_slots S (unat count) bs;
     (len, bs) \<leftarrow> read_u64 bs;
     (instruction, bs) \<leftarrow> split_off (unat len) bs;
     (pid, bs) \<leftarrow> split_off 32 bs;
     if bs = [] then Some \<lparr>in_slots = slots, in_instruction = instruction, in_program = Pubkey pid\<rparr> else None }"

lemma split_off_append [simp]: "n = length xs \<Longrightarrow> split_off n (xs @ ys) = Some (xs, ys)"
  by (simp add: split_off_def)

lemma read_u64_append [simp]: "read_u64 (u64_le x @ ys) = Some (x, ys)"
  by (simp add: read_u64_def)

lemma unat_of_length [simp]: "n < 2 ^ 64 \<Longrightarrow> unat (of_nat n :: u64) = n"
  by (simp add: unsigned_of_nat take_bit_nat_eq_self)

lemma parse_slot_bytes:
  assumes "length (sl_data a) < 2 ^ 64"
  shows "parse_slot S (slot_bytes S a @ rest) = Some (a, rest)"
proof -
  let ?flags = "[NON_DUP_MARKER S, of_bool (sl_signer a), of_bool (sl_writable a), of_bool (sl_executable a), 0, 0, 0, 0]"
  have bytes: "slot_bytes S a @ rest = ?flags @ pubkey_bytes (sl_key a) @ pubkey_bytes (sl_owner a) @
      u64_le (sl_lamports a) @ u64_le (of_nat (length (sl_data a))) @ sl_data a @
      replicate (reserved S (length (sl_data a))) 0 @ u64_le (sl_rent_epoch a) @ rest"
    by (simp add: slot_bytes_def slot_header_def)
  have flags: "split_off 8 (?flags @ ys) = Some (?flags, ys)" for ys
    by (rule split_off_append) simp
  show ?thesis
    unfolding bytes parse_slot_def flags using assms by (simp del: append_Cons append_assoc)
qed

lemma parse_slots_bytes:
  assumes "\<forall>a \<in> set as. length (sl_data a) < 2 ^ 64"
  shows "parse_slots S (length as) (concat (map (slot_bytes S) as) @ rest) = Some (as, rest)"
  using assms by (induction as) (simp_all add: parse_slot_bytes)

text \<open>Nothing of a serialized input is longer than the whole.\<close>

lemma image_parts:
  assumes "length (input_image S st) < 2 ^ 64"
  shows "length (in_slots st) < 2 ^ 64" "length (in_instruction st) < 2 ^ 64"
    "\<forall>a \<in> set (in_slots st). length (sl_data a) < 2 ^ 64"
proof -
  have "length as \<le> sum_list (map (\<lambda>a. slot_size S (length (sl_data a))) as)" for as
    by (induction as) (auto simp: slot_size_def)
  from this[of "in_slots st"] assms
  show "length (in_slots st) < 2 ^ 64" "length (in_instruction st) < 2 ^ 64"
    by (simp_all add: input_image_def comp_def)
  have "length (sl_data a) \<le> sum_list (map (\<lambda>a. slot_size S (length (sl_data a))) (in_slots st))"
    if "a \<in> set (in_slots st)" for a
    using member_le_sum_list[of "slot_size S (length (sl_data a))" "map (\<lambda>a. slot_size S (length (sl_data a))) (in_slots st)"] that
    by (auto simp: slot_size_def)
  moreover have "sum_list (map (\<lambda>a. slot_size S (length (sl_data a))) (in_slots st)) < 2 ^ 64"
    using assms by (simp add: input_image_def comp_def)
  ultimately show "\<forall>a \<in> set (in_slots st). length (sl_data a) < 2 ^ 64"
    by (meson le_less_trans)
qed

lemma parse_input_image:
  assumes "length (input_image S st) < 2 ^ 64"
  shows "parse_input S (input_image S st) = Some st"
proof -
  have pid: "split_off 32 (pubkey_bytes k) = Some (pubkey_bytes k, [])" for k
    using split_off_append[of 32 "pubkey_bytes k" "[]"] by simp
  show ?thesis
    using image_parts[OF assms]
    by (simp add: parse_input_def input_image_def parse_slots_bytes pid)
qed

end
