(* ===== verification/Session_Properties.thy ===== *)
theory Session_Properties
  imports Samples Executor_Sessions Entrypoint
begin

text \<open>
  The properties of the instruction executor as it is used: sequences of updates from \<open>new\<close> on, arbitrary
  uses with runs of programs in between, and the use of an executor again after a run.
\<close>

text \<open>A session on a new executor is simulated by the same calls on the empty input.\<close>

lemma session_from_new:
  assumes "aligned_memory_laws M cap" and "sdk_laws S" and "account_sizes A"
    and "executor_new S M R sv A isz sizes = Ok ex0"
    and "run_calls (run_call S M R A) calls ex0 = (results, ex)"
  obtains st exe where "run_calls (abstract_call R (ex_runtime ex0) A sizes) calls
      (initial_input (sizes_of A sizes) isz, None) = (results, (st, exe))"
    "session_related S M cap A (ex_runtime ex0) sizes
      (config_stack_size R (executor_config R), HEAP_LENGTH S) ex (st, exe)"
proof -
  note new = executor_new_Ok[OF assms(1-4)]
  let ?init = "(initial_input (sizes_of A sizes) isz, None)"
  let ?lens = "(config_stack_size R (executor_config R), HEAP_LENGTH S)"
  have "session_related S M cap A (ex_runtime ex0) sizes ?lens ex0 ?init"
    using new assms(1-3)
    by (simp add: session_related_def initial_input_def invoke_context_new_def)
  from session.simulates_calls[OF this, of R calls] assms(5) show ?thesis
    by (cases "run_calls (abstract_call R (ex_runtime ex0) A sizes) calls ?init") (auto intro: that)
qed

text \<open>
  C2.  A session: whatever updates are made on a new executor, in whatever order, with whatever arguments
  and with whatever errors in between, every single one returns what the same update of the abstract
  input returns, and the executor then holds the abstract input and program.  When it is executed,
  whatever stack and heap are left from earlier, the result is that of the machine on exactly the image
  of the abstract input, a zeroed stack and a zeroed heap.
\<close>

theorem session_refines:
  assumes "aligned_memory_laws M cap" and "sdk_laws S" and "account_sizes A"
    and "executor_new S M R sv A isz sizes = Ok ex0"
    and "run_calls (run_call S M R A) calls ex0 = (results, ex)"
  shows "\<exists>st exe. run_calls (abstract_call R (ex_runtime ex0) A sizes) calls
      (initial_input (sizes_of A sizes) isz, None) = (results, (st, exe)) \<and>
    represents S M A ex st \<and> ex_executable ex = exe \<and> program_id (ex_context ex) = in_program st \<and>
    (\<forall>stack heap. length (am_slice M stack) = config_stack_size R (executor_config R) \<longrightarrow>
      length (am_slice M heap) = HEAP_LENGTH S \<longrightarrow>
      fst (execute S M R (ex\<lparr>ex_stack := stack, ex_heap := heap\<rparr>)) = (case exe of
        None \<Rightarrow> Err (ExecutorError MissingProgram)
      | Some e \<Rightarrow>
          let regions = [RoRegion e,
            WritableGapped (replicate (config_stack_size R (executor_config R)) 0) (MM_STACK_START R) 0,
            Writable (replicate (HEAP_LENGTH S) 0) (MM_HEAP_START R),
            Writable (input_image S st) (MM_INPUT_START R)] in
          if memory_mapping_new R regions (get_config R e) e
          then execution_result S (fst (vm_run R (ex_runtime ex0) regions
            (config_stack_size R (get_config R e)) e (\<not> (jit_target R \<and> has_compiled_program R e))
            ((ex_context ex)\<lparr>return_data := (pubkey_default, [])\<rparr>)))
          else Panics))"
proof -
  from session_from_new[OF assms] obtain st exe where run: "run_calls (abstract_call R (ex_runtime ex0) A sizes) calls
      (initial_input (sizes_of A sizes) isz, None) = (results, (st, exe))"
    and rel: "session_related S M cap A (ex_runtime ex0) sizes
      (config_stack_size R (executor_config R), HEAP_LENGTH S) ex (st, exe)" .
  have buffer: "am_slice M (ex_buffer ex) = input_image S st" and rt: "ex_runtime ex = ex_runtime ex0"
    and exe: "ex_executable ex = exe"
    using rel by (simp_all add: session_related_def represents_def)
  show ?thesis
  proof (intro exI conjI allI impI)
    fix stack heap
    assume lens: "length (am_slice M stack) = config_stack_size R (executor_config R)"
      "length (am_slice M heap) = HEAP_LENGTH S"
    let ?ex = "ex\<lparr>ex_stack := stack, ex_heap := heap\<rparr>"
    show "fst (execute S M R ?ex) = (case exe of
        None \<Rightarrow> Err (ExecutorError MissingProgram)
      | Some e \<Rightarrow>
          let regions = [RoRegion e,
            WritableGapped (replicate (config_stack_size R (executor_config R)) 0) (MM_STACK_START R) 0,
            Writable (replicate (HEAP_LENGTH S) 0) (MM_HEAP_START R),
            Writable (input_image S st) (MM_INPUT_START R)] in
          if memory_mapping_new R regions (get_config R e) e
          then execution_result S (fst (vm_run R (ex_runtime ex0) regions
            (config_stack_size R (get_config R e)) e (\<not> (jit_target R \<and> has_compiled_program R e))
            ((ex_context ex)\<lparr>return_data := (pubkey_default, [])\<rparr>)))
          else Panics)"
      using lens exe
      by (cases exe) (simp_all add: execute_def Let_def zero_memory_slice[OF assms(1)] am_len[OF assms(1)]
          vm_regions_def buffer rt split: prod.split)
  qed (use run rel in \<open>simp_all add: session_related_def\<close>)
qed

lemma sample_new:
  obtains ex0 where
    "executor_new sample_sdk vec_memory sample_rbpf () vec_account_sizes 4 [3, 0] = Ok ex0"
proof (rule sample_new_fits[OF vec_sizes.account_sizes_axioms])
  show "image_size sample_sdk (sizes_of vec_account_sizes [3, 0]) 4 < 2 ^ 64"
    by (simp add: image_size_def slot_offset_def slot_size_def reserved_def padding_def)
qed

theorem session_refines_witness:
  "\<exists>ex0 ex st. executor_new sample_sdk vec_memory sample_rbpf () vec_account_sizes 4 [3, 0] = Ok ex0 \<and>
    run_calls (run_call sample_sdk vec_memory sample_rbpf vec_account_sizes)
      [InstructionCall [1, 2, 3, 4, 5], InstructionCall [9], ProgramCall (pubkey_repeat 3) sample_account False] ex0 =
      ([Err (ExecutorError InvalidInstruction), Ok (), Ok ()], ex) \<and>
    represents sample_sdk vec_memory vec_account_sizes ex st \<and>
    in_instruction st = [9, 0, 0, 0] \<and> in_program st = pubkey_repeat 3 \<and> ex_executable ex = Some [9, 8]"
proof -
  obtain ex0 where new: "executor_new sample_sdk vec_memory sample_rbpf () vec_account_sizes 4 [3, 0] = Ok ex0"
    by (rule sample_new)
  let ?calls = "[InstructionCall [1, 2, 3, 4, 5], InstructionCall [9],
    ProgramCall (pubkey_repeat 3) sample_account False]"
  obtain results ex where run: "run_calls (run_call sample_sdk vec_memory sample_rbpf vec_account_sizes)
      ?calls ex0 = (results, ex)"
    by (cases "run_calls (run_call sample_sdk vec_memory sample_rbpf vec_account_sizes) ?calls ex0")
  have four: "replicate 4 (0 :: u8) = [0, 0, 0, 0]"
    by (simp add: numeral_eq_Suc)
  show ?thesis
    using session_refines[OF vec_memory_laws sample_sdk_laws vec_sizes.account_sizes_axioms new run] new run
    by (auto simp: initial_input_def patch_instruction_def load_executable_def sample_rbpf_def sample_account_def four)
qed

text \<open>
  C3.  What a program reads: after any sequence of updates, a parser of the entrypoint's format that is given
  the buffer reads exactly the abstract input that the calls describe, with every account, the instruction
  and the program id, and nothing is left over.
\<close>

theorem session_parsed:
  assumes "aligned_memory_laws M cap" and "sdk_laws S" and "account_sizes A"
    and "executor_new S M R sv A isz sizes = Ok ex0"
    and "run_calls (run_call S M R A) calls ex0 = (results, ex)"
  shows "\<exists>st exe. run_calls (abstract_call R (ex_runtime ex0) A sizes) calls
      (initial_input (sizes_of A sizes) isz, None) = (results, (st, exe)) \<and>
    parse_input S (am_slice M (ex_buffer ex)) = Some st"
proof -
  from session_from_new[OF assms] obtain st exe where run: "run_calls (abstract_call R (ex_runtime ex0) A sizes) calls
      (initial_input (sizes_of A sizes) isz, None) = (results, (st, exe))"
    and rel: "session_related S M cap A (ex_runtime ex0) sizes
      (config_stack_size R (executor_config R), HEAP_LENGTH S) ex (st, exe)" .
  then have "am_slice M (ex_buffer ex) = input_image S st" "length (input_image S st) < 2 ^ 64"
    by (simp_all add: session_related_def represents_def)
  with run show ?thesis
    using parse_input_image by metis
qed

theorem session_parsed_witness:
  "\<exists>ex0 ex. executor_new sample_sdk vec_memory sample_rbpf () vec_account_sizes 4 [3, 0] = Ok ex0 \<and>
    run_calls (run_call sample_sdk vec_memory sample_rbpf vec_account_sizes)
      [AccountCall 0 (pubkey_repeat 6) sample_account True False True, InstructionCall [9]] ex0 = ([Ok (), Ok ()], ex) \<and>
    parse_input sample_sdk (am_slice vec_memory (ex_buffer ex)) = Some
      \<lparr>in_slots = [\<lparr>sl_signer = True, sl_writable = False, sl_executable = True, sl_key = pubkey_repeat 6,
          sl_owner = pubkey_repeat 5, sl_lamports = 500, sl_data = [9, 8, 0], sl_rent_epoch = 77\<rparr>, empty_slot 0],
        in_instruction = [9, 0, 0, 0], in_program = pubkey_default\<rparr>"
proof -
  obtain ex0 where new: "executor_new sample_sdk vec_memory sample_rbpf () vec_account_sizes 4 [3, 0] = Ok ex0"
    by (rule sample_new)
  let ?calls = "[AccountCall 0 (pubkey_repeat 6) sample_account True False True, InstructionCall [9]]"
  obtain results ex where run: "run_calls (run_call sample_sdk vec_memory sample_rbpf vec_account_sizes)
      ?calls ex0 = (results, ex)"
    by (cases "run_calls (run_call sample_sdk vec_memory sample_rbpf vec_account_sizes) ?calls ex0")
  have four: "replicate 4 (0 :: u8) = [0, 0, 0, 0]"
    by (simp add: numeral_eq_Suc)
  show ?thesis
    using session_parsed[OF vec_memory_laws sample_sdk_laws vec_sizes.account_sizes_axioms new run] new run
    by (auto simp: initial_input_def patch_instruction_def filled_slot_def vec_account_sizes_def
        sizes_of_vec[unfolded vec_account_sizes_def] sample_account_def four)
qed

text \<open>
  C9.  Whatever is done with an executor, runs of programs that scribble over the buffer included, its
  layout stays: the sizes of buffer, stack and heap and all the offsets.  Hence the result of every
  update depends on its arguments alone.  \<open>update_program\<close> fails exactly when the program cannot be loaded
  and never panics; \<open>update_instruction\<close> refuses exactly what is longer than its space and never
  panics; \<open>update_account\<close> panics for an index that has no size, else refuses data longer than that size,
  else panics for an index that has no slot (a pair of sizes has a size for every index), else succeeds.
\<close>

theorem executor_uses_layout:
  assumes "aligned_memory_laws M cap" and "sdk_laws S" and "account_sizes A" and "vm_laws R"
    and "executor_new S M R sv A isz sizes = Ok ex0" and "executor_uses S M R A ex0 ex"
  shows "executor_shape M ex = executor_shape M ex0 \<and>
    length (am_slice M (ex_buffer ex)) = image_size S (sizes_of A sizes) isz \<and>
    length (am_slice M (ex_stack ex)) = config_stack_size R (executor_config R) \<and>
    length (am_slice M (ex_heap ex)) = HEAP_LENGTH S \<and>
    fst (update_program M R pid program_data jit ex) =
      (case load_executable R (ex_runtime ex0) (data program_data) jit of Err e \<Rightarrow> Err e | _ \<Rightarrow> Ok ()) \<and>
    fst (update_account S M A i key account is_signer is_writable is_executable ex) =
      (case as_size A sizes i of
         None \<Rightarrow> Panics
       | Some n \<Rightarrow> if n < length (data account) then Err (ExecutorError InvalidAccount)
           else if i < as_len A sizes then Ok () else Panics) \<and>
    fst (update_instruction M instruction ex) =
      (if length instruction \<le> isz then Ok () else Err (ExecutorError InvalidInstruction))"
proof -
  note new = executor_new_Ok[OF assms(1-3,5)]
  have lay0: "layout S M A ex0"
    by (rule new_layout[OF assms(1-3,5)])
  have shape: "executor_shape M ex = executor_shape M ex0"
    by (rule executor_uses_shape[OF assms(1-4,6) lay0])
  then have lay: "layout S M A ex"
    using lay0 layout_shape[of M ex ex0 S A] by simp
  have sizes: "ex_account_sizes ex = sizes" "ex_instruction_size ex = isz" "ex_runtime ex = ex_runtime ex0"
    using shape new by (simp_all add: executor_shape_def)
  have lens: "length (am_slice M (ex_buffer ex)) = image_size S (sizes_of A sizes) isz"
    "length (am_slice M (ex_stack ex)) = config_stack_size R (executor_config R)"
    "length (am_slice M (ex_heap ex)) = HEAP_LENGTH S"
    using lay shape new(5,6) sizes by (simp_all add: executor_shape_def layout_def Let_def)
  have program: "fst (update_program M R pid program_data jit ex) =
      (case load_executable R (ex_runtime ex0) (data program_data) jit of Err e \<Rightarrow> Err e | _ \<Rightarrow> Ok ())"
    using update_program_total[OF assms(1) lay, of R pid program_data jit]
      load_executable_no_panic[of R "ex_runtime ex0" "data program_data" jit]
    by (simp add: sizes split: outcome.split)
  show ?thesis
    using shape lens program update_account_total[OF assms(1-3) lay] update_instruction_total[OF assms(1) lay]
    by (simp add: sizes)
qed

theorem executor_uses_layout_witness:
  "\<exists>ex0 ex. executor_new sample_sdk vec_memory sample_rbpf () vec_account_sizes 4 [3, 0] = Ok ex0 \<and>
    executor_uses sample_sdk vec_memory sample_rbpf vec_account_sizes ex0 ex \<and>
    fst (update_program vec_memory sample_rbpf (pubkey_repeat 3) sample_account True ex) = Ok () \<and>
    fst (update_account sample_sdk vec_memory vec_account_sizes 1 (pubkey_repeat 6) sample_account
      True True False ex) = Err (ExecutorError InvalidAccount) \<and>
    fst (update_instruction vec_memory [1, 2, 3, 4, 5] ex) = Err (ExecutorError InvalidInstruction)"
proof -
  obtain ex0 where new: "executor_new sample_sdk vec_memory sample_rbpf () vec_account_sizes 4 [3, 0] = Ok ex0"
    by (rule sample_new)
  let ?ex = "snd (execute sample_sdk vec_memory sample_rbpf ex0)"
  have uses: "executor_uses sample_sdk vec_memory sample_rbpf vec_account_sizes ex0 ?ex"
    by (rule uses_step[OF uses_refl step_execute])
  show ?thesis
    using new uses executor_uses_layout[OF vec_memory_laws sample_sdk_laws vec_sizes.account_sizes_axioms
        sample_vm_laws new uses, of "pubkey_repeat 3" sample_account True 1 "pubkey_repeat 6" sample_account True True
        False "[1, 2, 3, 4, 5]"]
    by (intro exI[of _ ex0] exI[of _ ?ex])
      (simp add: vec_account_sizes_def sample_account_def load_executable_def sample_rbpf_def)
qed

text \<open>
  C25.  An executor can be used again: after any use, when a program that can be loaded, an instruction that is not
  too long and every account, with data that fit their slots, are updated, in that order, all of it succeeds, and every byte of the buffer is that
  of the new input, whatever earlier programs wrote into it, with two exceptions.  The instruction is
  followed by the bytes that stood there before, up to its pre-allocated size; an instruction of the full
  size leaves none.  And the number of accounts in the first eight bytes is written by no update: the new
  input is represented exactly if earlier programs left it alone.
\<close>

theorem prepare_after_use:
  assumes "aligned_memory_laws M cap" and "sdk_laws S" and "account_sizes A" and "vm_laws R"
    and "executor_new S M R sv A isz sizes = Ok ex0" and "executor_uses S M R A ex0 ex"
    and "load_executable R (ex_runtime ex) (data program_data) jit = Ok exe"
    and "length ix_data \<le> isz" and "fitting (sizes_of A sizes) accounts"
    and "stale = bytes_at (am_slice M (ex_buffer ex))
      (slot_offset S (sizes_of A sizes) (as_len A sizes) + 8 + length ix_data) (isz - length ix_data)"
    and "st = \<lparr>in_slots = filled_slots (sizes_of A sizes) accounts, in_instruction = ix_data @ stale,
      in_program = pid\<rparr>"
  shows "\<exists>ex'. prepare S M R A pid program_data jit ix_data accounts ex = (Ok (), ex') \<and>
    ex_executable ex' = Some exe \<and>
    am_slice M (ex_buffer ex') = take 8 (am_slice M (ex_buffer ex)) @ drop 8 (input_image S st) \<and>
    (represents S M A ex' st \<longleftrightarrow> take 8 (am_slice M (ex_buffer ex)) = u64_le (of_nat (as_len A sizes)))"
proof -
  note new = executor_new_Ok[OF assms(1-3,5)]
  have shape: "executor_shape M ex = executor_shape M ex0"
    by (rule executor_uses_shape[OF assms(1-4,6) new_layout[OF assms(1-3,5)]])
  then have lay: "layout S M A ex"
    using new_layout[OF assms(1-3,5)] layout_shape[of M ex ex0 S A] by simp
  have sizes: "sizes_of A sizes = sizes_of A (ex_account_sizes ex)" and isz: "ex_instruction_size ex = isz"
    and short: "length ix_data \<le> ex_instruction_size ex"
    using shape new assms(8) by (simp_all add: executor_shape_def)
  have offset: "ex_instruction_offset ex = slot_offset S (sizes_of A sizes) (as_len A sizes)"
    using lay by (simp add: layout_def Let_def flip: sizes)
  from prepare_writes[OF assms(1-3) lay sizes assms(7) short assms(9) assms(11)[unfolded assms(10), folded offset isz]]
  obtain b where
    b: "prepare S M R A pid program_data jit ix_data accounts ex = (Ok (), ex\<lparr>ex_executable := Some exe,
      ex_context := (ex_context ex)\<lparr>program_id := pid\<rparr>, ex_buffer := b\<rparr>)"
    "am_slice M b = take 8 (am_slice M (ex_buffer ex)) @ drop 8 (input_image S st)" .
  have room: "slot_offset S (sizes_of A sizes) (as_len A sizes) + 8 + isz \<le> length (am_slice M (ex_buffer ex))"
    using lay isz offset by (simp add: layout_def Let_def image_size_def)
  let ?ex = "ex\<lparr>ex_executable := Some exe, ex_context := (ex_context ex)\<lparr>program_id := pid\<rparr>, ex_buffer := b\<rparr>"
  have slots: "slot_sizes st = sizes_of A sizes" "length (in_instruction st) = ex_instruction_size ex"
    using filled_slots_sizes[OF assms(9)] isz assms(8) room by (simp_all add: assms(10,11))
  then have count: "length (in_slots st) = as_len A sizes"
    by (metis length_map length_sizes_of)
  have image: "length (input_image S st) = length (am_slice M (ex_buffer ex))"
    using lay slots by (simp add: length_input_image layout_def Let_def sizes)
  have head: "take 8 (input_image S st) = u64_le (of_nat (as_len A sizes))"
    by (simp add: input_image_def count)
  have "8 \<le> length (am_slice M (ex_buffer ex))"
    by (simp add: input_image_def flip: image)
  then have same: "am_slice M b = input_image S st \<longleftrightarrow>
      take 8 (am_slice M (ex_buffer ex)) = u64_le (of_nat (as_len A sizes))"
    unfolding b(2) head[symmetric] using image
    by (metis append_eq_append_conv append_take_drop_id length_take)
  have "layout S M A ?ex"
    using lay image \<open>8 \<le> _\<close> by (simp add: layout_def Let_def b(2))
  then have "represents S M A ?ex st \<longleftrightarrow> am_slice M b = input_image S st"
    using slots sizes by (simp add: represents_iff)
  with b same show ?thesis
    by (intro exI[of _ ?ex]) simp
qed

theorem prepare_after_use_witness:
  "\<exists>ex0 ex ex' st. executor_new sample_sdk vec_memory sample_rbpf () vec_account_sizes 4 [3, 0] = Ok ex0 \<and>
    executor_uses sample_sdk vec_memory sample_rbpf vec_account_sizes ex0 ex \<and>
    prepare sample_sdk vec_memory sample_rbpf vec_account_sizes (pubkey_repeat 3) sample_account True [1, 2, 3, 4]
      [(\<lparr>meta_pubkey = pubkey_repeat 6, meta_is_signer = True, meta_is_writable = False\<rparr>, sample_account),
       (\<lparr>meta_pubkey = pubkey_repeat 7, meta_is_signer = False, meta_is_writable = False\<rparr>, account_default)] ex =
      (Ok (), ex') \<and>
    represents sample_sdk vec_memory vec_account_sizes ex' st \<and> in_program st = pubkey_repeat 3"
proof -
  obtain ex0 where new: "executor_new sample_sdk vec_memory sample_rbpf () vec_account_sizes 4 [3, 0] = Ok ex0"
    by (rule sample_new)
  note facts = executor_new_Ok[OF vec_memory_laws sample_sdk_laws vec_sizes.account_sizes_axioms new]
  let ?ex = "snd (execute sample_sdk vec_memory sample_rbpf ex0)"
  let ?accounts = "[(\<lparr>meta_pubkey = pubkey_repeat 6, meta_is_signer = True, meta_is_writable = False\<rparr>, sample_account),
       (\<lparr>meta_pubkey = pubkey_repeat 7, meta_is_signer = False, meta_is_writable = False\<rparr>, account_default)]"
  let ?st = "\<lparr>in_slots = filled_slots (sizes_of vec_account_sizes [3, 0]) ?accounts, in_instruction = [1, 2, 3, 4],
    in_program = pubkey_repeat 3\<rparr>"
  have uses: "executor_uses sample_sdk vec_memory sample_rbpf vec_account_sizes ex0 ?ex"
    by (rule uses_step[OF uses_refl step_execute])
  have len: "as_len vec_account_sizes [3, 0 :: nat] = 2"
    by (simp add: vec_account_sizes_def)
  have "ex_buffer ?ex = ex_buffer ex0"
    using facts(3) by (simp add: execute_None)
  then have head: "take 8 (am_slice vec_memory (ex_buffer ?ex)) = u64_le (of_nat (as_len vec_account_sizes [3, 0]))"
    using facts(1) unfolding len by (simp add: represents_def input_image_def initial_input_def)
  have load: "load_executable sample_rbpf (ex_runtime ?ex) (data sample_account) True = Ok [9, 8]"
    by (simp add: load_executable_def sample_rbpf_def sample_account_def)
  have "\<exists>ex'. prepare sample_sdk vec_memory sample_rbpf vec_account_sizes (pubkey_repeat 3) sample_account True
      [1, 2, 3, 4] ?accounts ?ex = (Ok (), ex') \<and> represents sample_sdk vec_memory vec_account_sizes ex' ?st"
    using prepare_after_use[OF vec_memory_laws sample_sdk_laws vec_sizes.account_sizes_axioms sample_vm_laws
        new uses load _ _ refl refl, of "[1, 2, 3, 4]" ?accounts "pubkey_repeat 3"] head
    by (auto simp: sample_account_def account_default_def)
  with new uses show ?thesis
    by fastforce
qed

text \<open>
  C28.  What \<open>get_account\<close> returns after any use, from the bytes that are then in the slot.  It reads the length
  of the data, which the program may have written, and looks for the rent epoch behind the data and the
  space that is reserved for data of that length.  It panics exactly when that place is not inside the
  buffer, although the data itself may be, or when there is no such slot; so a program can make its
  caller panic.
\<close>

theorem get_account_reads:
  assumes "aligned_memory_laws M cap" and "sdk_laws S" and "account_sizes A" and "vm_laws R"
    and "executor_new S M R sv A isz sizes = Ok ex0" and "executor_uses S M R A ex0 ex"
    and "bs = am_slice M (ex_buffer ex)" and "p = slot_offset S (sizes_of A sizes) i"
    and "n = unat (u64_from_le (bytes_at bs (p + 80) 8))"
  shows "get_account S M ex i =
    (if i < as_len A sizes \<and> p + 88 + n + reserved S n + 8 \<le> length bs
     then Ok \<lparr>lamports = u64_from_le (bytes_at bs (p + 72) 8), data = bytes_at bs (p + 88) n,
       owner = Pubkey (bytes_at bs (p + 40) 32), executable = (bs ! (p + 3) = 1),
       rent_epoch = u64_from_le (bytes_at bs (p + 88 + n + reserved S n) 8)\<rparr>
     else Panics)"
proof -
  note new = executor_new_Ok[OF assms(1-3,5)]
  have shape: "executor_shape M ex = executor_shape M ex0"
    by (rule executor_uses_shape[OF assms(1-4,6) new_layout[OF assms(1-3,5)]])
  then have lay: "layout S M A ex"
    using new_layout[OF assms(1-3,5)] layout_shape[of M ex ex0 S A] by simp
  have sizes: "sizes_of A sizes = sizes_of A (ex_account_sizes ex)" "as_len A (ex_account_sizes ex) = as_len A sizes"
    using shape new by (simp_all add: executor_shape_def)
  show ?thesis
  proof (cases "i < as_len A sizes")
    case True
    then have "i < length (sizes_of A sizes)"
      by simp
    from get_account_layout[OF assms(2) lay assms(7) sizes(1) this assms(8,9)] True show ?thesis
      by simp
  next
    case False
    then show ?thesis
      using lay by (simp add: get_account_def layout_def Let_def index_checked_def sizes(2))
  qed
qed

theorem get_account_reads_witness:
  "\<exists>ex0. executor_new sample_sdk vec_memory sample_rbpf () vec_account_sizes 4 [3, 0] = Ok ex0 \<and>
    (case get_account sample_sdk vec_memory ex0 0 of Ok account \<Rightarrow> length (data account) = 3 | _ \<Rightarrow> False)"
proof -
  obtain ex0 where new: "executor_new sample_sdk vec_memory sample_rbpf () vec_account_sizes 4 [3, 0] = Ok ex0"
    by (rule sample_new)
  let ?bs = "am_slice vec_memory (ex_buffer ex0)"
  have bs: "?bs = input_image sample_sdk (initial_input [3, 0] 4)"
    using executor_new_Ok(1)[OF vec_memory_laws sample_sdk_laws vec_sizes.account_sizes_axioms new]
    by (simp add: represents_def)
  have len: "length ?bs = 20732"
    by (simp add: bs length_input_image initial_input_def image_size_def slot_offset_def slot_size_def
        reserved_def padding_def)
  have n: "bytes_at ?bs (8 + 80) 8 = u64_le 3"
    by (simp add: bs input_image_def initial_input_def slot_bytes_def slot_header_def empty_slot_def bytes_at_def)
  have first: "8 = slot_offset sample_sdk (sizes_of vec_account_sizes [3, 0]) 0"
    by (simp add: slot_offset_def)
  have inside: "0 < as_len vec_account_sizes [3, 0 :: nat]"
    by (simp add: vec_account_sizes_def)
  have three: "unat (u64_from_le (u64_le 3)) = 3"
    by simp
  have data: "length (bytes_at ?bs 96 3) = 3"
    using len by (simp add: bytes_at_def)
  show ?thesis
    using new len data
    by (simp add: get_account_reads[OF vec_memory_laws sample_sdk_laws vec_sizes.account_sizes_axioms
        sample_vm_laws new uses_refl refl first refl, unfolded n three] inside reserved_def padding_def)
qed

end
