(* ===== verification/Account_Source.thy ===== *)
theory Account_Source
  imports Externals
begin

text \<open>
  Where the accounts of a message come from: the closure \<open>G: FnMut(&Pubkey) -> Option<..>\<close> of
  \<open>AccountLoader\<close>, a function on its captured state, with the laws of a source that does not change
  its mind; the messages, of which the code reads the keys and the program indices; and the
  addresses and functions of the SDK that the loaders use.
\<close>

record sdk_ids =
  native_loader_id :: pubkey
  sysvar_program_id :: pubkey
  sysvar_instructions_id :: pubkey
  loader_v4_id :: pubkey
  bpf_loader_upgradeable_id :: pubkey
  bpf_loader_id :: pubkey
  bpf_loader_deprecated_id :: pubkey

record compiled_instruction =
  program_id_index :: u8
  ix_accounts :: "u8 list"
  ix_data :: bytes

record sanitized_message =
  account_keys :: "pubkey list"
  instructions :: "compiled_instruction list"

type_synonym ('g, 'a) source = "pubkey \<Rightarrow> 'g \<Rightarrow> 'a option \<times> 'g"

text \<open>\<open>get_account_with_fixed_root\<close>, on the state of the closure.\<close>

definition get_account_with_fixed_root ::
  "('g, account) source \<Rightarrow> pubkey \<Rightarrow> ('g, anyhow_error, account option) act" where
  "get_account_with_fixed_root fetch key = (\<lambda>g. case fetch key g of (r, g') \<Rightarrow> (Ok r, g'))"

text \<open>\<open>self.get_account_with_fixed_root(key)?.ok_or(e)?\<close>.\<close>

definition require_account ::
  "('g, account) source \<Rightarrow> transaction_error \<Rightarrow> pubkey \<Rightarrow> ('g, anyhow_error, account) act" where
  "require_account fetch e key =
     act_bind (get_account_with_fixed_root fetch key) (\<lambda>r. act_lift (ok_or (TransactionFailure e) r))"

lemma require_account_run:
  "require_account fetch e key g =
   (case fetch key g of (Some a, g') \<Rightarrow> (Ok a, g') | (None, g') \<Rightarrow> (Err (TransactionFailure e), g'))"
  by (auto simp: require_account_def get_account_with_fixed_root_def act_bind_def split: prod.splits option.splits)

text \<open>
  A source that is settled on an answer for a key gives it, and stays settled on it whatever is
  asked; after an answer it is settled on that answer.
\<close>

locale account_source =
  fixes fetch :: "('g, account) source"
    and settled :: "'g \<Rightarrow> pubkey \<Rightarrow> account option \<Rightarrow> bool"
  assumes settles: "fetch k g = (r, g') \<Longrightarrow> settled g' k r"
    and answers: "settled g k r \<Longrightarrow> fst (fetch k g) = r"
    and stays: "settled g k r \<Longrightarrow> settled (snd (fetch k' g)) k r"
begin

lemma require_settles:
  "require_account fetch e k g = (Ok a, g') \<Longrightarrow> settled g' k (Some a)"
  using settles[of k g] by (auto simp: require_account_run split: prod.splits option.splits)

lemma require_stays:
  "settled g k r \<Longrightarrow> settled (snd (require_account fetch e k' g)) k r"
  using stays[of g k r k'] by (auto simp: require_account_run split: prod.splits option.splits)

lemma require_same:
  "settled g k (Some b) \<Longrightarrow> require_account fetch e k g = (Ok a, g') \<Longrightarrow> a = b"
  using answers[of g k "Some b"] by (auto simp: require_account_run split: prod.splits option.splits)

end

end
