(* ===== verification/Binary_Search.thy ===== *)
theory Binary_Search
  imports Prelude
begin

text \<open>
  \<open>binary_search_by_key\<close> of the standard library with the insertion that follows it in the code:
  \<open>Inl i\<close> is \<open>Ok(i)\<close> (found at \<open>i\<close>), \<open>Inr i\<close> is \<open>Err(i)\<close> (to be inserted at \<open>i\<close>).
\<close>

function search_between :: "'a::linorder list \<Rightarrow> 'a \<Rightarrow> nat \<Rightarrow> nat \<Rightarrow> nat + nat" where
  "search_between xs x left right =
     (if right \<le> left then Inr left
      else let mid = left + (right - left) div 2 in
        if xs ! mid = x then Inl mid
        else if xs ! mid < x then search_between xs x (mid + 1) right
        else search_between xs x left mid)"
  by auto
termination
  by (relation "measure (\<lambda>(xs, x, left, right). right - left)") auto

declare search_between.simps [simp del]

definition binary_search :: "'a::linorder list \<Rightarrow> 'a \<Rightarrow> nat + nat" where
  "binary_search xs x = search_between xs x 0 (length xs)"

text \<open>On a strictly increasing list the search is exact.\<close>

lemma search_between_spec:
  "sorted_wrt (<) xs \<Longrightarrow> left \<le> right \<Longrightarrow> right \<le> length xs \<Longrightarrow> (\<forall>i<left. xs ! i < x) \<Longrightarrow>
    (\<forall>i. right \<le> i \<longrightarrow> i < length xs \<longrightarrow> x < xs ! i) \<Longrightarrow>
    (case search_between xs x left right of
       Inl i \<Rightarrow> i < length xs \<and> xs ! i = x
     | Inr i \<Rightarrow> i \<le> length xs \<and> (\<forall>j<i. xs ! j < x) \<and> (\<forall>j. i \<le> j \<longrightarrow> j < length xs \<longrightarrow> x < xs ! j))"
proof (induction xs x left right rule: search_between.induct)
  case (1 xs x left right)
  let ?mid = "left + (right - left) div 2"
  show ?case
  proof (cases "right \<le> left")
    case True
    with "1.prems" show ?thesis
      by (subst search_between.simps) auto
  next
    case False
    then have mid: "left \<le> ?mid" "?mid < right" "?mid < length xs"
      using "1.prems"(3) by auto
    consider "xs ! ?mid = x" | "xs ! ?mid < x" | "x < xs ! ?mid"
      by (meson neqE)
    then show ?thesis
    proof cases
      case 1
      with False mid show ?thesis
        by (subst search_between.simps) (simp add: Let_def)
    next
      case 2
      have "xs ! i < x" if "i < ?mid + 1" for i
        using that 2 mid "1.prems"(1) sorted_wrt_nth_less[of "(<)" xs i ?mid]
        by (cases "i = ?mid") (auto intro: less_trans)
      with "1.IH"(1)[OF False refl _ 2 "1.prems"(1)] 2 False mid "1.prems" show ?thesis
        by (subst search_between.simps) (simp add: Let_def)
    next
      case 3
      then have n: "xs ! ?mid \<noteq> x" "\<not> xs ! ?mid < x"
        by auto
      have "x < xs ! i" if "?mid \<le> i" "i < length xs" for i
        using that 3 "1.prems"(1) sorted_wrt_nth_less[of "(<)" xs ?mid i]
        by (cases "i = ?mid") (auto intro: less_trans)
      with "1.IH"(2)[OF False refl n "1.prems"(1)] n False mid "1.prems" show ?thesis
        by (subst search_between.simps) (simp add: Let_def)
    qed
  qed
qed

lemma binary_search_spec:
  assumes "sorted_wrt (<) xs"
  shows "case binary_search xs x of
      Inl i \<Rightarrow> i < length xs \<and> xs ! i = x
    | Inr i \<Rightarrow> i \<le> length xs \<and> (\<forall>j<i. xs ! j < x) \<and> (\<forall>j. i \<le> j \<longrightarrow> j < length xs \<longrightarrow> x < xs ! j)"
  using search_between_spec[OF assms, of 0 "length xs" x] by (simp add: binary_search_def)

lemma binary_search_found:
  "sorted_wrt (<) xs \<Longrightarrow> binary_search xs x = Inl i \<Longrightarrow> x \<in> set xs"
  using binary_search_spec[of xs x] by (auto simp: in_set_conv_nth)

lemma binary_search_missing:
  assumes "sorted_wrt (<) xs" "binary_search xs x = Inr i"
  shows "sorted_wrt (<) (take i xs @ x # drop i xs)"
proof -
  have i: "i \<le> length xs" "\<forall>j<i. xs ! j < x" "\<forall>j. i \<le> j \<longrightarrow> j < length xs \<longrightarrow> x < xs ! j"
    using binary_search_spec[OF assms(1), of x] assms(2) by auto
  have left: "\<forall>y \<in> set (take i xs). y < x"
    using i(1,2) by (auto simp: in_set_conv_nth)
  have right: "\<forall>y \<in> set (drop i xs). x < y"
    using i(1,3) by (auto simp: in_set_conv_nth)
  have "sorted_wrt (<) (take i xs @ drop i xs)"
    using assms(1) by simp
  then show ?thesis
    using left right unfolding sorted_wrt_append by auto
qed

end
