(* ===== verification/Slots.thy ===== *)
theory Slots
  imports Prelude
begin

text \<open>
  \<open>message_executor/mod.rs\<close>: the two views of slots that the cache of loaded programs asks for, a
  working slot and a fork graph in which every slot has exactly one chain of ancestors.
\<close>

datatype working_slot = WorkingSlot u64

definition current_slot :: "working_slot \<Rightarrow> u64" where
  "current_slot s = (case s of WorkingSlot n \<Rightarrow> n)"

definition current_epoch :: "u64 \<Rightarrow> working_slot \<Rightarrow> u64" where
  "current_epoch slots_per_epoch s = (case s of WorkingSlot n \<Rightarrow> n div slots_per_epoch)"

definition is_ancestor :: "working_slot \<Rightarrow> u64 \<Rightarrow> bool" where
  "is_ancestor s slot = (case s of WorkingSlot n \<Rightarrow> slot < n)"

datatype block_relation = Ancestor | Equal | Descendant | Unrelated | Unknown

definition relationship :: "u64 \<Rightarrow> u64 \<Rightarrow> block_relation" where
  "relationship a b = (if a = b then Equal else if a < b then Ancestor else Descendant)"

definition slot_epoch :: "u64 \<Rightarrow> u64 \<Rightarrow> u64 option" where
  "slot_epoch slots_per_epoch slot = Some (slot div slots_per_epoch)"

text \<open>
  The contract the cache relies on: slots form one chain, of which the working slot is the end.
\<close>

locale fork_contract =
  fixes relation :: "u64 \<Rightarrow> u64 \<Rightarrow> block_relation"
    and ancestor :: "'w \<Rightarrow> u64 \<Rightarrow> bool"
    and current :: "'w \<Rightarrow> u64"
  assumes related: "relation a b \<in> {Ancestor, Equal, Descendant}"
    and equal_iff: "relation a b = Equal \<longleftrightarrow> a = b"
    and flip: "relation a b = Ancestor \<longleftrightarrow> relation b a = Descendant"
    and trans: "relation a b = Ancestor \<Longrightarrow> relation b c = Ancestor \<Longrightarrow> relation a c = Ancestor"
    and ancestor_iff: "ancestor w a \<longleftrightarrow> relation a (current w) = Ancestor"
begin

lemma ancestors_linear:
  "ancestor w a \<Longrightarrow> ancestor w b \<Longrightarrow> a = b \<or> relation a b = Ancestor \<or> relation b a = Ancestor"
  using related[of a b] equal_iff[of a b] flip[of b a] by auto

lemma ancestor_closed: "ancestor w b \<Longrightarrow> relation a b = Ancestor \<Longrightarrow> ancestor w a"
  using trans by (auto simp: ancestor_iff)

lemma not_own_ancestor: "\<not> ancestor w (current w)"
  using equal_iff[of "current w" "current w"] by (simp add: ancestor_iff)

end

interpretation fork: fork_contract relationship is_ancestor current_slot
  by unfold_locales (auto simp: relationship_def is_ancestor_def current_slot_def split: working_slot.split if_splits)

end
