(* ===== verification/Program_Loader.thy ===== *)
theory Program_Loader
  imports Account_Source Binary_Search Slots
begin

text \<open>
  \<open>loader/mod.rs\<close> and \<open>loader/program_loader.rs\<close>: the account loader, the decision which kind of
  program an account holds, the loading of one program, and the replenishment of the cache of loaded
  programs for a batch of messages.  The cache, the programs and their verification belong to
  \<open>solana_program_runtime\<close> and \<open>solana_bpf_loader_program\<close> and are fields of \<open>program_api\<close>; the
  metrics are not modelled.
\<close>

datatype match_criteria = NoCriteria | OtherCriteria nat

datatype v4_status = Retracted | Deployed | Finalized

datatype upgradeable_loader_state =
    Uninitialized
  | Buffer "pubkey option"
  | Program pubkey
  | ProgramData u64 "pubkey option"

datatype 'env tombstone = Closed | FailedVerification 'env

type_synonym missing_programs = "(pubkey \<times> match_criteria \<times> u64) list"

record ('cache, 'envs, 'env, 'batch, 'prog, 'fs) program_api =
  DEFAULT_SLOTS_PER_EPOCH :: u64
  DELAY_VISIBILITY_SLOT_OFFSET :: u64
  size_of_programdata_metadata :: nat
  v4_program_data_offset :: nat
  environments :: "'cache \<Rightarrow> 'envs"
  environments_for_epoch :: "'cache \<Rightarrow> u64 \<Rightarrow> 'envs"
  program_runtime_v1 :: "'envs \<Rightarrow> 'env"
  program_runtime_v2 :: "'envs \<Rightarrow> 'env"
  cache_extract :: "'cache \<Rightarrow> working_slot \<Rightarrow> missing_programs \<Rightarrow> 'batch \<Rightarrow> bool \<Rightarrow> 'cache \<times> missing_programs \<times> 'batch"
  cache_replenish :: "'cache \<Rightarrow> pubkey \<Rightarrow> 'prog \<Rightarrow> 'prog \<times> 'cache"
  batch_new :: "u64 \<Rightarrow> 'envs \<Rightarrow> 'batch"
  batch_replenish :: "'batch \<Rightarrow> pubkey \<Rightarrow> 'prog \<Rightarrow> 'batch"
  store_tx_usage :: "'prog \<Rightarrow> u64 \<Rightarrow> 'prog"
  new_tombstone :: "u64 \<Rightarrow> 'env tombstone \<Rightarrow> 'prog"
  load_program_from_bytes ::
    "bool \<Rightarrow> bytes \<Rightarrow> pubkey \<Rightarrow> nat \<Rightarrow> u64 \<Rightarrow> 'env \<Rightarrow> bool \<Rightarrow> instruction_error + 'prog"
  loaded_program_new :: "pubkey \<Rightarrow> 'env \<Rightarrow> u64 \<Rightarrow> u64 \<Rightarrow> bytes \<Rightarrow> nat \<Rightarrow> 'prog option"
  loaded_program_reload :: "pubkey \<Rightarrow> 'env \<Rightarrow> u64 \<Rightarrow> u64 \<Rightarrow> bytes \<Rightarrow> nat \<Rightarrow> 'prog option"
  delay_visibility_active :: "'fs \<Rightarrow> bool"
  v4_state :: "bytes \<Rightarrow> instruction_error + u64 \<times> v4_status"
  upgradeable_state :: "bytes \<Rightarrow> instruction_error + upgradeable_loader_state"

subsection \<open>\<open>AccountLoader\<close>\<close>

text \<open>A \<open>HashSet\<close> is the list of its elements in the order in which it is iterated.\<close>

record ('g, 'fs, 'cache) account_loader =
  ld_g :: 'g
  ld_feature_set :: 'fs
  ld_cache :: 'cache
  ld_program_owners :: "pubkey list"
  ld_builtin_programs :: "pubkey list"

definition account_loader_new ::
  "'g \<Rightarrow> 'cache \<Rightarrow> 'fs \<Rightarrow> pubkey list \<Rightarrow> pubkey list \<Rightarrow> ('g, 'fs, 'cache) account_loader" where
  "account_loader_new g cache features owners builtins =
     \<lparr>ld_g = g, ld_feature_set = features, ld_cache = cache, ld_program_owners = owners,
      ld_builtin_programs = builtins\<rparr>"

text \<open>A call that only uses the closure.\<close>

definition on_source :: "('g, 'e, 'a) act \<Rightarrow> (('g, 'fs, 'cache) account_loader, 'e, 'a) act" where
  "on_source f = (\<lambda>l. case f (ld_g l) of (r, g') \<Rightarrow> (r, l\<lparr>ld_g := g'\<rparr>))"

lemma on_source_Ok: "on_source f l = (Ok x, l') \<longleftrightarrow> (\<exists>g'. f (ld_g l) = (Ok x, g') \<and> l' = l\<lparr>ld_g := g'\<rparr>)"
  by (auto simp: on_source_def split: prod.splits)

subsection \<open>\<open>load_program_accounts\<close>\<close>

datatype program_account_load_result =
    LoadAccountNotFound
  | LoadInvalidAccountData
  | InvalidV4Program
  | ProgramOfLoaderV1orV2 account
  | ProgramOfLoaderV3 account account u64
  | ProgramOfLoaderV4 account u64

definition v4_program ::
  "('cache, 'envs, 'env, 'batch, 'prog, 'fs) program_api \<Rightarrow> account \<Rightarrow> program_account_load_result" where
  "v4_program A program_account =
     (case v4_state A (data program_account) of
        Inl e \<Rightarrow> InvalidV4Program
      | Inr (slot, status) \<Rightarrow>
          if status = Retracted then InvalidV4Program else ProgramOfLoaderV4 program_account slot)"

definition load_program_accounts ::
  "sdk_ids \<Rightarrow> ('cache, 'envs, 'env, 'batch, 'prog, 'fs) program_api \<Rightarrow> ('g, account) source \<Rightarrow> pubkey \<Rightarrow>
   ('g, anyhow_error, program_account_load_result) act" where
  "load_program_accounts I A fetch pubkey =
     act_bind (get_account_with_fixed_root fetch pubkey) (\<lambda>found. case found of
       None \<Rightarrow> act_return LoadAccountNotFound
     | Some program_account \<Rightarrow>
         if owner program_account = loader_v4_id I then act_return (v4_program A program_account)
         else if owner program_account \<noteq> bpf_loader_upgradeable_id I
         then act_return (ProgramOfLoaderV1orV2 program_account)
         else (case upgradeable_state A (data program_account) of
             Inr (Program programdata_address) \<Rightarrow>
               act_bind (get_account_with_fixed_root fetch programdata_address) (\<lambda>found. case found of
                 None \<Rightarrow> act_return LoadAccountNotFound
               | Some programdata_account \<Rightarrow>
                   (case upgradeable_state A (data programdata_account) of
                      Inr (ProgramData slot _) \<Rightarrow>
                        act_return (ProgramOfLoaderV3 program_account programdata_account slot)
                    | _ \<Rightarrow> act_return LoadInvalidAccountData))
           | _ \<Rightarrow> act_return LoadInvalidAccountData))"

subsection \<open>\<open>load_program\<close>\<close>

text \<open>
  What the branches of \<open>load_program\<close> make of the accounts: a program, or an error that the end of
  the function turns into a tombstone.
\<close>

definition verify_program ::
  "sdk_ids \<Rightarrow> ('cache, 'envs, 'env, 'batch, 'prog, 'fs) program_api \<Rightarrow> 'fs \<Rightarrow> 'envs \<Rightarrow> u64 \<Rightarrow>
   program_account_load_result \<Rightarrow> instruction_error + 'prog" where
  "verify_program I A features envs slot loaded =
     (let reload = False in case loaded of
        LoadAccountNotFound \<Rightarrow> Inr (new_tombstone A slot Closed)
      | LoadInvalidAccountData \<Rightarrow> Inl InvalidAccountData
      | ProgramOfLoaderV1orV2 program_account \<Rightarrow>
          load_program_from_bytes A (delay_visibility_active A features) (data program_account)
            (owner program_account) (length (data program_account)) 0 (program_runtime_v1 A envs) reload
      | ProgramOfLoaderV3 program_account programdata_account slot \<Rightarrow>
          (case slice_from (data programdata_account) (size_of_programdata_metadata A) of
             None \<Rightarrow> Inl InvalidAccountData
           | Some programdata \<Rightarrow>
               load_program_from_bytes A (delay_visibility_active A features) programdata
                 (owner program_account)
                 (min (length (data program_account) + length (data programdata_account)) (2 ^ 64 - 1))
                 slot (program_runtime_v1 A envs) reload)
      | ProgramOfLoaderV4 program_account slot \<Rightarrow>
          Inr (case slice_from (data program_account) (v4_program_data_offset A) of
             None \<Rightarrow> new_tombstone A slot (FailedVerification (program_runtime_v2 A envs))
           | Some elf_bytes \<Rightarrow>
               (case (if reload then loaded_program_reload A else loaded_program_new A) (loader_v4_id I)
                   (program_runtime_v2 A envs) slot (saturating_add slot (DELAY_VISIBILITY_SLOT_OFFSET A))
                   elf_bytes (length (data program_account)) of
                  None \<Rightarrow> new_tombstone A slot (FailedVerification (program_runtime_v2 A envs))
                | Some program \<Rightarrow> program))
      | InvalidV4Program \<Rightarrow>
          Inr (new_tombstone A slot (FailedVerification (program_runtime_v2 A envs))))"

definition load_program ::
  "sdk_ids \<Rightarrow> ('cache, 'envs, 'env, 'batch, 'prog, 'fs) program_api \<Rightarrow> ('g, account) source \<Rightarrow> u64 \<Rightarrow> pubkey \<Rightarrow>
   (('g, 'fs, 'cache) account_loader, anyhow_error, 'prog) act" where
  "load_program I A fetch slot pubkey = (\<lambda>l.
     let envs = environments_for_epoch A (ld_cache l) (slot div DEFAULT_SLOTS_PER_EPOCH A) in
     act_bind (on_source (load_program_accounts I A fetch pubkey)) (\<lambda>loaded.
       act_return (case verify_program I A (ld_feature_set l) envs slot loaded of
         Inr program \<Rightarrow> program
       | Inl e \<Rightarrow> new_tombstone A slot (FailedVerification (program_runtime_v1 A envs)))) l)"

subsection \<open>\<open>replenish_program_cache\<close>\<close>

definition insert_missing :: "pubkey \<Rightarrow> missing_programs \<Rightarrow> missing_programs" where
  "insert_missing key missing =
     (case binary_search (map fst missing) key of
        Inl i \<Rightarrow> missing
      | Inr i \<Rightarrow> take i missing @ (key, NoCriteria, 0) # drop i missing)"

fun collect_missing ::
  "pubkey list \<Rightarrow> ('g, account) source \<Rightarrow> pubkey list \<Rightarrow> missing_programs \<Rightarrow>
   ('g, anyhow_error, missing_programs) act" where
  "collect_missing owners fetch [] missing = act_return missing"
| "collect_missing owners fetch (key # keys) missing =
     act_bind (require_account fetch AccountNotFound key) (\<lambda>acc.
     collect_missing owners fetch keys
       (if owner acc \<in> set owners then insert_missing key missing else missing))"

text \<open>The programs that are not in the cache, loaded in order; the first error ends it.\<close>

fun load_missing ::
  "sdk_ids \<Rightarrow> ('cache, 'envs, 'env, 'batch, 'prog, 'fs) program_api \<Rightarrow> ('g, account) source \<Rightarrow> u64 \<Rightarrow>
   missing_programs \<Rightarrow> (('g, 'fs, 'cache) account_loader, anyhow_error, (pubkey \<times> 'prog) list) act" where
  "load_missing I A fetch slot [] = act_return []"
| "load_missing I A fetch slot ((key, criteria, count) # rest) =
     act_bind (load_program I A fetch slot key) (\<lambda>program.
     act_bind (load_missing I A fetch slot rest) (\<lambda>programs.
     act_return ((key, store_tx_usage A program count) # programs)))"

fun replenish_all ::
  "('cache, 'envs, 'env, 'batch, 'prog, 'fs) program_api \<Rightarrow> (pubkey \<times> 'prog) list \<Rightarrow> 'batch \<Rightarrow>
   (('g, 'fs, 'cache) account_loader, anyhow_error, 'batch) act" where
  "replenish_all A [] batch = act_return batch"
| "replenish_all A ((key, program) # rest) batch = (\<lambda>l.
     case cache_replenish A (ld_cache l) key program of
       (entry, cache) \<Rightarrow> replenish_all A rest (batch_replenish A batch key entry) (l\<lparr>ld_cache := cache\<rparr>))"

text \<open>The messages, in order, one key after the other.\<close>

definition message_keys :: "sanitized_message list \<Rightarrow> pubkey list" where
  "message_keys messages = concat (map account_keys messages)"

definition extract_and_load ::
  "sdk_ids \<Rightarrow> ('cache, 'envs, 'env, 'batch, 'prog, 'fs) program_api \<Rightarrow> ('g, account) source \<Rightarrow> working_slot \<Rightarrow>
   missing_programs \<Rightarrow> (('g, 'fs, 'cache) account_loader, anyhow_error, 'batch) act" where
  "extract_and_load I A fetch s missing0 = (\<lambda>l.
     let missing1 = fold insert_missing (ld_builtin_programs l) missing0;
         batch0 = batch_new A (current_slot s) (environments A (ld_cache l)) in
     case cache_extract A (ld_cache l) s missing1 batch0 False of (cache, missing, batch) \<Rightarrow>
       act_bind (load_missing I A fetch (current_slot s) missing) (\<lambda>programs. replenish_all A programs batch)
         (l\<lparr>ld_cache := cache\<rparr>))"

definition replenish_program_cache ::
  "sdk_ids \<Rightarrow> ('cache, 'envs, 'env, 'batch, 'prog, 'fs) program_api \<Rightarrow> ('g, account) source \<Rightarrow> working_slot \<Rightarrow>
   sanitized_message list \<Rightarrow> (('g, 'fs, 'cache) account_loader, anyhow_error, 'batch) act" where
  "replenish_program_cache I A fetch s messages = (\<lambda>l.
     act_bind (on_source (collect_missing (ld_program_owners l) fetch (message_keys messages) []))
       (extract_and_load I A fetch s) l)"

subsection \<open>The programs that are asked for\<close>

abbreviation missing_sorted :: "missing_programs \<Rightarrow> bool" where
  "missing_sorted missing \<equiv> sorted_wrt (<) (map fst missing)"

lemma set_insert_at: "set (take n xs @ x # drop n xs) = insert x (set xs)"
  using set_append[of "take n xs" "drop n xs"] by auto

lemma insert_missing_ok:
  assumes "missing_sorted missing"
  shows "missing_sorted (insert_missing key missing)"
    "fst ` set (insert_missing key missing) = insert key (fst ` set missing)"
    "\<forall>e \<in> set (insert_missing key missing). snd e = (NoCriteria, 0) \<or> e \<in> set missing"
proof -
  show "missing_sorted (insert_missing key missing)"
    using assms binary_search_missing[OF assms, of key]
    by (auto simp: insert_missing_def take_map drop_map split: sum.split)
  show "fst ` set (insert_missing key missing) = insert key (fst ` set missing)"
    using binary_search_found[OF assms, of key]
    by (cases "binary_search (map fst missing) key")
      (auto simp: insert_missing_def set_insert_at simp del: set_append list.set)
  show "\<forall>e \<in> set (insert_missing key missing). snd e = (NoCriteria, 0) \<or> e \<in> set missing"
    by (cases "binary_search (map fst missing) key")
      (simp_all add: insert_missing_def set_insert_at del: set_append list.set)
qed

lemma fold_insert_missing_ok:
  "missing_sorted missing \<Longrightarrow>
   missing_sorted (fold insert_missing keys missing) \<and>
   fst ` set (fold insert_missing keys missing) = set keys \<union> fst ` set missing \<and>
   (\<forall>e \<in> set (fold insert_missing keys missing). snd e = (NoCriteria, 0) \<or> e \<in> set missing)"
proof (induction keys arbitrary: missing)
  case (Cons k keys)
  note first = insert_missing_ok[OF Cons.prems, of k]
  show ?case
    using Cons.IH[OF first(1)] first(2,3) by auto
qed simp

context account_source
begin

lemma settled_unique: "settled g k r \<Longrightarrow> settled g k r' \<Longrightarrow> r = r'"
  using answers[of g k r] answers[of g k r'] by simp

lemma collect_stays:
  "settled g k r \<Longrightarrow> collect_missing owners fetch keys missing g = (x, g') \<Longrightarrow> settled g' k r"
proof (induction keys arbitrary: missing g)
  case (Cons k' keys)
  obtain y h where y: "require_account fetch AccountNotFound k' g = (y, h)"
    by (cases "require_account fetch AccountNotFound k' g")
  with require_stays[OF Cons.prems(1), of AccountNotFound k'] have "settled h k r"
    by simp
  with Cons y show ?case
    by (cases y) auto
qed simp

lemma collect_missing_ok:
  "collect_missing owners fetch keys missing g = (Ok missing', g') \<Longrightarrow> missing_sorted missing \<Longrightarrow>
   missing_sorted missing' \<and>
   fst ` set missing' = fst ` set missing \<union> {k \<in> set keys. \<exists>a. settled g' k (Some a) \<and> owner a \<in> set owners} \<and>
   (\<forall>e \<in> set missing'. snd e = (NoCriteria, 0) \<or> e \<in> set missing)"
proof (induction keys arbitrary: missing g)
  case (Cons k keys)
  obtain a h where a: "require_account fetch AccountNotFound k g = (Ok a, h)"
    and rest: "collect_missing owners fetch keys
      (if owner a \<in> set owners then insert_missing k missing else missing) h = (Ok missing', g')"
    using Cons.prems(1) by (auto simp: act_bind_eq_Ok)
  let ?m = "if owner a \<in> set owners then insert_missing k missing else missing"
  have "settled g' k (Some a)"
    using collect_stays[OF require_settles[OF a] rest] .
  then have k: "(\<exists>b. settled g' k (Some b) \<and> owner b \<in> set owners) \<longleftrightarrow> owner a \<in> set owners"
    using settled_unique by blast
  have m: "missing_sorted ?m" "fst ` set ?m = fst ` set missing \<union> (if owner a \<in> set owners then {k} else {})"
    "\<forall>e \<in> set ?m. snd e = (NoCriteria, 0) \<or> e \<in> set missing"
    using insert_missing_ok[OF Cons.prems(2), of k] Cons.prems(2) by auto
  note IH = Cons.IH[OF rest m(1)]
  show ?case
    using IH m(2,3) k by (auto split: if_splits)
qed simp

lemma collect_settled:
  "collect_missing owners fetch keys missing g = (Ok missing', g') \<Longrightarrow> k \<in> set keys \<Longrightarrow>
   \<exists>a. settled g' k (Some a)"
proof (induction keys arbitrary: missing g)
  case (Cons k' keys)
  obtain a h where a: "require_account fetch AccountNotFound k' g = (Ok a, h)"
    and rest: "collect_missing owners fetch keys
      (if owner a \<in> set owners then insert_missing k' missing else missing) h = (Ok missing', g')"
    using Cons.prems(1) by (auto simp: act_bind_eq_Ok)
  with collect_stays[OF require_settles[OF a] rest] Cons.IH[OF rest] Cons.prems(2) show ?case
    by auto
qed simp

end

subsection \<open>Loading never fails\<close>

lemma load_program_accounts_total:
  "\<exists>r g'. load_program_accounts I A fetch pubkey g = (Ok r, g')"
  by (cases "fetch pubkey g")
    (auto simp: load_program_accounts_def get_account_with_fixed_root_def act_bind_def
      split: option.split sum.split upgradeable_loader_state.split prod.split)

lemma load_program_run:
  assumes "load_program_accounts I A fetch pubkey (ld_g l) = (Ok r, g')"
    and "envs = environments_for_epoch A (ld_cache l) (slot div DEFAULT_SLOTS_PER_EPOCH A)"
  shows "load_program I A fetch slot pubkey l =
    (Ok (case verify_program I A (ld_feature_set l) envs slot r of
       Inr program \<Rightarrow> program
     | Inl e \<Rightarrow> new_tombstone A slot (FailedVerification (program_runtime_v1 A envs))), l\<lparr>ld_g := g'\<rparr>)"
  unfolding assms(2) using assms(1) by (simp add: load_program_def Let_def on_source_def)

lemma load_missing_total:
  "\<exists>programs g'. load_missing I A fetch slot missing l = (Ok programs, l\<lparr>ld_g := g'\<rparr>) \<and>
    map fst programs = map fst missing"
proof (induction missing arbitrary: l)
  case Nil
  show ?case
    by (intro exI[of _ "[]"] exI[of _ "ld_g l"]) simp
next
  case (Cons e missing)
  obtain key criteria count where e: "e = (key, criteria, count)"
    by (cases e)
  obtain r g1 where loaded: "load_program_accounts I A fetch key (ld_g l) = (Ok r, g1)"
    using load_program_accounts_total[of I A fetch key "ld_g l"] by blast
  obtain p where p: "load_program I A fetch slot key l = (Ok p, l\<lparr>ld_g := g1\<rparr>)"
    using load_program_run[OF loaded refl, of slot] ..
  obtain programs g2 where "load_missing I A fetch slot missing (l\<lparr>ld_g := g1\<rparr>) =
      (Ok programs, l\<lparr>ld_g := g1\<rparr>\<lparr>ld_g := g2\<rparr>)" "map fst programs = map fst missing"
    using Cons.IH[of "l\<lparr>ld_g := g1\<rparr>"] by auto
  with p e show ?case
    by (intro exI[of _ "(key, store_tx_usage A p count) # programs"] exI[of _ g2]) simp
qed

lemma replenish_all_total: "\<exists>batch' l'. replenish_all A programs batch l = (Ok batch', l') \<and> ld_g l' = ld_g l"
proof (induction programs arbitrary: batch l)
  case (Cons p programs)
  obtain key program entry cache where "p = (key, program)"
    "cache_replenish A (ld_cache l) key program = (entry, cache)"
    by (metis surj_pair)
  then show ?case
    using Cons.IH[of "batch_replenish A batch key entry" "l\<lparr>ld_cache := cache\<rparr>"] by simp
qed simp

lemma replenish_collected:
  assumes "collect_missing (ld_program_owners l) fetch (message_keys messages) [] (ld_g l) = (Ok missing0, g')"
  shows "\<exists>batch l'. replenish_program_cache I A fetch s messages l = (Ok batch, l')"
proof -
  let ?l = "l\<lparr>ld_g := g'\<rparr>"
  obtain cache missing batch where ex: "cache_extract A (ld_cache l) s
      (fold insert_missing (ld_builtin_programs l) missing0)
      (batch_new A (current_slot s) (environments A (ld_cache l))) False = (cache, missing, batch)"
    by (metis prod_cases3)
  obtain programs g2 where "load_missing I A fetch (current_slot s) missing (?l\<lparr>ld_cache := cache\<rparr>) =
      (Ok programs, ?l\<lparr>ld_cache := cache\<rparr>\<lparr>ld_g := g2\<rparr>)"
    using load_missing_total[of I A fetch "current_slot s" missing "?l\<lparr>ld_cache := cache\<rparr>"] by auto
  moreover obtain batch' l' where "replenish_all A programs batch (?l\<lparr>ld_cache := cache\<rparr>\<lparr>ld_g := g2\<rparr>) =
      (Ok batch', l')"
    using replenish_all_total[of A programs batch "?l\<lparr>ld_cache := cache\<rparr>\<lparr>ld_g := g2\<rparr>"] by auto
  ultimately show ?thesis
    using assms ex by (simp add: replenish_program_cache_def extract_and_load_def on_source_def)
qed

lemma collect_missing_total:
  assumes total: "\<And>e key g. \<exists>a g'. require_account fetch e key g = (Ok a, g')"
  shows "\<exists>missing' g'. collect_missing owners fetch keys missing g = (Ok missing', g')"
proof (induction keys arbitrary: missing g)
  case (Cons k keys)
  obtain a h where "require_account fetch AccountNotFound k g = (Ok a, h)"
    using total by blast
  with Cons show ?case
    by simp
qed simp

subsection \<open>The programs of a batch\<close>

text \<open>
  The documented behaviour of the cache and of a batch of programs, with \<open>has\<close> for what a batch contains:
  \<open>extract\<close> puts the programs it finds into the batch and leaves the others missing, and an entry that was
  put into a batch stays.
\<close>

definition batch_laws ::
  "('cache, 'envs, 'env, 'batch, 'prog, 'fs) program_api \<Rightarrow> ('batch \<Rightarrow> pubkey \<Rightarrow> bool) \<Rightarrow> bool" where
  "batch_laws A has \<longleftrightarrow>
     (\<forall>b k p. has (batch_replenish A b k p) k) \<and>
     (\<forall>b k p k'. has b k' \<longrightarrow> has (batch_replenish A b k p) k') \<and>
     (\<forall>cache s missing batch first cache' missing' batch'.
        cache_extract A cache s missing batch first = (cache', missing', batch') \<longrightarrow>
        (\<forall>k \<in> fst ` set missing. k \<in> fst ` set missing' \<or> has batch' k))"

lemma replenish_all_has:
  assumes laws: "batch_laws A has"
  shows "replenish_all A programs batch l = (Ok batch', l') \<Longrightarrow>
    k \<in> fst ` set programs \<or> has batch k \<Longrightarrow> has batch' k"
proof (induction programs arbitrary: batch l)
  case (Cons p programs)
  obtain key program where p: "p = (key, program)"
    by (cases p)
  obtain entry cache where "cache_replenish A (ld_cache l) key program = (entry, cache)"
    by (cases "cache_replenish A (ld_cache l) key program")
  with Cons.prems(1) p have rest: "replenish_all A programs (batch_replenish A batch key entry) (l\<lparr>ld_cache := cache\<rparr>) =
      (Ok batch', l')"
    by simp
  have "k \<in> fst ` set programs \<or> has (batch_replenish A batch key entry) k"
    using Cons.prems(2) p laws by (auto simp: batch_laws_def)
  with Cons.IH[OF rest] show ?case
    by blast
qed simp

lemma extract_and_load_has:
  assumes laws: "batch_laws A has" and run: "extract_and_load I A fetch s missing0 l = (Ok batch', l')"
    and k: "k \<in> fst ` set (fold insert_missing (ld_builtin_programs l) missing0)"
  shows "has batch' k"
proof -
  obtain cache missing batch where ex: "cache_extract A (ld_cache l) s
      (fold insert_missing (ld_builtin_programs l) missing0)
      (batch_new A (current_slot s) (environments A (ld_cache l))) False = (cache, missing, batch)"
    by (metis prod_cases3)
  obtain programs g where load: "load_missing I A fetch (current_slot s) missing (l\<lparr>ld_cache := cache\<rparr>) =
      (Ok programs, l\<lparr>ld_cache := cache\<rparr>\<lparr>ld_g := g\<rparr>)" and same: "map fst programs = map fst missing"
    using load_missing_total[of I A fetch "current_slot s" missing "l\<lparr>ld_cache := cache\<rparr>"] by auto
  have fin: "replenish_all A programs batch (l\<lparr>ld_cache := cache\<rparr>\<lparr>ld_g := g\<rparr>) = (Ok batch', l')"
    using run ex load by (simp add: extract_and_load_def)
  have "k \<in> fst ` set missing \<or> has batch k"
    using laws ex k unfolding batch_laws_def by blast
  moreover have "fst ` set programs = fst ` set missing"
    using same by (metis list.set_map)
  ultimately show ?thesis
    using replenish_all_has[OF laws fin] by simp
qed

end
