(* ===== verification/Transaction_Loader.thy ===== *)
theory Transaction_Loader
  imports Account_Source
begin

text \<open>
  \<open>loader/transaction_loader.rs\<close>: the accounts of a message, followed by the programs that own its
  programs, and for every instruction the chain of owners from its program up to the native
  loader, as indices into the accounts.
\<close>

type_synonym loaded_accounts = "(pubkey \<times> account) list"

record loaded_transaction =
  lt_accounts :: loaded_accounts
  program_indices :: "u16 list list"
  lt_rent :: u64

text \<open>\<open>construct_instructions_data\<close> belongs to the SDK and is an argument.\<close>

definition construct_instructions_account ::
  "sdk_ids \<Rightarrow> (sanitized_message \<Rightarrow> bytes) \<Rightarrow> sanitized_message \<Rightarrow> account" where
  "construct_instructions_account I instructions_data message =
     account_default\<lparr>data := instructions_data message, owner := sysvar_program_id I\<rparr>"

text \<open>The first loop.\<close>

fun load_message_accounts ::
  "sdk_ids \<Rightarrow> ('g, account) source \<Rightarrow> account \<Rightarrow> pubkey list \<Rightarrow> loaded_accounts \<Rightarrow>
   ('g, anyhow_error, loaded_accounts) act" where
  "load_message_accounts I fetch ix_account [] accounts = act_return accounts"
| "load_message_accounts I fetch ix_account (key # keys) accounts =
     (if key = sysvar_instructions_id I
      then load_message_accounts I fetch ix_account keys (accounts @ [(key, ix_account)])
      else act_bind (require_account fetch AccountNotFound key) (\<lambda>account.
        load_message_accounts I fetch ix_account keys (accounts @ [(key, account)])))"

text \<open>\<open>for _ in 0..5\<close> with \<open>n\<close> rounds left; the result is the indices and the accounts.\<close>

fun owner_chain ::
  "sdk_ids \<Rightarrow> ('g, account) source \<Rightarrow> nat \<Rightarrow> nat \<Rightarrow> nat \<Rightarrow> u16 list \<Rightarrow> loaded_accounts \<Rightarrow>
   ('g, anyhow_error, u16 list \<times> loaded_accounts) act" where
  "owner_chain I fetch builtins_start 0 program_index account_indices accounts =
     act_lift (Err (TransactionFailure CallChainTooDeep))"
| "owner_chain I fetch builtins_start (Suc n) program_index account_indices accounts =
     (if length accounts \<le> program_index then act_lift (Err (TransactionFailure ProgramAccountNotFound))
      else case accounts ! program_index of (program_key, program_account) \<Rightarrow>
        if program_key = native_loader_id I then act_return (account_indices, accounts)
        else let account_indices' = of_nat program_index # account_indices;
                 owner_id = owner program_account in
          if owner_id = native_loader_id I then act_return (account_indices', accounts)
          else case slice_from accounts builtins_start of
            None \<Rightarrow> act_lift (Err (TransactionFailure ProgramAccountNotFound))
          | Some builtins \<Rightarrow> (case position (\<lambda>(key, _). key = owner_id) builtins of
              Some owner_index \<Rightarrow>
                owner_chain I fetch builtins_start n (builtins_start + owner_index) account_indices' accounts
            | None \<Rightarrow>
                act_bind (require_account fetch ProgramAccountNotFound owner_id) (\<lambda>owner_account.
                owner_chain I fetch builtins_start n (length accounts) account_indices'
                  (accounts @ [(owner_id, owner_account)]))))"

text \<open>\<open>'OUTER: for ix in msg.instructions()\<close>.\<close>

fun load_program_indices ::
  "sdk_ids \<Rightarrow> ('g, account) source \<Rightarrow> nat \<Rightarrow> compiled_instruction list \<Rightarrow> u16 list list \<Rightarrow> loaded_accounts \<Rightarrow>
   ('g, anyhow_error, u16 list list \<times> loaded_accounts) act" where
  "load_program_indices I fetch builtins_start [] indices accounts = act_return (indices, accounts)"
| "load_program_indices I fetch builtins_start (ix # ixs) indices accounts =
     act_bind (owner_chain I fetch builtins_start 5 (unat (program_id_index ix)) [] accounts)
       (\<lambda>(account_indices, accounts').
     load_program_indices I fetch builtins_start ixs (indices @ [account_indices]) accounts')"

definition load_transaction_accounts ::
  "sdk_ids \<Rightarrow> (sanitized_message \<Rightarrow> bytes) \<Rightarrow> ('g, account) source \<Rightarrow> sanitized_message \<Rightarrow>
   ('g, anyhow_error, loaded_transaction) act" where
  "load_transaction_accounts I instructions_data fetch msg =
     act_bind (load_message_accounts I fetch (construct_instructions_account I instructions_data msg)
       (account_keys msg) []) (\<lambda>accounts.
     act_bind (load_program_indices I fetch (length accounts) (instructions msg) [] accounts)
       (\<lambda>(indices, accounts').
     act_return \<lparr>lt_accounts = accounts', program_indices = indices, lt_rent = 0\<rparr>))"

subsection \<open>What a loaded transaction is\<close>

text \<open>
  \<open>is_chain I accounts start i is\<close>: the indices, from the program outwards, start at \<open>i\<close>, each is
  followed by an account behind \<open>start\<close> that has the owner's key, and the last one is owned by the
  native loader; the native loader itself has no chain.
\<close>

fun is_chain :: "sdk_ids \<Rightarrow> loaded_accounts \<Rightarrow> nat \<Rightarrow> nat \<Rightarrow> nat list \<Rightarrow> bool" where
  "is_chain I accounts start i [] \<longleftrightarrow> i < length accounts \<and> fst (accounts ! i) = native_loader_id I"
| "is_chain I accounts start i (j # js) \<longleftrightarrow>
     j = i \<and> i < length accounts \<and> fst (accounts ! i) \<noteq> native_loader_id I \<and>
     (case js of
        [] \<Rightarrow> owner (snd (accounts ! i)) = native_loader_id I
      | k # _ \<Rightarrow> owner (snd (accounts ! i)) \<noteq> native_loader_id I \<and> start \<le> k \<and> k < length accounts \<and>
          fst (accounts ! k) = owner (snd (accounts ! i)) \<and> is_chain I accounts start k js)"

lemma is_chain_append: "is_chain I accounts start i js \<Longrightarrow> is_chain I (accounts @ ext) start i js"
proof (induction js arbitrary: i)
  case (Cons j js)
  then show ?case
    by (cases js) (simp_all add: nth_append)
qed (simp add: nth_append)

lemma owner_chain_ok:
  "owner_chain I fetch start n i inds accs g = (Ok (inds', accs'), g') \<Longrightarrow> start \<le> length accs \<Longrightarrow>
   distinct (map fst (drop start accs)) \<Longrightarrow>
   \<exists>js ext. accs' = accs @ ext \<and> inds' = map of_nat (rev js) @ inds \<and> length js \<le> n \<and>
     is_chain I accs' start i js \<and> distinct (map fst (drop start accs'))"
proof (induction n arbitrary: i inds accs g)
  case (Suc n)
  show ?case
  proof (cases "i < length accs")
    case False
    with Suc.prems show ?thesis
      by simp
  next
    case inside: True
    obtain key acc where acc: "accs ! i = (key, acc)"
      by (cases "accs ! i")
    show ?thesis
    proof (cases "key = native_loader_id I \<or> owner acc = native_loader_id I")
      case True
      then show ?thesis
      proof
        assume "key = native_loader_id I"
        with Suc.prems inside acc show ?thesis
          by (intro exI[of _ "[]"]) auto
      next
        assume "owner acc = native_loader_id I"
        with Suc.prems inside acc show ?thesis
          by (cases "key = native_loader_id I")
            (auto intro: exI[of _ "[]"] exI[of _ "[i]"])
      qed
    next
      case False
      have step: ?thesis
        if run: "owner_chain I fetch start n k (of_nat i # inds) (accs @ more) h = (Ok (inds', accs'), g')"
          and dist: "distinct (map fst (drop start (accs @ more)))"
          and k_bounds: "start \<le> k" "k < length (accs @ more)" and k_key: "fst ((accs @ more) ! k) = owner acc" for k more h
      proof -
        obtain js ext where IH: "accs' = (accs @ more) @ ext" "inds' = map of_nat (rev js) @ of_nat i # inds"
          "length js \<le> n" "is_chain I accs' start k js" "distinct (map fst (drop start accs'))"
          using Suc.IH[OF run] dist Suc.prems(2) by auto
        have k: "fst (accs' ! k) = owner acc" "k < length accs'"
          using k_bounds(2) k_key by (auto simp: IH(1) nth_append split: if_splits)
        with IH(4) False have "\<exists>js'. js = k # js'"
          by (cases js) auto
        moreover have "accs' ! i = (key, acc)" "i < length accs'"
          using inside acc by (simp_all add: IH(1) nth_append)
        ultimately have "is_chain I accs' start i (i # js)"
          using IH(4) k k_bounds(1) False by auto
        with IH show ?thesis
          by (intro exI[of _ "i # js"] exI[of _ "more @ ext"]) simp
      qed
      show ?thesis
      proof (cases "position (\<lambda>(k, _). k = owner acc) (drop start accs)")
        case (Some oi)
        then have "oi < length (drop start accs)" "fst (drop start accs ! oi) = owner acc"
          using position_Some[OF Some] by (auto simp: case_prod_beta)
        then show ?thesis
          using Suc.prems False inside acc Some
          by (intro step[of "start + oi" "[]" g]) (simp_all add: slice_from_def Let_def)
      next
        case None
        then obtain a h where "require_account fetch ProgramAccountNotFound (owner acc) g = (Ok a, h)"
          "owner_chain I fetch start n (length accs) (of_nat i # inds) (accs @ [(owner acc, a)]) h =
            (Ok (inds', accs'), g')"
          using Suc.prems False inside acc by (auto simp: slice_from_def Let_def act_bind_eq_Ok)
        then show ?thesis
          using Suc.prems None[unfolded position_None] by (intro step[of "length accs" "[(owner acc, a)]" h]) fastforce+
      qed
    qed
  qed
qed simp

lemma load_message_accounts_ok:
  "load_message_accounts I fetch ix_account keys accs g = (Ok accs', g') \<Longrightarrow>
   map fst accs' = map fst accs @ keys"
  by (induction keys arbitrary: accs g) (auto simp: act_bind_eq_Ok split: if_splits)

lemma load_program_indices_ok:
  "load_program_indices I fetch start ixs inds accs g = (Ok (inds', accs'), g') \<Longrightarrow> start \<le> length accs \<Longrightarrow>
   distinct (map fst (drop start accs)) \<Longrightarrow>
   \<exists>ext chains. accs' = accs @ ext \<and> inds' = inds @ map (\<lambda>js. map of_nat (rev js)) chains \<and>
     list_all2 (\<lambda>ix js. length js \<le> 5 \<and> is_chain I accs' start (unat (program_id_index ix)) js) ixs chains \<and>
     distinct (map fst (drop start accs'))"
proof (induction ixs arbitrary: inds accs g)
  case (Cons ix ixs)
  then obtain is1 accs1 g1 where first: "owner_chain I fetch start 5 (unat (program_id_index ix)) [] accs g =
      (Ok (is1, accs1), g1)"
    and rest: "load_program_indices I fetch start ixs (inds @ [is1]) accs1 g1 = (Ok (inds', accs'), g')"
    by (auto simp: act_bind_eq_Ok)
  obtain js ext where js: "accs1 = accs @ ext" "is1 = map of_nat (rev js)" "length js \<le> 5"
    "is_chain I accs1 start (unat (program_id_index ix)) js" "distinct (map fst (drop start accs1))"
    using owner_chain_ok[OF first Cons.prems(2,3)] by auto
  obtain ext' chains where "accs' = accs1 @ ext'"
    "inds' = (inds @ [is1]) @ map (\<lambda>js. map of_nat (rev js)) chains"
    "list_all2 (\<lambda>ix js. length js \<le> 5 \<and> is_chain I accs' start (unat (program_id_index ix)) js) ixs chains"
    "distinct (map fst (drop start accs'))"
    using Cons.IH[OF rest _ js(5)] Cons.prems(2) js(1) by auto
  moreover have "is_chain I (accs1 @ ext') start (unat (program_id_index ix)) js"
    using js(4) by (rule is_chain_append)
  ultimately show ?case
    using js(1-3) by (intro exI[of _ "ext @ ext'"] exI[of _ "js # chains"]) simp
qed (auto intro: exI[of _ "[]"])

text \<open>A source is settled on everything that was loaded from it.\<close>

lemma load_transaction_accounts_parts:
  assumes "load_transaction_accounts I instructions_data fetch msg g = (Ok lt, g')"
  obtains accs h where
    "load_message_accounts I fetch (construct_instructions_account I instructions_data msg)
      (account_keys msg) [] g = (Ok accs, h)"
    "load_program_indices I fetch (length accs) (instructions msg) [] accs h =
      (Ok (program_indices lt, lt_accounts lt), g')"
    "map fst accs = account_keys msg" "length accs = length (account_keys msg)"
proof -
  obtain accs h where accs: "load_message_accounts I fetch (construct_instructions_account I instructions_data msg)
      (account_keys msg) [] g = (Ok accs, h)"
    and rest: "load_program_indices I fetch (length accs) (instructions msg) [] accs h =
      (Ok (program_indices lt, lt_accounts lt), g')"
    using assms by (auto simp: load_transaction_accounts_def act_bind_eq_Ok)
  have "map fst accs = account_keys msg"
    using load_message_accounts_ok[OF accs] by simp
  with accs rest that show ?thesis
    by (metis length_map)
qed

context account_source
begin

definition settled_on :: "sdk_ids \<Rightarrow> account \<Rightarrow> 'g \<Rightarrow> loaded_accounts \<Rightarrow> bool" where
  "settled_on I ix_account g accounts \<longleftrightarrow>
     (\<forall>(k, a) \<in> set accounts. (k = sysvar_instructions_id I \<and> a = ix_account) \<or> settled g k (Some a))"

lemma settled_on_require:
  assumes "settled_on I ix_account g accounts" "require_account fetch e k g = (Ok a, g')"
  shows "settled_on I ix_account g' (accounts @ [(k, a)])"
  using assms require_settles[OF assms(2)] require_stays[of g _ _ e k]
  by (fastforce simp: settled_on_def)

lemma load_message_accounts_settled:
  "load_message_accounts I fetch ix_account keys accs g = (Ok accs', g') \<Longrightarrow>
   settled_on I ix_account g accs \<Longrightarrow> settled_on I ix_account g' accs'"
proof (induction keys arbitrary: accs g)
  case (Cons k keys)
  show ?case
  proof (cases "k = sysvar_instructions_id I")
    case True
    with Cons.prems show ?thesis
      by (intro Cons.IH[of "accs @ [(k, ix_account)]" g]) (auto simp: settled_on_def)
  next
    case False
    then obtain a h where "require_account fetch AccountNotFound k g = (Ok a, h)"
      "load_message_accounts I fetch ix_account keys (accs @ [(k, a)]) h = (Ok accs', g')"
      using Cons.prems(1) by (auto simp: act_bind_eq_Ok)
    with Cons.IH[of "accs @ [(k, a)]" h] settled_on_require[OF Cons.prems(2)] show ?thesis
      by blast
  qed
qed simp

lemma owner_chain_settled:
  "owner_chain I fetch start n i inds accs g = (Ok (inds', accs'), g') \<Longrightarrow>
   settled_on I ix_account g accs \<Longrightarrow> settled_on I ix_account g' accs'"
  by (induction n arbitrary: i inds accs g)
    (auto simp: act_bind_eq_Ok Let_def split: if_splits prod.splits option.splits
      dest: settled_on_require)

lemma load_program_indices_settled:
  "load_program_indices I fetch start ixs inds accs g = (Ok (inds', accs'), g') \<Longrightarrow>
   settled_on I ix_account g accs \<Longrightarrow> settled_on I ix_account g' accs'"
  by (induction ixs arbitrary: inds accs g)
    (auto simp: act_bind_eq_Ok dest: owner_chain_settled)

lemma loaded_accounts_settled_on:
  assumes "load_transaction_accounts I instructions_data fetch msg g = (Ok lt, g')"
  shows "settled_on I (construct_instructions_account I instructions_data msg) g' (lt_accounts lt)"
proof -
  obtain accs h where accs: "load_message_accounts I fetch (construct_instructions_account I instructions_data msg)
      (account_keys msg) [] g = (Ok accs, h)"
    and rest: "load_program_indices I fetch (length accs) (instructions msg) [] accs h =
      (Ok (program_indices lt, lt_accounts lt), g')"
    by (rule load_transaction_accounts_parts[OF assms])
  show ?thesis
    by (rule load_program_indices_settled[OF rest load_message_accounts_settled[OF accs]]) (simp add: settled_on_def)
qed

lemma loaded_accounts_settled:
  assumes "load_transaction_accounts I instructions_data fetch msg g = (Ok lt, g')"
    and "(key, account) \<in> set (lt_accounts lt)" and "key \<noteq> sysvar_instructions_id I"
  shows "settled g' key (Some account)"
  using loaded_accounts_settled_on[OF assms(1)] assms(2,3) by (auto simp: settled_on_def)

end

subsection \<open>A source that always answers\<close>

lemma owner_chain_total:
  assumes total: "\<And>e key g. \<exists>a g'. require_account fetch e key g = (Ok a, g')"
  shows "i < length accs \<Longrightarrow> start \<le> length accs \<Longrightarrow>
    (\<exists>inds' accs' g'. owner_chain I fetch start n i inds accs g = (Ok (inds', accs'), g') \<and> length accs \<le> length accs') \<or>
    (\<exists>g'. owner_chain I fetch start n i inds accs g = (Err (TransactionFailure CallChainTooDeep), g'))"
proof (induction n arbitrary: i inds accs g)
  case (Suc n)
  obtain key acc where acc: "accs ! i = (key, acc)"
    by (cases "accs ! i")
  obtain b h where b: "require_account fetch ProgramAccountNotFound (owner acc) g = (Ok b, h)"
    using total by blast
  show ?case
  proof (cases "key = native_loader_id I \<or> owner acc = native_loader_id I")
    case True
    with Suc.prems acc show ?thesis
      by (cases "key = native_loader_id I") simp_all
  next
    case False
    show ?thesis
    proof (cases "position (\<lambda>(k, _). k = owner acc) (drop start accs)")
      case None
      have "owner_chain I fetch start (Suc n) i inds accs g =
          owner_chain I fetch start n (length accs) (of_nat i # inds) (accs @ [(owner acc, b)]) h"
        using False None Suc.prems acc b by (simp add: Let_def slice_from_def)
      with Suc.IH[of "length accs" "accs @ [(owner acc, b)]" "of_nat i # inds" h] Suc.prems(2) show ?thesis
        by (simp del: owner_chain.simps) (meson Suc_leD)
    next
      case (Some k)
      have "owner_chain I fetch start (Suc n) i inds accs g =
          owner_chain I fetch start n (start + k) (of_nat i # inds) accs g"
        using False Some Suc.prems acc by (simp add: Let_def slice_from_def)
      moreover have "start + k < length accs"
        using position_Some[OF Some] by auto
      ultimately show ?thesis
        using Suc.IH[of "start + k" accs "of_nat i # inds" g] Suc.prems(2)
        by (simp del: owner_chain.simps)
    qed
  qed
qed simp

lemma load_message_accounts_total:
  assumes total: "\<And>e key g. \<exists>a g'. require_account fetch e key g = (Ok a, g')"
  shows "\<exists>accs' g'. load_message_accounts I fetch ix keys accs g = (Ok accs', g')"
proof (induction keys arbitrary: accs g)
  case (Cons k keys)
  obtain a h where "require_account fetch AccountNotFound k g = (Ok a, h)"
    using total by blast
  with Cons show ?case
    by simp
qed simp

lemma load_program_indices_total:
  assumes total: "\<And>e key g. \<exists>a g'. require_account fetch e key g = (Ok a, g')"
  shows "\<forall>ix \<in> set ixs. unat (program_id_index ix) < length accs \<Longrightarrow> start \<le> length accs \<Longrightarrow>
    (\<exists>r g'. load_program_indices I fetch start ixs inds accs g = (Ok r, g')) \<or>
    (\<exists>g'. load_program_indices I fetch start ixs inds accs g = (Err (TransactionFailure CallChainTooDeep), g'))"
proof (induction ixs arbitrary: inds accs g)
  case (Cons ix ixs)
  have "unat (program_id_index ix) < length accs"
    using Cons.prems(1) by simp
  from owner_chain_total[OF total this Cons.prems(2), of I 5 "[]" g] show ?case
  proof (elim disjE exE conjE)
    fix inds' accs' g'
    assume "owner_chain I fetch start 5 (unat (program_id_index ix)) [] accs g = (Ok (inds', accs'), g')"
      and "length accs \<le> length accs'"
    with Cons.prems Cons.IH[of accs' "inds @ [inds']" g'] show ?thesis
      by fastforce
  qed simp
qed simp

subsection \<open>How many accounts are loaded\<close>

lemma is_chain_less: "is_chain I accounts start i js \<Longrightarrow> j \<in> set js \<Longrightarrow> j < length accounts"
proof (induction js arbitrary: i)
  case (Cons k js)
  then show ?case
    by (cases js) auto
qed simp

lemma owner_chain_length:
  "owner_chain I fetch start n i inds accs g = (Ok (inds', accs'), g') \<Longrightarrow>
   0 < n \<and> length accs' \<le> length accs + (n - 1)"
proof (induction n arbitrary: i inds accs g)
  case (Suc n)
  have step: ?case
    if "owner_chain I fetch start n k inds1 (accs @ more) h = (Ok (inds', accs'), g')" "length more \<le> 1"
    for k inds1 more h
    using Suc.IH[OF that(1)] that(2) unfolding length_append by linarith
  from Suc.prems show ?case
    using step[of _ _ "[]"] step[of _ _ "[_]"]
    by (fastforce simp: act_bind_eq_Ok Let_def split: if_splits option.splits prod.splits)
qed simp

lemma load_program_indices_length:
  "load_program_indices I fetch start ixs inds accs g = (Ok (inds', accs'), g') \<Longrightarrow>
   length accs' \<le> length accs + 4 * length ixs"
proof (induction ixs arbitrary: inds accs g)
  case (Cons ix ixs)
  then obtain js accs1 g1 where first: "owner_chain I fetch start 5 (unat (program_id_index ix)) [] accs g =
      (Ok (js, accs1), g1)"
    and rest: "load_program_indices I fetch start ixs (inds @ [js]) accs1 g1 = (Ok (inds', accs'), g')"
    by (auto simp: act_bind_eq_Ok)
  show ?case
    using owner_chain_length[OF first] Cons.IH[OF rest] by simp
qed simp

end
