(* ===== verification/Message_Executor.thy ===== *)
theory Message_Executor
  imports Program_Loader Transaction_Loader
begin

text \<open>
  \<open>message_executor/executor.rs\<close>: the executor of whole messages.  It owns the cache of loaded
  programs, the feature set and the log, and hands them to the loader and to the runtime's message
  processor.  Feature sets, environments, the table of builtins and the processor are not part of the
  repository and are fields of \<open>runtime\<close>.
\<close>

record 'ep builtin_prototype =
  bp_feature_id :: "pubkey option"
  bp_program_id :: pubkey
  bp_name :: string
  bp_entrypoint :: 'ep

record ('fs, 'sv, 'lg, 'cache, 'prog, 'batch, 'tc, 'ep) runtime =
  features_default :: 'fs
  feature_activate :: "'fs \<Rightarrow> pubkey \<Rightarrow> 'fs"
  feature_active :: "'fs \<Rightarrow> pubkey \<Rightarrow> bool"
  sysvar_cache_default :: 'sv
  log_collector_new :: 'lg
  loaded_programs_new :: "u64 \<Rightarrow> u64 \<Rightarrow> 'cache"
  set_environments :: "'fs \<Rightarrow> 'cache \<Rightarrow> 'cache option"
  loaded_program_builtin :: "u64 \<Rightarrow> nat \<Rightarrow> 'ep \<Rightarrow> 'prog"
  BUILTINS :: "'ep builtin_prototype list"
  transaction_context_new :: "loaded_accounts \<Rightarrow> 'tc"
  process_message :: "sanitized_message \<Rightarrow> u16 list list \<Rightarrow> 'tc \<Rightarrow> 'lg option \<Rightarrow> 'batch \<Rightarrow> 'batch \<Rightarrow> 'batch \<Rightarrow>
    'fs \<Rightarrow> 'sv \<Rightarrow> (transaction_error + unit) \<times> 'tc \<times> 'lg \<times> u64"
  deconstruct_without_keys :: "'tc \<Rightarrow> instruction_error + account list"

text \<open>The documented behaviour of a feature set.\<close>

definition feature_laws :: "('fs, 'sv, 'lg, 'cache, 'prog, 'batch, 'tc, 'ep) runtime \<Rightarrow> bool" where
  "feature_laws T \<longleftrightarrow>
     (\<forall>f. \<not> feature_active T (features_default T) f) \<and>
     (\<forall>fs f g. feature_active T (feature_activate T fs f) g \<longleftrightarrow> g = f \<or> feature_active T fs g)"

record execution_record =
  rec_keys :: "pubkey list"
  rec_datas :: "account list"
  rec_cu :: u64

record ('fs, 'sv, 'lg, 'cache) message_executor =
  me_feature_set :: 'fs
  me_sysvar_cache :: 'sv
  me_logger :: "'lg option"
  me_program_owners :: "pubkey list"
  me_builtin_programs :: "pubkey list"
  me_loaded_programs :: 'cache

text \<open>One round of the loop over \<open>BUILTINS\<close>.\<close>

definition add_builtin ::
  "('fs, 'sv, 'lg, 'cache, 'prog, 'batch, 'tc, 'ep) runtime \<Rightarrow>
   ('cache, 'envs, 'env, 'batch, 'prog, 'fs) program_api \<Rightarrow> 'ep builtin_prototype \<Rightarrow>
   ('fs, 'sv, 'lg, 'cache) message_executor \<Rightarrow> ('fs, 'sv, 'lg, 'cache) message_executor" where
  "add_builtin T A builtin this =
     (let should_apply = (case bp_feature_id builtin of
          Some f \<Rightarrow> feature_active T (me_feature_set this) f | None \<Rightarrow> True) in
      if should_apply
      then this\<lparr>me_builtin_programs := List.insert (bp_program_id builtin) (me_builtin_programs this),
                me_loaded_programs := snd (cache_replenish A (me_loaded_programs this) (bp_program_id builtin)
                  (loaded_program_builtin T 0 (length (bp_name builtin)) (bp_entrypoint builtin)))\<rparr>
      else this)"

definition message_executor_new ::
  "sdk_ids \<Rightarrow> ('fs, 'sv, 'lg, 'cache, 'prog, 'batch, 'tc, 'ep) runtime \<Rightarrow>
   ('cache, 'envs, 'env, 'batch, 'prog, 'fs) program_api \<Rightarrow> pubkey list \<Rightarrow>
   (anyhow_error, ('fs, 'sv, 'lg, 'cache) message_executor) outcome" where
  "message_executor_new I T A enabled_features =
     (let features = fold (\<lambda>feat fs. feature_activate T fs feat) enabled_features (features_default T);
          program_owners = remdups [loader_v4_id I, bpf_loader_upgradeable_id I, bpf_loader_id I,
            bpf_loader_deprecated_id I] in
      rbind (unwrap (set_environments T features (loaded_programs_new T (DEFAULT_SLOTS_PER_EPOCH A) 1)))
        (\<lambda>loaded_programs.
      let this = \<lparr>me_feature_set = features, me_sysvar_cache = sysvar_cache_default T,
            me_logger = Some (log_collector_new T), me_program_owners = program_owners,
            me_builtin_programs = [], me_loaded_programs = loaded_programs\<rparr> in
      Ok (fold (add_builtin T A) (BUILTINS T) this)))"

definition executor_loader ::
  "'g \<Rightarrow> ('fs, 'sv, 'lg, 'cache) message_executor \<Rightarrow> ('g, 'fs, 'cache) account_loader" where
  "executor_loader g this =
     account_loader_new g (me_loaded_programs this) (me_feature_set this) (me_program_owners this)
       (me_builtin_programs this)"

definition logger :: "('fs, 'sv, 'lg, 'cache) message_executor \<Rightarrow> ('e, 'lg) outcome" where
  "logger this = unwrap (me_logger this)"

definition record_log ::
  "('fs, 'sv, 'lg, 'cache, 'prog, 'batch, 'tc, 'ep) runtime \<Rightarrow> ('fs, 'sv, 'lg, 'cache) message_executor \<Rightarrow>
   ('fs, 'sv, 'lg, 'cache) message_executor" where
  "record_log T this = this\<lparr>me_logger := Some (log_collector_new T)\<rparr>"

text \<open>
  \<open>process\<close>.  The collector behind \<open>logger\<close> is shared with the processor, so what it logged is in the
  executor afterwards, also when the message failed.
\<close>

definition process ::
  "('fs, 'sv, 'lg, 'cache, 'prog, 'batch, 'tc, 'ep) runtime \<Rightarrow>
   ('cache, 'envs, 'env, 'batch, 'prog, 'fs) program_api \<Rightarrow> u64 \<Rightarrow> sanitized_message \<Rightarrow> loaded_transaction \<Rightarrow>
   'batch \<Rightarrow> (('fs, 'sv, 'lg, 'cache) message_executor, anyhow_error, execution_record) act" where
  "process T A slot message loaded_transaction loaded_programs = (\<lambda>this.
     let transaction_context = transaction_context_new T (lt_accounts loaded_transaction);
         p1 = batch_new A slot (environments A (me_loaded_programs this));
         p2 = batch_new A slot (environments A (me_loaded_programs this)) in
     case process_message T message (program_indices loaded_transaction) transaction_context
         (me_logger this) loaded_programs p1 p2 (me_feature_set this) (me_sysvar_cache this) of
       (res, transaction_context', lg, units) \<Rightarrow>
         let this' = this\<lparr>me_logger := map_option (\<lambda>_. lg) (me_logger this)\<rparr> in
         (case res of
            Inl e \<Rightarrow> (Err (TransactionFailure e), this')
          | Inr _ \<Rightarrow> (case deconstruct_without_keys T transaction_context' of
              Inl e \<Rightarrow> (Err (InstructionFailure e), this')
            | Inr datas \<Rightarrow>
                (Ok \<lparr>rec_keys = account_keys message, rec_datas = datas, rec_cu = units\<rparr>, this'))))"

subsection \<open>The builtins of a new executor\<close>

lemma feature_active_fold:
  assumes "feature_laws T"
  shows "feature_active T (fold (\<lambda>feat fs. feature_activate T fs feat) enabled fs) f \<longleftrightarrow>
    f \<in> set enabled \<or> feature_active T fs f"
  using assms by (induction enabled arbitrary: fs) (auto simp: feature_laws_def)

lemma add_builtins_kept:
  "me_feature_set (fold (add_builtin T A) bs this) = me_feature_set this \<and>
   me_program_owners (fold (add_builtin T A) bs this) = me_program_owners this \<and>
   me_logger (fold (add_builtin T A) bs this) = me_logger this"
  by (induction bs arbitrary: this) (auto simp: add_builtin_def Let_def)

lemma add_builtins_programs:
  "set (me_builtin_programs (fold (add_builtin T A) bs this)) = set (me_builtin_programs this) \<union>
     bp_program_id ` {b \<in> set bs. \<forall>f. bp_feature_id b = Some f \<longrightarrow> feature_active T (me_feature_set this) f} \<and>
   (distinct (me_builtin_programs this) \<longrightarrow>
    distinct (me_builtin_programs (fold (add_builtin T A) bs this)))"
proof (induction bs arbitrary: this)
  case (Cons b bs)
  let ?next = "add_builtin T A b this"
  have kept: "me_feature_set ?next = me_feature_set this"
    by (simp add: add_builtin_def Let_def)
  have first: "set (me_builtin_programs ?next) = set (me_builtin_programs this) \<union>
      bp_program_id ` {c \<in> {b}. \<forall>f. bp_feature_id c = Some f \<longrightarrow> feature_active T (me_feature_set this) f}"
    "distinct (me_builtin_programs this) \<longrightarrow> distinct (me_builtin_programs ?next)"
    by (auto simp: add_builtin_def Let_def split: option.split)
  from Cons.IH[of ?next] first show ?case
    unfolding kept by auto
qed simp

end
