(* ===== verification/Simulate.thy ===== *)
theory Simulate
  imports Message_Executor
begin

text \<open>
  The core of the commands in \<open>main.rs\<close>: the closure from which \<open>Simulate\<close> loads accounts, the metas it
  builds from its arguments, and \<open>GetProgramData\<close>.  The RPC node and the file system are parameters;
  the node may answer differently each time it is asked.
\<close>

type_synonym 'rpc rpc_client = "pubkey \<Rightarrow> 'rpc \<Rightarrow> (string + account) \<times> 'rpc"

record 'rpc fetch_state =
  fetched :: "pubkey \<Rightarrow> account option"
  rpc_state :: 'rpc

definition unwrap_or_default :: "string + account \<Rightarrow> account" where
  "unwrap_or_default r = (case r of Inl e \<Rightarrow> account_default | Inr a \<Rightarrow> a)"

text \<open>The account that holds the program file.\<close>

definition simulated_program :: "sdk_ids \<Rightarrow> bytes \<Rightarrow> account" where
  "simulated_program I elf =
     \<lparr>lamports = 1, data = elf, owner = bpf_loader_id I, executable = True, rent_epoch = 0\<rparr>"

definition simulate_fetch ::
  "'rpc rpc_client \<Rightarrow> pubkey \<Rightarrow> account \<Rightarrow> ('rpc fetch_state, account) source" where
  "simulate_fetch rpc pid program_data key = (\<lambda>s.
     if key = pid then (Some program_data, s)
     else case fetched s key of
       Some account \<Rightarrow> (Some account, s)
     | None \<Rightarrow> (case rpc key (rpc_state s) of (r, rpc') \<Rightarrow>
         let account = unwrap_or_default r in
         (Some account, s\<lparr>fetched := (fetched s)(key \<mapsto> account), rpc_state := rpc'\<rparr>)))"

definition simulate_settled ::
  "pubkey \<Rightarrow> account \<Rightarrow> 'rpc fetch_state \<Rightarrow> pubkey \<Rightarrow> account option \<Rightarrow> bool" where
  "simulate_settled pid program_data s key r \<longleftrightarrow>
     r \<noteq> None \<and> (if key = pid then Some program_data else fetched s key) = r"

interpretation simulate_source: account_source "simulate_fetch rpc pid program_data"
  "simulate_settled pid program_data" for rpc pid program_data
  by unfold_locales
    (auto simp: simulate_fetch_def simulate_settled_def Let_def split: if_splits option.splits prod.splits,
     metis)

text \<open>The closure always has an account.\<close>

lemma simulate_fetch_total: "\<exists>a s'. simulate_fetch rpc pid program_data key s = (Some a, s')"
  by (auto simp: simulate_fetch_def Let_def split: option.split prod.split)

lemma simulate_require: "\<exists>a s'. require_account (simulate_fetch rpc pid program_data) e key s = (Ok a, s')"
  using simulate_fetch_total[of rpc pid program_data key s] by (auto simp: require_account_run)

text \<open>
  Loading therefore fails only for a program with more than four owners above it.
\<close>

lemma simulate_load_total:
  assumes "\<forall>ix \<in> set (instructions msg). unat (program_id_index ix) < length (account_keys msg)"
  shows "(\<exists>lt s'. load_transaction_accounts I instructions_data (simulate_fetch rpc pid program_data) msg s =
      (Ok lt, s')) \<or>
    (\<exists>s'. load_transaction_accounts I instructions_data (simulate_fetch rpc pid program_data) msg s =
      (Err (TransactionFailure CallChainTooDeep), s'))"
proof -
  note total = simulate_require[of rpc pid program_data]
  obtain accs h where accs: "load_message_accounts I (simulate_fetch rpc pid program_data)
      (construct_instructions_account I instructions_data msg) (account_keys msg) [] s = (Ok accs, h)"
    using load_message_accounts_total[OF total] by blast
  then have "length accs = length (account_keys msg)"
    using load_message_accounts_ok[OF accs] by (metis append_Nil length_map list.simps(8))
  then show ?thesis
    using assms accs load_program_indices_total[OF total, of "instructions msg" accs "length accs" I "[]" h]
    by (auto simp: load_transaction_accounts_def)
qed

subsection \<open>The accounts of the instruction\<close>

definition account_metas :: "pubkey list \<Rightarrow> pubkey list \<Rightarrow> pubkey list \<Rightarrow> account_meta list" where
  "account_metas accounts signer_accounts writable_accounts =
     map (\<lambda>a. \<lparr>meta_pubkey = a, meta_is_signer = a \<in> set signer_accounts,
               meta_is_writable = a \<in> set writable_accounts\<rparr>) accounts"

subsection \<open>\<open>GetProgramData\<close>\<close>

text \<open>
  The state of a command: the files and what was logged, and the node.  A file is written through the
  handle that \<open>open\<close> gave, here its path.
\<close>

record 'f file_system =
  open_truncate :: "string \<Rightarrow> 'f \<Rightarrow> 'f option"
  file_write_all :: "string \<Rightarrow> 'f \<Rightarrow> bytes \<Rightarrow> bool \<times> 'f"
  read_file :: "string \<Rightarrow> 'f \<Rightarrow> bytes option"

type_synonym ('f, 'out, 'rpc, 'a) command_act = "(('f \<times> 'out) \<times> 'rpc, anyhow_error, 'a) act"

text \<open>What is written to a truncated file is what is read from it.\<close>

definition file_laws :: "'f file_system \<Rightarrow> bool" where
  "file_laws F \<longleftrightarrow> (\<forall>path fs0 fs1 bs fs2. open_truncate F path fs0 = Some fs1 \<longrightarrow>
     file_write_all F path fs1 bs = (True, fs2) \<longrightarrow> read_file F path fs2 = Some bs)"

definition open_file :: "'f file_system \<Rightarrow> string \<Rightarrow> ('f, 'out, 'rpc, unit) command_act" where
  "open_file F path = (\<lambda>((fs, out), rpc). case open_truncate F path fs of
     None \<Rightarrow> (Err IoFailure, ((fs, out), rpc))
   | Some fs' \<Rightarrow> (Ok (), ((fs', out), rpc)))"

definition write_file :: "'f file_system \<Rightarrow> string \<Rightarrow> bytes \<Rightarrow> ('f, 'out, 'rpc, unit) command_act" where
  "write_file F path bs = (\<lambda>((fs, out), rpc). case file_write_all F path fs bs of
     (ok, fs') \<Rightarrow> (if ok then Ok () else Err IoFailure, ((fs', out), rpc)))"

definition rpc_get_account :: "'rpc rpc_client \<Rightarrow> pubkey \<Rightarrow> ('f, 'out, 'rpc, account) command_act" where
  "rpc_get_account rpc key = (\<lambda>(local, s). case rpc key s of
     (Inl e, s') \<Rightarrow> (Err (Message e), (local, s'))
   | (Inr a, s') \<Rightarrow> (Ok a, (local, s')))"

record get_program_data_args =
  gpd_program_id :: pubkey
  gpd_destination :: string

definition get_program_data ::
  "sdk_ids \<Rightarrow> ('cache, 'envs, 'env, 'batch, 'prog, 'fs) program_api \<Rightarrow> 'f file_system \<Rightarrow> 'rpc rpc_client \<Rightarrow>
   get_program_data_args \<Rightarrow> ('f, 'out, 'rpc, unit) command_act" where
  "get_program_data I A F rpc args =
     act_bind (open_file F (gpd_destination args)) (\<lambda>_.
     act_bind (rpc_get_account rpc (gpd_program_id args)) (\<lambda>acc.
       if owner acc = bpf_loader_upgradeable_id I then
         (case upgradeable_state A (data acc) of
            Inl e \<Rightarrow> act_lift (Err (InstructionFailure e))
          | Inr state \<Rightarrow> (case state of
              Program programdata_address \<Rightarrow>
                act_bind (rpc_get_account rpc programdata_address) (\<lambda>acc.
                act_bind (act_lift (unwrap (slice_from (data acc) (size_of_programdata_metadata A))))
                  (write_file F (gpd_destination args)))
            | _ \<Rightarrow> act_lift (Err (Message ''Wrong state''))))
       else if owner acc = bpf_loader_id I then write_file F (gpd_destination args) (data acc)
       else act_lift (Err (Message ''Unknown owner for the program''))))"

end
