(* ===== verification/Features.thy ===== *)
theory Features
  imports Main
begin

text \<open>
  \<open>message_executor/mod.rs\<close>: the feature gates that the simulator activates, as the literals of the
  source.  The macro \<open>pubkey!\<close>, which decodes a literal, belongs to the SDK.
\<close>

definition FEATURES :: "string list" where
  "FEATURES =
    [
     ''E3PHP7w8kB7np3CTQ1qQ2tW3KCtjRSXBQgW9vM2mWv2Y'',
     ''E5JiFDQCwyC6QfT9REFyMpfK2mHcmv1GUDySU1Ue7TYv'',
     ''4kpdyrcj5jS47CZb2oJGfVxjYbsMm2Kx97gFyZrxxwXz'',
     ''GaBtBJvmS4Arjj5W1NmFcyvPjsHN38UGYDq2MDwbs9Qu'',
     ''4RWNif6C2WCNiKVW7otP4G7dkmkHGyKQWRpuZ1pxKU5m'',
     ''GE7fRxmW46K6EmCD9AMZSbnaJ2e3LfqCZzdHi9hmYAgi'',
     ''7XRJcS5Ud5vxGB54JbK9N2vBZVwnwdBNeJW1ibRgD9gx'',
     ''BzBBveUDymEYoYzcMWNQCx3cd4jQs7puaVFHLtsbB6fm'',
     ''BL99GYhdjjcv6ys22C9wPgn2aTVERDbPHHo4NbS3hgp7'',
     ''GvDsGDkH5gyzwpDhxNixx8vtx1kwYHH13RiNAPw27zXb'',
     ''3ccR6QpxGYsAbWyfevEtBNGfWV4xBffxRj2tD6A9i39F'',
     ''D4jsDcXaqdW8tDAWn8H4R25Cdns2YwLneujSL1zvjW6R'',
     ''BcWknVcgvonN8sL4HE4XFuEVgfcee5MwxWPAgP6ZV89X'',
     ''BrTR9hzw4WBGFP65AJMbpAo64DcA3U6jdPSga9fMV5cS'',
     ''FToKNBYyiF4ky9s8WsmLBXHCht17Ek7RXaLZGHzzQhJ1'',
     ''3E3jV7v9VcdJL8iYZUMax9DiDno8j7EWUVbhm9RtShj2'',
     ''C5fh68nJ7uyKAuYZg2x9sEQ5YrVf3dkW6oojNBSc3Jvo'',
     ''EBeznQDjcPG8491sFsKZYBi5S5jTVXMpAKNDJMQPS2kq'',
     ''EVW9B5xD9FFK7vw1SBARwMA4s5eRo5eKJdKpsBikzKBz'',
     ''SAdVFw3RZvzbo6DvySbSdBnHN4gkzSTH9dSxesyKKPj'',
     ''meRgp4ArRPhD3KtCY9c5yAf2med7mBLsjKTPeVUHqBL'',
     ''6RvdSWHh8oh72Dp7wMTS2DBkf3fRPtChfNrAo3cZZoXJ'',
     ''BKCPBQQBZqggVnFso5nQ8rQ4RwwogYwjuUt9biBjxwNF'',
     ''265hPS8k8xJ37ot82KEgjRunsUp5w4n4Q4VwwiN9i9ps'',
     ''8kEuAshXLsgkUEdcFVLqrjCGGHVWFW99ZZpxvAzzMtBp'',
     ''DhsYfRjxfnh2g7HKJYSzT79r74Afa1wbHkAgHndrA1oy'',
     ''HFpdDDNQjvcXnXKec697HDDsyk6tFoWS2o8fkxuhQZpL'',
     ''4d5AKtxoh93Dwm1vHXUU3iRATuMndx1c431KgT2td52r'',
     ''7txXZZD6Um59YoLMF7XUNimbMjsqsWhc7g2EniiTrmp1'',
     ''EMX9Q7TVFAmQ9V1CggAkhMzhXSg8ECp7fHrWQX2G1chf'',
     ''Ftok2jhqAqxUWEiCVRrfRs9DPppWP8cgTB7NQNKL88mS'',
     ''HTTgmruMYRZEntyL3EdCDdnS6e4D5wRq1FA7kQsb66qq'',
     ''6ppMXNYLhVd7GcsZ5uV11wQEW7spppiMVfqQv5SXhDpX'',
     ''6uaHcKPGUy4J7emLBgUTeufhJdiwhngW6a1R9B7c2ob9'',
     ''DwScAzPUjuv65TMbDnFY7AgwmotzWy3xpEJMXM3hZFaB'',
     ''FaTa4SpiaSNH44PGC4z8bnGVTkSRYaWvrBs3KTu8XQQq'',
     ''E8MkiWZNNPGU6n55jkGzyj8ghUmjCHRmDFdYYFYHxWhQ'',
     ''BkFDxiJQWZXGTZaJQxH7wVEHkAmwCgSEVkrvswFfRJPD'',
     ''75m6ysz33AfLA5DDEzWM1obBrnPQRSsdVQ2nRmc8Vuu1'',
     ''CFK1hRCNy8JJuAAY8Pb2GjLFNdCThS2qwZNe3izzBMgn'',
     ''5ekBxc8itEnPv4NzGJtr8BVVQLNMQuLMNQQj7pHoLNZ9'',
     ''CCu4boMmfLuqcmfTLPHQiUo22ZdUsXjgzPAURYaWt1Bw'',
     ''3BX6SBeEBibHaVQXywdkcgyUk6evfYZkHdztXiDtEpFS'',
     ''BiCU7M5w8ZCMykVSyhZ7Q3m2SWoR2qrEQ86ERcDX77ME'',
     ''9kdtFSrXHQg3hKkbXkQ6trJ3Ja1xpJ22CTFSNAciEwmL'',
     ''Ds87KVeqhbv7Jw8W6avsS1mqz3Mw5J3pRTpPoDQ2QdiJ'',
     ''36PRUK2Dz6HWYdG9SpjeAsF5F3KxnFCakA2BZMbtMhSb'',
     ''3u3Er5Vc2jVcwz4xr2GJeSAXT3fAj6ADHZ4BJMZiScFd'',
     ''4EJQtF2pkRyawwcTVfQutzq4Sa5hRhibF6QAK1QXhtEX'',
     ''Gea3ZkK2N4pHuVZVxWcnAtS6UEDdyumdYt4pFcKjA3ar'',
     ''HxrEu1gXuH7iD3Puua1ohd5n4iUKJyFNtNxk9DVJkvgr'',
     ''2h63t332mGCCsWK2nqqqHhN4U9ayyqhLVFvczznHDoTZ'',
     ''AVZS3ZsN4gi6Rkx2QUibYuSJG3S6QHib7xCYhG6vGJxU'',
     ''3XgNukcZWf9o3HdA3fpJbm94XFc4qpvTXc8h1wxYwiPi'',
     ''4yuaYAj2jGMGTh1sSmi4G2eFscsDq8qjugJXZoBN6YEa'',
     ''7GUcYgq4tVtaqNCKT3dho9r4665Qp5TxCZ27Qgjx3829'',
     ''CBkDroRDqm8HwHe6ak9cguPjUomrASEkfmxEaZ5CNNxz'',
     ''DpJREPyuMZ5nDfU6H3WTqSqUFSXAfw8u7xqmWtEwJDcP'',
     ''J2QdYx8crLbTVK8nur1jeLsmc3krDbfjoxoea2V1Uy5Q'',
     ''3aJdcZqxoLpSBxgeYGjPwaYS1zzcByxUDqJkbzWAH1Zb'',
     ''98std1NSHqXi9WYvFShfVepRdCoq1qvsp8fsR2XZtG8g'',
     ''7g9EUwj4j7CS21Yx1wvgWLjSZeh5aPq8x9kpoPwXM8n8'',
     ''nWBqjr3gpETbiaVj3CBJ3HFC5TMdnJDGt21hnvSTvVZ'',
     ''4ApgRX3ud6p7LNMJmsuaAcZY5HWctGPr5obAsjB3A54d'',
     ''FaTa17gVKoqbh38HcfiQonPsAaQViyDCCSg71AubYZw8'',
     ''Ftok4njE8b7tDffYkC5bAbCaQv5sL6jispYrprzatUwN'',
     ''2jXx2yDmGysmBKfKYNgLj2DQyAQv6mMk2BPh4eSbyB4H'',
     ''6tRxEYKuy2L5nnv5bgn7iT28MxUbYxp5h7F3Ncf1exrT'',
     ''HyrbKftCdJ5CrUfEti6x26Cj7rZLNe32weugk7tLcWb8'',
     ''21AWDosvp3pBamFW91KB35pNoaoZVTM7ess8nr2nt53B'',
     ''H3kBSaKdeiUsyHmeHqjJYNc27jesXZ6zWj3zWkowQbkV'',
     ''7K5HFrS1WAq6ND7RQbShXZXbtAookyTfaDQPTJNuZpze'',
     ''8FdwgyHFEjhAdjWfV2vfqk7wA1g9X3fQpKH7SBpEv3kC'',
     ''2R72wpcQ7qV7aTJWUumdn8u5wmmTyXbK7qzEy7YSAgyY'',
     ''3KZZ6Ks1885aGBQ45fwRcPXVBCtzUvxhUTkwKMR41Tca'',
     ''HH3MUYReL2BvqqA3oEcAa7txju5GY6G4nxJ51zvsEjEZ'',
     ''3gtZPqvPpsbXZVCx6hceMfWxtsmrjMzmg8C7PLKSxS2d'',
     ''812kqX67odAp5NFwM8D2N24cku7WTm9CHUTFUXaDkWPn'',
     ''GTUMCZ8LTNxVfxdrw7ZsDFTxXb7TutYkzJnFwinpE6dg'',
     ''ALBk3EWdeAg2WAGf6GPDUf1nynyNqCdEVmgouG7rpuCj'',
     ''Vo5siZ442SaZBKPXNocthiXysNviW4UYPwRFggmbgAp'',
     ''3uRVPBpyEJRo1emLCrq38eLRFGcu6uKSpUXqGvU8T7SZ'',
     ''437r62HoAdUb63amq3D7ENnBLDhHT2xY8eFkLJYVKK4x'',
     ''4Di3y24QFLt5QEUPZtbnjyfQKfm6ZMTfa6Dw1psfoMKU'',
     ''St8k9dVXP97xT6faW24YmRSYConLbhsMJA4TJTBLmMT'',
     ''sTKz343FM8mqtyGvYWvbLpTThw3ixRM4Xk8QvZ985mw'',
     ''BUS12ciZ5gCoFafUHWW8qaFMMtwFQGVxjsDheWLdqBE2'',
     ''54KAoNiUERNoWWUhTWWwXgym94gzoXFVnHyQwPA18V9A'',
     ''G74BkWBzmsByZ1kxHy44H3wjwp5hp7JbrGRuDpco22tY'',
     ''74CoWuBmt3rUVUrCb2JiSTvh6nXyBWUsK4SaMj3CtE3T'',
     ''FQnc7U4koHqWgRvFaBJjZnV8VPg6L6wWK33yJeDp4yvV'',
     ''CpkdQmspsaZZ8FVAouQTtTWZkc8eeQ7V3uj7dWz543rZ'',
     ''DTVTkmw3JSofd8CJVJte8PXEbxNQ2yZijvVr3pe2APPj'',
     ''6iyggb5MTcsvdcugX7bEKbHV8c6jdLbpHwkncrgLMhfo'',
     ''9k5ijzTbYPtjzu8wj2ErH9v45xecHzQ1x4PMYMMxFgdM'',
     ''28s7i3htzhahXQKqmS2ExzbEoUypg9krwvtK2M9UWXh9'',
     ''8sKQrMQoUHtQSUP83SPG4ta2JDjSAiWs7t5aJ9uEd6To'',
     ''4UDcAfQ6EcA6bdcadkeHpkarkhZGJ7Bpq7wTAiRMjkoi'',
     ''GmC19j9qLn2RFk5NduX6QXaDhVpGncVVBzyM8e9WMz2F'',
     ''JAN1trEUEtZjgXYzNBYHU9DYd7GnThhXfFP7SzPXkPsG'',
     ''79HWsX9rpnnJBPcdNURVqygpMAfxdrAirzAGAVmf92im'',
     ''noRuG2kzACwgaY7TVmLRnUNPLKNVQE1fb7X55YWBehp'',
     ''Bj2jmUsM2iRhfdLLDSTkhM5UQRQvQHm57HSmPibPtEyu'',
     ''86HpNqzutEZwLcPxS6EHDcMNYWk6ikhteg9un7Y2PBKE'',
     ''CveezY6FDLVBToHDcvJRmtMouqzsmj4UXYh5ths5G5Uv'',
     ''Ff8b1fBeB86q8cjq47ZhsQLgv5EkHu3G1C99zjUfAzrq'',
     ''Hr1nUA9b7NJ6eChS26o7Vi8gYYDDwWD3YeBfzJkTbU86'',
     ''7Vced912WrRnfjaiKRiNBcbuFw7RrnLv3E3z95Y4GTNc''
    ]"

end
