(* ===== verification/Simulate_Run.thy ===== *)
theory Simulate_Run
  imports Simulate Features
begin

text \<open>
  \<open>Simulate::run\<close> in \<open>main.rs\<close>: the whole command, from the executor to the report.  What it takes
  from the SDK, from \<open>bincode\<close> and from \<open>bs58\<close> are the fields of \<open>command_sdk\<close>; it logs a list of reports.
\<close>

record simulate_args =
  sim_program_id :: pubkey
  sim_program :: string
  sim_instruction :: string
  sim_account :: "pubkey list"
  sim_signer_account :: "pubkey list"
  sim_writable_account :: "pubkey list"

record sdk_instruction =
  sdk_program_id :: pubkey
  sdk_data :: bytes
  sdk_accounts :: "account_meta list"

record ('clock, 'sv, 'lg, 'content) command_sdk =
  pubkey_literal :: "string \<Rightarrow> pubkey"
  clock_id :: pubkey
  clock_deserialize :: "bytes \<Rightarrow> string + 'clock"
  clock_slot :: "'clock \<Rightarrow> u64"
  set_clock :: "'sv \<Rightarrow> 'clock \<Rightarrow> 'sv"
  bs58_decode :: "string \<Rightarrow> string + bytes"
  message_new :: "sdk_instruction list \<Rightarrow> pubkey option \<Rightarrow> sanitized_message"
  construct_instructions_data :: "sanitized_message \<Rightarrow> bytes"
  recorded_content :: "'lg \<Rightarrow> 'content"

datatype 'content report = InvokeErrored anyhow_error 'content | InvokeLogged 'content

text \<open>\<open>?\<close> on a foreign error, which \<open>anyhow\<close> wraps, and \<open>unwrap\<close> of a \<open>Result\<close>.\<close>

definition wrap_error :: "string + 'a \<Rightarrow> (anyhow_error, 'a) outcome" where
  "wrap_error r = (case r of Inl e \<Rightarrow> Err (Message e) | Inr x \<Rightarrow> Ok x)"

definition unwrap_result :: "('e, 'a) outcome \<Rightarrow> ('f, 'a) outcome" where
  "unwrap_result r = (case r of Ok x \<Rightarrow> Ok x | Err e \<Rightarrow> Panics | Panics \<Rightarrow> Panics)"

text \<open>The message of the one instruction.\<close>

definition simulate_message ::
  "('clock, 'sv, 'lg, 'content) command_sdk \<Rightarrow> simulate_args \<Rightarrow> bytes \<Rightarrow> sanitized_message" where
  "simulate_message S args ix_bytes =
     message_new S
       [\<lparr>sdk_program_id = sim_program_id args, sdk_data = ix_bytes,
         sdk_accounts = account_metas (sim_account args) (sim_signer_account args) (sim_writable_account args)\<rparr>]
       None"

text \<open>The two calls of the loader.\<close>

definition load_for_message ::
  "sdk_ids \<Rightarrow> (sanitized_message \<Rightarrow> bytes) \<Rightarrow> ('cache, 'envs, 'env, 'batch, 'prog, 'fs) program_api \<Rightarrow>
   ('g, account) source \<Rightarrow> u64 \<Rightarrow> sanitized_message \<Rightarrow>
   (('g, 'fs, 'cache) account_loader, anyhow_error, loaded_transaction \<times> 'batch) act" where
  "load_for_message I ix_sysvar A fetch slot message =
     act_bind (on_source (load_transaction_accounts I ix_sysvar fetch message)) (\<lambda>loaded_transaction.
     act_bind (replenish_program_cache I A fetch (WorkingSlot slot) [message]) (\<lambda>loaded_programs.
     act_return (loaded_transaction, loaded_programs)))"

text \<open>The end of \<open>run\<close>: the message is processed with a fresh log, and the log is reported.\<close>

definition process_and_report ::
  "('fs, 'sv, 'lg, 'cache, 'prog, 'batch, 'tc, 'ep) runtime \<Rightarrow>
   ('cache, 'envs, 'env, 'batch, 'prog, 'fs) program_api \<Rightarrow> ('clock, 'sv, 'lg, 'content) command_sdk \<Rightarrow>
   ('fs, 'sv, 'lg, 'cache) message_executor \<Rightarrow> u64 \<Rightarrow> sanitized_message \<Rightarrow> loaded_transaction \<Rightarrow> 'batch \<Rightarrow>
   ('f, 'content report list, 'rpc, unit) command_act" where
  "process_and_report T A S sbf slot message loaded_transaction loaded_programs = (\<lambda>((fs, out), rpc_st).
     case process T A slot message loaded_transaction loaded_programs (record_log T sbf) of (res, sbf') \<Rightarrow>
       (case logger sbf' of
          Ok lg \<Rightarrow> (case res of
              Ok rec \<Rightarrow> (Ok (), ((fs, out @ [InvokeLogged (recorded_content S lg)]), rpc_st))
            | Err e \<Rightarrow> (Ok (), ((fs, out @ [InvokeErrored e (recorded_content S lg)]), rpc_st))
            | Panics \<Rightarrow> (Panics, ((fs, out), rpc_st)))
        | Err e \<Rightarrow> (Err e, ((fs, out), rpc_st))
        | Panics \<Rightarrow> (Panics, ((fs, out), rpc_st))))"

definition simulate_loaded ::
  "sdk_ids \<Rightarrow> ('fs, 'sv, 'lg, 'cache, 'prog, 'batch, 'tc, 'ep) runtime \<Rightarrow>
   ('cache, 'envs, 'env, 'batch, 'prog, 'fs) program_api \<Rightarrow> ('clock, 'sv, 'lg, 'content) command_sdk \<Rightarrow>
   'rpc rpc_client \<Rightarrow> pubkey \<Rightarrow> account \<Rightarrow> ('fs, 'sv, 'lg, 'cache) message_executor \<Rightarrow> u64 \<Rightarrow>
   sanitized_message \<Rightarrow> ('f, 'content report list, 'rpc, unit) command_act" where
  "simulate_loaded I T A S rpc pid program_data sbf slot message = (\<lambda>((fs, out), rpc_st).
     let loader = executor_loader \<lparr>fetched = Map.empty, rpc_state = rpc_st\<rparr> sbf in
     case load_for_message I (construct_instructions_data S) A (simulate_fetch rpc pid program_data) slot message loader of
       (r, loader') \<Rightarrow>
         let st = ((fs, out), rpc_state (ld_g loader'));
             sbf' = sbf\<lparr>me_loaded_programs := ld_cache loader'\<rparr> in
         (case r of
            Ok (loaded_transaction, loaded_programs) \<Rightarrow>
              process_and_report T A S sbf' slot message loaded_transaction loaded_programs st
          | Err e \<Rightarrow> (Err e, st)
          | Panics \<Rightarrow> (Panics, st)))"

text \<open>\<open>File::open(path)?.read_to_end(&mut data)?\<close>.\<close>

definition open_and_read :: "'f file_system \<Rightarrow> string \<Rightarrow> ('f, 'out, 'rpc, bytes) command_act" where
  "open_and_read F path = (\<lambda>((fs, out), rpc). (ok_or IoFailure (read_file F path fs), ((fs, out), rpc)))"

definition simulate_run ::
  "sdk_ids \<Rightarrow> ('fs, 'sv, 'lg, 'cache, 'prog, 'batch, 'tc, 'ep) runtime \<Rightarrow>
   ('cache, 'envs, 'env, 'batch, 'prog, 'fs) program_api \<Rightarrow> ('clock, 'sv, 'lg, 'content) command_sdk \<Rightarrow>
   'f file_system \<Rightarrow> 'rpc rpc_client \<Rightarrow> simulate_args \<Rightarrow> ('f, 'content report list, 'rpc, unit) command_act" where
  "simulate_run I T A S F rpc args =
     act_bind (act_lift (unwrap_result (message_executor_new I T A (map (pubkey_literal S) FEATURES)))) (\<lambda>sbf.
     act_bind (rpc_get_account rpc (clock_id S)) (\<lambda>clock_account.
     act_bind (act_lift (wrap_error (clock_deserialize S (data clock_account)))) (\<lambda>clock.
     let slot = clock_slot S clock;
         sbf' = sbf\<lparr>me_sysvar_cache := set_clock S (me_sysvar_cache sbf) clock\<rparr> in
     act_bind (open_and_read F (sim_program args)) (\<lambda>elf.
     act_bind (act_lift (wrap_error (bs58_decode S (sim_instruction args)))) (\<lambda>ix_bytes.
     simulate_loaded I T A S rpc (sim_program_id args) (simulated_program I elf) sbf' slot
       (simulate_message S args ix_bytes))))))"

subsection \<open>The command\<close>

datatype command = SimulateCommand simulate_args | GetProgramDataCommand get_program_data_args

text \<open>The dispatch in \<open>main\<close>, on the parsed command line.\<close>

definition run_command ::
  "sdk_ids \<Rightarrow> ('fs, 'sv, 'lg, 'cache, 'prog, 'batch, 'tc, 'ep) runtime \<Rightarrow>
   ('cache, 'envs, 'env, 'batch, 'prog, 'fs) program_api \<Rightarrow> ('clock, 'sv, 'lg, 'content) command_sdk \<Rightarrow>
   'f file_system \<Rightarrow> 'rpc rpc_client \<Rightarrow> command \<Rightarrow> ('f, 'content report list, 'rpc, unit) command_act" where
  "run_command I T A S F rpc command = (case command of
     SimulateCommand c \<Rightarrow> simulate_run I T A S F rpc c
   | GetProgramDataCommand c \<Rightarrow> get_program_data I A F rpc c)"

text \<open>The parsed command line, and \<open>main\<close> from the connection to the node on, which is a parameter.\<close>

record simulator_cli =
  sim_solana_rpc :: string
  sim_command :: command

definition simulator_main ::
  "sdk_ids \<Rightarrow> ('fs, 'sv, 'lg, 'cache, 'prog, 'batch, 'tc, 'ep) runtime \<Rightarrow>
   ('cache, 'envs, 'env, 'batch, 'prog, 'fs) program_api \<Rightarrow> ('clock, 'sv, 'lg, 'content) command_sdk \<Rightarrow>
   'f file_system \<Rightarrow> (string \<Rightarrow> 'rpc rpc_client) \<Rightarrow> simulator_cli \<Rightarrow>
   ('f, 'content report list, 'rpc, unit) command_act" where
  "simulator_main I T A S F connect cli = run_command I T A S F (connect (sim_solana_rpc cli)) (sim_command cli)"

end
