(* ===== verification/Examples.thy ===== *)
theory Examples
  imports Executor_Sessions Simulate_Run
begin

text \<open>
  The drivers under \<open>src/examples\<close> (\<open>check.rs\<close> of the raw and of the anchor example), which run an example
  program in both ways: \<open>run_ro\<close> with an instruction executor, \<open>run_full\<close> with a message executor.  They
  name the executors by older names; the calls are those of the executors of the crate.  What the macros
  of anchor generate and the address of the system program are the fields of \<open>driver_sdk\<close>.
\<close>

record driver_sdk =
  system_program_id :: pubkey
  initialize_data :: bytes
  initialize_account_metas :: "pubkey \<Rightarrow> account_meta list"

text \<open>\<open>Cli\<close>; connecting to the node is a parameter.\<close>

record cli =
  cli_solana_rpc :: string
  cli_ro :: bool

text \<open>\<open>AccountMeta::new_readonly\<close>.\<close>

definition meta_new_readonly :: "pubkey \<Rightarrow> bool \<Rightarrow> account_meta" where
  "meta_new_readonly key is_signer = \<lparr>meta_pubkey = key, meta_is_signer = is_signer, meta_is_writable = False\<rparr>"

text \<open>\<open>rpc.get_account(&key).unwrap_or_default()\<close>.\<close>

definition rpc_get_or_default :: "'rpc rpc_client \<Rightarrow> pubkey \<Rightarrow> ('f, 'out, 'rpc, account) command_act" where
  "rpc_get_or_default rpc key = (\<lambda>(local, s). case rpc key s of (r, s') \<Rightarrow> (Ok (unwrap_or_default r), (local, s')))"

fun rpc_get_metas ::
  "'rpc rpc_client \<Rightarrow> account_meta list \<Rightarrow> ('f, 'out, 'rpc, (account_meta \<times> account) list) command_act" where
  "rpc_get_metas rpc [] = act_return []"
| "rpc_get_metas rpc (meta # metas) =
     act_bind (rpc_get_or_default rpc (meta_pubkey meta)) (\<lambda>account.
     act_bind (rpc_get_metas rpc metas) (\<lambda>rest.
     act_return ((meta, account) # rest)))"

definition println :: "'content report \<Rightarrow> ('f, 'content report list, 'rpc, unit) command_act" where
  "println rep = (\<lambda>((fs, out), s). (Ok (), ((fs, out @ [rep]), s)))"

subsection \<open>The instruction executor\<close>

text \<open>The end of \<open>run_ro\<close>: a fresh log, the run, and what is printed of it.\<close>

definition execute_logged ::
  "sdk \<Rightarrow> 'm aligned_memory \<Rightarrow> ('rt, 'reg, 'exe, 'cfg, ('sv, 'lg) invoke_context) rbpf \<Rightarrow> 'lg \<Rightarrow>
   ('lg \<Rightarrow> 'content) \<Rightarrow> ('a, 'm, 'rt, 'exe, 'sv, 'lg) instruction_executor \<Rightarrow>
   (anyhow_error, 'content report) outcome" where
  "execute_logged S M R new_ref content exe =
     (let exe = exe\<lparr>ex_context := (ex_context exe)\<lparr>log_collector := Some new_ref\<rparr>\<rparr> in
      case execute S M R exe of (r, exe') \<Rightarrow> (case r of
        Err e \<Rightarrow> rbind (unwrap (log_collector (ex_context exe'))) (\<lambda>lg. Ok (InvokeErrored e (content lg)))
      | Ok _ \<Rightarrow> rbind (unwrap (log_collector (ex_context exe'))) (\<lambda>lg. Ok (InvokeLogged (content lg)))
      | Panics \<Rightarrow> Panics))"

text \<open>From \<open>new\<close> to the end.\<close>

definition drive_ro ::
  "sdk \<Rightarrow> 'm aligned_memory \<Rightarrow> ('rt, 'reg, 'exe, 'cfg, ('sv, 'lg) invoke_context) rbpf \<Rightarrow> 'sv \<Rightarrow> 'lg \<Rightarrow>
   ('lg \<Rightarrow> 'content) \<Rightarrow> 'a account_sizes_impl \<Rightarrow> nat \<Rightarrow> 'a \<Rightarrow> pubkey \<Rightarrow> account \<Rightarrow> bytes \<Rightarrow>
   (account_meta \<times> account) list \<Rightarrow> (anyhow_error, 'content report) outcome" where
  "drive_ro S M R sv new_ref content A instruction_size sizes pid program_data ix_bytes accounts =
     rbind (executor_new S M R sv A instruction_size sizes) (\<lambda>exe.
     case prepare S M R A pid program_data True ix_bytes accounts exe of (prepared, exe') \<Rightarrow>
     rbind prepared (\<lambda>_. execute_logged S M R new_ref content exe'))"

definition program_id_literal :: string where
  "program_id_literal = ''DUMMYPRoGRAM1111111111111111111111111111111''"

text \<open>The account that holds the file.\<close>

definition example_program :: "sdk_ids \<Rightarrow> bytes \<Rightarrow> account" where
  "example_program I elf =
     \<lparr>lamports = 0, data = elf, owner = bpf_loader_id I, executable = True, rent_epoch = 0\<rparr>"

definition raw_run_ro ::
  "sdk \<Rightarrow> 'm aligned_memory \<Rightarrow> ('rt, 'reg, 'exe, 'cfg, ('sv, 'lg) invoke_context) rbpf \<Rightarrow> 'sv \<Rightarrow> 'lg \<Rightarrow>
   ('clock, 'svc, 'lg, 'content) command_sdk \<Rightarrow> driver_sdk \<Rightarrow> 'f file_system \<Rightarrow> 'rpc rpc_client \<Rightarrow>
   ('f, 'content report list, 'rpc, unit) command_act" where
  "raw_run_ro S M R sv new_ref C D F rpc =
     act_bind (open_and_read F ''target/deploy/example.so'') (\<lambda>elf.
     let program_data = account_default\<lparr>data := elf\<rparr> in
     act_bind (rpc_get_or_default rpc (system_program_id D)) (\<lambda>account.
     let accounts = [(meta_new_readonly (system_program_id D) False, account)] in
     act_bind (act_lift (drive_ro S M R sv new_ref (recorded_content C) vec_account_sizes 41
       (map (\<lambda>(_, a). length (data a)) accounts) (pubkey_literal C program_id_literal) program_data
       [1, 2, 3, 4] accounts))
     println))"

definition anchor_run_ro ::
  "sdk \<Rightarrow> 'm aligned_memory \<Rightarrow> ('rt, 'reg, 'exe, 'cfg, ('sv, 'lg) invoke_context) rbpf \<Rightarrow> 'sv \<Rightarrow> 'lg \<Rightarrow>
   ('clock, 'svc, 'lg, 'content) command_sdk \<Rightarrow> driver_sdk \<Rightarrow> sdk_ids \<Rightarrow> 'f file_system \<Rightarrow> 'rpc rpc_client \<Rightarrow>
   ('f, 'content report list, 'rpc, unit) command_act" where
  "anchor_run_ro S M R sv new_ref C D I F rpc =
     act_bind (open_and_read F ''target/deploy/anchor_example.so'') (\<lambda>elf.
     let program_data = example_program I elf in
     act_bind (rpc_get_metas rpc (initialize_account_metas D (system_program_id D))) (\<lambda>accounts.
     act_bind (act_lift (drive_ro S M R sv new_ref (recorded_content C) pair_account_sizes 40 (1, 120)
       (pubkey_literal C program_id_literal) program_data (initialize_data D) accounts))
     println))"

subsection \<open>The message executor\<close>

text \<open>The closure of the drivers: unlike that of \<open>Simulate\<close> it asks the node every time.\<close>

definition driver_fetch :: "'rpc rpc_client \<Rightarrow> pubkey \<Rightarrow> account \<Rightarrow> ('rpc, account) source" where
  "driver_fetch rpc pid program_data key = (\<lambda>s.
     if key = pid then (Some program_data, s)
     else case rpc key s of (r, s') \<Rightarrow> (Some (unwrap_or_default r), s'))"

definition driver_loaded ::
  "sdk_ids \<Rightarrow> ('fs, 'sv, 'lg, 'cache, 'prog, 'batch, 'tc, 'ep) runtime \<Rightarrow>
   ('cache, 'envs, 'env, 'batch, 'prog, 'fs) program_api \<Rightarrow> ('clock, 'sv, 'lg, 'content) command_sdk \<Rightarrow>
   'rpc rpc_client \<Rightarrow> pubkey \<Rightarrow> account \<Rightarrow> ('fs, 'sv, 'lg, 'cache) message_executor \<Rightarrow> u64 \<Rightarrow>
   sanitized_message \<Rightarrow> ('f, 'content report list, 'rpc, unit) command_act" where
  "driver_loaded I T A C rpc pid program_data sbf slot message = (\<lambda>((fs, out), rpc_st).
     case load_for_message I (construct_instructions_data C) A (driver_fetch rpc pid program_data) slot message
         (executor_loader rpc_st sbf) of
       (r, loader) \<Rightarrow>
         let st = ((fs, out), ld_g loader); sbf' = sbf\<lparr>me_loaded_programs := ld_cache loader\<rparr> in
         (case r of
            Ok (loaded_transaction, loaded_programs) \<Rightarrow>
              process_and_report T A C sbf' slot message loaded_transaction loaded_programs st
          | Err e \<Rightarrow> (Err e, st)
          | Panics \<Rightarrow> (Panics, st)))"

definition raw_message :: "('clock, 'sv, 'lg, 'content) command_sdk \<Rightarrow> driver_sdk \<Rightarrow> sanitized_message" where
  "raw_message C D =
     (let accounts = [meta_new_readonly (system_program_id D) False] in
      message_new C [\<lparr>sdk_program_id = pubkey_literal C program_id_literal, sdk_data = [1, 2, 3, 4],
        sdk_accounts = accounts\<rparr>] None)"

definition anchor_message :: "('clock, 'sv, 'lg, 'content) command_sdk \<Rightarrow> driver_sdk \<Rightarrow> sanitized_message" where
  "anchor_message C D =
     message_new C [\<lparr>sdk_program_id = pubkey_literal C program_id_literal, sdk_data = initialize_data D,
       sdk_accounts = initialize_account_metas D (system_program_id D)\<rparr>] None"

text \<open>The clock of the node, and the executor that holds it.\<close>

definition driver_clock ::
  "('clock, 'sv, 'lg, 'content) command_sdk \<Rightarrow> 'rpc rpc_client \<Rightarrow> ('fs, 'sv, 'lg, 'cache) message_executor \<Rightarrow>
   ('f, 'out, 'rpc, u64 \<times> ('fs, 'sv, 'lg, 'cache) message_executor) command_act" where
  "driver_clock C rpc sbf =
     act_bind (rpc_get_account rpc (clock_id C)) (\<lambda>clock_account.
     act_bind (act_lift (wrap_error (clock_deserialize C (data clock_account)))) (\<lambda>clock.
     act_return (clock_slot C clock, sbf\<lparr>me_sysvar_cache := set_clock C (me_sysvar_cache sbf) clock\<rparr>)))"

definition raw_run_full ::
  "sdk_ids \<Rightarrow> ('fs, 'sv, 'lg, 'cache, 'prog, 'batch, 'tc, 'ep) runtime \<Rightarrow>
   ('cache, 'envs, 'env, 'batch, 'prog, 'fs) program_api \<Rightarrow> ('clock, 'sv, 'lg, 'content) command_sdk \<Rightarrow>
   driver_sdk \<Rightarrow> 'f file_system \<Rightarrow> 'rpc rpc_client \<Rightarrow> ('f, 'content report list, 'rpc, unit) command_act" where
  "raw_run_full I T A C D F rpc =
     act_bind (act_lift (unwrap_result (message_executor_new I T A (map (pubkey_literal C) FEATURES)))) (\<lambda>sbf.
     act_bind (driver_clock C rpc sbf) (\<lambda>(slot, sbf').
     act_bind (open_and_read F ''target/deploy/example.so'') (\<lambda>elf.
     driver_loaded I T A C rpc (pubkey_literal C program_id_literal) (example_program I elf) sbf' slot
       (raw_message C D))))"

definition anchor_run_full ::
  "sdk_ids \<Rightarrow> ('fs, 'sv, 'lg, 'cache, 'prog, 'batch, 'tc, 'ep) runtime \<Rightarrow>
   ('cache, 'envs, 'env, 'batch, 'prog, 'fs) program_api \<Rightarrow> ('clock, 'sv, 'lg, 'content) command_sdk \<Rightarrow>
   driver_sdk \<Rightarrow> 'f file_system \<Rightarrow> 'rpc rpc_client \<Rightarrow> ('f, 'content report list, 'rpc, unit) command_act" where
  "anchor_run_full I T A C D F rpc =
     act_bind (act_lift (unwrap_result (message_executor_new I T A (map (pubkey_literal C) FEATURES)))) (\<lambda>sbf.
     act_bind (driver_clock C rpc sbf) (\<lambda>(slot, sbf').
     act_bind (open_and_read F ''target/deploy/anchor_example.so'') (\<lambda>elf.
     driver_loaded I T A C rpc (pubkey_literal C program_id_literal) (example_program I elf) sbf' slot
       (anchor_message C D))))"

subsection \<open>\<open>main\<close>\<close>

definition raw_main ::
  "sdk \<Rightarrow> 'm aligned_memory \<Rightarrow> ('rt, 'reg, 'exe, 'cfg, ('sv, 'lg) invoke_context) rbpf \<Rightarrow> sdk_ids \<Rightarrow>
   ('fs, 'sv, 'lg, 'cache, 'prog, 'batch, 'tc, 'ep) runtime \<Rightarrow>
   ('cache, 'envs, 'env, 'batch, 'prog, 'fs) program_api \<Rightarrow> ('clock, 'sv, 'lg, 'content) command_sdk \<Rightarrow>
   driver_sdk \<Rightarrow> 'f file_system \<Rightarrow> (string \<Rightarrow> 'rpc rpc_client) \<Rightarrow> cli \<Rightarrow>
   ('f, 'content report list, 'rpc, unit) command_act" where
  "raw_main S M R I T A C D F connect cli =
     (let rpc = connect (cli_solana_rpc cli) in
      if cli_ro cli
      then raw_run_ro S M R (sysvar_cache_default T) (log_collector_new T) C D F rpc
      else raw_run_full I T A C D F rpc)"

definition anchor_main ::
  "sdk \<Rightarrow> 'm aligned_memory \<Rightarrow> ('rt, 'reg, 'exe, 'cfg, ('sv, 'lg) invoke_context) rbpf \<Rightarrow> sdk_ids \<Rightarrow>
   ('fs, 'sv, 'lg, 'cache, 'prog, 'batch, 'tc, 'ep) runtime \<Rightarrow>
   ('cache, 'envs, 'env, 'batch, 'prog, 'fs) program_api \<Rightarrow> ('clock, 'sv, 'lg, 'content) command_sdk \<Rightarrow>
   driver_sdk \<Rightarrow> 'f file_system \<Rightarrow> (string \<Rightarrow> 'rpc rpc_client) \<Rightarrow> cli \<Rightarrow>
   ('f, 'content report list, 'rpc, unit) command_act" where
  "anchor_main S M R I T A C D F connect cli =
     (let rpc = connect (cli_solana_rpc cli) in
      if cli_ro cli
      then anchor_run_ro S M R (sysvar_cache_default T) (log_collector_new T) C D I F rpc
      else anchor_run_full I T A C D F rpc)"

end
