(* ===== verification/Source_Simulation.thy ===== *)
theory Source_Simulation
  imports Simulate_Run
begin

text \<open>
  When two sources of accounts give the same answers, whatever each remembers, everything the loaders do
  with them is the same: the relation between the two states is carried through every call, as an error
  or as a value.
\<close>

definition act_related :: "('s \<Rightarrow> 't \<Rightarrow> bool) \<Rightarrow> ('s, 'e, 'a) act \<Rightarrow> ('t, 'e, 'a) act \<Rightarrow> bool" where
  "act_related P m n \<longleftrightarrow> (\<forall>s t. P s t \<longrightarrow> fst (m s) = fst (n t) \<and> P (snd (m s)) (snd (n t)))"

named_theorems related_intros \<open>calls that keep two states related\<close>

lemma act_relatedD: "act_related P m n \<Longrightarrow> P s t \<Longrightarrow> fst (m s) = fst (n t) \<and> P (snd (m s)) (snd (n t))"
  by (simp add: act_related_def)

lemma related_return [related_intros]: "act_related P (act_return x) (act_return x)"
  by (simp add: act_related_def)

lemma act_pairs: "act_return x = Pair (Ok x)" "act_lift r = Pair r"
  by (simp_all add: fun_eq_iff)

lemma related_pair [simp, related_intros]: "act_related P (Pair r) (Pair r)"
  by (simp add: act_related_def)

lemma related_lift [related_intros]: "act_related P (act_lift r) (act_lift r)"
  by (simp add: act_related_def)

lemma related_bind [related_intros]:
  assumes "act_related P m n" and "\<And>x. act_related P (f x) (g x)"
  shows "act_related P (act_bind m f) (act_bind n g)"
  unfolding act_related_def
proof (intro allI impI)
  fix s t
  assume "P s t"
  with assms(1) have "fst (m s) = fst (n t) \<and> P (snd (m s)) (snd (n t))"
    by (rule act_relatedD)
  then show "fst (act_bind m f s) = fst (act_bind n g t) \<and> P (snd (act_bind m f s)) (snd (act_bind n g t))"
    using act_relatedD[OF assms(2)] by (auto simp: act_bind_def split: prod.splits outcome.splits)
qed

text \<open>A call that reads its state first: what it then does may depend on the two related states.\<close>

lemma related_at:
  assumes "\<And>s t. P s t \<Longrightarrow> \<exists>m n. act_related P m n \<and> f s = m s \<and> g t = n t"
  shows "act_related P f g"
  unfolding act_related_def using assms by (metis act_relatedD)

text \<open>The states of two loaders that differ only in their closures.\<close>

definition loader_related ::
  "('g \<Rightarrow> 'h \<Rightarrow> bool) \<Rightarrow> ('g, 'fs, 'cache) account_loader \<Rightarrow> ('h, 'fs, 'cache) account_loader \<Rightarrow> bool" where
  "loader_related P l m \<longleftrightarrow> P (ld_g l) (ld_g m) \<and> ld_feature_set l = ld_feature_set m \<and> ld_cache l = ld_cache m \<and>
     ld_program_owners l = ld_program_owners m \<and> ld_builtin_programs l = ld_builtin_programs m"

lemma related_on_source [related_intros]:
  "act_related P f g \<Longrightarrow> act_related (loader_related P) (on_source f) (on_source g)"
  by (auto simp: act_related_def loader_related_def on_source_def split: prod.splits) (metis fst_conv snd_conv)+

lemma related_replenish_all [related_intros]:
  fixes A :: "('cache, 'envs, 'env, 'batch, 'prog, 'fs) program_api" and P :: "'g \<Rightarrow> 'h \<Rightarrow> bool"
  shows "act_related (loader_related P :: ('g, 'fs, 'cache) account_loader \<Rightarrow> _)
    (replenish_all A programs batch) (replenish_all A programs batch)"
proof (induction programs arbitrary: batch)
  case Nil
  then show ?case
    by (simp add: related_return)
next
  case (Cons p programs)
  obtain key program where p: "p = (key, program)"
    by (cases p)
  show ?case
    unfolding act_related_def
  proof (intro allI impI)
    fix l :: "('g, 'fs, 'cache) account_loader" and m :: "('h, 'fs, 'cache) account_loader"
    assume "loader_related P l m"
    moreover obtain entry cache where e: "cache_replenish A (ld_cache l) key program = (entry, cache)"
      by (cases "cache_replenish A (ld_cache l) key program")
    ultimately have "loader_related P (l\<lparr>ld_cache := cache\<rparr>) (m\<lparr>ld_cache := cache\<rparr>)" "ld_cache m = ld_cache l"
      by (simp_all add: loader_related_def)
    with e p act_relatedD[OF Cons.IH this(1)]
    show "fst (replenish_all A (p # programs) batch l) = fst (replenish_all A (p # programs) batch m) \<and>
      loader_related P (snd (replenish_all A (p # programs) batch l)) (snd (replenish_all A (p # programs) batch m))"
      by simp
  qed
qed

locale source_simulation =
  fixes one :: "('g, account) source" and two :: "('h, account) source"
    and related :: "'g \<Rightarrow> 'h \<Rightarrow> bool"
  assumes same: "related g h \<Longrightarrow> fst (one k g) = fst (two k h) \<and> related (snd (one k g)) (snd (two k h))"
begin

lemma fixed_root [related_intros]:
  "act_related related (get_account_with_fixed_root one k) (get_account_with_fixed_root two k)"
  using same by (auto simp: act_related_def get_account_with_fixed_root_def split: prod.splits)
    (metis fst_conv snd_conv)+

lemma required [related_intros]: "act_related related (require_account one e k) (require_account two e k)"
  unfolding require_account_def by (intro related_intros)

lemma message_accounts [related_intros]:
  "act_related related (load_message_accounts I one a keys accs) (load_message_accounts I two a keys accs)"
proof (induction keys arbitrary: accs)
  case Nil
  then show ?case
    by (simp add: related_return)
next
  case (Cons k keys)
  then show ?case
    by (auto intro!: related_intros)
qed

lemma chain [related_intros]:
  "act_related related (owner_chain I one b n i ids accs) (owner_chain I two b n i ids accs)"
proof (induction n arbitrary: i ids accs)
  case 0
  then show ?case
    by (simp add: related_lift)
next
  case (Suc n)
  then show ?case
    by (auto simp: Let_def act_pairs intro!: related_intros split: prod.split option.split)
qed

lemma program_indices [related_intros]:
  "act_related related (load_program_indices I one b ixs ids accs) (load_program_indices I two b ixs ids accs)"
proof (induction ixs arbitrary: ids accs)
  case Nil
  then show ?case
    by (simp add: related_return)
next
  case (Cons ix ixs)
  then show ?case
    by (auto intro!: related_intros split: prod.split)
qed

lemma transaction_accounts [related_intros]:
  "act_related related (load_transaction_accounts I d one msg) (load_transaction_accounts I d two msg)"
  unfolding load_transaction_accounts_def by (intro related_intros) (auto intro!: related_intros split: prod.split)

lemma program_accounts [related_intros]:
  "act_related related (load_program_accounts I A one k) (load_program_accounts I A two k)"
  unfolding load_program_accounts_def
  by (auto intro!: related_intros split: option.split sum.split upgradeable_loader_state.split)

lemma program [related_intros]:
  fixes A :: "('cache, 'envs, 'env, 'batch, 'prog, 'fs) program_api"
  shows "act_related (loader_related related) (load_program I A one slot k) (load_program I A two slot k)"
proof (rule related_at)
  fix l :: "('g, 'fs, 'cache) account_loader" and m :: "('h, 'fs, 'cache) account_loader"
  assume lm: "loader_related related l m"
  let ?envs = "environments_for_epoch A (ld_cache l) (slot div DEFAULT_SLOTS_PER_EPOCH A)"
  let ?finish = "\<lambda>loaded. act_return (case verify_program I A (ld_feature_set l) ?envs slot loaded of
    Inr program \<Rightarrow> program | Inl e \<Rightarrow> new_tombstone A slot (FailedVerification (program_runtime_v1 A ?envs)))"
  have "act_related (loader_related related) (act_bind (on_source (load_program_accounts I A one k)) ?finish)
      (act_bind (on_source (load_program_accounts I A two k)) ?finish)"
    by (intro related_intros)
  moreover have eqs: "ld_cache m = ld_cache l" "ld_feature_set m = ld_feature_set l"
    using lm by (simp_all add: loader_related_def)
  have "load_program I A one slot k l = act_bind (on_source (load_program_accounts I A one k)) ?finish l"
      "load_program I A two slot k m = act_bind (on_source (load_program_accounts I A two k)) ?finish m"
    unfolding load_program_def Let_def eqs by (rule refl)+
  ultimately show "\<exists>f g. act_related (loader_related related) f g \<and> load_program I A one slot k l = f l \<and>
      load_program I A two slot k m = g m"
    by blast
qed

lemma missing [related_intros]:
  "act_related related (collect_missing owners one keys missing0) (collect_missing owners two keys missing0)"
proof (induction keys arbitrary: missing0)
  case Nil
  then show ?case
    by (simp add: related_return)
next
  case (Cons k keys)
  then show ?case
    by (auto intro!: related_intros)
qed

lemma programs [related_intros]:
  "act_related (loader_related related) (load_missing I A one slot missing0) (load_missing I A two slot missing0)"
proof (induction missing0)
  case Nil
  then show ?case
    by (simp add: related_return)
next
  case (Cons e missing0)
  then show ?case
    by (cases e) (auto intro!: related_intros)
qed

lemma extracted [related_intros]:
  fixes A :: "('cache, 'envs, 'env, 'batch, 'prog, 'fs) program_api"
  shows "act_related (loader_related related) (extract_and_load I A one s missing0) (extract_and_load I A two s missing0)"
proof -
  let ?load = "\<lambda>fetch missing batch. act_bind (load_missing I A fetch (current_slot s) missing)
    (\<lambda>programs. replenish_all A programs batch)"
  have rel: "act_related (loader_related related) (?load one missing batch) (?load two missing batch)" for missing batch
    by (intro related_intros)
  show ?thesis
    unfolding act_related_def
  proof (intro allI impI)
    fix l :: "('g, 'fs, 'cache) account_loader" and m :: "('h, 'fs, 'cache) account_loader"
    assume lm: "loader_related related l m"
    obtain cache missing batch where ex: "cache_extract A (ld_cache l) s
        (fold insert_missing (ld_builtin_programs l) missing0)
        (batch_new A (current_slot s) (environments A (ld_cache l))) False = (cache, missing, batch)"
      by (metis prod_cases3)
    have "loader_related related (l\<lparr>ld_cache := cache\<rparr>) (m\<lparr>ld_cache := cache\<rparr>)"
      using lm by (simp add: loader_related_def)
    from act_relatedD[OF rel[of missing batch] this] lm ex
    show "fst (extract_and_load I A one s missing0 l) = fst (extract_and_load I A two s missing0 m) \<and>
        loader_related related (snd (extract_and_load I A one s missing0 l)) (snd (extract_and_load I A two s missing0 m))"
      by (simp add: extract_and_load_def loader_related_def)
  qed
qed

lemma program_cache [related_intros]:
  fixes A :: "('cache, 'envs, 'env, 'batch, 'prog, 'fs) program_api"
  shows "act_related (loader_related related) (replenish_program_cache I A one s msgs)
    (replenish_program_cache I A two s msgs)"
proof (rule related_at)
  fix l :: "('g, 'fs, 'cache) account_loader" and m :: "('h, 'fs, 'cache) account_loader"
  assume lm: "loader_related related l m"
  let ?all = "\<lambda>fetch. on_source (collect_missing (ld_program_owners l) fetch (message_keys msgs) [])"
  have "act_related (loader_related related) (act_bind (?all one) (extract_and_load I A one s))
      (act_bind (?all two) (extract_and_load I A two s))"
    by (intro related_intros)
  moreover have "ld_program_owners m = ld_program_owners l"
    using lm by (simp add: loader_related_def)
  ultimately show "\<exists>f g. act_related (loader_related related) f g \<and> replenish_program_cache I A one s msgs l = f l \<and>
      replenish_program_cache I A two s msgs m = g m"
    unfolding replenish_program_cache_def by metis
qed

lemma for_message:
  "act_related (loader_related related) (load_for_message I d A one slot msg) (load_for_message I d A two slot msg)"
  unfolding load_for_message_def by (intro related_intros)

end

end
