(* ===== verification/Example_Properties.thy ===== *)
theory Example_Properties
  imports Examples Samples Source_Simulation
begin

text \<open>
  The properties of the drivers: what the machine is given when they run an example with an instruction
  executor, and that asking the node every time, as they do, makes no difference to \<open>Simulate\<close>.
\<close>

subsection \<open>The instruction executor\<close>

text \<open>What the machine makes of an input, and how a driver reports it.\<close>

definition input_run ::
  "sdk \<Rightarrow> ('rt, 'reg, 'exe, 'cfg, ('sv, 'lg) invoke_context) rbpf \<Rightarrow> ('lg \<Rightarrow> 'content) \<Rightarrow> 'rt \<Rightarrow>
   ('sv, 'lg) invoke_context \<Rightarrow> input_state \<Rightarrow> 'exe \<Rightarrow> (anyhow_error, 'content report) outcome" where
  "input_run S R content rt ctx st exe =
     (let regions = [RoRegion exe,
        WritableGapped (replicate (config_stack_size R (executor_config R)) 0) (MM_STACK_START R) 0,
        Writable (replicate (HEAP_LENGTH S) 0) (MM_HEAP_START R),
        Writable (input_image S st) (MM_INPUT_START R)] in
      if \<not> memory_mapping_new R regions (get_config R exe) exe then Panics
      else case vm_run R rt regions (config_stack_size R (get_config R exe)) exe
          (\<not> (jit_target R \<and> has_compiled_program R exe)) ctx of
        (res, ctx', _) \<Rightarrow> (case log_collector ctx' of
          None \<Rightarrow> Panics
        | Some lg \<Rightarrow> Ok (case execution_result S res of
            Err e \<Rightarrow> InvokeErrored e (content lg) | _ \<Rightarrow> InvokeLogged (content lg))))"

lemma drive_ro_runs:
  assumes laws: "aligned_memory_laws M cap" and sdk: "sdk_laws S" and A: "account_sizes A"
    and new: "executor_new S M R sv A isz sizes = Ok ex0"
    and ix: "length ix_bytes \<le> isz" and fits: "fitting (sizes_of A sizes) accounts"
    and st: "st = \<lparr>in_slots = filled_slots (sizes_of A sizes) accounts,
      in_instruction = ix_bytes @ replicate (isz - length ix_bytes) 0, in_program = pid\<rparr>"
  shows "drive_ro S M R sv new_ref content A isz sizes pid program_data ix_bytes accounts =
    rbind (load_executable R (ex_runtime ex0) (data program_data) True)
      (input_run S R content (ex_runtime ex0)
        ((invoke_context_new sv)\<lparr>program_id := pid, log_collector := Some new_ref\<rparr>) st)"
proof (cases "load_executable R (ex_runtime ex0) (data program_data) True")
  case (Ok exe)
  note facts = executor_new_Ok[OF laws sdk A new]
  have sizes: "sizes_of A sizes = sizes_of A (ex_account_sizes ex0)" and ix': "length ix_bytes \<le> ex_instruction_size ex0"
    and st': "st = \<lparr>in_slots = filled_slots (sizes_of A sizes) accounts, in_instruction = ix_bytes @
      drop (length ix_bytes) (in_instruction (initial_input (sizes_of A sizes) isz)), in_program = pid\<rparr>"
    using facts ix by (simp_all add: st initial_input_def)
  from prepare_represents[OF laws sdk A facts(1) sizes Ok ix' fits st'] obtain b where
    prep: "prepare S M R A pid program_data True ix_bytes accounts ex0 = (Ok (), ex0\<lparr>ex_executable := Some exe,
      ex_context := (ex_context ex0)\<lparr>program_id := pid\<rparr>, ex_buffer := b\<rparr>)"
    and rep: "am_slice M b = input_image S st"
    by (auto simp: represents_def)
  have regions: "am_len M (ex_stack ex0) = config_stack_size R (executor_config R)"
      "am_len M (ex_heap ex0) = HEAP_LENGTH S"
    using facts am_len[OF laws] by simp_all
  have ctx: "(ex_context ex0)\<lparr>program_id := pid, log_collector := Some new_ref, return_data := (pubkey_default, [])\<rparr> =
      (invoke_context_new sv)\<lparr>program_id := pid, log_collector := Some new_ref\<rparr>"
    using facts by (simp add: invoke_context_new_def)
  have "execute_logged S M R new_ref content (ex0\<lparr>ex_executable := Some exe,
      ex_context := (ex_context ex0)\<lparr>program_id := pid\<rparr>, ex_buffer := b\<rparr>) =
    input_run S R content (ex_runtime ex0)
        ((invoke_context_new sv)\<lparr>program_id := pid, log_collector := Some new_ref\<rparr>) st exe"
    by (simp add: execute_logged_def execute_def Let_def zero_memory_slice[OF laws] regions rep ctx vm_regions_def
        input_run_def execution_result_def split: prod.split option.split sum.split)
  then show ?thesis
    by (simp add: drive_ro_def new prep Ok)
next
  case (Err e)
  then show ?thesis
    by (simp add: drive_ro_def new prepare_def update_program_fails)
next
  case Panics
  then show ?thesis
    by (auto simp: load_executable_def split: sum.splits if_splits)
qed

lemma drive_ro_too_long:
  assumes laws: "aligned_memory_laws M cap" and sdk: "sdk_laws S" and A: "account_sizes A"
    and new: "executor_new S M R sv A isz sizes = Ok ex0"
    and load: "load_executable R (ex_runtime ex0) (data program_data) True = Ok exe"
    and ix: "length ix_bytes \<le> isz"
    and long: "as_size A sizes 0 = Some n" "n < length (data account)"
  shows "drive_ro S M R sv new_ref content A isz sizes pid program_data ix_bytes ((meta, account) # rest) =
    Err (ExecutorError InvalidAccount)"
proof -
  note facts = executor_new_Ok[OF laws sdk A new]
  have "length ix_bytes \<le> ex_instruction_size ex0"
    using ix facts by simp
  from prepare_start[OF laws facts(1) load this, of pid "(meta, account) # rest"] obtain b where
    prep: "prepare S M R A pid program_data True ix_bytes ((meta, account) # rest) ex0 = update_accounts S M A 0
      ((meta, account) # rest)
      (ex0\<lparr>ex_executable := Some exe, ex_context := (ex_context ex0)\<lparr>program_id := pid\<rparr>, ex_buffer := b\<rparr>)" .
  have "ex_account_sizes ex0 = sizes"
    using facts by simp
  with long show ?thesis
    by (simp add: drive_ro_def new prep update_account_too_long)
qed

definition sample_commands :: "(unit, unit, unit, nat) command_sdk" where
  "sample_commands =
     \<lparr>pubkey_literal = (\<lambda>s. pubkey_repeat 2), clock_id = pubkey_repeat 1, clock_deserialize = (\<lambda>bs. Inr ()),
      clock_slot = (\<lambda>c. 0), set_clock = (\<lambda>sv c. sv), bs58_decode = (\<lambda>s. Inr []),
      message_new = (\<lambda>ixs payer. \<lparr>account_keys = [], instructions = []\<rparr>),
      construct_instructions_data = (\<lambda>m. []), recorded_content = (\<lambda>lg. 7)\<rparr>"

definition sample_drivers :: driver_sdk where
  "sample_drivers =
     \<lparr>system_program_id = pubkey_repeat 0, initialize_data = replicate 8 3,
      initialize_account_metas = (\<lambda>key. [\<lparr>meta_pubkey = key, meta_is_signer = False, meta_is_writable = True\<rparr>])\<rparr>"

text \<open>Every file holds the same program, and no file can be written.\<close>

definition one_file :: "bytes file_system" where
  "one_file =
     \<lparr>open_truncate = (\<lambda>path fs. None), file_write_all = (\<lambda>path fs bs. (False, fs)), read_file = (\<lambda>path fs. Some fs)\<rparr>"

definition silent_node :: "nat rpc_client" where
  "silent_node key n = (Inl ''no such account'', n + 1)"

definition sized_node :: "nat \<Rightarrow> nat rpc_client" where
  "sized_node len key n = (Inr (account_default\<lparr>data := replicate len 0\<rparr>), n + 1)"

lemma sample_driver_simps:
  "recorded_content sample_commands lg = 7" "system_program_id sample_drivers = pubkey_repeat 0"
  "initialize_data sample_drivers = replicate 8 3" "read_file one_file path fs = Some fs"
  "initialize_account_metas sample_drivers key =
     [\<lparr>meta_pubkey = key, meta_is_signer = False, meta_is_writable = True\<rparr>]"
  by (simp_all add: sample_commands_def sample_drivers_def one_file_def)

text \<open>The machine of the samples returns the first byte of its input, the number of accounts.\<close>

lemma sample_input_run:
  assumes "in_slots st = [a]" and "log_collector ctx = Some lg"
  shows "input_run sample_sdk sample_rbpf content rt ctx st exe =
    Ok (InvokeErrored (InstructionFailure (OtherInstructionError 1)) (content lg))"
proof -
  have "input_image sample_sdk st = 1 # tl (u64_le 1) @ drop 8 (input_image sample_sdk st)"
    using assms(1) by (simp add: input_image_def u64_le_def)
  then have "hd (input_image sample_sdk st @ [0]) = 1"
    by (metis append_Cons list.sel(1))
  then show ?thesis
    using assms(2) by (simp add: input_run_def Let_def sample_rbpf_def execution_result_def)
qed

lemma sample_elf_loads: "load_executable sample_rbpf rt (b # bs) jit = Ok (b # bs)"
  by (simp add: load_executable_def sample_rbpf_def)

text \<open>
  C6.  The read-only driver of the raw example from its file to its output: once the file is read, it asks the
  node for the one account, and prints what the machine makes of exactly this input: the account as the
  node gave it, or the default account when it gave none, neither signer nor writable; the program
  id; and 41 bytes of instruction data, the four bytes of the driver followed by zeros.  Nothing that can
  go wrong in between does, except that the file is no program.
\<close>

theorem raw_run_ro_input:
  assumes "aligned_memory_laws M cap" and "sdk_laws S"
    and "read_file F ''target/deploy/example.so'' fs = Some elf"
    and "rpc (system_program_id D) s0 = (answer, s1)" and "account = unwrap_or_default answer"
    and "executor_new S M R sv vec_account_sizes 41 [length (data account)] = Ok ex0"
    and "pid = pubkey_literal C program_id_literal"
    and "st = \<lparr>in_slots = [filled_slot (length (data account)) (system_program_id D) account False False False],
      in_instruction = [1, 2, 3, 4] @ replicate 37 0, in_program = pid\<rparr>"
    and "ctx = (invoke_context_new sv)\<lparr>program_id := pid, log_collector := Some new_ref\<rparr>"
  shows "raw_run_ro S M R sv new_ref C D F rpc ((fs, out), s0) =
    (case rbind (load_executable R (ex_runtime ex0) elf True)
        (input_run S R (recorded_content C) (ex_runtime ex0) ctx st) of
      Ok rep \<Rightarrow> (Ok (), ((fs, out @ [rep]), s1))
    | Err e \<Rightarrow> (Err e, ((fs, out), s1))
    | Panics \<Rightarrow> (Panics, ((fs, out), s1)))"
proof -
  let ?accounts = "[(meta_new_readonly (system_program_id D) False, account)]"
  have run: "drive_ro S M R sv new_ref (recorded_content C) vec_account_sizes 41 [length (data account)] pid
      (account_default\<lparr>data := elf\<rparr>) [1, 2, 3, 4] ?accounts =
    rbind (load_executable R (ex_runtime ex0) elf True) (input_run S R (recorded_content C) (ex_runtime ex0) ctx st)"
    using drive_ro_runs[OF assms(1,2) vec_sizes.account_sizes_axioms assms(6) _ _ refl, of "[1, 2, 3, 4]" ?accounts
        new_ref "recorded_content C" pid "account_default\<lparr>data := elf\<rparr>"]
    by (simp add: assms(8,9) filled_slots_def meta_new_readonly_def)
  show ?thesis
    using assms(3-5) run
    by (auto simp: raw_run_ro_def open_and_read_def rpc_get_or_default_def assms(7)[symmetric] println_def act_bind_def
        split: outcome.split)
qed

theorem raw_run_ro_input_witness:
  "raw_run_ro sample_sdk vec_memory sample_rbpf () () sample_commands sample_drivers one_file
    silent_node (([9, 8], []), 0) =
   (Ok (), (([9, 8], [InvokeErrored (InstructionFailure (OtherInstructionError 1)) 7]), 1))"
proof -
  have fits: "image_size sample_sdk (sizes_of vec_account_sizes [length (data account_default)]) 41 < 2 ^ 64"
    by (simp add: account_default_def image_size_def slot_offset_def slot_size_def reserved_def padding_def)
  obtain ex0 where new: "executor_new sample_sdk vec_memory sample_rbpf () vec_account_sizes 41
      [length (data account_default)] = Ok ex0"
    by (rule sample_new_fits[OF vec_sizes.account_sizes_axioms fits])
  have on_disk: "read_file one_file path [9, 8] = Some [9, 8]" for path
    by (simp add: sample_driver_simps)
  have default: "account_default = unwrap_or_default (Inl ''no such account'')"
    by (simp add: unwrap_or_default_def)
  have ask: "silent_node (system_program_id sample_drivers) 0 = (Inl ''no such account'', 1)"
    by (simp add: silent_node_def)
  show ?thesis
    by (subst raw_run_ro_input[where rpc = silent_node, OF vec_memory_laws sample_sdk_laws on_disk ask default new refl refl refl])
      (simp add: sample_elf_loads sample_input_run sample_driver_simps)
qed

text \<open>
  C19.  The read-only driver of the anchor example: its executor has one slot of 120 bytes for an account and 40
  bytes for the instruction.  With the one account that the instruction names, the machine runs on the
  account padded with zeros to 120 bytes and the instruction padded to 40; an account with more data is
  refused, and nothing is printed.
\<close>

theorem anchor_run_ro_input:
  assumes "aligned_memory_laws M cap" and "sdk_laws S"
    and "read_file F ''target/deploy/anchor_example.so'' fs = Some elf"
    and "initialize_account_metas D (system_program_id D) = [meta]" and "length (initialize_data D) \<le> 40"
    and "rpc (meta_pubkey meta) s0 = (answer, s1)" and "account = unwrap_or_default answer"
    and "executor_new S M R sv pair_account_sizes 40 (1, 120) = Ok ex0"
    and "load_executable R (ex_runtime ex0) elf True = Ok exe"
    and "pid = pubkey_literal C program_id_literal"
    and "st = \<lparr>in_slots = [filled_slot 120 (meta_pubkey meta) account (meta_is_signer meta) (meta_is_writable meta) False],
      in_instruction = initialize_data D @ replicate (40 - length (initialize_data D)) 0, in_program = pid\<rparr>"
    and "ctx = (invoke_context_new sv)\<lparr>program_id := pid, log_collector := Some new_ref\<rparr>"
  shows "anchor_run_ro S M R sv new_ref C D I F rpc ((fs, out), s0) =
    (if length (data account) \<le> 120
     then (case input_run S R (recorded_content C) (ex_runtime ex0) ctx st exe of
        Ok rep \<Rightarrow> (Ok (), ((fs, out @ [rep]), s1))
      | Err e \<Rightarrow> (Err e, ((fs, out), s1))
      | Panics \<Rightarrow> (Panics, ((fs, out), s1)))
     else (Err (ExecutorError InvalidAccount), ((fs, out), s1)))"
proof -
  let ?drive = "drive_ro S M R sv new_ref (recorded_content C) pair_account_sizes 40 (1, 120) pid
    (example_program I elf) (initialize_data D) [(meta, account)]"
  have elf: "data (example_program I elf) = elf"
    by (simp add: example_program_def)
  have run: "?drive = (if length (data account) \<le> 120
    then input_run S R (recorded_content C) (ex_runtime ex0) ctx st exe else Err (ExecutorError InvalidAccount))"
  proof (cases "length (data account) \<le> 120")
    case True
    then show ?thesis
      using drive_ro_runs[OF assms(1,2) pair_sizes.account_sizes_axioms assms(8,5) _ refl, of "[(meta, account)]"
          new_ref "recorded_content C" pid "example_program I elf"]
      by (simp add: assms(9,11,12) elf filled_slots_def)
  next
    case False
    then show ?thesis
      using drive_ro_too_long[OF assms(1,2) pair_sizes.account_sizes_axioms assms(8) _ assms(5),
          of "example_program I elf" exe 120 account new_ref "recorded_content C" pid meta "[]"]
      by (simp add: elf assms(9) pair_account_sizes_def)
  qed
  show ?thesis
    using assms(3,4,6,7) run
    by (auto simp: anchor_run_ro_def open_and_read_def rpc_get_or_default_def assms(10)[symmetric] println_def act_bind_def
        split: outcome.split)
qed

theorem anchor_run_ro_input_witness:
  "\<forall>n I. anchor_run_ro sample_sdk vec_memory sample_rbpf () () sample_commands sample_drivers I one_file
    (sized_node n) (([9, 8], []), 0) =
   (if n \<le> 120 then (Ok (), (([9, 8], [InvokeErrored (InstructionFailure (OtherInstructionError 1)) 7]), 1))
    else (Err (ExecutorError InvalidAccount), (([9, 8], []), 1)))"
proof (intro allI)
  fix n I
  let ?account = "account_default\<lparr>data := replicate n 0\<rparr>"
  have fits: "image_size sample_sdk (sizes_of pair_account_sizes (1, 120)) 40 < 2 ^ 64"
    by (simp add: image_size_def slot_offset_def slot_size_def reserved_def padding_def)
  obtain ex0 where new: "executor_new sample_sdk vec_memory sample_rbpf () pair_account_sizes 40 (1, 120) = Ok ex0"
    by (rule sample_new_fits[OF pair_sizes.account_sizes_axioms fits])
  have on_disk: "read_file one_file path [9, 8] = Some [9, 8]" for path
    by (simp add: sample_driver_simps)
  have account: "?account = unwrap_or_default (Inr ?account)"
    by (simp add: unwrap_or_default_def)
  have short: "length (initialize_data sample_drivers) \<le> 40"
    by (simp add: sample_driver_simps)
  have ask: "sized_node n key 0 = (Inr ?account, 1)" for key
    by (simp add: sized_node_def)
  show "anchor_run_ro sample_sdk vec_memory sample_rbpf () () sample_commands sample_drivers I one_file
    (sized_node n) (([9, 8], []), 0) =
   (if n \<le> 120 then (Ok (), (([9, 8], [InvokeErrored (InstructionFailure (OtherInstructionError 1)) 7]), 1))
    else (Err (ExecutorError InvalidAccount), (([9, 8], []), 1)))"
    by (subst anchor_run_ro_input[where rpc = "sized_node n", OF vec_memory_laws sample_sdk_laws on_disk sample_driver_simps(5) short ask account new
          sample_elf_loads refl refl refl])
      (simp add: sample_input_run sample_driver_simps)
qed

subsection \<open>The message executor\<close>

interpretation uncached: source_simulation "driver_fetch (\<lambda>k s. (node k, s)) pid program_data"
  "simulate_fetch (\<lambda>k s. (node k, s)) pid program_data"
  "\<lambda>s t. rpc_state t = s \<and> (\<forall>k a. fetched t k = Some a \<longrightarrow> a = unwrap_or_default (node k))"
  for node pid program_data
  by unfold_locales (auto simp: driver_fetch_def simulate_fetch_def Let_def split: option.split)

text \<open>
  C11.  The closure of the drivers asks the node every time, that of \<open>Simulate\<close> keeps the answers.  With a node
  that gives the same answer whenever it is asked the same, this makes no difference: for every
  program, message and executor, both end with the same result, the same report and the same cache of
  programs.
\<close>

theorem driver_loaded_simulate:
  "driver_loaded I T A C (\<lambda>k s. (node k, s)) pid program_data sbf slot message st =
   simulate_loaded I T A C (\<lambda>k s. (node k, s)) pid program_data sbf slot message st"
proof -
  obtain fs out s where st: "st = ((fs, out), s)"
    by (metis surj_pair)
  let ?driver = "load_for_message I (construct_instructions_data C) A (driver_fetch (\<lambda>k s. (node k, s)) pid program_data)
    slot message (executor_loader s sbf)"
  let ?simulate = "load_for_message I (construct_instructions_data C) A
    (simulate_fetch (\<lambda>k s. (node k, s)) pid program_data) slot message
    (executor_loader \<lparr>fetched = Map.empty, rpc_state = s\<rparr> sbf)"
  have "fst ?driver = fst ?simulate \<and> loader_related (\<lambda>s t. rpc_state t = s \<and>
      (\<forall>k a. fetched t k = Some a \<longrightarrow> a = unwrap_or_default (node k))) (snd ?driver) (snd ?simulate)"
    by (rule act_relatedD[OF uncached.for_message])
      (simp add: loader_related_def executor_loader_def account_loader_new_def)
  then obtain r l m where "?driver = (r, l)" "?simulate = (r, m)" "ld_g l = rpc_state (ld_g m)" "ld_cache l = ld_cache m"
    by (cases ?driver; cases ?simulate) (simp add: loader_related_def)
  then show ?thesis
    by (cases r) (simp_all add: st driver_loaded_def simulate_loaded_def Let_def split: prod.split)
qed

end
