(* ===== verification/Host_Memory.thy ===== *)
theory Host_Memory
  imports Context
begin

text \<open>
  The host's memory, which the syscalls read and write through the raw pointers they get from the
  memory mapping of the virtual machine, and the mapping itself, a type of \<open>solana_rbpf\<close>.  The
  code only calls \<open>MemoryMapping::map\<close> and \<open>MemoryMapping::region\<close>, the fields \<open>vm_addr\<close> and
  \<open>vm_addr_end\<close> of the region and its \<open>vm_to_host\<close>.
\<close>

type_synonym host_memory = "u64 \<Rightarrow> u8"

definition read_bytes :: "host_memory \<Rightarrow> u64 \<Rightarrow> nat \<Rightarrow> bytes" where
  "read_bytes h a n = map (\<lambda>i. h (a + of_nat i)) [0..<n]"

definition write_bytes :: "u64 \<Rightarrow> bytes \<Rightarrow> host_memory \<Rightarrow> host_memory" where
  "write_bytes a bs h =
     (\<lambda>x. if unat (x - a) < length bs then bs ! unat (x - a) else h x)"

text \<open>The address \<open>x\<close> is one of the \<open>n\<close> bytes from \<open>a\<close> on.\<close>

definition in_block :: "u64 \<Rightarrow> nat \<Rightarrow> u64 \<Rightarrow> bool" where
  "in_block a n x \<longleftrightarrow> unat (x - a) < n"

lemma length_read_bytes [simp]: "length (read_bytes h a n) = n"
  by (simp add: read_bytes_def)

lemma nth_read_bytes [simp]: "i < n \<Longrightarrow> read_bytes h a n ! i = h (a + of_nat i)"
  by (simp add: read_bytes_def)

lemma read_bytes_0 [simp]: "read_bytes h a 0 = []"
  by (simp add: read_bytes_def)

lemma read_bytes_Suc: "read_bytes h a (Suc n) = h a # read_bytes h (a + 1) n"
  by (simp add: read_bytes_def upt_conv_Cons map_Suc_upt[symmetric] add.assoc del: upt_Suc)

lemma write_bytes_Nil [simp]: "write_bytes a [] h = h"
  by (simp add: write_bytes_def)

lemma write_bytes_outside [simp]: "\<not> in_block a (length bs) x \<Longrightarrow> write_bytes a bs h x = h x"
  by (simp add: write_bytes_def in_block_def)

lemma unat_of_nat_u64: "n < 2 ^ 64 \<Longrightarrow> unat (of_nat n :: u64) = n"
  by (simp add: unsigned_of_nat take_bit_nat_eq_self)

lemma in_block_add: "i < n \<Longrightarrow> n \<le> 2 ^ 64 \<Longrightarrow> in_block a n (a + of_nat i)"
  by (simp add: in_block_def unat_of_nat_u64)

lemma in_blockE:
  assumes "in_block a n x"
  obtains i where "i < n" "x = a + of_nat i"
proof
  show "unat (x - a) < n"
    using assms by (simp add: in_block_def)
  show "x = a + of_nat (unat (x - a))"
    by simp
qed

lemma write_bytes_at:
  "i < length bs \<Longrightarrow> length bs \<le> 2 ^ 64 \<Longrightarrow> write_bytes a bs h (a + of_nat i) = bs ! i"
  by (simp add: write_bytes_def unat_of_nat_u64)

lemma read_write_same [simp]:
  "length bs \<le> 2 ^ 64 \<Longrightarrow> n = length bs \<Longrightarrow> read_bytes (write_bytes a bs h) a n = bs"
  by (rule nth_equalityI) (simp_all add: write_bytes_at)

lemma read_bytes_cong:
  "n \<le> 2 ^ 64 \<Longrightarrow> (\<And>x. in_block a n x \<Longrightarrow> h x = h' x) \<Longrightarrow> read_bytes h a n = read_bytes h' a n"
  by (simp add: read_bytes_def in_block_add)

lemma read_write_disjoint:
  assumes "n \<le> 2 ^ 64" "\<And>x. in_block a n x \<Longrightarrow> \<not> in_block b (length bs) x"
  shows "read_bytes (write_bytes b bs h) a n = read_bytes h a n"
  using assms by (intro read_bytes_cong) auto

subsection \<open>The memory mapping\<close>

record vm_region =
  region_vm_addr :: u64
  region_vm_addr_end :: u64
  vm_to_host :: "u64 \<Rightarrow> u64 \<Rightarrow> ebpf_error + u64"

record memory_mapping =
  map_addr :: "access_type \<Rightarrow> u64 \<Rightarrow> u64 \<Rightarrow> ebpf_error + u64"
  find_region :: "access_type \<Rightarrow> u64 \<Rightarrow> ebpf_error + vm_region"

text \<open>The addresses of the host that the mapping gives out for an access.\<close>

definition mapped :: "memory_mapping \<Rightarrow> access_type \<Rightarrow> u64 \<Rightarrow> bool" where
  "mapped MM acc x \<longleftrightarrow> (\<exists>va len h. map_addr MM acc va len = Inr h \<and> in_block h (unat len) x)"

text \<open>An allocation of the host never wraps around the address space.\<close>

definition mapping_laws :: "memory_mapping \<Rightarrow> bool" where
  "mapping_laws MM \<longleftrightarrow>
     (\<forall>acc va len h. map_addr MM acc va len = Inr h \<longrightarrow> unat h + unat len \<le> 2 ^ 64)"

lemma in_block_flat:
  assumes "unat a + n \<le> 2 ^ 64"
  shows "in_block a n x \<longleftrightarrow> unat a \<le> unat x \<and> unat x < unat a + n"
  using assms unat_u64_less(1)[of a]
  by (auto simp: in_block_def unat_sub_if_size word_size)

subsection \<open>The state a syscall works on\<close>

record ('sv, 'lg) machine =
  vm_context :: "('sv, 'lg) invoke_context"
  host_mem :: host_memory

type_synonym ('sv, 'lg, 'a) sys = "(('sv, 'lg) machine, error_obj, 'a) act"

end
