(* ===== verification/Translate.thy ===== *)
theory Translate
  imports Host_Memory
begin

text \<open>
  The address translation of \<open>syscalls/mod.rs\<close>: from an address of the virtual machine to a
  reference into host memory, with the bounds check of the mapping and the optional checks of
  size and alignment.  A type parameter of the code is its size and alignment, a reference is the
  host address, a slice the host address with the number of elements.
\<close>

record rust_type =
  size_of :: nat
  align_of :: nat

definition ty_u8 :: rust_type where
  "ty_u8 = \<lparr>size_of = 1, align_of = 1\<rparr>"

definition ty_pubkey :: rust_type where
  "ty_pubkey = \<lparr>size_of = 32, align_of = 1\<rparr>"

text \<open>\<open>&[u8]\<close>: address and length, of eight bytes each.\<close>

definition ty_slice_ref :: rust_type where
  "ty_slice_ref = \<lparr>size_of = 16, align_of = 8\<rparr>"

lemma ty_sel [simp]:
  "size_of ty_u8 = 1" "align_of ty_u8 = 1" "size_of ty_pubkey = 32" "align_of ty_pubkey = 1"
  "size_of ty_slice_ref = 16" "align_of ty_slice_ref = 8"
  by (simp_all add: ty_u8_def ty_pubkey_def ty_slice_ref_def)

record host_slice =
  slice_ptr :: u64
  slice_len :: nat

definition address_is_aligned :: "rust_type \<Rightarrow> u64 \<Rightarrow> ('e, bool) outcome" where
  "address_is_aligned T address =
     (if align_of T = 0 then Panics else Ok (unat address mod align_of T = 0))"

definition translate ::
  "memory_mapping \<Rightarrow> access_type \<Rightarrow> u64 \<Rightarrow> u64 \<Rightarrow> (error_obj, u64) outcome" where
  "translate MM access va len =
     (case map_addr MM access va len of Inl err \<Rightarrow> Err (EbpfErr err) | Inr host_addr \<Rightarrow> Ok host_addr)"

text \<open>The reference \<open>&mut []\<close> is not null and is never followed; its address is not specified.\<close>

definition empty_slice :: "rust_type \<Rightarrow> host_slice" where
  "empty_slice T = \<lparr>slice_ptr = of_nat (align_of T), slice_len = 0\<rparr>"

definition translate_slice_inner ::
  "rust_type \<Rightarrow> memory_mapping \<Rightarrow> access_type \<Rightarrow> u64 \<Rightarrow> u64 \<Rightarrow> bool \<Rightarrow> bool \<Rightarrow>
   (error_obj, host_slice) outcome" where
  "translate_slice_inner T MM access va len check_aligned check_size =
     (if len = 0 then Ok (empty_slice T)
      else let total_size = saturating_mul len (of_nat (size_of T)) in
        if check_size \<and> 2 ^ 63 \<le> unat total_size then Err (SyscallErr InvalidLength)
        else rbind (translate MM access va total_size) (\<lambda>host_addr.
          rbind (if check_aligned then address_is_aligned T host_addr else Ok True) (\<lambda>aligned.
            if \<not> aligned then Err (SyscallErr UnalignedPointer)
            else Ok \<lparr>slice_ptr = host_addr, slice_len = unat len\<rparr>)))"

definition translate_slice ::
  "rust_type \<Rightarrow> memory_mapping \<Rightarrow> u64 \<Rightarrow> u64 \<Rightarrow> bool \<Rightarrow> bool \<Rightarrow> (error_obj, host_slice) outcome" where
  "translate_slice T MM va len check_aligned check_size =
     translate_slice_inner T MM Load va len check_aligned check_size"

definition translate_slice_mut ::
  "rust_type \<Rightarrow> memory_mapping \<Rightarrow> u64 \<Rightarrow> u64 \<Rightarrow> bool \<Rightarrow> bool \<Rightarrow> (error_obj, host_slice) outcome" where
  "translate_slice_mut T MM va len check_aligned check_size =
     translate_slice_inner T MM Store va len check_aligned check_size"

definition translate_type_inner ::
  "rust_type \<Rightarrow> memory_mapping \<Rightarrow> access_type \<Rightarrow> u64 \<Rightarrow> bool \<Rightarrow> (error_obj, u64) outcome" where
  "translate_type_inner T MM access va check_aligned =
     rbind (translate MM access va (of_nat (size_of T))) (\<lambda>host_addr.
       if \<not> check_aligned then Ok host_addr
       else rbind (address_is_aligned T host_addr) (\<lambda>aligned.
         if \<not> aligned then Err (SyscallErr UnalignedPointer) else Ok host_addr))"

definition translate_type_mut ::
  "rust_type \<Rightarrow> memory_mapping \<Rightarrow> u64 \<Rightarrow> bool \<Rightarrow> (error_obj, u64) outcome" where
  "translate_type_mut T MM va check_aligned = translate_type_inner T MM Store va check_aligned"

definition translate_type ::
  "rust_type \<Rightarrow> memory_mapping \<Rightarrow> u64 \<Rightarrow> bool \<Rightarrow> (error_obj, u64) outcome" where
  "translate_type T MM va check_aligned = translate_type_inner T MM Load va check_aligned"

lemma translate_eq_Ok [simp]: "translate MM acc va len = Ok h \<longleftrightarrow> map_addr MM acc va len = Inr h"
  by (auto simp: translate_def split: sum.splits)

lemma translate_no_panic [simp]: "translate MM acc va len \<noteq> Panics"
  by (auto simp: translate_def split: sum.splits)

lemma saturating_mul_1 [simp]: "saturating_mul x 1 = x"
  by (simp add: saturating_mul_def)

text \<open>
  The bytes of a slice that was translated are mapped for the access it was translated for, and it
  never has more bytes than were checked: a length whose size overflows is checked for
  \<open>2\<^sup>6\<^sup>4 - 1\<close> bytes, which no mapping has.
\<close>

lemma translate_slice_inner_Ok:
  assumes "translate_slice_inner T MM acc va len ca cs = Ok s"
  shows "slice_len s = unat len"
    "len \<noteq> 0 \<Longrightarrow> map_addr MM acc va (saturating_mul len (of_nat (size_of T))) = Inr (slice_ptr s)"
  using assms by (auto simp: translate_slice_inner_def Let_def empty_slice_def split: if_splits)

lemma translate_u8_Ok:
  assumes "translate_slice_inner ty_u8 MM acc va len ca cs = Ok s" "in_block (slice_ptr s) (slice_len s) x"
  shows "mapped MM acc x"
proof -
  have "len \<noteq> 0"
    using assms by (auto simp: translate_slice_inner_def empty_slice_def in_block_def)
  with translate_slice_inner_Ok[OF assms(1)] have "map_addr MM acc va len = Inr (slice_ptr s)"
    by simp
  with translate_slice_inner_Ok(1)[OF assms(1)] assms(2) show ?thesis
    unfolding mapped_def by metis
qed

lemma translate_type_inner_Ok:
  "translate_type_inner T MM acc va ca = Ok h \<Longrightarrow> map_addr MM acc va (of_nat (size_of T)) = Inr h"
  by (auto simp: translate_type_inner_def split: if_splits)

lemma translate_type_mapped:
  assumes "translate_type_inner T MM acc va ca = Ok h" "size_of T < 2 ^ 64" "in_block h (size_of T) x"
  shows "mapped MM acc x"
  using translate_type_inner_Ok[OF assms(1)] assms(2,3)
  unfolding mapped_def by (metis unat_of_nat_u64)

lemma slice_len_less: "translate_slice_inner T MM acc va len ca cs = Ok s \<Longrightarrow> slice_len s < 2 ^ 64"
  by (simp add: translate_slice_inner_Ok(1))

lemmas translate_defs = translate_slice_def translate_slice_mut_def translate_type_def
  translate_type_mut_def

text \<open>Without the optional checks, as the syscalls of this simulator call it.\<close>

lemma translate_slice_unchecked:
  "translate_slice_inner ty_u8 MM acc va len False False =
     (if len = 0 then Ok (empty_slice ty_u8)
      else rbind (translate MM acc va len) (\<lambda>h. Ok \<lparr>slice_ptr = h, slice_len = unat len\<rparr>))"
  by (simp add: translate_slice_inner_def)

lemma translate_type_unchecked:
  "translate_type_inner T MM acc va False = translate MM acc va (of_nat (size_of T))"
  by (simp add: translate_type_inner_def)

end
