(* ===== verification/Utf8.thy ===== *)
theory Utf8
  imports Errors
begin

text \<open>
  \<open>std::str::from_utf8\<close>, which decides whether the bytes a program passed are a string, and the
  error it returns: how far the bytes are valid, and the length of the invalid sequence (\<open>None\<close>
  when the input ends inside a character).  A string is the list of its bytes.
\<close>

definition utf8_cont :: "u8 \<Rightarrow> bool" where
  "utf8_cont b \<longleftrightarrow> 0x80 \<le> b \<and> b \<le> 0xBF"

text \<open>The second bytes of the characters of three and of four bytes.\<close>

definition utf8_second3 :: "u8 \<Rightarrow> u8 \<Rightarrow> bool" where
  "utf8_second3 b c \<longleftrightarrow>
     (b = 0xE0 \<and> 0xA0 \<le> c \<and> c \<le> 0xBF) \<or> (0xE1 \<le> b \<and> b \<le> 0xEC \<and> utf8_cont c) \<or>
     (b = 0xED \<and> 0x80 \<le> c \<and> c \<le> 0x9F) \<or> (0xEE \<le> b \<and> b \<le> 0xEF \<and> utf8_cont c)"

definition utf8_second4 :: "u8 \<Rightarrow> u8 \<Rightarrow> bool" where
  "utf8_second4 b c \<longleftrightarrow>
     (b = 0xF0 \<and> 0x90 \<le> c \<and> c \<le> 0xBF) \<or> (0xF1 \<le> b \<and> b \<le> 0xF3 \<and> utf8_cont c) \<or>
     (b = 0xF4 \<and> 0x80 \<le> c \<and> c \<le> 0x8F)"

definition utf8_stop :: "nat \<Rightarrow> nat option \<Rightarrow> utf8_error option" where
  "utf8_stop i n = Some \<lparr>valid_up_to = i, error_len = n\<rparr>"

fun utf8_scan :: "nat \<Rightarrow> bytes \<Rightarrow> utf8_error option" where
  "utf8_scan i [] = None"
| "utf8_scan i (b # bs) =
     (if b < 0x80 then utf8_scan (i + 1) bs
      else if 0xC2 \<le> b \<and> b \<le> 0xDF then
        (case bs of
           [] \<Rightarrow> utf8_stop i None
         | c # cs \<Rightarrow> if utf8_cont c then utf8_scan (i + 2) cs else utf8_stop i (Some 1))
      else if 0xE0 \<le> b \<and> b \<le> 0xEF then
        (case bs of
           [] \<Rightarrow> utf8_stop i None
         | [c] \<Rightarrow> utf8_stop i (if utf8_second3 b c then None else Some 1)
         | c # d # ds \<Rightarrow>
             if \<not> utf8_second3 b c then utf8_stop i (Some 1)
             else if utf8_cont d then utf8_scan (i + 3) ds else utf8_stop i (Some 2))
      else if 0xF0 \<le> b \<and> b \<le> 0xF4 then
        (case bs of
           [] \<Rightarrow> utf8_stop i None
         | [c] \<Rightarrow> utf8_stop i (if utf8_second4 b c then None else Some 1)
         | [c, d] \<Rightarrow>
             utf8_stop i (if \<not> utf8_second4 b c then Some 1 else if utf8_cont d then None else Some 2)
         | c # d # e # es \<Rightarrow>
             if \<not> utf8_second4 b c then utf8_stop i (Some 1)
             else if \<not> utf8_cont d then utf8_stop i (Some 2)
             else if utf8_cont e then utf8_scan (i + 4) es else utf8_stop i (Some 3))
      else utf8_stop i (Some 1))"

definition from_utf8 :: "bytes \<Rightarrow> utf8_error + bytes" where
  "from_utf8 bs = (case utf8_scan 0 bs of None \<Rightarrow> Inr bs | Some e \<Rightarrow> Inl e)"

text \<open>ASCII is valid, and an error points into the input.\<close>

lemma utf8_scan_ascii: "\<forall>b \<in> set bs. b < 0x80 \<Longrightarrow> utf8_scan i bs = None"
  by (induction bs arbitrary: i) auto

lemma utf8_scan_bounds: "utf8_scan i bs = Some e \<Longrightarrow> i \<le> valid_up_to e \<and> valid_up_to e < i + length bs"
proof (induction bs arbitrary: i rule: length_induct)
  case (1 bs)
  have IH: "utf8_scan j cs = Some e \<Longrightarrow> length cs < length bs \<Longrightarrow>
      j \<le> valid_up_to e \<and> valid_up_to e < j + length cs" for j cs
    using 1(1) by blast
  show ?case
    using 1(2) by (cases bs) (auto simp: utf8_stop_def split: if_splits list.splits dest!: IH)
qed

lemma from_utf8_valid [simp]: "from_utf8 bs = Inr s \<longleftrightarrow> utf8_scan 0 bs = None \<and> s = bs"
  by (auto simp: from_utf8_def split: option.splits)

end
