(* ===== verification/Syscall_Base.thy ===== *)
theory Syscall_Base
  imports Translate Utf8 Externals
begin

text \<open>
  The steps the syscalls are composed of: reading and writing host memory through a translated
  reference, reading and updating the invoke context; and the contract that every syscall keeps,
  a locale with the compositions of such steps.
\<close>

definition read_slice :: "host_slice \<Rightarrow> ('sv, 'lg, bytes) sys" where
  "read_slice s = (\<lambda>m. (Ok (read_bytes (host_mem m) (slice_ptr s) (slice_len s)), m))"

definition write_host :: "u64 \<Rightarrow> bytes \<Rightarrow> ('sv, 'lg, unit) sys" where
  "write_host a bs = (\<lambda>m. (Ok (), m\<lparr>host_mem := write_bytes a bs (host_mem m)\<rparr>))"

definition get_context :: "('sv, 'lg, ('sv, 'lg) invoke_context) sys" where
  "get_context = (\<lambda>m. (Ok (vm_context m), m))"

definition update_context ::
  "(('sv, 'lg) invoke_context \<Rightarrow> ('sv, 'lg) invoke_context) \<Rightarrow> ('sv, 'lg, unit) sys" where
  "update_context g = (\<lambda>m. (Ok (), m\<lparr>vm_context := g (vm_context m)\<rparr>))"

definition throw :: "syscall_error \<Rightarrow> ('sv, 'lg, 'a) sys" where
  "throw e = (\<lambda>m. (Err (SyscallErr e), m))"

lemma step_apply [simp, act_simps]:
  "read_slice s m = (Ok (read_bytes (host_mem m) (slice_ptr s) (slice_len s)), m)"
  "write_host a bs m = (Ok (), m\<lparr>host_mem := write_bytes a bs (host_mem m)\<rparr>)"
  "get_context m = (Ok (vm_context m), m)"
  "update_context g m = (Ok (), m\<lparr>vm_context := g (vm_context m)\<rparr>)"
  "throw e m = (Err (SyscallErr e), m)"
  by (simp_all add: read_slice_def write_host_def get_context_def update_context_def throw_def)

subsection \<open>The contract\<close>

text \<open>
  A syscall writes only host memory that the mapping gives out for stores; its result and what it
  leaves depend on the context and on the memory that the mapping gives out for loads only; and
  the context keeps its sysvars, its program id and its instruction meter, and the return data is
  as before or the program's own, of bounded size.
\<close>

definition confined :: "memory_mapping \<Rightarrow> host_memory \<Rightarrow> host_memory \<Rightarrow> bool" where
  "confined MM h h' \<longleftrightarrow> (\<forall>x. \<not> mapped MM Store x \<longrightarrow> h' x = h x)"

definition agree :: "memory_mapping \<Rightarrow> ('sv, 'lg) machine \<Rightarrow> ('sv, 'lg) machine \<Rightarrow> bool" where
  "agree MM m m' \<longleftrightarrow>
     vm_context m' = vm_context m \<and> (\<forall>x. mapped MM Load x \<longrightarrow> host_mem m' x = host_mem m x)"

definition context_kept ::
  "sdk \<Rightarrow> ('sv, 'lg) invoke_context \<Rightarrow> ('sv, 'lg) invoke_context \<Rightarrow> bool" where
  "context_kept S c c' \<longleftrightarrow>
     sysvars c' = sysvars c \<and> program_id c' = program_id c \<and>
     instruction_remaining c' = instruction_remaining c \<and>
     (return_data c' = return_data c \<or>
      fst (return_data c') = program_id c \<and> length (snd (return_data c')) \<le> MAX_RETURN_DATA S)"

lemma confined_refl [simp]: "confined MM h h"
  by (simp add: confined_def)

lemma confined_trans: "confined MM h h' \<Longrightarrow> confined MM h' h'' \<Longrightarrow> confined MM h h''"
  by (simp add: confined_def)

lemma agree_refl [simp]: "agree MM m m"
  by (simp add: agree_def)

lemma context_kept_refl [simp]: "context_kept S c c"
  by (simp add: context_kept_def)

lemma context_kept_trans: "context_kept S c c' \<Longrightarrow> context_kept S c' c'' \<Longrightarrow> context_kept S c c''"
  by (auto simp: context_kept_def)

locale syscall_contract =
  fixes S :: sdk and MM :: memory_mapping and run :: "('sv, 'lg, 'a) sys"
  assumes writes: "confined MM (host_mem m) (host_mem (snd (run m)))"
    and reads: "agree MM m m' \<Longrightarrow> fst (run m') = fst (run m) \<and> agree MM (snd (run m)) (snd (run m'))"
    and keeps: "context_kept S (vm_context m) (vm_context (snd (run m)))"

context syscall_contract
begin

lemma outside_unchanged: "\<not> mapped MM Store x \<Longrightarrow> host_mem (snd (run m)) x = host_mem m x"
  using writes[of m] by (simp add: confined_def)

lemma same_result: "agree MM m m' \<Longrightarrow> fst (run m') = fst (run m)"
  using reads by blast

lemma identity_kept:
  "sysvars (vm_context (snd (run m))) = sysvars (vm_context m)"
  "program_id (vm_context (snd (run m))) = program_id (vm_context m)"
  "get_remaining (vm_context (snd (run m))) = get_remaining (vm_context m)"
  using keeps[of m] by (simp_all add: context_kept_def get_remaining_def)

lemma return_data_bounded:
  "length (snd (return_data (vm_context m))) \<le> MAX_RETURN_DATA S \<Longrightarrow>
   length (snd (return_data (vm_context (snd (run m))))) \<le> MAX_RETURN_DATA S"
  using keeps[of m] by (auto simp: context_kept_def)

end

text \<open>The steps, and the sequences of steps, that keep the contract.\<close>

named_theorems contract_intros \<open>introduction rules of the syscall contract\<close>

lemma contract_lift [contract_intros]: "syscall_contract S MM (act_lift r)"
  by unfold_locales simp_all

lemma contract_return [contract_intros]: "syscall_contract S MM (act_return x)"
  by unfold_locales simp_all

lemma contract_throw [contract_intros]: "syscall_contract S MM (throw e)"
  by unfold_locales simp_all

lemma contract_get_context [contract_intros]: "syscall_contract S MM get_context"
  by unfold_locales (simp_all add: agree_def)

lemma contract_read:
  assumes "\<And>x. in_block (slice_ptr s) (slice_len s) x \<Longrightarrow> mapped MM Load x" "slice_len s \<le> 2 ^ 64"
  shows "syscall_contract S MM (read_slice s)"
proof
  fix m m' :: "('a, 'b) machine"
  assume "agree MM m m'"
  with assms have "read_bytes (host_mem m') (slice_ptr s) (slice_len s) =
      read_bytes (host_mem m) (slice_ptr s) (slice_len s)"
    by (intro read_bytes_cong) (simp_all add: agree_def)
  with \<open>agree MM m m'\<close> show "fst (read_slice s m') = fst (read_slice s m) \<and>
      agree MM (snd (read_slice s m)) (snd (read_slice s m'))"
    by simp
qed simp_all

lemma contract_write:
  assumes "\<And>x. in_block a (length bs) x \<Longrightarrow> mapped MM Store x"
  shows "syscall_contract S MM (write_host a bs)"
  using assms by unfold_locales (auto simp: confined_def agree_def write_bytes_def in_block_def)

lemma contract_update [contract_intros]:
  assumes "\<And>c. context_kept S c (g c)"
  shows "syscall_contract S MM (update_context g)"
  using assms by unfold_locales (auto simp: agree_def)

lemma contract_bind [contract_intros]:
  fixes f :: "('sv, 'lg, 'a) sys"
  assumes f: "syscall_contract S MM f"
    and g: "\<And>x m. fst (f m) = Ok x \<Longrightarrow> syscall_contract S MM (g x)"
  shows "syscall_contract S MM (act_bind f g)"
proof
  fix m
  obtain r t where ft: "f m = (r, t)"
    by (cases "f m")
  then have first: "confined MM (host_mem m) (host_mem t)" "context_kept S (vm_context m) (vm_context t)"
    using syscall_contract.writes[OF f, of m] syscall_contract.keeps[OF f, of m] by simp_all
  have "confined MM (host_mem m) (host_mem (snd (act_bind f g m))) \<and>
      context_kept S (vm_context m) (vm_context (snd (act_bind f g m)))"
  proof (cases r)
    case (Ok x)
    then have "fst (f m) = Ok x"
      using ft by simp
    from syscall_contract.writes[OF g[OF this], of t] syscall_contract.keeps[OF g[OF this], of t] first
    show ?thesis
      using ft Ok by (auto intro: confined_trans context_kept_trans)
  qed (use ft first in simp_all)
  then show "confined MM (host_mem m) (host_mem (snd (act_bind f g m)))"
    "context_kept S (vm_context m) (vm_context (snd (act_bind f g m)))"
    by simp_all
next
  fix m m' :: "('sv, 'lg) machine"
  assume "agree MM m m'"
  then have step: "fst (f m') = fst (f m)" "agree MM (snd (f m)) (snd (f m'))"
    using syscall_contract.reads[OF f] by blast+
  obtain r t t' where ft: "f m = (r, t)" "f m' = (r, t')" "agree MM t t'"
    using step by (metis prod.collapse)
  show "fst (act_bind f g m') = fst (act_bind f g m) \<and>
      agree MM (snd (act_bind f g m)) (snd (act_bind f g m'))"
  proof (cases r)
    case (Ok x)
    then have "fst (f m) = Ok x"
      using ft by simp
    from syscall_contract.reads[OF g[OF this] ft(3)] ft Ok show ?thesis
      by simp
  qed (use ft in simp_all)
qed

lemma contract_if [contract_intros]:
  "(c \<Longrightarrow> syscall_contract S MM f) \<Longrightarrow> (\<not> c \<Longrightarrow> syscall_contract S MM g) \<Longrightarrow>
   syscall_contract S MM (if c then f else g)"
  by simp

lemma contract_sum [contract_intros]:
  "(\<And>e. r = Inl e \<Longrightarrow> syscall_contract S MM (f e)) \<Longrightarrow> (\<And>x. r = Inr x \<Longrightarrow> syscall_contract S MM (g x)) \<Longrightarrow>
   syscall_contract S MM (case r of Inl e \<Rightarrow> f e | Inr x \<Rightarrow> g x)"
  by (simp split: sum.split)

lemma contract_option [contract_intros]:
  "(r = None \<Longrightarrow> syscall_contract S MM f) \<Longrightarrow> (\<And>x. r = Some x \<Longrightarrow> syscall_contract S MM (g x)) \<Longrightarrow>
   syscall_contract S MM (case r of None \<Rightarrow> f | Some x \<Rightarrow> g x)"
  by (simp split: option.split)

text \<open>Reading and writing through a reference that was translated for the access.\<close>

lemma contract_read_translated:
  "translate_slice ty_u8 MM va len ca cs = Ok s \<Longrightarrow> syscall_contract S MM (read_slice s)"
  by (rule contract_read)
    (auto simp: translate_defs dest: translate_u8_Ok slice_len_less[THEN less_imp_le])

lemma contract_write_translated:
  "translate_slice_mut ty_u8 MM va len ca cs = Ok s \<Longrightarrow> length bs = slice_len s \<Longrightarrow>
   syscall_contract S MM (write_host (slice_ptr s) bs)"
  by (rule contract_write) (auto simp: translate_defs dest: translate_u8_Ok)

lemma contract_write_type:
  "translate_type_mut T MM va ca = Ok h \<Longrightarrow> length bs = size_of T \<Longrightarrow> size_of T < 2 ^ 64 \<Longrightarrow>
   syscall_contract S MM (write_host h bs)"
  by (rule contract_write) (auto simp: translate_defs intro: translate_type_mapped)

end
