(* ===== verification/Syscalls.thy ===== *)
theory Syscalls
  imports Syscall_Base Registry
begin

text \<open>
  The syscalls of \<open>syscalls/mod.rs\<close> and \<open>syscalls/sysvar.rs\<close>, each with its five arguments.  The log
  collector and the sysvar cache belong to \<open>solana_program_runtime\<close>, \<open>Clock\<close> to \<open>solana_sdk\<close>:
  the calls to them are parameters.  The output of \<open>log::debug!\<close> is not modelled.
\<close>

record ('sv, 'lg, 'clk) runtime_api =
  lc_log :: "'lg \<Rightarrow> bytes \<Rightarrow> 'lg"
  get_clock :: "'sv \<Rightarrow> instruction_error + 'clk"
  clock_type :: rust_type
  clock_repr :: "'clk \<Rightarrow> bytes"

text \<open>The value of a type occupies the bytes of its size.\<close>

definition runtime_laws :: "('sv, 'lg, 'clk) runtime_api \<Rightarrow> bool" where
  "runtime_laws P \<longleftrightarrow>
     (\<forall>c. length (clock_repr P c) = size_of (clock_type P)) \<and> size_of (clock_type P) < 2 ^ 64"

subsection \<open>Strings\<close>

text \<open>\<open>buf.get(..i)\<close>.\<close>

definition get_to :: "'a list \<Rightarrow> nat \<Rightarrow> 'a list option" where
  "get_to xs i = (if i \<le> length xs then Some (take i xs) else None)"

definition up_to_nul :: "bytes \<Rightarrow> u64 \<Rightarrow> (error_obj, bytes) outcome" where
  "up_to_nul buf len =
     (let i = (case position (\<lambda>byte. byte = 0) buf of Some i \<Rightarrow> i | None \<Rightarrow> unat len) in
      ok_or (SyscallErr InvalidLength) (get_to buf i))"

definition translate_string_and_do ::
  "memory_mapping \<Rightarrow> u64 \<Rightarrow> u64 \<Rightarrow> bool \<Rightarrow> bool \<Rightarrow> bool \<Rightarrow> (bytes \<Rightarrow> ('sv, 'lg, u64) sys) \<Rightarrow>
   ('sv, 'lg, u64) sys" where
  "translate_string_and_do MM addr len check_aligned check_size stop_truncating work =
     act_bind (act_lift (translate_slice ty_u8 MM addr len check_aligned check_size)) (\<lambda>s.
     act_bind (read_slice s) (\<lambda>buf.
     act_bind (act_lift (if stop_truncating then Ok buf else up_to_nul buf len)) (\<lambda>msg.
       case from_utf8 msg of
         Inr message \<Rightarrow> work message
       | Inl err \<Rightarrow> throw (InvalidString err msg))))"

definition syscall_abort :: "('sv, 'lg, u64) sys" where
  "syscall_abort = throw Abort"

definition syscall_panic ::
  "memory_mapping \<Rightarrow> u64 \<Rightarrow> u64 \<Rightarrow> u64 \<Rightarrow> u64 \<Rightarrow> ('sv, 'lg, u64) sys" where
  "syscall_panic MM file len line column =
     act_bind get_context (\<lambda>c.
     act_bind (act_lift (translate_slice ty_u8 MM file len (get_check_aligned c) (get_check_size c))) (\<lambda>s.
     act_bind (read_slice s) (\<lambda>buf.
     act_bind (act_lift (up_to_nul buf len)) (\<lambda>msg.
       case from_utf8 msg of
         Inr message \<Rightarrow> throw (Panic message line column)
       | Inl err \<Rightarrow> throw (InvalidString err msg)))))"

definition log_prefix :: bytes where
  "log_prefix = map of_char ''Program log: ''"

text \<open>The closure of \<open>SyscallLog\<close>.\<close>

definition log_string ::
  "('sv, 'lg, 'clk) runtime_api \<Rightarrow> bytes \<Rightarrow> ('sv, 'lg, u64) sys" where
  "log_string P string =
     act_bind (update_context (\<lambda>c. c\<lparr>log_collector :=
         map_option (\<lambda>l. lc_log P l (log_prefix @ string)) (log_collector c)\<rparr>)) (\<lambda>_.
     act_return 0)"

definition syscall_log ::
  "('sv, 'lg, 'clk) runtime_api \<Rightarrow> memory_mapping \<Rightarrow> u64 \<Rightarrow> u64 \<Rightarrow> ('sv, 'lg, u64) sys" where
  "syscall_log P MM addr len =
     act_bind get_context (\<lambda>c.
     act_bind (translate_string_and_do MM addr len (get_check_aligned c) (get_check_size c) True
         (log_string P)) (\<lambda>_.
     act_return 0))"

subsection \<open>Program addresses\<close>

definition is_nonoverlapping :: "u64 \<Rightarrow> u64 \<Rightarrow> u64 \<Rightarrow> u64 \<Rightarrow> bool" where
  "is_nonoverlapping src src_len dst dst_len =
     (if src > dst then saturating_sub src dst \<ge> dst_len else saturating_sub dst src \<ge> src_len)"

text \<open>
  The elements of a slice of \<open>&[u8]\<close>: each a pointer and a length, as rustc lays them out.
\<close>

definition parse_slice_refs :: "bytes \<Rightarrow> nat \<Rightarrow> host_slice list" where
  "parse_slice_refs bs n =
     map (\<lambda>k. \<lparr>slice_ptr = u64_from_le (bytes_at bs (16 * k) 8),
               slice_len = unat (u64_from_le (bytes_at bs (16 * k + 8) 8))\<rparr>) [0..<n]"

fun translate_seeds ::
  "sdk \<Rightarrow> memory_mapping \<Rightarrow> bool \<Rightarrow> bool \<Rightarrow> host_slice list \<Rightarrow> (error_obj, host_slice list) outcome" where
  "translate_seeds S MM check_aligned check_size [] = Ok []"
| "translate_seeds S MM check_aligned check_size (untranslated_seed # rest) =
     (if slice_len untranslated_seed > MAX_SEED_LEN S then Err (SyscallErr BadSeeds)
      else rbind (translate_slice ty_u8 MM (slice_ptr untranslated_seed)
          (of_nat (slice_len untranslated_seed)) check_aligned check_size) (\<lambda>seed.
        rbind (translate_seeds S MM check_aligned check_size rest) (\<lambda>seeds. Ok (seed # seeds))))"

definition translate_and_check_program_address_inputs ::
  "sdk \<Rightarrow> u64 \<Rightarrow> u64 \<Rightarrow> u64 \<Rightarrow> memory_mapping \<Rightarrow> bool \<Rightarrow> bool \<Rightarrow>
   ('sv, 'lg, host_slice list \<times> u64) sys" where
  "translate_and_check_program_address_inputs S seeds_addr seeds_len program_id_addr MM check_aligned
     check_size =
     act_bind (act_lift (translate_slice ty_slice_ref MM seeds_addr seeds_len check_aligned check_size))
       (\<lambda>untranslated_seeds.
     if slice_len untranslated_seeds > MAX_SEEDS S then throw BadSeeds
     else
       act_bind (read_slice (untranslated_seeds\<lparr>slice_len := 16 * slice_len untranslated_seeds\<rparr>)) (\<lambda>bs.
       act_bind (act_lift (translate_seeds S MM check_aligned check_size
           (parse_slice_refs bs (slice_len untranslated_seeds)))) (\<lambda>seeds.
       act_bind (act_lift (translate_type ty_pubkey MM program_id_addr check_aligned)) (\<lambda>program_id.
       act_return (seeds, program_id)))))"

fun read_slices :: "host_slice list \<Rightarrow> ('sv, 'lg, bytes list) sys" where
  "read_slices [] = act_return []"
| "read_slices (s # ss) =
     act_bind (read_slice s) (\<lambda>bs. act_bind (read_slices ss) (\<lambda>bss. act_return (bs # bss)))"

definition read_pubkey :: "u64 \<Rightarrow> ('sv, 'lg, pubkey) sys" where
  "read_pubkey a = act_bind (read_slice \<lparr>slice_ptr = a, slice_len = 32\<rparr>) (\<lambda>bs. act_return (Pubkey bs))"

text \<open>\<open>dst.copy_from_slice(src)\<close> panics when the lengths differ.\<close>

definition copy_from_slice :: "host_slice \<Rightarrow> bytes \<Rightarrow> ('sv, 'lg, unit) sys" where
  "copy_from_slice dst src =
     (if slice_len dst = length src then write_host (slice_ptr dst) src else act_lift Panics)"

text \<open>What the loop does when a bump seed gives an address.\<close>

definition found_address ::
  "memory_mapping \<Rightarrow> u64 \<Rightarrow> u64 \<Rightarrow> u8 \<Rightarrow> pubkey \<Rightarrow> ('sv, 'lg, u64) sys" where
  "found_address MM address_addr bump_seed_addr bump new_address =
     act_bind (act_lift (translate_type_mut ty_u8 MM bump_seed_addr False)) (\<lambda>bump_seed_ref.
     act_bind (act_lift (translate_slice_mut ty_u8 MM address_addr 32 False False)) (\<lambda>address.
     if \<not> is_nonoverlapping bump_seed_ref 1 (slice_ptr address) 32 then throw CopyOverlapping
     else
       act_bind (write_host bump_seed_ref [bump]) (\<lambda>_.
       act_bind (copy_from_slice address (pubkey_bytes new_address)) (\<lambda>_.
       act_return 0))))"

text \<open>\<open>for _ in 0..u8::MAX\<close> with \<open>n\<close> rounds left.\<close>

fun find_bump ::
  "sdk \<Rightarrow> memory_mapping \<Rightarrow> host_slice list \<Rightarrow> u64 \<Rightarrow> u64 \<Rightarrow> u64 \<Rightarrow> nat \<Rightarrow> u8 \<Rightarrow> ('sv, 'lg, u64) sys" where
  "find_bump S MM seeds program_id_ref address_addr bump_seed_addr 0 bump = act_return 1"
| "find_bump S MM seeds program_id_ref address_addr bump_seed_addr (Suc n) bump =
     act_bind (read_slices seeds) (\<lambda>seed_bytes.
     act_bind (read_pubkey program_id_ref) (\<lambda>pid.
     case create_program_address S (seed_bytes @ [[bump]]) pid of
       Some new_address \<Rightarrow> found_address MM address_addr bump_seed_addr bump new_address
     | None \<Rightarrow>
         find_bump S MM seeds program_id_ref address_addr bump_seed_addr n (saturating_sub bump 1)))"

definition syscall_try_find_program_address ::
  "sdk \<Rightarrow> memory_mapping \<Rightarrow> u64 \<Rightarrow> u64 \<Rightarrow> u64 \<Rightarrow> u64 \<Rightarrow> u64 \<Rightarrow> ('sv, 'lg, u64) sys" where
  "syscall_try_find_program_address S MM seeds_addr seeds_len program_id_addr address_addr bump_seed_addr =
     act_bind (translate_and_check_program_address_inputs S seeds_addr seeds_len program_id_addr MM
         False False) (\<lambda>(seeds, program_id).
     find_bump S MM seeds program_id address_addr bump_seed_addr 255 255)"

subsection \<open>Return data\<close>

definition syscall_set_return_data ::
  "sdk \<Rightarrow> memory_mapping \<Rightarrow> u64 \<Rightarrow> u64 \<Rightarrow> ('sv, 'lg, u64) sys" where
  "syscall_set_return_data S MM addr len =
     (if unat len > MAX_RETURN_DATA S
      then throw (ReturnDataTooLarge len (of_nat (MAX_RETURN_DATA S)))
      else
        act_bind get_context (\<lambda>c.
        act_bind (if len = 0 then act_return []
            else act_bind (act_lift (translate_slice ty_u8 MM addr len (get_check_aligned c)
              (get_check_size c))) read_slice) (\<lambda>return_data.
        act_bind (update_context (\<lambda>c. c\<lparr>return_data := (program_id c, return_data)\<rparr>)) (\<lambda>_.
        act_return 0))))"

definition syscall_get_return_data ::
  "memory_mapping \<Rightarrow> u64 \<Rightarrow> u64 \<Rightarrow> u64 \<Rightarrow> ('sv, 'lg, u64) sys" where
  "syscall_get_return_data MM return_data_addr len program_id_addr =
     act_bind get_context (\<lambda>c.
     let (program_id, return_data) = return_data c;
         len = min len (of_nat (length return_data)) in
     act_bind (if len \<noteq> 0 then
         act_bind (act_lift (translate_slice_mut ty_u8 MM return_data_addr len (get_check_aligned c)
             (get_check_size c))) (\<lambda>to_slice.
         act_bind (act_lift (ok_or (SyscallErr InvokeContextBorrowFailed)
             (get_to return_data (unat len)))) (\<lambda>from_slice.
         if slice_len to_slice \<noteq> length from_slice then throw InvalidLength
         else
           act_bind (copy_from_slice to_slice from_slice) (\<lambda>_.
           act_bind (act_lift (translate_type_mut ty_pubkey MM program_id_addr (get_check_aligned c)))
             (\<lambda>program_id_result.
           if \<not> is_nonoverlapping (slice_ptr to_slice) len program_id_result 32
           then throw CopyOverlapping
           else write_host program_id_result (pubkey_bytes program_id)))))
       else act_return ()) (\<lambda>_.
     act_return (of_nat (length return_data))))"

subsection \<open>Sysvars\<close>

definition get_sysvar ::
  "rust_type \<Rightarrow> ('t \<Rightarrow> bytes) \<Rightarrow> instruction_error + 't \<Rightarrow> u64 \<Rightarrow> bool \<Rightarrow> memory_mapping \<Rightarrow>
   ('sv, 'lg, u64) sys" where
  "get_sysvar T repr sysvar var_addr check_aligned MM =
     act_bind (act_lift (translate_type_mut T MM var_addr check_aligned)) (\<lambda>var.
     act_bind (act_lift (case sysvar of Inl e \<Rightarrow> Err (InstructionErr e) | Inr v \<Rightarrow> Ok v)) (\<lambda>v.
     act_bind (write_host var (repr v)) (\<lambda>_.
     act_return 0)))"

definition syscall_get_clock_sysvar ::
  "('sv, 'lg, 'clk) runtime_api \<Rightarrow> memory_mapping \<Rightarrow> u64 \<Rightarrow> ('sv, 'lg, u64) sys" where
  "syscall_get_clock_sysvar P MM var_addr =
     act_bind get_context (\<lambda>c.
     get_sysvar (clock_type P) (clock_repr P) (get_clock P (sysvars c)) var_addr (get_check_aligned c) MM)"

subsection \<open>Memory\<close>

text \<open>\<open>std::ptr::copy(src, dst, n)\<close>: the source is read before the destination is written.\<close>

definition ptr_copy :: "u64 \<Rightarrow> u64 \<Rightarrow> nat \<Rightarrow> ('sv, 'lg, unit) sys" where
  "ptr_copy src dst n = act_bind (read_slice \<lparr>slice_ptr = src, slice_len = n\<rparr>) (write_host dst)"

definition memmove :: "u64 \<Rightarrow> u64 \<Rightarrow> u64 \<Rightarrow> memory_mapping \<Rightarrow> ('sv, 'lg, u64) sys" where
  "memmove dst_addr src_addr n MM =
     act_bind get_context (\<lambda>c.
     act_bind (act_lift (translate_slice_mut ty_u8 MM dst_addr n (get_check_aligned c) (get_check_size c)))
       (\<lambda>dst.
     act_bind (act_lift (translate_slice ty_u8 MM src_addr n (get_check_aligned c) (get_check_size c)))
       (\<lambda>src.
     act_bind (ptr_copy (slice_ptr src) (slice_ptr dst) (unat n)) (\<lambda>_.
     act_return 0))))"

definition syscall_memcpy :: "memory_mapping \<Rightarrow> u64 \<Rightarrow> u64 \<Rightarrow> u64 \<Rightarrow> ('sv, 'lg, u64) sys" where
  "syscall_memcpy MM dst_addr src_addr n =
     (if \<not> is_nonoverlapping src_addr n dst_addr n then throw CopyOverlapping
      else memmove dst_addr src_addr n MM)"

subsection \<open>Dispatch\<close>

text \<open>The function behind an entry of the registry, on the five arguments of a call.\<close>

fun run_builtin ::
  "sdk \<Rightarrow> ('sv, 'lg, 'clk) runtime_api \<Rightarrow> memory_mapping \<Rightarrow> builtin \<Rightarrow> u64 \<Rightarrow> u64 \<Rightarrow> u64 \<Rightarrow> u64 \<Rightarrow> u64 \<Rightarrow>
   ('sv, 'lg, u64) sys" where
  "run_builtin S P MM SyscallAbort a b c d e = syscall_abort"
| "run_builtin S P MM SyscallPanic a b c d e = syscall_panic MM a b c d"
| "run_builtin S P MM SyscallLog a b c d e = syscall_log P MM a b"
| "run_builtin S P MM SyscallTryFindProgramAddress a b c d e =
     syscall_try_find_program_address S MM a b c d e"
| "run_builtin S P MM SyscallGetClockSysvar a b c d e = syscall_get_clock_sysvar P MM a"
| "run_builtin S P MM SyscallMemcpy a b c d e = syscall_memcpy MM a b c"
| "run_builtin S P MM SyscallSetReturnData a b c d e = syscall_set_return_data S MM a b"
| "run_builtin S P MM SyscallGetReturnData a b c d e = syscall_get_return_data MM a b c"

end
