(* ===== verification/Syscall_Contracts.thy ===== *)
theory Syscall_Contracts
  imports Syscalls
begin

text \<open>
  Every syscall keeps the contract of \<open>Syscall_Base\<close>: one lemma each, composed from the rules of
  the steps, and the interpretation of the locale on it.
\<close>

lemmas check_defs = get_check_aligned_def get_check_size_def

lemma contract_case_prod [contract_intros]:
  "(\<And>x y. p = (x, y) \<Longrightarrow> syscall_contract S MM (f x y)) \<Longrightarrow>
   syscall_contract S MM (case p of (x, y) \<Rightarrow> f x y)"
  by (cases p) simp

lemma get_to_length: "get_to xs i = Some ys \<Longrightarrow> length ys = i"
  by (auto simp: get_to_def split: if_splits)

lemma contract_copy_from_slice [contract_intros]:
  "translate_slice_mut ty_u8 MM va len ca cs = Ok s \<Longrightarrow> syscall_contract S MM (copy_from_slice s bs)"
  unfolding copy_from_slice_def by (intro contract_intros contract_write_translated) simp_all

lemma contract_read_slices:
  "\<forall>s \<in> set ss. syscall_contract S MM (read_slice s :: ('sv, 'lg, bytes) sys) \<Longrightarrow>
   syscall_contract S MM (read_slices ss :: ('sv, 'lg, bytes list) sys)"
  by (induction ss) (auto intro!: contract_intros)

lemma contract_read_pubkey:
  "translate_type ty_pubkey MM va ca = Ok h \<Longrightarrow> syscall_contract S MM (read_pubkey h)"
  unfolding read_pubkey_def translate_type_def
  by (intro contract_intros contract_read) (auto intro: translate_type_mapped)

text \<open>The abort, the panic and the log.\<close>

lemma contract_abort: "syscall_contract S MM syscall_abort"
  unfolding syscall_abort_def by (intro contract_intros)

lemma contract_panic: "syscall_contract S MM (syscall_panic MM addr len line column)"
  unfolding syscall_panic_def by (intro contract_intros contract_read_translated) auto

lemma contract_string:
  "(\<And>s. syscall_contract S MM (work s)) \<Longrightarrow>
   syscall_contract S MM (translate_string_and_do MM addr len ca cs stop work)"
  unfolding translate_string_and_do_def by (intro contract_intros contract_read_translated) auto

lemma contract_log: "syscall_contract S MM (syscall_log P MM addr len)"
  unfolding syscall_log_def log_string_def
  by (intro contract_intros contract_string) (simp add: context_kept_def)

text \<open>Program addresses: the seeds and the program id were translated for loads.\<close>

lemma translate_seeds_mapped:
  "translate_seeds S MM ca cs us = Ok seeds \<Longrightarrow> \<forall>s \<in> set seeds. syscall_contract S' MM (read_slice s)"
  by (induction us arbitrary: seeds) (auto split: if_splits intro: contract_read_translated)

lemma contract_found_address: "syscall_contract S MM (found_address MM addr bump_addr bump new_address)"
  unfolding found_address_def by (intro contract_intros contract_write_type) auto

lemma contract_find_bump:
  assumes "\<forall>s \<in> set seeds. syscall_contract S MM (read_slice s :: ('sv, 'lg, bytes) sys)"
    and "translate_type ty_pubkey MM va ca = Ok pid"
  shows "syscall_contract S MM (find_bump S' MM seeds pid addr bump_addr n bump :: ('sv, 'lg, u64) sys)"
proof (induction n arbitrary: bump)
  case (Suc n)
  show ?case
    unfolding find_bump.simps
    by (intro contract_intros contract_read_slices contract_found_address Suc.IH
        contract_read_pubkey[OF assms(2)]) (use assms(1) in auto)
qed (simp add: contract_return)

lemma contract_read_refs:
  assumes "translate_slice ty_slice_ref MM va len ca cs = Ok s" "slice_len s \<le> N" "16 * N < 2 ^ 64"
  shows "syscall_contract S MM (read_slice (s\<lparr>slice_len := 16 * slice_len s\<rparr>))"
proof (rule contract_read)
  fix x
  assume x: "in_block (slice_ptr (s\<lparr>slice_len := 16 * slice_len s\<rparr>)) (slice_len (s\<lparr>slice_len := 16 * slice_len s\<rparr>)) x"
  have len: "slice_len s = unat len" "len \<noteq> 0"
    using translate_slice_inner_Ok(1)[of ty_slice_ref MM Load va len ca cs s] assms(1) x
    by (auto simp: translate_slice_def in_block_def)
  then have "map_addr MM Load va (saturating_mul len 16) = Inr (slice_ptr s)"
    using translate_slice_inner_Ok(2)[of ty_slice_ref MM Load va len ca cs s] assms(1)
    by (simp add: translate_slice_def)
  moreover have "unat (saturating_mul len 16) = 16 * slice_len s"
    using assms(2,3) len by (simp add: unat_saturating_mul)
  ultimately show "mapped MM Load x"
    using x unfolding mapped_def by (intro exI[of _ va] exI) auto
qed (use assms(2,3) in simp)

lemma contract_try_find:
  assumes "sdk_laws S"
  shows "syscall_contract S MM
    (syscall_try_find_program_address S MM seeds_addr seeds_len program_id_addr address_addr bump_addr)"
proof -
  have fits: "16 * MAX_SEEDS S < 2 ^ 64"
    using assms by (simp add: sdk_laws_def)
  have inputs: "(\<forall>s \<in> set seeds. syscall_contract S MM (read_slice s :: ('a, 'b, bytes) sys)) \<and>
      translate_type ty_pubkey MM program_id_addr False = Ok pid"
    if "fst (translate_and_check_program_address_inputs S seeds_addr seeds_len program_id_addr
      MM False False m) = Ok (seeds, pid)" for m :: "('a, 'b) machine" and seeds pid
    using that
    by (auto simp: translate_and_check_program_address_inputs_def act_bind_def
        split: if_splits outcome.splits dest: translate_seeds_mapped)
  show ?thesis
    unfolding syscall_try_find_program_address_def
  proof (rule contract_bind)
    show "syscall_contract S MM (translate_and_check_program_address_inputs S seeds_addr seeds_len
        program_id_addr MM False False)"
      unfolding translate_and_check_program_address_inputs_def
      by (intro contract_intros contract_read_refs[OF _ _ fits]) auto
  next
    fix x and m :: "('a, 'b) machine"
    assume "fst (translate_and_check_program_address_inputs S seeds_addr seeds_len program_id_addr
        MM False False m) = Ok x"
    then obtain seeds pid where "x = (seeds, pid)"
      "\<forall>s \<in> set seeds. syscall_contract S MM (read_slice s :: ('a, 'b, bytes) sys)"
      "translate_type ty_pubkey MM program_id_addr False = Ok pid"
      using inputs[of m "fst x" "snd x"] by (cases x) auto
    then show "syscall_contract S MM ((case x of (seeds, pid) \<Rightarrow>
        find_bump S MM seeds pid address_addr bump_addr 255 255) :: ('a, 'b, u64) sys)"
      using contract_find_bump[of seeds S MM program_id_addr False pid S] by simp
  qed
qed

text \<open>Return data, the clock and memory.\<close>

lemma contract_set_return_data: "syscall_contract S MM (syscall_set_return_data S MM addr len)"
proof -
  have "length x = unat len" if "fst ((if len = 0 then act_return []
      else act_bind (act_lift (translate_slice ty_u8 MM addr len ca cs)) read_slice) m) = Ok x"
    for x ca cs and m :: "('a, 'b) machine"
    using that by (cases "translate_slice ty_u8 MM addr len ca cs")
      (auto simp: translate_slice_def translate_slice_inner_Ok(1) split: if_splits)
  then show ?thesis
    unfolding syscall_set_return_data_def
    by (intro contract_intros contract_read_translated) (auto simp: context_kept_def)
qed

lemma contract_get_return_data: "syscall_contract S MM (syscall_get_return_data MM addr len pid_addr)"
  unfolding syscall_get_return_data_def Let_def
  by (intro contract_intros contract_write_type) auto

lemma contract_get_sysvar:
  "(\<And>v. length (repr v) = size_of T) \<Longrightarrow> size_of T < 2 ^ 64 \<Longrightarrow>
   syscall_contract S MM (get_sysvar T repr sysvar var_addr ca MM)"
  unfolding get_sysvar_def by (intro contract_intros contract_write_type) auto

lemma contract_clock:
  "runtime_laws P \<Longrightarrow> syscall_contract S MM (syscall_get_clock_sysvar P MM var_addr)"
  unfolding syscall_get_clock_sysvar_def runtime_laws_def
  by (intro contract_intros contract_get_sysvar) auto

lemma contract_ptr_copy:
  assumes "translate_slice ty_u8 MM sva n ca cs = Ok src" "translate_slice_mut ty_u8 MM dva n ca' cs' = Ok dst"
  shows "syscall_contract S MM (ptr_copy (slice_ptr src) (slice_ptr dst) (unat n))"
proof -
  have len: "slice_len src = unat n" "slice_len dst = unat n"
    using assms by (auto simp: translate_slice_def translate_slice_mut_def dest: translate_slice_inner_Ok(1))
  have "\<lparr>slice_ptr = slice_ptr src, slice_len = unat n\<rparr> = src"
    by (simp add: len(1)[symmetric])
  with contract_read_translated[OF assms(1)]
  have read: "syscall_contract S MM (read_slice \<lparr>slice_ptr = slice_ptr src, slice_len = unat n\<rparr>)"
    by simp
  show ?thesis
    unfolding ptr_copy_def
    by (intro contract_bind read contract_write_translated[OF assms(2)]) (auto simp: len)
qed

lemma contract_memcpy: "syscall_contract S MM (syscall_memcpy MM dst_addr src_addr n)"
  unfolding syscall_memcpy_def memmove_def
  by (intro contract_intros) (auto intro: contract_ptr_copy)

lemma contract_builtin:
  "sdk_laws S \<Longrightarrow> runtime_laws P \<Longrightarrow> syscall_contract S MM (run_builtin S P MM f a b c d e)"
  by (cases f)
    (simp_all add: contract_abort contract_panic contract_log contract_try_find contract_clock
      contract_memcpy contract_set_return_data contract_get_return_data)

text \<open>
  The contract as an interpretation, for the syscalls that need nothing of the parameters.
\<close>

interpretation abort_call: syscall_contract S MM syscall_abort for S MM
  by (rule contract_abort)

interpretation panic_call: syscall_contract S MM "syscall_panic MM addr len line column"
  for S MM addr len line column
  by (rule contract_panic)

interpretation log_call: syscall_contract S MM "syscall_log P MM addr len" for S P MM addr len
  by (rule contract_log)

interpretation set_return_call: syscall_contract S MM "syscall_set_return_data S MM addr len"
  for S MM addr len
  by (rule contract_set_return_data)

interpretation get_return_call: syscall_contract S MM "syscall_get_return_data MM addr len pid_addr"
  for S MM addr len pid_addr
  by (rule contract_get_return_data)

interpretation memcpy_call: syscall_contract S MM "syscall_memcpy MM dst_addr src_addr n"
  for S MM dst_addr src_addr n
  by (rule contract_memcpy)

end
