(* ===== verification/Syscall_Facts.thy ===== *)
theory Syscall_Facts
  imports Syscall_Contracts
begin

text \<open>
  What each syscall does, in a form the properties build on: translation without the optional
  checks, copies between host blocks, the search for a bump seed.
\<close>

subsection \<open>Blocks of host memory\<close>

text \<open>The test of the code is exact for blocks that do not wrap around.\<close>

lemma nonoverlapping_iff:
  assumes "0 < unat src_len" "0 < unat dst_len"
  shows "is_nonoverlapping src src_len dst dst_len \<longleftrightarrow>
    {unat src ..< unat src + unat src_len} \<inter> {unat dst ..< unat dst + unat dst_len} = {}"
proof -
  have "is_nonoverlapping src src_len dst dst_len \<longleftrightarrow>
      (if unat dst < unat src then unat dst + unat dst_len \<le> unat src
       else unat src + unat src_len \<le> unat dst)"
    using assms by (auto simp: is_nonoverlapping_def word_le_nat_alt word_less_nat_alt unat_saturating_sub)
  also have "\<dots> \<longleftrightarrow> unat dst + unat dst_len \<le> unat src \<or> unat src + unat src_len \<le> unat dst"
    using assms by auto
  also have "\<dots> \<longleftrightarrow> {unat src ..< unat src + unat src_len} \<inter> {unat dst ..< unat dst + unat dst_len} = {}"
    using assms by (auto simp: disjoint_iff not_less)
  finally show ?thesis .
qed

lemma nonoverlapping_blocks:
  assumes "is_nonoverlapping a m b n" "unat a + unat m \<le> 2 ^ 64" "unat b + unat n \<le> 2 ^ 64"
    "in_block a (unat m) x"
  shows "\<not> in_block b (unat n) x"
  using assms
  by (auto simp: is_nonoverlapping_def in_block_flat word_le_nat_alt word_less_nat_alt
      unat_saturating_sub split: if_splits)

subsection \<open>Translation\<close>

lemma translate_slice_run:
  "map_addr MM Load va len = Inr h \<Longrightarrow> len \<noteq> 0 \<Longrightarrow>
   translate_slice ty_u8 MM va len False False = Ok \<lparr>slice_ptr = h, slice_len = unat len\<rparr>"
  "map_addr MM Store va len = Inr h \<Longrightarrow> len \<noteq> 0 \<Longrightarrow>
   translate_slice_mut ty_u8 MM va len False False = Ok \<lparr>slice_ptr = h, slice_len = unat len\<rparr>"
  "map_addr MM Load va len = Inl e \<Longrightarrow> len \<noteq> 0 \<Longrightarrow>
   translate_slice ty_u8 MM va len False False = Err (EbpfErr e)"
  "map_addr MM Store va len = Inl e \<Longrightarrow> len \<noteq> 0 \<Longrightarrow>
   translate_slice_mut ty_u8 MM va len False False = Err (EbpfErr e)"
  "translate_slice ty_u8 MM va 0 False False = Ok (empty_slice ty_u8)"
  "translate_slice_mut ty_u8 MM va 0 False False = Ok (empty_slice ty_u8)"
  by (simp_all add: translate_defs translate_slice_unchecked translate_def)

lemma translate_type_run:
  "map_addr MM Store va (of_nat (size_of T)) = Inr h \<Longrightarrow> translate_type_mut T MM va False = Ok h"
  "map_addr MM Store va (of_nat (size_of T)) = Inl e \<Longrightarrow> translate_type_mut T MM va False = Err (EbpfErr e)"
  by (simp_all add: translate_defs translate_type_unchecked translate_def)

lemma no_checks [simp]: "get_check_aligned c = False" "get_check_size c = False"
  by (simp_all add: check_defs)

lemma mapping_fits:
  "mapping_laws MM \<Longrightarrow> map_addr MM acc va len = Inr h \<Longrightarrow> unat h + unat len \<le> 2 ^ 64"
  unfolding mapping_laws_def by blast

subsection \<open>Strings\<close>

lemma position_takeWhile:
  "get_to bs (case position (\<lambda>b. b = 0) bs of Some i \<Rightarrow> i | None \<Rightarrow> length bs) =
   Some (takeWhile (\<lambda>b. b \<noteq> 0) bs)"
proof (induction bs)
  case (Cons b bs)
  then show ?case
    by (cases "position (\<lambda>b. b = 0) bs") (auto simp: get_to_def split: if_splits)
qed (simp add: get_to_def)

lemma up_to_nul_takeWhile:
  assumes "length bs = unat len"
  shows "up_to_nul bs len = Ok (takeWhile (\<lambda>b. b \<noteq> 0) bs)"
  using position_takeWhile[of bs] unfolding assms by (simp add: up_to_nul_def)

subsection \<open>The search for a bump seed\<close>

lemma read_slices_run:
  "read_slices ss m = (Ok (map (\<lambda>s. read_bytes (host_mem m) (slice_ptr s) (slice_len s)) ss), m)"
  by (induction ss) simp_all

lemma read_pubkey_run: "read_pubkey a m = (Ok (Pubkey (read_bytes (host_mem m) a 32)), m)"
  by (simp add: read_pubkey_def)

lemma saturating_sub_Suc: "n < 255 \<Longrightarrow> saturating_sub (of_nat (Suc n) :: u8) 1 = of_nat n"
proof -
  assume "n < 255"
  then have "unat (of_nat (Suc n) :: u8) = Suc n"
    by (simp add: unsigned_of_nat take_bit_nat_eq_self del: of_nat_Suc)
  then show ?thesis
    by (simp add: saturating_sub_def word_le_nat_alt)
qed

text \<open>The address that the seeds give with a bump seed, if any.\<close>

definition derive_address ::
  "sdk \<Rightarrow> ('sv, 'lg) machine \<Rightarrow> host_slice list \<Rightarrow> u64 \<Rightarrow> u8 \<Rightarrow> pubkey option" where
  "derive_address S m seeds pid bump = create_program_address S
     (map (\<lambda>s. read_bytes (host_mem m) (slice_ptr s) (slice_len s)) seeds @ [[bump]])
     (Pubkey (read_bytes (host_mem m) pid 32))"

lemma find_bump_search:
  assumes "n \<le> 255"
  shows "find_bump S MM seeds pid address_addr bump_addr n (of_nat n) m =
    (case find (\<lambda>b. derive_address S m seeds pid b \<noteq> None) (map of_nat (rev [1..<Suc n])) of
       None \<Rightarrow> (Ok 1, m)
     | Some b \<Rightarrow>
         found_address MM address_addr bump_addr b (the (derive_address S m seeds pid b)) m)"
  using assms
proof (induction n)
  case (Suc n)
  show ?case
  proof (cases "derive_address S m seeds pid (of_nat (Suc n))")
    case None
    then have "find_bump S MM seeds pid address_addr bump_addr (Suc n) (of_nat (Suc n)) m =
        find_bump S MM seeds pid address_addr bump_addr n (of_nat n) m"
      using Suc.prems saturating_sub_Suc[of n]
      by (simp add: read_slices_run read_pubkey_run derive_address_def)
    with None Suc show ?thesis
      by simp
  next
    case (Some a)
    then show ?thesis
      by (simp add: read_slices_run read_pubkey_run derive_address_def)
  qed
qed simp

text \<open>The search for the greatest number, as the loop does it downwards.\<close>

lemma find_map: "find p (map f xs) = map_option f (find (p \<circ> f) xs)"
  by (induction xs) simp_all

lemma find_downwards:
  "find p (rev [1..<Suc n]) =
   (if {b \<in> {1..n}. p b} = {} then None else Some (Max {b \<in> {1..n}. p b}))"
proof (induction n)
  case (Suc n)
  show ?case
  proof (cases "p (Suc n)")
    case True
    have "Max {b \<in> {1..Suc n}. p b} = Suc n"
      using True by (intro Max_eqI) auto
    moreover have "{b \<in> {1..Suc n}. p b} \<noteq> {}"
      using True by auto
    ultimately show ?thesis
      using True by simp
  next
    case False
    then have "{b \<in> {1..Suc n}. p b} = {b \<in> {1..n}. p b}"
      by (auto simp: le_Suc_eq)
    with False Suc show ?thesis
      by simp
  qed
qed simp

lemma translate_seeds_length: "translate_seeds S MM ca cs us = Ok seeds \<Longrightarrow> length seeds = length us"
  by (induction us arbitrary: seeds) (auto split: if_splits)

lemma inputs_run:
  assumes "translate_and_check_program_address_inputs S seeds_addr seeds_len pid_addr MM ca cs m =
    (Ok (seeds, pid), m')"
  shows "m' = m" "length seeds = unat seeds_len"
  using assms
  by (auto simp: translate_and_check_program_address_inputs_def act_bind_def translate_slice_def
      parse_slice_refs_def translate_slice_inner_Ok(1)
      split: outcome.splits if_splits dest: translate_seeds_length)

lemma try_find_search:
  assumes "translate_and_check_program_address_inputs S seeds_addr seeds_len pid_addr MM False False m =
    (Ok (seeds, pid), m)"
  defines "bumps \<equiv> {b \<in> {1..255 :: nat}. derive_address S m seeds pid (of_nat b) \<noteq> None}"
  shows "syscall_try_find_program_address S MM seeds_addr seeds_len pid_addr address_addr bump_addr m =
    (if bumps = {} then (Ok 1, m)
     else found_address MM address_addr bump_addr (of_nat (Max bumps))
       (the (derive_address S m seeds pid (of_nat (Max bumps)))) m)"
proof -
  have "syscall_try_find_program_address S MM seeds_addr seeds_len pid_addr address_addr bump_addr m =
      find_bump S MM seeds pid address_addr bump_addr 255 (of_nat 255) m"
    using assms(1) by (simp add: syscall_try_find_program_address_def)
  also have "\<dots> = (case map_option of_nat (if bumps = {} then None else Some (Max bumps)) of
       None \<Rightarrow> (Ok 1, m)
     | Some b \<Rightarrow> found_address MM address_addr bump_addr b (the (derive_address S m seeds pid b)) m)"
    unfolding find_bump_search[OF order_refl] find_map find_downwards comp_def bumps_def ..
  finally show ?thesis
    by simp
qed

end
