(* ===== verification/Syscall_Properties.thy ===== *)
theory Syscall_Properties
  imports Syscall_Facts Samples
begin

text \<open>
  The properties of the syscalls, and a sample machine on which they are exercised: a host memory
  whose first megabyte is mapped to the same addresses.
\<close>

definition sample_mapping :: memory_mapping where
  "sample_mapping =
     \<lparr>map_addr = (\<lambda>acc va len. if unat va + unat len \<le> 2 ^ 20 then Inr va
        else Inl (AccessViolation acc va len ''unknown'')),
      find_region = (\<lambda>acc va. if unat va < 2 ^ 20
        then Inr \<lparr>region_vm_addr = 0, region_vm_addr_end = 2 ^ 20, vm_to_host = (\<lambda>a n. Inr a)\<rparr>
        else Inl (AccessViolation acc va 0 ''unknown''))\<rparr>"

definition sample_runtime :: "(u8 option, bytes list, u8) runtime_api" where
  "sample_runtime =
     \<lparr>lc_log = (\<lambda>l s. l @ [s]),
      get_clock = (\<lambda>sv. case sv of None \<Rightarrow> Inl InvalidArgument | Some c \<Rightarrow> Inr c),
      clock_type = \<lparr>size_of = 40, align_of = 8\<rparr>, clock_repr = replicate 40\<rparr>"

definition sample_machine :: "(u8 option, bytes list) machine" where
  "sample_machine =
     \<lparr>vm_context = (invoke_context_new (Some 5))\<lparr>log_collector := Some [], program_id := pubkey_repeat 4\<rparr>,
      host_mem = (\<lambda>x. if x < 100 then ucast x + 65 else 0)\<rparr>"

lemma sample_mapping_laws: "mapping_laws sample_mapping"
  by (auto simp: mapping_laws_def sample_mapping_def split: if_splits)

lemma sample_runtime_laws: "runtime_laws sample_runtime"
  by (simp add: runtime_laws_def sample_runtime_def)

lemma sample_map [simp]:
  "unat va + unat len \<le> 2 ^ 20 \<Longrightarrow> map_addr sample_mapping acc va len = Inr va"
  "\<not> unat va + unat len \<le> 2 ^ 20 \<Longrightarrow>
   map_addr sample_mapping acc va len = Inl (AccessViolation acc va len ''unknown'')"
  by (simp_all add: sample_mapping_def)

lemma sample_bytes: "read_bytes (host_mem sample_machine) 10 3 = [75, 76, 77]"
  by (simp add: sample_machine_def numeral_3_eq_3 read_bytes_Suc)

subsection \<open>Copies\<close>

text \<open>
  C12.  \<open>sol_memcpy_\<close>, on ranges of the virtual machine that do not overlap and are mapped: the
  destination holds what the source held before, no other byte of the host changes and the
  context stays.  This holds also when the mapping puts the two ranges on overlapping host bytes.
\<close>

theorem memcpy_copies:
  assumes "is_nonoverlapping src n dst n" and "n \<noteq> 0"
    and "map_addr MM Store dst n = Inr d" and "map_addr MM Load src n = Inr s"
  shows "\<exists>m'. syscall_memcpy MM dst src n m = (Ok 0, m') \<and> vm_context m' = vm_context m \<and>
    read_bytes (host_mem m') d (unat n) = read_bytes (host_mem m) s (unat n) \<and>
    (\<forall>x. \<not> in_block d (unat n) x \<longrightarrow> host_mem m' x = host_mem m x)"
  using assms by (simp add: syscall_memcpy_def memmove_def ptr_copy_def translate_slice_run
      less_imp_le_nat)

theorem memcpy_copies_witness:
  "\<exists>m'. syscall_memcpy sample_mapping 50 10 3 sample_machine = (Ok 0, m') \<and>
    read_bytes (host_mem m') 50 3 = [75, 76, 77]"
  using memcpy_copies[of 10 3 50 sample_mapping 50 10 sample_machine]
  by (auto simp: is_nonoverlapping_def saturating_sub_def sample_bytes)

text \<open>
  C13.  \<open>sol_memcpy_\<close> is atomic: it fails on ranges that overlap and on ranges that are not mapped,
  and then the machine is as it was before.
\<close>

theorem memcpy_atomic:
  "(\<not> is_nonoverlapping src n dst n \<longrightarrow>
      syscall_memcpy MM dst src n m = (Err (SyscallErr CopyOverlapping), m)) \<and>
   (fst (syscall_memcpy MM dst src n m) \<noteq> Ok 0 \<longrightarrow> snd (syscall_memcpy MM dst src n m) = m)"
proof (cases "is_nonoverlapping src n dst n \<and> n \<noteq> 0")
  case True
  then show ?thesis
    by (cases "map_addr MM Store dst n"; cases "map_addr MM Load src n")
      (simp_all add: syscall_memcpy_def memmove_def ptr_copy_def translate_slice_run)
next
  case False
  then show ?thesis
    by (auto simp: syscall_memcpy_def memmove_def ptr_copy_def translate_slice_run)
qed

theorem memcpy_atomic_witness:
  "syscall_memcpy sample_mapping 12 10 3 sample_machine = (Err (SyscallErr CopyOverlapping), sample_machine)"
  using memcpy_atomic[of 10 3 12 sample_mapping sample_machine]
  by (simp add: is_nonoverlapping_def saturating_sub_def)

subsection \<open>Return data\<close>

text \<open>
  C14.  Return data round trip: what \<open>sol_set_return_data\<close> stored, \<open>sol_get_return_data\<close> gives back:
  the leading bytes that the caller asked for, the id of the program that stored them, and as the
  result the full length; the context is as \<open>sol_set_return_data\<close> left it.
\<close>

theorem return_data_roundtrip:
  assumes "mapping_laws MM" and "unat len \<le> MAX_RETURN_DATA S" and "len \<noteq> 0" and "room \<noteq> 0"
    and "map_addr MM Load addr len = Inr a"
    and "map_addr MM Store dst (min room len) = Inr d" and "map_addr MM Store pid_addr 32 = Inr p"
    and "is_nonoverlapping d (min room len) p 32"
  shows "\<exists>m1 m2. syscall_set_return_data S MM addr len m = (Ok 0, m1) \<and>
    syscall_get_return_data MM dst room pid_addr m1 = (Ok len, m2) \<and> vm_context m2 = vm_context m1 \<and>
    read_bytes (host_mem m2) d (unat (min room len)) =
      take (unat (min room len)) (read_bytes (host_mem m) a (unat len)) \<and>
    read_bytes (host_mem m2) p 32 = pubkey_bytes (program_id (vm_context m))"
proof -
  let ?rd = "read_bytes (host_mem m) a (unat len)" and ?k = "unat (min room len)"
  let ?pid = "program_id (vm_context m)"
  let ?m1 = "m\<lparr>vm_context := (vm_context m)\<lparr>return_data := (?pid, ?rd)\<rparr>\<rparr>"
  let ?h2 = "write_bytes p (pubkey_bytes ?pid) (write_bytes d (take ?k ?rd) (host_mem m))"
  have k: "?k \<le> unat len" "min room len \<noteq> 0" "length (take ?k ?rd) = ?k"
    using assms(3,4) by (auto simp: min_def word_le_nat_alt)
  have set_run: "syscall_set_return_data S MM addr len m = (Ok 0, ?m1)"
    using assms(2,3,5) by (simp add: syscall_set_return_data_def translate_slice_run)
  have get_run: "syscall_get_return_data MM dst room pid_addr ?m1 = (Ok len, ?m1\<lparr>host_mem := ?h2\<rparr>)"
    using assms(6-8) k
    by (simp add: syscall_get_return_data_def Let_def translate_slice_run translate_type_run get_to_def
        copy_from_slice_def)
  have "\<not> in_block p (length (pubkey_bytes ?pid)) x" if "in_block d ?k x" for x
    using nonoverlapping_blocks[OF assms(8) mapping_fits[OF assms(1,6)] mapping_fits[OF assms(1,7)]] that
    by simp
  then have "read_bytes ?h2 d ?k = take ?k ?rd"
    using k(3) by (subst read_write_disjoint) (simp_all add: less_imp_le_nat)
  with set_run get_run show ?thesis
    by (intro exI[of _ ?m1] exI[of _ "?m1\<lparr>host_mem := ?h2\<rparr>"]) simp
qed

theorem return_data_roundtrip_witness:
  "\<exists>m1 m2. syscall_set_return_data sample_sdk sample_mapping 10 3 sample_machine = (Ok 0, m1) \<and>
    syscall_get_return_data sample_mapping 200 2 300 m1 = (Ok 3, m2) \<and>
    read_bytes (host_mem m2) 200 2 = [75, 76] \<and>
    read_bytes (host_mem m2) 300 32 = pubkey_bytes (pubkey_repeat 4)"
proof -
  have "min 2 3 = (2 :: u64)"
    by (simp add: min_def)
  moreover have "program_id (vm_context sample_machine) = pubkey_repeat 4"
    by (simp add: sample_machine_def)
  ultimately show ?thesis
    using return_data_roundtrip[OF sample_mapping_laws, of 3 sample_sdk 2 10 10 200 200 300 300 sample_machine]
    by (auto simp: is_nonoverlapping_def saturating_sub_def sample_bytes)
qed

text \<open>
  C15.  \<open>sol_get_return_data\<close> writes the data before it looks at the address for the program id.  When there
  is return data, and the caller gives room for at least one byte, less than the data, as much or more, at
  a destination that can be written: if the address for the program id is not mapped, or its block overlaps
  the one of the data, the call fails, and the bytes of the return data that fit into the room are in the
  program's memory all the same.
\<close>

theorem get_return_data_partial:
  assumes "return_data (vm_context m) = (pid, rd)" and "length rd < 2 ^ 64" and "rd \<noteq> []" and "room \<noteq> 0"
    and "k = min room (of_nat (length rd))" and "map_addr MM Store dst k = Inr d"
    and "case map_addr MM Store pid_addr 32 of
        Inl e' \<Rightarrow> e = EbpfErr e'
      | Inr p \<Rightarrow> \<not> is_nonoverlapping d k p 32 \<and> e = SyscallErr CopyOverlapping"
  shows "syscall_get_return_data MM dst room pid_addr m =
    (Err e, m\<lparr>host_mem := write_bytes d (take (unat room) rd) (host_mem m)\<rparr>)"
proof -
  have len: "unat (of_nat (length rd) :: u64) = length rd"
    using assms(2) by (simp add: unsigned_of_nat take_bit_nat_eq_self)
  then have k: "unat k = min (unat room) (length rd)"
    by (simp add: assms(5) min_def word_le_nat_alt)
  have "0 < unat room"
    using assms(4) by (simp add: unat_gt_0)
  then have "0 < unat k" and "unat k \<le> length rd"
    using assms(3) by (simp_all only: k min_less_iff_conj length_greater_0_conv simp_thms min.cobounded2)
  then have "k \<noteq> 0" and "unat k \<le> length rd"
    by (simp_all only: unat_gt_0 not_False_eq_True)
  moreover have "take (unat k) rd = take (unat room) rd"
    by (simp add: k min_def)
  moreover have "length (take (unat room) rd) = unat k"
    by (simp add: k min.commute)
  ultimately show ?thesis
    using assms(1,6,7)
    by (cases "map_addr MM Store pid_addr 32")
      (simp_all add: syscall_get_return_data_def Let_def assms(5)[symmetric] translate_slice_run translate_type_run
        get_to_def copy_from_slice_def)
qed

text \<open>Room for more than the data, at a program id that is not mapped, and for less, at one that overlaps.\<close>

theorem get_return_data_partial_witness:
  "let m = sample_machine\<lparr>vm_context := (vm_context sample_machine)\<lparr>return_data := (pubkey_default, [1, 2, 3])\<rparr>\<rparr>
   in syscall_get_return_data sample_mapping 200 1024 (2 ^ 30) m =
      (Err (EbpfErr (AccessViolation Store (2 ^ 30) 32 ''unknown'')),
       m\<lparr>host_mem := write_bytes 200 [1, 2, 3] (host_mem m)\<rparr>) \<and>
     syscall_get_return_data sample_mapping 200 2 201 m =
      (Err (SyscallErr CopyOverlapping), m\<lparr>host_mem := write_bytes 200 [1, 2] (host_mem m)\<rparr>)"
proof -
  let ?m = "sample_machine\<lparr>vm_context := (vm_context sample_machine)\<lparr>return_data := (pubkey_default, [1, 2, 3])\<rparr>\<rparr>"
  have k: "min 1024 3 = (3 :: u64)" "min 2 3 = (2 :: u64)"
    by (simp_all add: min_def)
  have "syscall_get_return_data sample_mapping 200 1024 (2 ^ 30) ?m =
      (Err (EbpfErr (AccessViolation Store (2 ^ 30) 32 ''unknown'')),
       ?m\<lparr>host_mem := write_bytes 200 [1, 2, 3] (host_mem ?m)\<rparr>)"
    by (subst get_return_data_partial[where m = ?m and d = 200 and k = 3 and rd = "[1, 2, 3]"]) (simp_all add: k)
  moreover have "syscall_get_return_data sample_mapping 200 2 201 ?m =
      (Err (SyscallErr CopyOverlapping), ?m\<lparr>host_mem := write_bytes 200 [1, 2] (host_mem ?m)\<rparr>)"
    by (subst get_return_data_partial[where m = ?m and d = 200 and k = 2 and rd = "[1, 2, 3]"])
      (simp_all add: k is_nonoverlapping_def saturating_sub_def word_le_nat_alt)
  ultimately show ?thesis
    by (simp add: Let_def)
qed

subsection \<open>Program addresses\<close>

text \<open>Two SDKs: one that accepts the bump seeds 3 and 7, one that accepts up to 16 seeds.\<close>

definition sample_pda_sdk :: sdk where
  "sample_pda_sdk = sample_sdk\<lparr>create_program_address :=
     (\<lambda>seeds pid. if last seeds = [7] \<or> last seeds = [3] then Some (pubkey_repeat 9) else None)\<rparr>"

definition sample_limit_sdk :: sdk where
  "sample_limit_sdk = sample_sdk\<lparr>create_program_address :=
     (\<lambda>seeds pid. if length seeds \<le> 16 then Some (pubkey_repeat 9) else None)\<rparr>"

text \<open>
  C16.  \<open>sol_try_find_program_address\<close> finds the greatest bump seed between 255 and 1 for which the
  SDK derives an address from the seeds and the program id, and stores exactly that bump seed and
  that address; without one it returns 1 and changes nothing.  The bump seed 0 is never tried.
\<close>

theorem try_find_greatest_bump:
  assumes "mapping_laws MM"
    and "translate_and_check_program_address_inputs S seeds_addr seeds_len pid_addr MM False False m =
      (Ok (seeds, pid), m)"
    and "bumps = {b \<in> {1..255 :: nat}. derive_address S m seeds pid (of_nat b) \<noteq> None}"
    and "map_addr MM Store bump_addr 1 = Inr p" and "map_addr MM Store address_addr 32 = Inr q"
    and "is_nonoverlapping p 1 q 32"
  shows "if bumps = {}
    then syscall_try_find_program_address S MM seeds_addr seeds_len pid_addr address_addr bump_addr m =
      (Ok 1, m)
    else \<exists>a m'. derive_address S m seeds pid (of_nat (Max bumps)) = Some a \<and>
      syscall_try_find_program_address S MM seeds_addr seeds_len pid_addr address_addr bump_addr m =
        (Ok 0, m') \<and> vm_context m' = vm_context m \<and>
      host_mem m' p = of_nat (Max bumps) \<and> read_bytes (host_mem m') q 32 = pubkey_bytes a \<and>
      (\<forall>x. x \<noteq> p \<longrightarrow> \<not> in_block q 32 x \<longrightarrow> host_mem m' x = host_mem m x)"
proof (cases "bumps = {}")
  case True
  then show ?thesis
    using try_find_search[OF assms(2), of address_addr bump_addr] assms(3) by simp
next
  case False
  have "finite bumps"
    using assms(3) by simp
  with False have "Max bumps \<in> bumps"
    by simp
  then obtain a where a: "derive_address S m seeds pid (of_nat (Max bumps)) = Some a"
    using assms(3) by auto
  let ?h = "write_bytes q (pubkey_bytes a) (write_bytes p [of_nat (Max bumps)] (host_mem m))"
  have blocks: "in_block p 1 x \<Longrightarrow> \<not> in_block q 32 x" for x
    using nonoverlapping_blocks[OF assms(6) mapping_fits[OF assms(1,4)] mapping_fits[OF assms(1,5)]]
    by simp
  have "in_block p 1 p"
    by (simp add: in_block_def)
  then have "?h p = of_nat (Max bumps)"
    using blocks[of p] by (simp add: write_bytes_def[of p])
  moreover have "?h x = host_mem m x" if "x \<noteq> p" "\<not> in_block q 32 x" for x
    using that by (simp add: in_block_def write_bytes_def unat_eq_0)
  moreover have "found_address MM address_addr bump_addr (of_nat (Max bumps)) a m =
      (Ok 0, m\<lparr>host_mem := ?h\<rparr>)"
    using assms(4-6)
    by (simp add: found_address_def translate_slice_run translate_type_run copy_from_slice_def)
  ultimately show ?thesis
    using try_find_search[OF assms(2), of address_addr bump_addr] assms(3) False a
    by (intro iffD2[OF if_not_P] exI[of _ a] exI[of _ "m\<lparr>host_mem := ?h\<rparr>"]) simp_all
qed

theorem try_find_greatest_bump_witness:
  "\<exists>m'. syscall_try_find_program_address sample_pda_sdk sample_mapping 0 0 0 200 300 sample_machine =
      (Ok 0, m') \<and>
    host_mem m' 300 = 7 \<and> read_bytes (host_mem m') 200 32 = pubkey_bytes (pubkey_repeat 9)"
proof -
  have inputs: "translate_and_check_program_address_inputs sample_pda_sdk 0 0 0 sample_mapping False False
      sample_machine = (Ok ([], 0), sample_machine)"
    by (simp add: translate_and_check_program_address_inputs_def translate_defs translate_slice_inner_def
        empty_slice_def parse_slice_refs_def translate_type_unchecked translate_def sample_pda_sdk_def)
  have derive: "derive_address sample_pda_sdk sample_machine [] 0 b =
      (if b = 7 \<or> b = 3 then Some (pubkey_repeat 9) else None)" for b
    by (simp add: derive_address_def sample_pda_sdk_def)
  have "(of_nat b :: u8) = 7 \<longleftrightarrow> b = 7" "(of_nat b :: u8) = 3 \<longleftrightarrow> b = 3" if "b \<le> 255" for b
    using that by (auto simp: word_unat_eq_iff unsigned_of_nat take_bit_nat_eq_self)
  then have "{3, 7} = {b \<in> {1..255 :: nat}. derive_address sample_pda_sdk sample_machine [] 0 (of_nat b) \<noteq> None}"
    by (auto simp: derive)
  from try_find_greatest_bump[OF sample_mapping_laws inputs this, of 300 300 200 200] show ?thesis
    by (simp add: derive is_nonoverlapping_def saturating_sub_def) blast
qed

text \<open>
  C17.  The bump seed is one more seed: with as many seeds as the code admits, every derivation gets
  more seeds than the SDK allows, which it refuses, so the call never finds an address.
\<close>

theorem try_find_too_many_seeds:
  assumes "\<And>seeds pid. MAX_SEEDS S < length seeds \<Longrightarrow> create_program_address S seeds pid = None"
    and "unat seeds_len = MAX_SEEDS S"
    and "fst (syscall_try_find_program_address S MM seeds_addr seeds_len pid_addr address_addr bump_addr m)
      = Ok v"
  shows "v = 1"
proof -
  obtain seeds pid where inputs: "translate_and_check_program_address_inputs S seeds_addr seeds_len
      pid_addr MM False False m = (Ok (seeds, pid), m)"
    using assms(3) inputs_run(1)
    by (fastforce simp: syscall_try_find_program_address_def act_bind_def split: prod.splits outcome.splits)
  then have "length seeds = MAX_SEEDS S"
    using inputs_run(2)[OF inputs] assms(2) by simp
  then have none: "{b \<in> {1..255 :: nat}. derive_address S m seeds pid (of_nat b) \<noteq> None} = {}"
    using assms(1) by (simp add: derive_address_def)
  show ?thesis
    using assms(3) try_find_search[OF inputs, of address_addr bump_addr] unfolding none by simp
qed

lemma le_nat_zeros: "le_nat (replicate n 0) = 0"
  by (induction n) simp_all

lemma parse_zeros: "parse_slice_refs (replicate k 0) n = replicate n \<lparr>slice_ptr = 0, slice_len = 0\<rparr>"
  by (rule nth_equalityI)
    (simp_all add: parse_slice_refs_def bytes_at_def drop_replicate take_replicate u64_from_le_def le_nat_zeros)

lemma translate_empty_seeds:
  "translate_seeds S MM False False (replicate n \<lparr>slice_ptr = 0, slice_len = 0\<rparr>) =
   Ok (replicate n (empty_slice ty_u8))"
  by (induction n) (simp_all add: translate_slice_run)

theorem try_find_too_many_seeds_witness:
  "fst (syscall_try_find_program_address sample_limit_sdk sample_mapping 1000 16 0 200 300
    (sample_machine\<lparr>host_mem := (\<lambda>_. 0)\<rparr>)) = Ok 1"
proof -
  let ?m = "sample_machine\<lparr>host_mem := (\<lambda>_. 0)\<rparr>"
  have mul: "saturating_mul 16 16 = 256"
    by (simp add: saturating_mul_def)
  have "read_bytes (\<lambda>_. 0) a n = replicate n 0" for a n
    by (simp add: read_bytes_def map_replicate_const)
  then have inputs: "translate_and_check_program_address_inputs sample_limit_sdk 1000 16 0 sample_mapping
      False False ?m = (Ok (replicate 16 (empty_slice ty_u8), 0), ?m)"
    by (simp add: translate_and_check_program_address_inputs_def translate_defs translate_slice_inner_def
        translate_type_unchecked translate_def sample_limit_sdk_def mul parse_zeros
        translate_empty_seeds[unfolded numeral_eq_Suc])
  obtain v where v: "fst (syscall_try_find_program_address sample_limit_sdk sample_mapping 1000 16 0 200 300 ?m)
      = Ok v"
    using try_find_search[OF inputs, of 200 300] by (simp add: sample_limit_sdk_def derive_address_def)
  have "v = 1"
    by (rule try_find_too_many_seeds[OF _ _ v]) (simp_all add: sample_limit_sdk_def)
  with v show ?thesis
    by simp
qed

subsection \<open>Messages and the clock\<close>

text \<open>
  C18.  \<open>sol_log_\<close>: a valid UTF-8 text is appended to the log collector once, after the prefix
  \<open>Program log: \<close>, when there is a collector; any other bytes are an \<open>InvalidString\<close> error that
  carries them and the position of the first invalid character, and log nothing.
\<close>

theorem log_result:
  assumes "len = 0 \<or> map_addr MM Load addr len = Inr h"
    and "msg = read_bytes (host_mem m) h (unat len)"
  shows "case utf8_scan 0 msg of
      None \<Rightarrow> syscall_log P MM addr len m = (Ok 0, m\<lparr>vm_context := (vm_context m)\<lparr>log_collector :=
        map_option (\<lambda>l. lc_log P l (log_prefix @ msg)) (log_collector (vm_context m))\<rparr>\<rparr>)
    | Some e \<Rightarrow> syscall_log P MM addr len m = (Err (SyscallErr (InvalidString e msg)), m) \<and>
        valid_up_to e < length msg"
proof -
  have "translate_string_and_do MM addr len False False True work m =
      (case from_utf8 msg of Inr s \<Rightarrow> work s | Inl e \<Rightarrow> throw (InvalidString e msg)) m" for work
    using assms by (cases "len = 0")
      (auto simp: translate_string_and_do_def translate_slice_run empty_slice_def)
  then show ?thesis
    using utf8_scan_bounds[of 0 msg]
    by (cases "utf8_scan 0 msg") (simp_all add: syscall_log_def from_utf8_def log_string_def)
qed

theorem log_result_witness:
  "log_collector (vm_context (snd (syscall_log sample_runtime sample_mapping 10 3 sample_machine))) =
    Some [log_prefix @ [75, 76, 77]]"
  using log_result[OF _ refl, where len = 3 and MM = sample_mapping and addr = 10 and h = 10
      and m = sample_machine and P = sample_runtime]
  by (simp add: sample_bytes) (simp add: sample_machine_def sample_runtime_def)

text \<open>
  \<open>sol_panic_\<close> always fails and changes nothing: with the text up to its first NUL byte and the
  position that the program passed, or with \<open>InvalidString\<close> when that is not UTF-8.
\<close>

lemma panic_result:
  assumes "len = 0 \<or> map_addr MM Load addr len = Inr h"
    and "msg = takeWhile (\<lambda>b. b \<noteq> 0) (read_bytes (host_mem m) h (unat len))"
  shows "syscall_panic MM addr len line column m =
    (Err (SyscallErr (case utf8_scan 0 msg of
        None \<Rightarrow> Panic msg line column
      | Some e \<Rightarrow> InvalidString e msg)), m)"
proof -
  have "up_to_nul (read_bytes (host_mem m) h (unat len)) len = Ok msg"
    by (simp add: up_to_nul_takeWhile assms(2))
  then show ?thesis
    using assms(1) by (cases "len = 0"; cases "utf8_scan 0 msg")
      (auto simp: syscall_panic_def translate_slice_run empty_slice_def from_utf8_def)
qed

text \<open>
  C20.  \<open>sol_get_clock_sysvar\<close> stores the clock of the sysvar cache at the address that the program
  passed, and nothing else.  The address is checked first: a program that passes an unmapped one gets
  the access violation also when there is no clock.
\<close>

theorem clock_result:
  assumes "runtime_laws P"
  shows "case map_addr MM Store va (of_nat (size_of (clock_type P))) of
      Inl e \<Rightarrow> syscall_get_clock_sysvar P MM va m = (Err (EbpfErr e), m)
    | Inr p \<Rightarrow> (case get_clock P (sysvars (vm_context m)) of
        Inl e \<Rightarrow> syscall_get_clock_sysvar P MM va m = (Err (InstructionErr e), m)
      | Inr c \<Rightarrow> \<exists>m'. syscall_get_clock_sysvar P MM va m = (Ok 0, m') \<and> vm_context m' = vm_context m \<and>
          read_bytes (host_mem m') p (size_of (clock_type P)) = clock_repr P c \<and>
          (\<forall>x. \<not> in_block p (size_of (clock_type P)) x \<longrightarrow> host_mem m' x = host_mem m x))"
proof -
  have "length (clock_repr P c) = size_of (clock_type P)" "size_of (clock_type P) < 2 ^ 64" for c
    using assms by (simp_all add: runtime_laws_def)
  then show ?thesis
    by (auto simp: syscall_get_clock_sysvar_def get_sysvar_def translate_type_run split: sum.split)
qed

theorem clock_result_witness:
  "(\<exists>m'. syscall_get_clock_sysvar sample_runtime sample_mapping 200 sample_machine = (Ok 0, m') \<and>
    read_bytes (host_mem m') 200 40 = replicate 40 5) \<and>
   syscall_get_clock_sysvar sample_runtime sample_mapping (2 ^ 30) sample_machine =
    (Err (EbpfErr (AccessViolation Store (2 ^ 30) 40 ''unknown'')), sample_machine)"
proof -
  have "sysvars (vm_context sample_machine) = Some 5" "size_of (clock_type sample_runtime) = 40"
    "get_clock sample_runtime (Some 5) = Inr 5" "clock_repr sample_runtime 5 = replicate 40 5"
    by (simp_all add: sample_machine_def sample_runtime_def invoke_context_new_def)
  then show ?thesis
    using clock_result[OF sample_runtime_laws, of sample_mapping 200 sample_machine]
      clock_result[OF sample_runtime_laws, of sample_mapping "2 ^ 30" sample_machine]
    by auto
qed

end
