(* ===== verification/Vm_Runs.thy ===== *)
theory Vm_Runs
  imports Syscall_Contracts
begin

text \<open>
  A run of the virtual machine, as far as the code of this repository takes part in it: the
  machine consumes units through \<open>ContextObject::consume\<close>, stores to memory that its mapping gives
  out for stores, calls the registered syscalls, and stops when a call fails, when it faults or
  when the program returns.  Which of these happens when is up to the program, so the steps are a
  relation.
\<close>

datatype ('sv, 'lg) vm_state =
    Running "('sv, 'lg) machine"
  | Stopped "(error_obj, u64) outcome" "('sv, 'lg) machine"

primrec machine_of :: "('sv, 'lg) vm_state \<Rightarrow> ('sv, 'lg) machine" where
  "machine_of (Running m) = m"
| "machine_of (Stopped r m) = m"

inductive vm_step ::
  "sdk \<Rightarrow> ('sv, 'lg, 'clk) runtime_api \<Rightarrow> (string \<Rightarrow> builtin option) \<Rightarrow> memory_mapping \<Rightarrow>
   ('sv, 'lg) vm_state \<Rightarrow> ('sv, 'lg) vm_state \<Rightarrow> bool"
  for S P lookup MM where
  meter: "vm_step S P lookup MM (Running m) (Running (m\<lparr>vm_context := consume k (vm_context m)\<rparr>))"
| store: "(\<And>x. in_block a (length bs) x \<Longrightarrow> mapped MM Store x) \<Longrightarrow>
    vm_step S P lookup MM (Running m) (Running (m\<lparr>host_mem := write_bytes a bs (host_mem m)\<rparr>))"
| call: "lookup name = Some f \<Longrightarrow> run_builtin S P MM f r1 r2 r3 r4 r5 m = (Ok v, m') \<Longrightarrow>
    vm_step S P lookup MM (Running m) (Running m')"
| call_error: "lookup name = Some f \<Longrightarrow> run_builtin S P MM f r1 r2 r3 r4 r5 m = (Err e, m') \<Longrightarrow>
    vm_step S P lookup MM (Running m) (Stopped (Err e) m')"
| call_panic: "lookup name = Some f \<Longrightarrow> run_builtin S P MM f r1 r2 r3 r4 r5 m = (Panics, m') \<Longrightarrow>
    vm_step S P lookup MM (Running m) (Stopped Panics m')"
| fault: "vm_step S P lookup MM (Running m) (Stopped (Err (EbpfErr e)) m)"
| exit: "vm_step S P lookup MM (Running m) (Stopped (Ok code) m)"

inductive_cases vm_step_runningE: "vm_step S P lookup MM (Running m) s"
inductive_cases vm_step_stoppedE [elim!]: "vm_step S P lookup MM (Stopped r m) s"
inductive_simps vm_step_into_panic: "vm_step S P lookup MM s (Stopped Panics m')"

abbreviation vm_steps where
  "vm_steps S P lookup MM \<equiv> (vm_step S P lookup MM)\<^sup>*\<^sup>*"

subsection \<open>The invariant of a run\<close>

definition run_kept :: "sdk \<Rightarrow> memory_mapping \<Rightarrow> ('sv, 'lg) machine \<Rightarrow> ('sv, 'lg) machine \<Rightarrow> bool" where
  "run_kept S MM m m' \<longleftrightarrow>
     confined MM (host_mem m) (host_mem m') \<and>
     sysvars (vm_context m') = sysvars (vm_context m) \<and>
     program_id (vm_context m') = program_id (vm_context m) \<and>
     get_remaining (vm_context m') \<le> get_remaining (vm_context m) \<and>
     (return_data (vm_context m') = return_data (vm_context m) \<or>
      fst (return_data (vm_context m')) = program_id (vm_context m) \<and>
      length (snd (return_data (vm_context m'))) \<le> MAX_RETURN_DATA S)"

lemma run_kept_refl: "run_kept S MM m m"
  by (simp add: run_kept_def)

lemma run_kept_trans: "run_kept S MM m m' \<Longrightarrow> run_kept S MM m' m'' \<Longrightarrow> run_kept S MM m m''"
  unfolding run_kept_def by (auto intro: confined_trans)

lemma run_kept_builtin:
  assumes "sdk_laws S" "runtime_laws P" "run_builtin S P MM f r1 r2 r3 r4 r5 m = (r, m')"
  shows "run_kept S MM m m'"
  using syscall_contract.writes[OF contract_builtin[OF assms(1,2)], of MM m f r1 r2 r3 r4 r5]
    syscall_contract.keeps[OF contract_builtin[OF assms(1,2)], of m MM f r1 r2 r3 r4 r5] assms(3)
  by (simp add: run_kept_def context_kept_def get_remaining_def)

lemma saturating_sub_le: "saturating_sub a b \<le> (a :: u64)"
  by (simp add: word_le_nat_alt unat_saturating_sub)

lemma run_kept_step:
  assumes "sdk_laws S" "runtime_laws P" "vm_step S P lookup MM s t"
  shows "run_kept S MM (machine_of s) (machine_of t)"
  using assms(3)
proof cases
  case (meter m k)
  then show ?thesis
    by (simp add: run_kept_def consume_def get_remaining_def saturating_sub_le)
next
  case (store a bs m)
  then show ?thesis
    by (auto simp: run_kept_def confined_def write_bytes_def in_block_def)
qed (auto intro: run_kept_builtin[OF assms(1,2)] run_kept_refl)

lemma run_kept_steps:
  assumes "sdk_laws S" "runtime_laws P" "vm_steps S P lookup MM s t"
  shows "run_kept S MM (machine_of s) (machine_of t)"
  using assms(3)
  by (induction rule: rtranclp_induct)
    (auto intro: run_kept_refl run_kept_trans run_kept_step[OF assms(1,2)])

text \<open>A stopped run stays as it is, and a run whose table has \<open>abort\<close> can stop with \<open>Abort\<close>.\<close>

lemma stopped_final: "vm_steps S P lookup MM (Stopped r m) t \<longleftrightarrow> t = Stopped r m"
  by (auto elim: converse_rtranclpE)

end
