(* ===== verification/Vm_Properties.thy ===== *)
theory Vm_Properties
  imports Syscall_Properties Vm_Runs
begin

text \<open>
  What holds of every call and of every run: the safety of the host's memory, the independence of
  memory the program cannot read, the invariant of a run, and what the executor knows of the return
  data after it.
\<close>

subsection \<open>Every syscall\<close>

text \<open>
  C21.  Memory safety: no syscall changes a byte of the host outside of what the memory mapping gives
  out for stores, whatever its arguments, and the context keeps its sysvars, its program id and its
  instruction meter.
\<close>

theorem syscalls_confined:
  assumes "sdk_laws S" and "runtime_laws P" and "run_builtin S P MM f r1 r2 r3 r4 r5 m = (r, m')"
  shows "(\<forall>x. \<not> mapped MM Store x \<longrightarrow> host_mem m' x = host_mem m x) \<and>
    sysvars (vm_context m') = sysvars (vm_context m) \<and>
    program_id (vm_context m') = program_id (vm_context m) \<and>
    get_remaining (vm_context m') = get_remaining (vm_context m)"
proof -
  note contract = contract_builtin[OF assms(1,2), of MM f r1 r2 r3 r4 r5]
  show ?thesis
    using syscall_contract.outside_unchanged[OF contract] syscall_contract.identity_kept[OF contract, of m]
      assms(3) by (metis snd_conv)
qed

theorem syscalls_confined_witness:
  "host_mem (snd (run_builtin sample_sdk sample_runtime sample_mapping SyscallMemcpy 50 10 3 0 0 sample_machine))
    (2 ^ 20) = host_mem sample_machine (2 ^ 20)"
proof -
  have "\<not> mapped sample_mapping Store (2 ^ 20)"
    by (auto simp: mapped_def sample_mapping_def in_block_flat split: if_splits)
  then show ?thesis
    using syscalls_confined[OF sample_sdk_laws sample_runtime_laws surjective_pairing,
        of sample_mapping SyscallMemcpy 50 10 3 0 0 sample_machine] by blast
qed

text \<open>
  C22.  Non-interference: the result of a syscall and everything a program can read afterwards depend
  on the context and on the memory that the mapping gives out for loads, never on other memory of
  the host.
\<close>

theorem syscalls_noninterference:
  assumes "sdk_laws S" and "runtime_laws P" and "vm_context m2 = vm_context m1"
    and "\<forall>x. mapped MM Load x \<longrightarrow> host_mem m2 x = host_mem m1 x"
    and "run_builtin S P MM f r1 r2 r3 r4 r5 m1 = (r, n1)"
  shows "\<exists>n2. run_builtin S P MM f r1 r2 r3 r4 r5 m2 = (r, n2) \<and> vm_context n2 = vm_context n1 \<and>
    (\<forall>x. mapped MM Load x \<longrightarrow> host_mem n2 x = host_mem n1 x)"
proof -
  have "agree MM m1 m2"
    using assms(3,4) by (simp add: agree_def)
  from syscall_contract.reads[OF contract_builtin[OF assms(1,2)] this, of f r1 r2 r3 r4 r5] assms(5)
  show ?thesis
    by (intro exI[of _ "snd (run_builtin S P MM f r1 r2 r3 r4 r5 m2)"]) (auto simp: agree_def prod_eq_iff)
qed

theorem syscalls_noninterference_witness:
  "fst (run_builtin sample_sdk sample_runtime sample_mapping SyscallPanic 10 3 7 8 0
      (sample_machine\<lparr>host_mem := (host_mem sample_machine)(2 ^ 20 := 1)\<rparr>)) =
    Err (SyscallErr (Panic [75, 76, 77] 7 8))"
proof -
  have "\<not> mapped sample_mapping Load (2 ^ 20)"
    by (auto simp: mapped_def sample_mapping_def in_block_flat split: if_splits)
  moreover have "run_builtin sample_sdk sample_runtime sample_mapping SyscallPanic 10 3 7 8 0 sample_machine =
      (Err (SyscallErr (Panic [75, 76, 77] 7 8)), sample_machine)"
    by (simp add: syscall_panic_def translate_slice_run sample_bytes up_to_nul_def get_to_def from_utf8_def)
  ultimately show ?thesis
    using syscalls_noninterference[OF sample_sdk_laws sample_runtime_laws,
        of "sample_machine\<lparr>host_mem := (host_mem sample_machine)(2 ^ 20 := 1)\<rparr>" sample_machine
          sample_mapping SyscallPanic 10 3 7 8 0] by fastforce
qed

subsection \<open>Runs\<close>

text \<open>
  C23.  The invariant of a run, however many steps it takes and in whatever order: memory outside of
  the writable mapping is as at the start, the sysvars and the program id are those the run started
  with, the meter never grows, and the return data is what it was or the program's own, of at most
  the maximal size.
\<close>

theorem vm_run_invariant:
  assumes "sdk_laws S" and "runtime_laws P" and "vm_steps S P lookup MM (Running m) t"
  shows "(\<forall>x. \<not> mapped MM Store x \<longrightarrow> host_mem (machine_of t) x = host_mem m x) \<and>
    sysvars (vm_context (machine_of t)) = sysvars (vm_context m) \<and>
    program_id (vm_context (machine_of t)) = program_id (vm_context m) \<and>
    get_remaining (vm_context (machine_of t)) \<le> get_remaining (vm_context m) \<and>
    (return_data (vm_context (machine_of t)) = return_data (vm_context m) \<or>
     fst (return_data (vm_context (machine_of t))) = program_id (vm_context m) \<and>
     length (snd (return_data (vm_context (machine_of t)))) \<le> MAX_RETURN_DATA S)"
  using run_kept_steps[OF assms] by (auto simp: run_kept_def confined_def)

theorem vm_run_invariant_witness:
  "get_remaining (vm_context (machine_of (Stopped (Err (SyscallErr Abort))
      (sample_machine\<lparr>vm_context := consume 9 (vm_context sample_machine)\<rparr>)))) \<le>
    get_remaining (vm_context sample_machine)"
proof -
  have "vm_step sample_sdk sample_runtime (map_of syscall_table) sample_mapping (Running sample_machine)
      (Running (sample_machine\<lparr>vm_context := consume 9 (vm_context sample_machine)\<rparr>))"
    by (rule meter)
  moreover have "vm_step sample_sdk sample_runtime (map_of syscall_table) sample_mapping (Running m)
      (Stopped (Err (SyscallErr Abort)) m)" for m
    by (rule call_error[of _ "''abort''" SyscallAbort]) (simp_all add: syscall_table_def syscall_abort_def)
  ultimately have "vm_steps sample_sdk sample_runtime (map_of syscall_table) sample_mapping
      (Running sample_machine) (Stopped (Err (SyscallErr Abort))
        (sample_machine\<lparr>vm_context := consume 9 (vm_context sample_machine)\<rparr>))"
    by (meson converse_rtranclp_into_rtranclp r_into_rtranclp)
  from vm_run_invariant[OF sample_sdk_laws sample_runtime_laws this] show ?thesis
    by blast
qed

text \<open>
  C24.  What the executor reports after a run: whatever the earlier runs left, \<open>get_return_data\<close>
  returns nothing, or data that is not empty, is of at most the maximal size and was stored by the
  program that the executor holds.  The machine of \<open>solana_rbpf\<close> is assumed to touch the context
  only by the steps of a run.
\<close>

definition vm_runs_by_steps ::
  "sdk \<Rightarrow> ('sv, 'lg, 'clk) runtime_api \<Rightarrow> (string \<Rightarrow> builtin option) \<Rightarrow>
   ('rt, 'reg, 'exe, 'cfg, ('sv, 'lg) invoke_context) rbpf \<Rightarrow> bool" where
  "vm_runs_by_steps S P lookup R \<longleftrightarrow>
     (\<forall>rt regions n exe b c. \<exists>MM h r h'. vm_steps S P lookup MM
        (Running \<lparr>vm_context = c, host_mem = h\<rparr>)
        (Stopped r \<lparr>vm_context = fst (snd (vm_run R rt regions n exe b c)), host_mem = h'\<rparr>))"

theorem execute_return_data:
  assumes "sdk_laws S" and "runtime_laws P" and "vm_runs_by_steps S P lookup R"
    and "ex_executable ex \<noteq> None" and "execute S M R ex = (r, ex')"
    and "get_return_data ex' = Some (pid, rd)"
  shows "pid = program_id (ex_context ex) \<and> rd \<noteq> [] \<and> length rd \<le> MAX_RETURN_DATA S"
proof -
  let ?c = "(ex_context ex)\<lparr>return_data := (pubkey_default, [])\<rparr>"
  have rd: "return_data (ex_context ex') = (pid, rd)" "rd \<noteq> []"
    using assms(6) by (auto simp: get_return_data_def Let_def split: if_splits)
  then have "ex_context ex' \<noteq> ?c"
    by auto
  then obtain rt regions n exe b where c': "ex_context ex' = fst (snd (vm_run R rt regions n exe b ?c))"
    using assms(4,5) by (auto simp: execute_def Let_def case_prod_beta split: if_splits)
  obtain MM h r' h' where "vm_steps S P lookup MM (Running \<lparr>vm_context = ?c, host_mem = h\<rparr>)
      (Stopped r' \<lparr>vm_context = ex_context ex', host_mem = h'\<rparr>)"
    using assms(3) unfolding vm_runs_by_steps_def c' by blast
  from run_kept_steps[OF assms(1,2) this] rd show ?thesis
    by (auto simp: run_kept_def)
qed

text \<open>A machine on which every program stores three bytes of return data and succeeds.\<close>

definition sample_returning_rbpf ::
  "((string \<times> builtin) list, (string \<times> builtin) list, bytes, unit, sample_context) rbpf" where
  "sample_returning_rbpf = sample_rbpf\<lparr>vm_run := (\<lambda>rt regions n exe b c.
     (Inr 0, c\<lparr>return_data := (program_id c, [75, 76, 77])\<rparr>, [], [], []))\<rparr>"

definition sample_unit_runtime :: "(unit, unit, u8) runtime_api" where
  "sample_unit_runtime =
     \<lparr>lc_log = (\<lambda>l s. l), get_clock = (\<lambda>sv. Inl InvalidArgument),
      clock_type = \<lparr>size_of = 40, align_of = 8\<rparr>, clock_repr = replicate 40\<rparr>"

lemma sample_returning_steps:
  "vm_runs_by_steps sample_sdk sample_unit_runtime (map_of syscall_table) sample_returning_rbpf"
proof -
  have "vm_steps sample_sdk sample_unit_runtime (map_of syscall_table) sample_mapping
      (Running \<lparr>vm_context = c, host_mem = host_mem sample_machine\<rparr>)
      (Stopped (Ok 0) \<lparr>vm_context = c\<lparr>return_data := (program_id c, [75, 76, 77])\<rparr>,
        host_mem = host_mem sample_machine\<rparr>)" for c
  proof (rule converse_rtranclp_into_rtranclp)
    show "vm_step sample_sdk sample_unit_runtime (map_of syscall_table) sample_mapping
        (Running \<lparr>vm_context = c, host_mem = host_mem sample_machine\<rparr>)
        (Running \<lparr>vm_context = c\<lparr>return_data := (program_id c, [75, 76, 77])\<rparr>,
          host_mem = host_mem sample_machine\<rparr>)"
      by (rule call[of _ "''sol_set_return_data''" SyscallSetReturnData _ _ _ 10 3])
        (simp_all add: syscall_table_def syscall_set_return_data_def translate_slice_run sample_bytes)
  qed (blast intro: exit)
  then show ?thesis
    unfolding vm_runs_by_steps_def sample_returning_rbpf_def by (simp; blast)
qed

theorem execute_return_data_witness:
  "get_return_data (snd (execute sample_sdk vec_memory sample_returning_rbpf
      (sample_executor\<lparr>ex_executable := Some [9]\<rparr>))) \<noteq> None \<and>
   fst (the (get_return_data (snd (execute sample_sdk vec_memory sample_returning_rbpf
      (sample_executor\<lparr>ex_executable := Some [9]\<rparr>))))) = program_id (ex_context sample_executor)"
proof -
  let ?ex = "sample_executor\<lparr>ex_executable := Some [9]\<rparr>"
  obtain r ex' where ex': "execute sample_sdk vec_memory sample_returning_rbpf ?ex = (r, ex')"
    by (cases "execute sample_sdk vec_memory sample_returning_rbpf ?ex")
  then have "get_return_data ex' \<noteq> None"
    by (auto simp: execute_def sample_returning_rbpf_def sample_rbpf_def get_return_data_def)
  then obtain pid rd where rd: "get_return_data ex' = Some (pid, rd)"
    by auto
  from execute_return_data[OF sample_sdk_laws _ sample_returning_steps _ ex' rd] ex' rd show ?thesis
    by (simp add: runtime_laws_def sample_unit_runtime_def)
qed


end
