(* ===== verification/Mem_Chunks.thy ===== *)
theory Mem_Chunks
  imports Syscalls
begin

text \<open>
  The second half of \<open>mem_ops.rs\<close>: the iterator over the chunks that the regions cut a range of the
  virtual machine's addresses into, from both ends, and the loop that walks two ranges at once.
  The loop is bounded by fuel; \<open>Mem_Chunks_Walk\<close> shows how much is enough.
\<close>

subsection \<open>\<open>MemoryChunkIterator\<close>\<close>

text \<open>The mapping, which the iterator borrows, is an argument of its operations.\<close>

record chunk_iterator =
  it_access :: access_type
  initial_vm_addr :: u64
  vm_addr_start :: u64
  vm_addr_end :: u64
  it_len :: u64

type_synonym chunk = "vm_region \<times> u64 \<times> nat"

definition chunk_iterator_new :: "access_type \<Rightarrow> u64 \<Rightarrow> u64 \<Rightarrow> (ebpf_error, chunk_iterator) outcome" where
  "chunk_iterator_new access va len =
     rbind (ok_or (AccessViolation access va len ''unknown'') (checked_add va len)) (\<lambda>va_end.
     Ok \<lparr>it_access = access, initial_vm_addr = va, vm_addr_start = va, vm_addr_end = va_end,
         it_len = len\<rparr>)"

definition chunk_region :: "memory_mapping \<Rightarrow> chunk_iterator \<Rightarrow> u64 \<Rightarrow> (error_obj, vm_region) outcome" where
  "chunk_region MM it va =
     (case find_region MM (it_access it) va of
        Inr region \<Rightarrow> Ok region
      | Inl error \<Rightarrow> (case error of
          AccessViolation access _ _ name \<Rightarrow>
            Err (EbpfErr (AccessViolation access (initial_vm_addr it) (it_len it) name))
        | StackAccessViolation access _ _ frame \<Rightarrow>
            Err (EbpfErr (StackAccessViolation access (initial_vm_addr it) (it_len it) frame))
        | _ \<Rightarrow> Err (EbpfErr error)))"

definition next_chunk ::
  "memory_mapping \<Rightarrow> chunk_iterator \<Rightarrow> (error_obj, chunk) outcome option \<times> chunk_iterator" where
  "next_chunk MM it =
     (if vm_addr_start it = vm_addr_end it then (None, it)
      else case chunk_region MM it (vm_addr_start it) of
        Err e \<Rightarrow> (Some (Err e), it\<lparr>vm_addr_start := vm_addr_end it\<rparr>)
      | Panics \<Rightarrow> (Some Panics, it)
      | Ok region \<Rightarrow>
          let va = vm_addr_start it in
          if region_vm_addr_end region \<le> vm_addr_end it
          then let len = saturating_sub (region_vm_addr_end region) (vm_addr_start it) in
            (Some (Ok (region, va, unat len)), it\<lparr>vm_addr_start := region_vm_addr_end region\<rparr>)
          else let len = saturating_sub (vm_addr_end it) (vm_addr_start it) in
            (Some (Ok (region, va, unat len)), it\<lparr>vm_addr_start := vm_addr_end it\<rparr>))"

definition next_chunk_back ::
  "memory_mapping \<Rightarrow> chunk_iterator \<Rightarrow> (error_obj, chunk) outcome option \<times> chunk_iterator" where
  "next_chunk_back MM it =
     (if vm_addr_start it = vm_addr_end it then (None, it)
      else case chunk_region MM it (saturating_sub (vm_addr_end it) 1) of
        Err e \<Rightarrow> (Some (Err e), it\<lparr>vm_addr_start := vm_addr_end it\<rparr>)
      | Panics \<Rightarrow> (Some Panics, it)
      | Ok region \<Rightarrow>
          if region_vm_addr region \<ge> vm_addr_start it
          then let len = saturating_sub (vm_addr_end it) (region_vm_addr region);
                   it' = it\<lparr>vm_addr_end := region_vm_addr region\<rparr> in
            (Some (Ok (region, vm_addr_end it', unat len)), it')
          else let len = saturating_sub (vm_addr_end it) (vm_addr_start it);
                   it' = it\<lparr>vm_addr_end := vm_addr_start it\<rparr> in
            (Some (Ok (region, vm_addr_end it', unat len)), it'))"

subsection \<open>\<open>iter_memory_pair_chunks\<close>\<close>

text \<open>
  The macro \<open>memory_chunk!\<close>: the chunk at hand, or the next one of the iterator, from the end in
  reverse; \<open>None\<close> ends the loop.
\<close>

definition memory_chunk ::
  "memory_mapping \<Rightarrow> bool \<Rightarrow> chunk_iterator \<Rightarrow> chunk option \<Rightarrow>
   (error_obj, chunk) outcome option \<times> chunk_iterator" where
  "memory_chunk MM reverse it chunk =
     (case chunk of
        Some c \<Rightarrow> (Some (Ok c), it)
      | None \<Rightarrow> if reverse then next_chunk_back MM it else next_chunk MM it)"

text \<open>Where in a chunk the next \<open>chunk_len\<close> bytes are, and the chunk without them.\<close>

definition chunk_position :: "bool \<Rightarrow> chunk \<Rightarrow> nat \<Rightarrow> u64" where
  "chunk_position reverse chunk chunk_len =
     (case chunk of (region, chunk_addr, remaining) \<Rightarrow>
        if reverse
        then saturating_sub (saturating_add chunk_addr (of_nat remaining)) (of_nat chunk_len)
        else chunk_addr)"

definition chunk_rest :: "bool \<Rightarrow> chunk \<Rightarrow> nat \<Rightarrow> chunk option" where
  "chunk_rest reverse chunk chunk_len =
     (case chunk of (region, chunk_addr, remaining) \<Rightarrow>
        let remaining' = remaining - chunk_len;
            chunk_addr' = (if reverse then chunk_addr else saturating_add chunk_addr (of_nat chunk_len)) in
        if remaining' = 0 then None else Some (region, chunk_addr', remaining'))"

definition chunk_host :: "chunk \<Rightarrow> u64 \<Rightarrow> nat \<Rightarrow> (error_obj, u64) outcome" where
  "chunk_host chunk va chunk_len =
     (case vm_to_host (fst chunk) va (of_nat chunk_len) of Inl e \<Rightarrow> Err (EbpfErr e) | Inr h \<Rightarrow> Ok h)"

text \<open>
  One round on the chunks at hand; its result is what is left of them.  \<open>work\<close> is the closure.
\<close>

definition process_pair ::
  "bool \<Rightarrow> (u64 \<Rightarrow> u64 \<Rightarrow> nat \<Rightarrow> ('sv, 'lg, 'a) sys) \<Rightarrow> chunk \<Rightarrow> chunk \<Rightarrow>
   ('sv, 'lg, chunk option \<times> chunk option) sys" where
  "process_pair reverse work src_chunk dst_chunk =
     (let chunk_len = min (snd (snd src_chunk)) (snd (snd dst_chunk)) in
      act_bind (act_lift (chunk_host src_chunk (chunk_position reverse src_chunk chunk_len) chunk_len))
        (\<lambda>src_host_addr.
      act_bind (act_lift (chunk_host dst_chunk (chunk_position reverse dst_chunk chunk_len) chunk_len))
        (\<lambda>dst_host_addr.
      act_bind (work src_host_addr dst_host_addr chunk_len) (\<lambda>_.
      act_return (chunk_rest reverse src_chunk chunk_len, chunk_rest reverse dst_chunk chunk_len)))))"

text \<open>\<open>loop { .. }\<close>: \<open>None\<close> when the fuel does not suffice; \<open>T::default()\<close> is an argument.\<close>

fun pair_loop ::
  "nat \<Rightarrow> memory_mapping \<Rightarrow> bool \<Rightarrow> 'a \<Rightarrow> (u64 \<Rightarrow> u64 \<Rightarrow> nat \<Rightarrow> ('sv, 'lg, 'a) sys) \<Rightarrow>
   chunk_iterator \<Rightarrow> chunk_iterator \<Rightarrow> chunk option \<Rightarrow> chunk option \<Rightarrow> ('sv, 'lg) machine \<Rightarrow>
   ((error_obj, 'a) outcome \<times> ('sv, 'lg) machine) option" where
  "pair_loop 0 MM reverse deflt work src_it dst_it src_chunk dst_chunk m = None"
| "pair_loop (Suc fuel) MM reverse deflt work src_it dst_it src_chunk dst_chunk m =
     (case memory_chunk MM reverse src_it src_chunk of
        (None, src_it') \<Rightarrow> Some (Ok deflt, m)
      | (Some (Err e), src_it') \<Rightarrow> Some (Err e, m)
      | (Some Panics, src_it') \<Rightarrow> Some (Panics, m)
      | (Some (Ok src_c), src_it') \<Rightarrow>
     (case memory_chunk MM reverse dst_it dst_chunk of
        (None, dst_it') \<Rightarrow> Some (Ok deflt, m)
      | (Some (Err e), dst_it') \<Rightarrow> Some (Err e, m)
      | (Some Panics, dst_it') \<Rightarrow> Some (Panics, m)
      | (Some (Ok dst_c), dst_it') \<Rightarrow>
     (case process_pair reverse work src_c dst_c m of
        (Ok (src_chunk', dst_chunk'), m') \<Rightarrow>
          pair_loop fuel MM reverse deflt work src_it' dst_it' src_chunk' dst_chunk' m'
      | (Err e, m') \<Rightarrow> Some (Err e, m')
      | (Panics, m') \<Rightarrow> Some (Panics, m'))))"

definition iter_memory_pair_chunks ::
  "nat \<Rightarrow> 'a \<Rightarrow> access_type \<Rightarrow> u64 \<Rightarrow> access_type \<Rightarrow> u64 \<Rightarrow> u64 \<Rightarrow> memory_mapping \<Rightarrow> bool \<Rightarrow>
   (u64 \<Rightarrow> u64 \<Rightarrow> nat \<Rightarrow> ('sv, 'lg, 'a) sys) \<Rightarrow> ('sv, 'lg) machine \<Rightarrow>
   ((error_obj, 'a) outcome \<times> ('sv, 'lg) machine) option" where
  "iter_memory_pair_chunks fuel deflt src_access src_addr dst_access dst_addr n_bytes MM reverse work m =
     (case chunk_iterator_new src_access src_addr n_bytes of
        Err e \<Rightarrow> Some (Err (EbpfErr e), m)
      | Panics \<Rightarrow> Some (Panics, m)
      | Ok src_it \<Rightarrow>
     (case chunk_iterator_new dst_access dst_addr n_bytes of
        Err e \<Rightarrow> Some (Err (EbpfErr e), m)
      | Panics \<Rightarrow> Some (Panics, m)
      | Ok dst_it \<Rightarrow> pair_loop fuel MM reverse deflt work src_it dst_it None None m))"

text \<open>The closure of \<open>memmove_non_contiguous\<close>.\<close>

definition copy_work :: "u64 \<Rightarrow> u64 \<Rightarrow> nat \<Rightarrow> ('sv, 'lg, u64) sys" where
  "copy_work src_host_addr dst_host_addr chunk_len =
     act_bind (ptr_copy src_host_addr dst_host_addr chunk_len) (\<lambda>_. act_return 0)"

definition memmove_non_contiguous ::
  "nat \<Rightarrow> u64 \<Rightarrow> u64 \<Rightarrow> u64 \<Rightarrow> memory_mapping \<Rightarrow> ('sv, 'lg) machine \<Rightarrow>
   ((error_obj, u64) outcome \<times> ('sv, 'lg) machine) option" where
  "memmove_non_contiguous fuel dst_addr src_addr n MM =
     (let reverse = (dst_addr - src_addr < n) in
      iter_memory_pair_chunks fuel 0 Load src_addr Store dst_addr n MM reverse copy_work)"

subsection \<open>What is left of a range\<close>

text \<open>
  The documented behaviour of \<open>MemoryMapping::region\<close>: the region it finds contains the address.
\<close>

definition region_laws :: "memory_mapping \<Rightarrow> bool" where
  "region_laws MM \<longleftrightarrow>
     (\<forall>acc va r. find_region MM acc va = Inr r \<longrightarrow> region_vm_addr r \<le> va \<and> va < region_vm_addr_end r)"

text \<open>
  \<open>span MM reverse it chunk lo hi\<close>: the addresses still to walk are those from \<open>lo\<close> to \<open>hi\<close>.  The
  chunk at hand lies in one region and abuts what the iterator has left, at the lower end of it
  going forward and at the upper end in reverse.
\<close>

definition in_region :: "memory_mapping \<Rightarrow> access_type \<Rightarrow> vm_region \<Rightarrow> nat \<Rightarrow> nat \<Rightarrow> bool" where
  "in_region MM acc r lo hi \<longleftrightarrow>
     (\<exists>va. find_region MM acc va = Inr r) \<and> unat (region_vm_addr r) \<le> lo \<and> hi \<le> unat (region_vm_addr_end r)"

definition span ::
  "memory_mapping \<Rightarrow> bool \<Rightarrow> chunk_iterator \<Rightarrow> chunk option \<Rightarrow> nat \<Rightarrow> nat \<Rightarrow> bool" where
  "span MM reverse it chunk lo hi \<longleftrightarrow> lo \<le> hi \<and> hi < 2 ^ 64 \<and> vm_addr_start it \<le> vm_addr_end it \<and>
     (if reverse then unat (vm_addr_start it) = lo else unat (vm_addr_end it) = hi) \<and>
     (case chunk of
        None \<Rightarrow> if reverse then unat (vm_addr_end it) = hi else unat (vm_addr_start it) = lo
      | Some (r, a, n) \<Rightarrow> 0 < n \<and> in_region MM (it_access it) r (unat a) (unat a + n) \<and>
          (if reverse then a = vm_addr_end it \<and> unat a + n = hi
           else unat a = lo \<and> unat a + n = unat (vm_addr_start it)))"

end
