(* ===== verification/Mem_Chunks_Walk.thy ===== *)
theory Mem_Chunks_Walk
  imports Mem_Chunks Syscall_Facts
begin

text \<open>
  The iterator keeps the span of what is left, from either end, which is a locale interpreted for
  \<open>next_chunk\<close> and \<open>next_chunk_back\<close>; from it follow that the loop over pairs of chunks ends and
  what it leaves in memory.
\<close>

lemma chunk_region_cases:
  "find_region MM (it_access it) va = Inr r \<Longrightarrow> chunk_region MM it va = Ok r"
  "find_region MM (it_access it) va = Inl e \<Longrightarrow> \<exists>e'. chunk_region MM it va = Err e'"
  by (auto simp: chunk_region_def split: ebpf_error.splits)

locale chunk_source =
  fixes step :: "memory_mapping \<Rightarrow> chunk_iterator \<Rightarrow> (error_obj, chunk) outcome option \<times> chunk_iterator"
    and reverse :: bool
  assumes finished: "span MM reverse it None lo lo \<Longrightarrow> step MM it = (None, it)"
    and chunk: "region_laws MM \<Longrightarrow> span MM reverse it None lo hi \<Longrightarrow> lo < hi \<Longrightarrow>
      find_region MM (it_access it) (of_nat (if reverse then hi - 1 else lo)) = Inr r \<Longrightarrow>
      \<exists>c it'. step MM it = (Some (Ok c), it') \<and> span MM reverse it' (Some c) lo hi \<and>
        it_access it' = it_access it"
    and failure: "span MM reverse it None lo hi \<Longrightarrow> lo < hi \<Longrightarrow>
      find_region MM (it_access it) (of_nat (if reverse then hi - 1 else lo)) = Inl e \<Longrightarrow>
      \<exists>e' it'. step MM it = (Some (Err e'), it')"

lemma of_nat_unat_eq: "unat (x :: u64) = n \<Longrightarrow> of_nat n = x"
  by auto

interpretation forward: chunk_source next_chunk False
proof
  fix MM it lo
  assume "span MM False it None lo lo"
  then show "next_chunk MM it = (None, it)"
    by (auto simp: span_def next_chunk_def word_unat_eq_iff)
next
  fix MM it lo hi r
  assume laws: "region_laws MM" and span: "span MM False it None lo hi" and less: "lo < hi"
    and r: "find_region MM (it_access it) (of_nat (if False then hi - 1 else lo)) = Inr r"
  have at: "unat (vm_addr_start it) = lo" "unat (vm_addr_end it) = hi" "of_nat lo = vm_addr_start it"
    using span by (auto simp: span_def)
  then have found: "find_region MM (it_access it) (vm_addr_start it) = Inr r"
    using r by simp
  with laws have bounds: "unat (region_vm_addr r) \<le> lo" "lo < unat (region_vm_addr_end r)"
    using at unfolding region_laws_def word_le_nat_alt word_less_nat_alt by metis+
  have neq: "vm_addr_start it \<noteq> vm_addr_end it"
    using at less by auto
  show "\<exists>c it'. next_chunk MM it = (Some (Ok c), it') \<and> span MM False it' (Some c) lo hi \<and>
      it_access it' = it_access it"
    using found bounds at less span neq chunk_region_cases(1)[OF found]
    by (auto simp: next_chunk_def Let_def span_def in_region_def unat_saturating_sub word_le_nat_alt)
next
  fix MM it lo hi e
  assume span: "span MM False it None lo hi" "lo < hi"
    and e: "find_region MM (it_access it) (of_nat (if False then hi - 1 else lo)) = Inl e"
  then have "of_nat lo = vm_addr_start it" "vm_addr_start it \<noteq> vm_addr_end it"
    by (auto simp: span_def)
  with e show "\<exists>e' it'. next_chunk MM it = (Some (Err e'), it')"
    using chunk_region_cases(2)[of MM it "vm_addr_start it" e] by (auto simp: next_chunk_def)
qed

interpretation backward: chunk_source next_chunk_back True
proof
  fix MM it lo
  assume "span MM True it None lo lo"
  then show "next_chunk_back MM it = (None, it)"
    by (auto simp: span_def next_chunk_back_def word_unat_eq_iff)
next
  fix MM it lo hi r
  assume laws: "region_laws MM" and span: "span MM True it None lo hi" and less: "lo < hi"
    and r: "find_region MM (it_access it) (of_nat (if True then hi - 1 else lo)) = Inr r"
  have at: "unat (vm_addr_start it) = lo" "unat (vm_addr_end it) = hi"
    using span by (auto simp: span_def)
  then have last: "unat (saturating_sub (vm_addr_end it) 1) = hi - 1"
    by (simp add: unat_saturating_sub)
  then have found: "find_region MM (it_access it) (saturating_sub (vm_addr_end it) 1) = Inr r"
    using r of_nat_unat_eq[OF last] by simp
  with laws have bounds: "unat (region_vm_addr r) \<le> hi - 1" "hi - 1 < unat (region_vm_addr_end r)"
    using last unfolding region_laws_def word_le_nat_alt word_less_nat_alt by metis+
  have neq: "vm_addr_start it \<noteq> vm_addr_end it"
    using at less by auto
  show "\<exists>c it'. next_chunk_back MM it = (Some (Ok c), it') \<and> span MM True it' (Some c) lo hi \<and>
      it_access it' = it_access it"
    using found bounds at less span neq chunk_region_cases(1)[OF found]
    by (auto simp: next_chunk_back_def Let_def span_def in_region_def unat_saturating_sub word_le_nat_alt)
next
  fix MM it lo hi e
  assume span: "span MM True it None lo hi" "lo < hi"
    and e: "find_region MM (it_access it) (of_nat (if True then hi - 1 else lo)) = Inl e"
  then have last: "unat (saturating_sub (vm_addr_end it) 1) = hi - 1" "vm_addr_start it \<noteq> vm_addr_end it"
    by (auto simp: span_def unat_saturating_sub)
  with e show "\<exists>e' it'. next_chunk_back MM it = (Some (Err e'), it')"
    using chunk_region_cases(2)[of MM it "saturating_sub (vm_addr_end it) 1" e] of_nat_unat_eq[OF last(1)]
    by (auto simp: next_chunk_back_def)
qed

subsection \<open>One round\<close>

context chunk_source
begin

lemma fetch:
  assumes "region_laws MM" "span MM reverse it ch lo hi"
  shows "(case ch of Some c \<Rightarrow> (Some (Ok c), it) | None \<Rightarrow> step MM it) =
      (if lo = hi then (None, it) else (case ch of Some c \<Rightarrow> (Some (Ok c), it) | None \<Rightarrow> step MM it)) \<and>
    (lo < hi \<longrightarrow>
      (\<exists>c it'. (case ch of Some c \<Rightarrow> (Some (Ok c), it) | None \<Rightarrow> step MM it) = (Some (Ok c), it') \<and>
        span MM reverse it' (Some c) lo hi \<and> it_access it' = it_access it) \<or>
      (\<exists>e e' it'. (case ch of Some c \<Rightarrow> (Some (Ok c), it) | None \<Rightarrow> step MM it) = (Some (Err e'), it') \<and>
        find_region MM (it_access it) (of_nat (if reverse then hi - 1 else lo)) = Inl e))"
proof (cases ch)
  case None
  then show ?thesis
    using assms finished chunk[of MM it lo hi] failure[of MM it lo hi]
    by (cases "find_region MM (it_access it) (of_nat (if reverse then hi - 1 else lo))") auto
next
  case (Some c)
  then have "lo < hi"
    using assms(2) by (auto simp: span_def word_le_nat_alt split: if_splits)
  with Some assms(2) show ?thesis
    by auto
qed

end

lemma memory_chunk_step:
  "memory_chunk MM False it ch = (case ch of Some c \<Rightarrow> (Some (Ok c), it) | None \<Rightarrow> next_chunk MM it)"
  "memory_chunk MM True it ch = (case ch of Some c \<Rightarrow> (Some (Ok c), it) | None \<Rightarrow> next_chunk_back MM it)"
  by (simp_all add: memory_chunk_def split: option.split)

lemma memory_chunk_finished:
  "region_laws MM \<Longrightarrow> span MM reverse it ch lo lo \<Longrightarrow> memory_chunk MM reverse it ch = (None, it)"
  using forward.fetch[of MM it ch lo lo] backward.fetch[of MM it ch lo lo]
  by (cases reverse) (simp_all add: memory_chunk_step)

lemma memory_chunk_some:
  assumes "region_laws MM" "span MM reverse it ch lo hi" "lo < hi"
  obtains c it' where "memory_chunk MM reverse it ch = (Some (Ok c), it')"
      "span MM reverse it' (Some c) lo hi" "it_access it' = it_access it"
  | e e' it' where "memory_chunk MM reverse it ch = (Some (Err e'), it')"
      "find_region MM (it_access it) (of_nat (if reverse then hi - 1 else lo)) = Inl e"
  using assms forward.fetch[of MM it ch lo hi] backward.fetch[of MM it ch lo hi]
  by (cases reverse) (auto simp: memory_chunk_step)

lemma memory_chunk_ok:
  assumes "region_laws MM" "span MM reverse it ch lo hi" "lo < hi"
    and "find_region MM (it_access it) (of_nat (if reverse then hi - 1 else lo)) = Inr r"
  shows "\<exists>c it'. memory_chunk MM reverse it ch = (Some (Ok c), it') \<and>
    span MM reverse it' (Some c) lo hi \<and> it_access it' = it_access it"
  by (rule memory_chunk_some[OF assms(1-3)]) (use assms(4) in auto)

lemma chunk_length: "span MM reverse it (Some c) lo hi \<Longrightarrow> 0 < snd (snd c) \<and> snd (snd c) \<le> hi - lo"
  by (cases c) (auto simp: span_def word_le_nat_alt split: if_splits)

text \<open>The first or the last \<open>k\<close> addresses of a chunk: where they are, and what is left.\<close>

lemma chunk_consume:
  assumes "span MM reverse it (Some c) lo hi" "0 < k" "k \<le> snd (snd c)"
  shows "chunk_position reverse c k = of_nat (if reverse then hi - k else lo)"
    "in_region MM (it_access it) (fst c) (if reverse then hi - k else lo) (if reverse then hi else lo + k)"
    "span MM reverse it (chunk_rest reverse c k) (if reverse then lo else lo + k) (if reverse then hi - k else hi)"
proof -
  obtain r a n where c: "c = (r, a, n)"
    by (cases c)
  have n: "0 < n" "k \<le> n" "unat a + n \<le> hi" "hi < 2 ^ 64" "lo \<le> unat a"
    using assms c by (auto simp: span_def word_le_nat_alt split: if_splits)
  then have small: "unat (of_nat n :: u64) = n" "unat (of_nat k :: u64) = k"
    by (simp_all add: unat_of_nat_u64)
  note sat = unat_saturating_add unat_saturating_sub small
  have pos: "unat (chunk_position reverse c k) = (if reverse then hi - k else lo)"
    using assms(1) c n by (auto simp: chunk_position_def span_def sat)
  then show "chunk_position reverse c k = of_nat (if reverse then hi - k else lo)"
    using of_nat_unat_eq[OF pos] by simp
  show "in_region MM (it_access it) (fst c) (if reverse then hi - k else lo) (if reverse then hi else lo + k)"
    using assms(1) c n by (auto simp: span_def in_region_def)
  show "span MM reverse it (chunk_rest reverse c k) (if reverse then lo else lo + k) (if reverse then hi - k else hi)"
    using assms(1,2) c n by (auto simp: span_def in_region_def chunk_rest_def Let_def sat)
qed

text \<open>The loop ends: every round processes at least one byte of both ranges.\<close>

lemma pair_loop_ends:
  assumes "region_laws MM"
  shows "span MM reverse src_it src_ch lo hi \<Longrightarrow> span MM reverse dst_it dst_ch lo' hi' \<Longrightarrow>
    hi - lo = hi' - lo' \<Longrightarrow> hi - lo < fuel \<Longrightarrow>
    pair_loop fuel MM reverse deflt work src_it dst_it src_ch dst_ch m \<noteq> None"
proof (induction fuel arbitrary: src_it src_ch lo hi dst_it dst_ch lo' hi' m)
  case (Suc fuel)
  note spans = Suc.prems(1,2)
  have "lo \<le> hi" "lo' \<le> hi'"
    using spans by (auto simp: span_def)
  show ?case
  proof (cases "lo = hi")
    case True
    with memory_chunk_finished[OF assms] spans(1) show ?thesis
      by simp
  next
    case False
    then have less: "lo < hi" "lo' < hi'"
      using \<open>lo \<le> hi\<close> Suc.prems(3) by simp_all
    show ?thesis
    proof (rule memory_chunk_some[OF assms spans(1) less(1)])
      fix c it assume src: "memory_chunk MM reverse src_it src_ch = (Some (Ok c), it)"
        "span MM reverse it (Some c) lo hi"
      show ?thesis
      proof (rule memory_chunk_some[OF assms spans(2) less(2)])
        fix c' it' assume dst: "memory_chunk MM reverse dst_it dst_ch = (Some (Ok c'), it')"
          "span MM reverse it' (Some c') lo' hi'"
        let ?k = "min (snd (snd c)) (snd (snd c'))"
        have k: "0 < ?k" "?k \<le> hi - lo"
          using chunk_length[OF src(2)] chunk_length[OF dst(2)] by auto
        have next_spans: "span MM reverse it (chunk_rest reverse c ?k)
            (if reverse then lo else lo + ?k) (if reverse then hi - ?k else hi)"
          "span MM reverse it' (chunk_rest reverse c' ?k)
            (if reverse then lo' else lo' + ?k) (if reverse then hi' - ?k else hi')"
          using chunk_consume(3)[OF src(2) k(1)] chunk_consume(3)[OF dst(2) k(1)] by simp_all
        have more: "pair_loop fuel MM reverse deflt work it it' (chunk_rest reverse c ?k)
            (chunk_rest reverse c' ?k) n \<noteq> None" for n
          by (rule Suc.IH[OF next_spans]) (use Suc.prems(3,4) k less in auto)
        have "process_pair reverse work c c' m = (Ok r, n) \<Longrightarrow>
            r = (chunk_rest reverse c ?k, chunk_rest reverse c' ?k)" for r n
          by (auto simp: process_pair_def Let_def act_bind_eq_Ok)
        with src(1) dst(1) more show ?thesis
          by (auto split: prod.splits outcome.splits)
      qed (use src in simp)
    qed simp
  qed
qed simp

subsection \<open>What the copy leaves\<close>

text \<open>
  \<open>placed MM acc H\<close>: every region lies contiguously in the host's memory, the address \<open>a\<close> of the
  virtual machine at \<open>H a\<close>.  Two regions need not be adjacent in the host.
\<close>

definition placed :: "memory_mapping \<Rightarrow> access_type \<Rightarrow> (nat \<Rightarrow> u64) \<Rightarrow> bool" where
  "placed MM acc H \<longleftrightarrow>
     (\<forall>r lo k. in_region MM acc r lo (lo + k) \<longrightarrow> 0 < k \<longrightarrow>
        vm_to_host r (of_nat lo) (of_nat k) = Inr (H lo) \<and> (\<forall>j<k. H (lo + j) = H lo + of_nat j))"

definition covered :: "memory_mapping \<Rightarrow> access_type \<Rightarrow> nat \<Rightarrow> nat \<Rightarrow> bool" where
  "covered MM acc a n \<longleftrightarrow> (\<forall>i<n. \<exists>r. find_region MM acc (of_nat (a + i)) = Inr r)"

text \<open>The bytes with the indices \<open>K\<close> have been copied, and nothing else has changed.\<close>

definition copied ::
  "(nat \<Rightarrow> u64) \<Rightarrow> nat \<Rightarrow> nat \<Rightarrow> nat set \<Rightarrow> host_memory \<Rightarrow> host_memory \<Rightarrow> bool" where
  "copied H d s K h0 h \<longleftrightarrow>
     (\<forall>i\<in>K. h (H (d + i)) = h0 (H (s + i))) \<and> (\<forall>x. (\<forall>i\<in>K. x \<noteq> H (d + i)) \<longrightarrow> h x = h0 x)"

lemma copied_step:
  assumes "copied H d s K h0 h" "k < 2 ^ 64"
    and to: "\<forall>j<k. H (d + P + j) = H (d + P) + of_nat j"
    and source: "\<forall>j<k. H (s + P + j) = H (s + P) + of_nat j"
    and fresh: "\<And>i j. i \<in> K \<Longrightarrow> j < k \<Longrightarrow> H (s + P + j) \<noteq> H (d + i) \<and> H (d + P + j) \<noteq> H (d + i)"
  shows "copied H d s (K \<union> {P..<P + k}) h0 (write_bytes (H (d + P)) (read_bytes h (H (s + P)) k) h)"
proof -
  let ?h = "write_bytes (H (d + P)) (read_bytes h (H (s + P)) k) h"
  have block: "in_block (H (d + P)) k x \<longleftrightarrow> (\<exists>j<k. x = H (d + P + j))" for x
    using to assms(2) by (auto elim!: in_blockE intro: in_block_add[OF _ less_imp_le[OF assms(2)]])
  have new: "?h (H (d + (P + j))) = h0 (H (s + (P + j)))" if j: "j < k" for j
  proof -
    have "?h (H (d + P + j)) = h (H (s + P + j))"
      using j to source assms(2) by (simp add: write_bytes_at)
    also have "\<dots> = h0 (H (s + P + j))"
      using assms(1) fresh j by (auto simp: copied_def)
    finally show ?thesis
      by (simp add: add.assoc)
  qed
  have old: "?h x = h x" if "\<forall>j<k. x \<noteq> H (d + P + j)" for x
  proof -
    have "\<not> in_block (H (d + P)) (length (read_bytes h (H (s + P)) k)) x"
      using that block by auto
    then show ?thesis
      by (rule write_bytes_outside)
  qed
  have "?h (H (d + i)) = h0 (H (s + i))" if "i \<in> K \<union> {P..<P + k}" for i
  proof (cases "i \<in> K")
    case True
    then have "?h (H (d + i)) = h (H (d + i))"
      using fresh by (intro old) metis
    with True assms(1) show ?thesis
      by (simp add: copied_def)
  next
    case False
    with that obtain j where "j < k" "i = P + j"
      by (metis UnE atLeastLessThan_iff le_Suc_ex nat_add_left_cancel_less)
    with new show ?thesis
      by simp
  qed
  moreover have "?h x = h0 x" if x: "\<forall>i \<in> K \<union> {P..<P + k}. x \<noteq> H (d + i)" for x
  proof -
    have "?h x = h x"
      using x by (intro old) (auto simp: add.assoc)
    with x assms(1) show ?thesis
      by (simp add: copied_def)
  qed
  ultimately show ?thesis
    by (simp add: copied_def)
qed

text \<open>One round of \<open>memmove_non_contiguous\<close>.\<close>

lemma process_pair_copies:
  assumes "span MM reverse src_it (Some c) lo hi" "span MM reverse dst_it (Some c') lo' hi'"
    and "it_access src_it = Load" "it_access dst_it = Store" "placed MM Load H" "placed MM Store H"
    and k: "k = min (snd (snd c)) (snd (snd c'))"
    and "sp = (if reverse then hi - k else lo)" "dp = (if reverse then hi' - k else lo')"
  shows "process_pair reverse copy_work c c' m =
      (Ok (chunk_rest reverse c k, chunk_rest reverse c' k),
       m\<lparr>host_mem := write_bytes (H dp) (read_bytes (host_mem m) (H sp) k) (host_mem m)\<rparr>) \<and>
    (\<forall>j<k. H (sp + j) = H sp + of_nat j) \<and> (\<forall>j<k. H (dp + j) = H dp + of_nat j)"
proof -
  have pos: "0 < k" "k \<le> snd (snd c)" "k \<le> snd (snd c')" "k \<le> hi - lo" "k \<le> hi' - lo'"
    using chunk_length[OF assms(1)] chunk_length[OF assms(2)] k by auto
  note src = chunk_consume[OF assms(1) pos(1,2)] and dst = chunk_consume[OF assms(2) pos(1,3)]
  have "in_region MM Load (fst c) sp (sp + k)" "in_region MM Store (fst c') dp (dp + k)"
    using src(2) dst(2) pos assms(3,4,8,9) by (simp_all split: if_splits)
  then have "vm_to_host (fst c) (of_nat sp) (of_nat k) = Inr (H sp) \<and> (\<forall>j<k. H (sp + j) = H sp + of_nat j)"
    "vm_to_host (fst c') (of_nat dp) (of_nat k) = Inr (H dp) \<and> (\<forall>j<k. H (dp + j) = H dp + of_nat j)"
    using assms(5,6) pos(1) unfolding placed_def by blast+
  then show ?thesis
    using src(1) dst(1) assms(8,9)
    by (simp add: process_pair_def Let_def chunk_host_def copy_work_def ptr_copy_def flip: k)
qed

text \<open>
  The whole loop.  The indices still to copy are those from \<open>p\<close> to \<open>q\<close>: going forward \<open>q\<close> is the
  length, in reverse \<open>p\<close> is 0.  A source byte that is still to be read is never one that has been
  written, because the direction was chosen by which range starts first.
\<close>

lemma pair_loop_copies:
  assumes laws: "region_laws MM" "placed MM Load H" "placed MM Store H"
    and cover: "covered MM Load s n" "covered MM Store d n"
    and inj: "inj_on H ({s..<s + n} \<union> {d..<d + n})"
    and direction: "reverse \<longleftrightarrow> s \<le> d \<and> d < s + n"
    and small: "n < 2 ^ 64"
  shows "p \<le> q \<Longrightarrow> q \<le> n \<Longrightarrow> (if reverse then p = 0 else q = n) \<Longrightarrow>
    span MM reverse src_it src_ch (s + p) (s + q) \<Longrightarrow> span MM reverse dst_it dst_ch (d + p) (d + q) \<Longrightarrow>
    it_access src_it = Load \<Longrightarrow> it_access dst_it = Store \<Longrightarrow>
    copied H d s ({..<n} - {p..<q}) h0 (host_mem m) \<Longrightarrow> q - p < fuel \<Longrightarrow>
    \<exists>h. pair_loop fuel MM reverse 0 copy_work src_it dst_it src_ch dst_ch m = Some (Ok 0, m\<lparr>host_mem := h\<rparr>) \<and>
      copied H d s {..<n} h0 h"
proof (induction fuel arbitrary: p q src_it src_ch dst_it dst_ch m)
  case (Suc fuel)
  note spans = Suc.prems(4,5) and accs = Suc.prems(6,7)
  show ?case
  proof (cases "p = q")
    case True
    with memory_chunk_finished[OF laws(1)] spans(1) Suc.prems(8) show ?thesis
      by (intro exI[of _ "host_mem m"]) simp
  next
    case False
    then have less: "p < q" "s + p < s + q" "d + p < d + q"
      using Suc.prems(1) by simp_all
    have index: "(if reverse then s + q - 1 else s + p) = s + (if reverse then q - 1 else p)"
      "(if reverse then d + q - 1 else d + p) = d + (if reverse then q - 1 else p)"
      "(if reverse then q - 1 else p) < n"
      using less Suc.prems(2) by (cases reverse; simp)+
    obtain r r' where available: "find_region MM Load (of_nat (if reverse then s + q - 1 else s + p)) = Inr r"
      "find_region MM Store (of_nat (if reverse then d + q - 1 else d + p)) = Inr r'"
      using cover index(3) unfolding covered_def index(1,2) by blast
    obtain c it where src: "memory_chunk MM reverse src_it src_ch = (Some (Ok c), it)"
      "span MM reverse it (Some c) (s + p) (s + q)" "it_access it = Load"
      using memory_chunk_ok[OF laws(1) spans(1) less(2)] available(1) accs by auto
    obtain c' it' where dst: "memory_chunk MM reverse dst_it dst_ch = (Some (Ok c'), it')"
      "span MM reverse it' (Some c') (d + p) (d + q)" "it_access it' = Store"
      using memory_chunk_ok[OF laws(1) spans(2) less(3)] available(2) accs by auto
    define k where "k = min (snd (snd c)) (snd (snd c'))"
    have k: "0 < k" "k \<le> q - p" "k \<le> snd (snd c)" "k \<le> snd (snd c')"
      using chunk_length[OF src(2)] chunk_length[OF dst(2)] by (auto simp: k_def)
    define P where "P = (if reverse then q - k else p)"
    define p' where "p' = (if reverse then p else p + k)"
    define q' where "q' = (if reverse then q - k else q)"
    have at: "s + P = (if reverse then s + q - k else s + p)" "d + P = (if reverse then d + q - k else d + p)"
      using k less by (auto simp: P_def)
    let ?m = "m\<lparr>host_mem := write_bytes (H (d + P)) (read_bytes (host_mem m) (H (s + P)) k) (host_mem m)\<rparr>"
    note round = process_pair_copies[OF src(2) dst(2) src(3) dst(3) laws(2,3) k_def at, of m]
    have next_spans: "span MM reverse it (chunk_rest reverse c k) (s + p') (s + q')"
      "span MM reverse it' (chunk_rest reverse c' k) (d + p') (d + q')"
      using chunk_consume(3)[OF src(2) k(1,3)] chunk_consume(3)[OF dst(2) k(1,4)] k(2) less
      by (auto simp: p'_def q'_def add.assoc split: if_splits)
    have K: "{..<n} - {p'..<q'} = ({..<n} - {p..<q}) \<union> {P..<P + k}"
      using k less Suc.prems(2,3) by (auto simp: p'_def q'_def P_def)
    have fresh: "H (s + P + j) \<noteq> H (d + i) \<and> H (d + P + j) \<noteq> H (d + i)"
      if "i \<in> {..<n} - {p..<q}" "j < k" for i j
    proof -
      have j: "p \<le> P + j" "P + j < q" "q \<le> n"
        using that(2) k(2) less(1) Suc.prems(2) by (cases reverse; simp add: P_def)+
      have i: "i < n" "if reverse then q \<le> i else i < p"
        using that(1) Suc.prems(3) by (simp_all split: if_splits)
      have "P + j \<noteq> i"
        using i j by (auto split: if_splits)
      have "s + P + j \<noteq> d + i"
      proof (cases reverse)
        case True
        with i j(2) direction show ?thesis by simp
      next
        case False
        then have "d < s \<or> s + n \<le> d"
          using direction by auto
        then show ?thesis
          using False i j by auto
      qed
      moreover have "d + P + j \<noteq> d + i"
        using \<open>P + j \<noteq> i\<close> by simp
      moreover have "s + P + j \<in> {s..<s + n} \<union> {d..<d + n}" "d + P + j \<in> {s..<s + n} \<union> {d..<d + n}"
        "d + i \<in> {s..<s + n} \<union> {d..<d + n}"
        using i j by simp_all
      ultimately show ?thesis
        by (simp only: inj_on_eq_iff[OF inj]) simp
    qed
    have "copied H d s ({..<n} - {p'..<q'}) h0 (host_mem ?m)"
      unfolding K using round k less Suc.prems(2) small
      by (simp, intro copied_step[OF Suc.prems(8) _ _ _ fresh]) simp_all
    then have "\<exists>h. pair_loop fuel MM reverse 0 copy_work it it' (chunk_rest reverse c k) (chunk_rest reverse c' k) ?m
        = Some (Ok 0, ?m\<lparr>host_mem := h\<rparr>) \<and> copied H d s {..<n} h0 h"
      using k less Suc.prems(2,3,9) src(3) dst(3)
      by (intro Suc.IH[OF _ _ _ next_spans]) (auto simp: p'_def q'_def)
    with round src(1) dst(1) show ?thesis
      by simp
  qed
qed simp

end
