(* ===== verification/Mem_Chunks_Properties.thy ===== *)
theory Mem_Chunks_Properties
  imports Mem_Chunks_Walk Syscall_Properties
begin

text \<open>
  The properties of the copy between ranges that need not be contiguous in the host, and a mapping
  with two regions that are adjacent for the program and apart in the host.
\<close>

definition low_region :: vm_region where
  "low_region = \<lparr>region_vm_addr = 0, region_vm_addr_end = 16, vm_to_host = (\<lambda>a n. Inr a)\<rparr>"

definition high_region :: vm_region where
  "high_region = \<lparr>region_vm_addr = 16, region_vm_addr_end = 4096, vm_to_host = (\<lambda>a n. Inr (a + 1000))\<rparr>"

definition two_regions :: memory_mapping where
  "two_regions =
     \<lparr>map_addr = (\<lambda>acc va len. Inl (AccessViolation acc va len ''unknown'')),
      find_region = (\<lambda>acc va. if va < 16 then Inr low_region else if va < 4096 then Inr high_region
        else Inl (AccessViolation acc va 0 ''unknown''))\<rparr>"

definition two_hosts :: "nat \<Rightarrow> u64" where
  "two_hosts a = (if a < 16 then of_nat a else of_nat a + 1000)"

lemma two_regions_laws: "region_laws two_regions"
  by (auto simp: region_laws_def two_regions_def low_region_def high_region_def not_less split: if_splits)

lemma two_regions_placed: "placed two_regions acc two_hosts"
  by (auto simp: placed_def in_region_def two_regions_def low_region_def high_region_def two_hosts_def
      split: if_splits)

lemma two_regions_covered: "a + n \<le> 4096 \<Longrightarrow> covered two_regions acc a n"
  by (auto simp: covered_def two_regions_def word_less_nat_alt unat_of_nat_u64 simp flip: of_nat_add)

lemma two_hosts_inj: "inj_on two_hosts {..<4096}"
proof (rule inj_on_inverseI)
  fix a :: nat
  assume "a \<in> {..<4096}"
  then have "unat (two_hosts a) = (if a < 16 then a else a + 1000)"
    using unat_of_nat_u64[of a] unat_of_nat_u64[of "a + 1000"] by (simp add: two_hosts_def)
  then show "(if unat (two_hosts a) < 16 then unat (two_hosts a) else unat (two_hosts a) - 1000) = a"
    by simp
qed

text \<open>
  C26.  The walk over two ranges ends: with more fuel than bytes, \<open>iter_memory_pair_chunks\<close> returns,
  in either direction, whatever the closure does and whichever addresses are mapped, if a region
  that the mapping finds for an address contains it (a region that does not would stop the walk).
\<close>

theorem iter_memory_pair_chunks_terminates:
  assumes "region_laws MM" and "unat n < fuel"
  shows "iter_memory_pair_chunks fuel deflt src_access src dst_access dst n MM reverse work m \<noteq> None"
proof -
  have new: "chunk_iterator_new acc a n = Ok it \<Longrightarrow> span MM reverse it None (unat a) (unat a + unat n)" for acc a it
    by (auto simp: chunk_iterator_new_def checked_add_eq_Some span_def unat_add_u64 word_le_nat_alt)
  show ?thesis
    using pair_loop_ends[OF assms(1) new new] assms(2)
    by (auto simp: iter_memory_pair_chunks_def split: outcome.split)
qed

theorem iter_memory_pair_chunks_terminates_witness:
  "iter_memory_pair_chunks 9 0 Load 4090 Store 0 8 two_regions False copy_work sample_machine \<noteq> None"
  by (rule iter_memory_pair_chunks_terminates[OF two_regions_laws]) simp

text \<open>
  C27.  \<open>memmove_non_contiguous\<close> is a memmove on the program's addresses: every destination byte holds
  what the source byte held before, also when the two ranges overlap and when regions cut them at
  different places, and no other byte of the host changes.  More fuel than bytes is enough.
\<close>

theorem memmove_non_contiguous_copies:
  assumes "region_laws MM" and "placed MM Load H" and "placed MM Store H"
    and "covered MM Load (unat src) (unat n)" and "covered MM Store (unat dst) (unat n)"
    and "inj_on H ({unat src ..< unat src + unat n} \<union> {unat dst ..< unat dst + unat n})"
    and "unat src + unat n < 2 ^ 64" and "unat dst + unat n < 2 ^ 64" and "unat n < fuel"
  shows "\<exists>h. memmove_non_contiguous fuel dst src n MM m = Some (Ok 0, m\<lparr>host_mem := h\<rparr>) \<and>
    (\<forall>i < unat n. h (H (unat dst + i)) = host_mem m (H (unat src + i))) \<and>
    (\<forall>x. (\<forall>i < unat n. x \<noteq> H (unat dst + i)) \<longrightarrow> h x = host_mem m x)"
proof -
  let ?reverse = "dst - src < n"
  have direction: "?reverse \<longleftrightarrow> unat src \<le> unat dst \<and> unat dst < unat src + unat n"
    using assms(7) by (auto simp: word_less_nat_alt unat_sub_if_size word_size)
  let ?it = "\<lambda>acc a. \<lparr>it_access = acc, initial_vm_addr = a, vm_addr_start = a, vm_addr_end = a + n, it_len = n\<rparr>"
  have new: "chunk_iterator_new acc a n = Ok (?it acc a)"
    and span: "span MM ?reverse (?it acc a) None (unat a + 0) (unat a + unat n)"
    if "unat a + unat n < 2 ^ 64" for acc a
    using that by (simp_all add: chunk_iterator_new_def checked_add_def span_def unat_add_u64 word_le_nat_alt)
  have "copied H (unat dst) (unat src) ({..<unat n} - {0..<unat n}) (host_mem m) (host_mem m)"
    by (simp add: copied_def lessThan_atLeast0)
  then have "\<exists>h. pair_loop fuel MM ?reverse 0 copy_work (?it Load src) (?it Store dst) None None m =
      Some (Ok 0, m\<lparr>host_mem := h\<rparr>) \<and> copied H (unat dst) (unat src) {..<unat n} (host_mem m) h"
    using assms(9)
    by (intro pair_loop_copies[OF assms(1-6) direction _ _ _ _ span[OF assms(7)] span[OF assms(8)]]) simp_all
  then show ?thesis
    using new[OF assms(7)] new[OF assms(8)]
    by (auto simp: memmove_non_contiguous_def iter_memory_pair_chunks_def copied_def)
qed

theorem memmove_non_contiguous_copies_witness:
  "\<exists>h. memmove_non_contiguous 9 12 10 8 two_regions sample_machine = Some (Ok 0, sample_machine\<lparr>host_mem := h\<rparr>) \<and>
    h 15 = host_mem sample_machine 13 \<and> h 1016 = host_mem sample_machine 14 \<and>
    h 1019 = host_mem sample_machine 1017"
proof -
  have "inj_on two_hosts ({10..<18} \<union> {12..<20})"
    by (rule inj_on_subset[OF two_hosts_inj]) auto
  then obtain h where h: "memmove_non_contiguous 9 12 10 8 two_regions sample_machine =
      Some (Ok 0, sample_machine\<lparr>host_mem := h\<rparr>)"
    "\<forall>i<8. h (two_hosts (12 + i)) = host_mem sample_machine (two_hosts (10 + i))"
    using memmove_non_contiguous_copies[OF two_regions_laws two_regions_placed two_regions_placed,
        of 10 8 12 9 sample_machine] by (auto simp: two_regions_covered)
  from h(2)[rule_format, of 3] h(2)[rule_format, of 4] h(2)[rule_format, of 7] h(1) show ?thesis
    by (auto simp: two_hosts_def)
qed

end
