(* ===== verification/Message_Samples.thy ===== *)
theory Message_Samples
  imports Simulate_Run
begin

text \<open>
  Concrete parameters of the message side: seven ids, a node that knows the two loaders and an
  upgradeable program, a runtime whose programs are their verified bytes, and a message.
\<close>

definition sample_ids :: sdk_ids where
  "sample_ids =
     \<lparr>native_loader_id = pubkey_repeat 1, sysvar_program_id = pubkey_repeat 2,
      sysvar_instructions_id = pubkey_repeat 3, loader_v4_id = pubkey_repeat 4,
      bpf_loader_upgradeable_id = pubkey_repeat 5, bpf_loader_id = pubkey_repeat 6,
      bpf_loader_deprecated_id = pubkey_repeat 7\<rparr>"

definition loader_account :: account where
  "loader_account = account_default\<lparr>owner := pubkey_repeat 1\<rparr>"

definition upgradeable_program :: account where
  "upgradeable_program = account_default\<lparr>data := [2], owner := pubkey_repeat 5\<rparr>"

definition upgradeable_data :: account where
  "upgradeable_data = account_default\<lparr>data := [3, 7, 8], owner := pubkey_repeat 5\<rparr>"

text \<open>The node counts its requests.\<close>

definition sample_node :: "nat rpc_client" where
  "sample_node key n =
     (if key = pubkey_repeat 6 \<or> key = pubkey_repeat 5 then Inr loader_account
      else if key = pubkey_repeat 30 then Inr upgradeable_program
      else if key = pubkey_repeat 31 then Inr upgradeable_data
      else if key = pubkey_repeat 8 then Inr account_default
      else Inl ''not found'', n + 1)"

definition sample_api ::
  "(unit, unit, unit, (pubkey \<times> (unit tombstone + bytes)) list, unit tombstone + bytes, pubkey list) program_api" where
  "sample_api =
     \<lparr>DEFAULT_SLOTS_PER_EPOCH = 432000, DELAY_VISIBILITY_SLOT_OFFSET = 1,
      size_of_programdata_metadata = 1, v4_program_data_offset = 1,
      environments = (\<lambda>c. ()), environments_for_epoch = (\<lambda>c e. ()),
      program_runtime_v1 = (\<lambda>e. ()), program_runtime_v2 = (\<lambda>e. ()),
      cache_extract = (\<lambda>c s missing batch first. (c, missing, batch)),
      cache_replenish = (\<lambda>c k p. (p, c)), batch_new = (\<lambda>s e. []),
      batch_replenish = (\<lambda>b k p. b @ [(k, p)]), store_tx_usage = (\<lambda>p n. p),
      new_tombstone = (\<lambda>s t. Inl t),
      load_program_from_bytes = (\<lambda>v bs own n s e r. if bs = [] then Inl InvalidArgument else Inr (Inr bs)),
      loaded_program_new = (\<lambda>i e s s' bs n. Some (Inr bs)),
      loaded_program_reload = (\<lambda>i e s s' bs n. None),
      delay_visibility_active = (\<lambda>f. False),
      v4_state = (\<lambda>bs. Inl InvalidAccountData),
      upgradeable_state = (\<lambda>bs. case bs of
          b # _ \<Rightarrow> if b = 2 then Inr (Program (pubkey_repeat 31))
            else if b = 3 then Inr (ProgramData 55 None) else Inl InvalidAccountData
        | [] \<Rightarrow> Inl InvalidAccountData)\<rparr>"

definition sample_runtime ::
  "(pubkey list, nat, nat, unit, unit tombstone + bytes, (pubkey \<times> (unit tombstone + bytes)) list,
    loaded_accounts, unit) runtime" where
  "sample_runtime =
     \<lparr>features_default = [], feature_activate = (\<lambda>fs f. f # fs), feature_active = (\<lambda>fs f. f \<in> set fs),
      sysvar_cache_default = 0, log_collector_new = 0, loaded_programs_new = (\<lambda>s e. ()),
      set_environments = (\<lambda>fs c. Some c), loaded_program_builtin = (\<lambda>s n e. Inr [0]),
      BUILTINS = [\<lparr>bp_feature_id = None, bp_program_id = pubkey_repeat 40, bp_name = ''system'', bp_entrypoint = ()\<rparr>,
        \<lparr>bp_feature_id = Some (pubkey_repeat 50), bp_program_id = pubkey_repeat 41, bp_name = ''vote'', bp_entrypoint = ()\<rparr>,
        \<lparr>bp_feature_id = Some (pubkey_repeat 51), bp_program_id = pubkey_repeat 42, bp_name = ''zk'', bp_entrypoint = ()\<rparr>],
      transaction_context_new = (\<lambda>accounts. accounts),
      process_message = (\<lambda>m is tc lg b p1 p2 fs sv. (Inr (), tc, 1, 5)),
      deconstruct_without_keys = (\<lambda>tc. Inr (map snd tc))\<rparr>"

definition sample_sdk :: "(u64, nat, nat, nat) command_sdk" where
  "sample_sdk =
     \<lparr>pubkey_literal = (\<lambda>s. pubkey_repeat 50), clock_id = pubkey_repeat 8, clock_deserialize = (\<lambda>bs. Inr 100),
      clock_slot = (\<lambda>c. c), set_clock = (\<lambda>sv c. sv + 1),
      bs58_decode = (\<lambda>s. Inr [9]),
      message_new = (\<lambda>ixs payer.
        \<lparr>account_keys = [pubkey_repeat 20, pubkey_repeat 30],
         instructions = [\<lparr>program_id_index = 0, ix_accounts = [1], ix_data = [9]\<rparr>]\<rparr>),
      construct_instructions_data = (\<lambda>m. []), recorded_content = (\<lambda>lg. lg)\<rparr>"

definition sample_args :: simulate_args where
  "sample_args =
     \<lparr>sim_program_id = pubkey_repeat 20, sim_program = ''program.so'', sim_instruction = ''A'',
      sim_account = [pubkey_repeat 30], sim_signer_account = [], sim_writable_account = [pubkey_repeat 30]\<rparr>"

definition sample_fetch :: "(nat fetch_state, account) source" where
  "sample_fetch = simulate_fetch sample_node (pubkey_repeat 20) (simulated_program sample_ids [7, 7])"

definition sample_start :: "nat fetch_state" where
  "sample_start = \<lparr>fetched = Map.empty, rpc_state = 0\<rparr>"

definition sample_message :: sanitized_message where
  "sample_message =
     \<lparr>account_keys = [pubkey_repeat 20, pubkey_repeat 30],
      instructions = [\<lparr>program_id_index = 0, ix_accounts = [1], ix_data = [9]\<rparr>]\<rparr>"

definition sample_loaded :: loaded_transaction where
  "sample_loaded =
     \<lparr>lt_accounts = [(pubkey_repeat 20, simulated_program sample_ids [7, 7]),
        (pubkey_repeat 30, upgradeable_program), (pubkey_repeat 6, loader_account)],
      program_indices = [[2, 0]], lt_rent = 0\<rparr>"

lemmas sample_message_defs = sample_ids_def sample_fetch_def sample_start_def sample_message_def
  sample_node_def simulate_fetch_def simulated_program_def unwrap_or_default_def

lemma sample_source: "account_source sample_fetch (simulate_settled (pubkey_repeat 20)
    (simulated_program sample_ids [7, 7]))"
  unfolding sample_fetch_def by (rule simulate_source.account_source_axioms)

lemma sample_keys [simp]:
  "native_loader_id sample_ids = pubkey_repeat 1" "sysvar_instructions_id sample_ids = pubkey_repeat 3"
  "loader_v4_id sample_ids = pubkey_repeat 4" "bpf_loader_upgradeable_id sample_ids = pubkey_repeat 5"
  "bpf_loader_id sample_ids = pubkey_repeat 6"
  by (simp_all add: sample_ids_def)

lemma sample_owners [simp]:
  "owner (simulated_program sample_ids elf) = pubkey_repeat 6" "owner loader_account = pubkey_repeat 1"
  "owner upgradeable_program = pubkey_repeat 5" "data upgradeable_program = [2]"
  "data upgradeable_data = [3, 7, 8]"
  by (simp_all add: simulated_program_def loader_account_def upgradeable_program_def upgradeable_data_def)

text \<open>The states of the closure while the message is loaded.\<close>

definition sample_second :: "nat fetch_state" where
  "sample_second = \<lparr>fetched = [pubkey_repeat 30 \<mapsto> upgradeable_program], rpc_state = 1\<rparr>"

definition sample_third :: "nat fetch_state" where
  "sample_third =
     \<lparr>fetched = [pubkey_repeat 30 \<mapsto> upgradeable_program, pubkey_repeat 6 \<mapsto> loader_account], rpc_state = 2\<rparr>"

lemma sample_answers:
  "sample_fetch (pubkey_repeat 20) s = (Some (simulated_program sample_ids [7, 7]), s)"
  "sample_fetch (pubkey_repeat 30) sample_start = (Some upgradeable_program, sample_second)"
  "sample_fetch (pubkey_repeat 6) sample_second = (Some loader_account, sample_third)"
  by (simp_all add: sample_fetch_def simulate_fetch_def sample_start_def sample_second_def sample_third_def
      sample_node_def unwrap_or_default_def)

lemmas owner_chain_numeral =
  owner_chain.simps(2)[of _ _ _ "pred_numeral k" for k, folded numeral_eq_Suc]

lemma sample_load:
  "load_transaction_accounts sample_ids instructions_data sample_fetch sample_message sample_start =
    (Ok sample_loaded, sample_third)"
proof -
  have "load_message_accounts sample_ids sample_fetch ix (account_keys sample_message) [] sample_start =
      (Ok [(pubkey_repeat 20, simulated_program sample_ids [7, 7]), (pubkey_repeat 30, upgradeable_program)],
       sample_second)" for ix
    by (simp add: sample_message_def require_account_run sample_answers)
  then show ?thesis
    by (simp add: load_transaction_accounts_def sample_message_def require_account_run sample_answers
        slice_from_def sample_loaded_def owner_chain_numeral Let_def)
qed

end
