(* ===== verification/Message_Properties.thy ===== *)
theory Message_Properties
  imports Message_Samples
begin

text \<open>
  The properties of the message side: loading a transaction, the source of accounts of the simulator,
  and the programs that are loaded.
\<close>

subsection \<open>Loading a transaction\<close>

text \<open>
  C29.  A loaded transaction: its accounts are those of the message, in the order of the message,
  followed by distinct owners of programs; every instruction has one list of indices, at most five,
  that leads from its program through the owners to one that the native loader owns, outermost first.
\<close>

theorem load_transaction_accounts_chains:
  assumes "load_transaction_accounts I instructions_data fetch msg g = (Ok lt, g')"
    and "n = length (account_keys msg)"
  shows "map fst (take n (lt_accounts lt)) = account_keys msg \<and>
    distinct (map fst (drop n (lt_accounts lt))) \<and>
    length (program_indices lt) = length (instructions msg) \<and>
    (\<forall>i < length (instructions msg). \<exists>chain. program_indices lt ! i = map of_nat (rev chain) \<and>
      length chain \<le> 5 \<and>
      is_chain I (lt_accounts lt) n (unat (program_id_index (instructions msg ! i))) chain)"
proof -
  obtain accs h where rest: "load_program_indices I fetch (length accs) (instructions msg) [] accs h =
      (Ok (program_indices lt, lt_accounts lt), g')"
    and keys: "map fst accs = account_keys msg" and len: "length accs = n"
    using assms by (elim load_transaction_accounts_parts) simp
  obtain ext chains where "lt_accounts lt = accs @ ext"
    "program_indices lt = map (\<lambda>js. map of_nat (rev js)) chains"
    "list_all2 (\<lambda>ix js. length js \<le> 5 \<and> is_chain I (lt_accounts lt) (length accs)
        (unat (program_id_index ix)) js) (instructions msg) chains"
    "distinct (map fst (drop (length accs) (lt_accounts lt)))"
    using load_program_indices_ok[OF rest] by auto
  then show ?thesis
    using keys len by (auto simp: list_all2_conv_all_nth intro!: exI)
qed

theorem load_transaction_accounts_chains_witness:
  "map fst (take 2 (lt_accounts sample_loaded)) = [pubkey_repeat 20, pubkey_repeat 30] \<and>
   (\<exists>chain. program_indices sample_loaded ! 0 = map of_nat (rev chain) \<and> length chain \<le> 5 \<and>
     is_chain sample_ids (lt_accounts sample_loaded) 2 0 chain)"
  using load_transaction_accounts_chains[OF sample_load[of "\<lambda>msg. []"] refl]
  by (simp add: sample_message_def numeral_2_eq_2)

text \<open>
  C30.  The two halves of the loader fit together: when the accounts of a message were loaded and the cache was
  replenished for it, from a source that keeps its answers, the batch that the message processor is given
  has every account of the message that is owned by a loader, so the program of every instruction, and
  every builtin.  The one exception is the instructions sysvar, which the loader builds itself.
\<close>

theorem programs_provided:
  assumes "account_source fetch settled" and "batch_laws A has"
    and "load_for_message I instructions_data A fetch slot message l = (Ok (lt, batch), l')"
    and "i < length (account_keys message)" and "lt_accounts lt ! i = (key, program)"
    and "key \<noteq> sysvar_instructions_id I" and "owner program \<in> set (ld_program_owners l)"
  shows "account_keys message ! i = key \<and> has batch key \<and> (\<forall>k \<in> set (ld_builtin_programs l). has batch k)"
proof -
  obtain g where load: "load_transaction_accounts I instructions_data fetch message (ld_g l) = (Ok lt, g)"
    and replenish: "replenish_program_cache I A fetch (WorkingSlot slot) [message] (l\<lparr>ld_g := g\<rparr>) = (Ok batch, l')"
    using assms(3) by (auto simp: load_for_message_def act_bind_eq_Ok on_source_Ok)
  obtain missing0 g' where collect: "collect_missing (ld_program_owners l) fetch (account_keys message) [] g =
      (Ok missing0, g')"
    and extracted: "extract_and_load I A fetch (WorkingSlot slot) missing0 (l\<lparr>ld_g := g'\<rparr>) = (Ok batch, l')"
    using replenish by (auto simp: replenish_program_cache_def act_bind_eq_Ok on_source_Ok message_keys_def)
  obtain accs h where accs: "map fst accs = account_keys message"
    and chains: "load_program_indices I fetch (length accs) (instructions message) [] accs h =
      (Ok (program_indices lt, lt_accounts lt), g)"
    using load_transaction_accounts_parts[OF load] by metis
  have len: "length accs = length (account_keys message)"
    using accs by (metis length_map)
  obtain ext where "lt_accounts lt = accs @ ext"
    using load_program_indices_ok[OF chains] by auto
  then have nth: "account_keys message ! i = key" and member: "(key, program) \<in> set (lt_accounts lt)"
    using assms(4,5) accs len nth_map[of i accs fst] nth_mem[of i accs] by (auto simp: nth_append)
  have "settled g key (Some program)"
    by (rule account_source.loaded_accounts_settled[OF assms(1) load member assms(6)])
  then have "settled g' key (Some program)"
    by (rule account_source.collect_stays[OF assms(1) _ collect])
  then have "key \<in> fst ` set missing0" and sorted: "missing_sorted missing0"
    using account_source.collect_missing_ok[OF assms(1) collect] assms(4,7) nth nth_mem[OF assms(4)] by auto
  then show ?thesis
    using extract_and_load_has[OF assms(2) extracted] fold_insert_missing_ok[OF sorted, of "ld_builtin_programs l"] nth
    by simp
qed

theorem programs_provided_witness:
  "\<exists>batch l'. load_for_message sample_ids (\<lambda>msg. []) sample_api sample_fetch 100 sample_message
      (account_loader_new sample_start () [] [pubkey_repeat 5, pubkey_repeat 6] [pubkey_repeat 9]) =
      (Ok (sample_loaded, batch), l') \<and>
    pubkey_repeat 20 \<in> fst ` set batch \<and> pubkey_repeat 9 \<in> fst ` set batch"
proof -
  let ?l = "account_loader_new sample_start () [] [pubkey_repeat 5, pubkey_repeat 6] [pubkey_repeat 9] ::
    (nat fetch_state, pubkey list, unit) account_loader"
  have laws: "batch_laws sample_api (\<lambda>batch k. k \<in> fst ` set batch)"
    by (auto simp: batch_laws_def sample_api_def)
  have total: "\<exists>a g'. require_account sample_fetch e key g = (Ok a, g')" for e key g
    unfolding sample_fetch_def by (rule simulate_require)
  obtain missing g' where "collect_missing (ld_program_owners (?l\<lparr>ld_g := sample_third\<rparr>)) sample_fetch
      (message_keys [sample_message]) [] (ld_g (?l\<lparr>ld_g := sample_third\<rparr>)) = (Ok missing, g')"
    using collect_missing_total[OF total] by blast
  from replenish_collected[OF this, where I = sample_ids and A = sample_api and s = "WorkingSlot 100"] obtain batch l' where
    "replenish_program_cache sample_ids sample_api sample_fetch (WorkingSlot 100) [sample_message]
      (?l\<lparr>ld_g := sample_third\<rparr>) = (Ok batch, l')"
    by blast
  then have run: "load_for_message sample_ids (\<lambda>msg. []) sample_api sample_fetch 100 sample_message ?l =
      (Ok (sample_loaded, batch), l')"
    by (simp add: load_for_message_def on_source_def account_loader_new_def sample_load)
  have first: "lt_accounts sample_loaded ! 0 = (pubkey_repeat 20, simulated_program sample_ids [7, 7])"
    by (simp add: sample_loaded_def)
  have "pubkey_repeat 20 \<in> fst ` set batch \<and> (\<forall>k \<in> set (ld_builtin_programs ?l). k \<in> fst ` set batch)"
    using programs_provided[OF sample_source laws run _ first]
    by (simp add: sample_message_def account_loader_new_def)
  then have "pubkey_repeat 20 \<in> fst ` set batch \<and> pubkey_repeat 9 \<in> fst ` set batch"
    by (simp add: account_loader_new_def)
  with run show ?thesis
    by blast
qed

subsection \<open>The accounts of the simulator\<close>

text \<open>
  C31.  The closure of \<open>Simulate\<close> asks the node at most once for a key: after the first answer, and
  whatever other keys are asked for in between, it gives the same account without a request, also
  when the node would answer differently by now.
\<close>

theorem simulate_fetch_once:
  assumes "simulate_fetch rpc pid program_data key s = (r, s1)"
    and "s2 = fold (\<lambda>k s. snd (simulate_fetch rpc pid program_data k s)) keys s1"
  shows "simulate_fetch rpc pid program_data key s2 = (r, s2)"
proof -
  have "simulate_settled pid program_data s1 key r"
    by (rule simulate_source.settles[OF assms(1)])
  then have "simulate_settled pid program_data s2 key r"
    unfolding assms(2) by (induction keys arbitrary: s1) (simp_all add: simulate_source.stays)
  then show ?thesis
    by (auto simp: simulate_settled_def simulate_fetch_def split: if_splits)
qed

theorem simulate_fetch_once_witness:
  "simulate_fetch sample_node (pubkey_repeat 20) account_default (pubkey_repeat 30)
     (snd (sample_fetch (pubkey_repeat 6) sample_second)) =
   (Some upgradeable_program, snd (sample_fetch (pubkey_repeat 6) sample_second))"
proof -
  have "simulate_fetch sample_node (pubkey_repeat 20) account_default (pubkey_repeat 30) sample_start =
      (Some upgradeable_program, sample_second)"
    by (simp add: simulate_fetch_def sample_start_def sample_second_def sample_node_def unwrap_or_default_def)
  from simulate_fetch_once[OF this refl, of "[pubkey_repeat 6]"] show ?thesis
    by (simp add: sample_fetch_def simulate_fetch_def)
qed

text \<open>
  C32.  Bounds: an instruction adds at most four owners to the accounts, and as long as all of them can
  be numbered with 16 bits the indices, which the code casts to 16 bits, lose nothing: read as positions
  they are the chains of the programs.
\<close>

theorem load_transaction_accounts_bounds:
  assumes "load_transaction_accounts I instructions_data fetch msg g = (Ok lt, g')"
    and "n = length (account_keys msg)" and "m = length (instructions msg)"
  shows "length (lt_accounts lt) \<le> n + 4 * m \<and>
    (n + 4 * m \<le> 65536 \<longrightarrow>
      list_all2 (\<lambda>ix inds. length inds \<le> 5 \<and>
        is_chain I (lt_accounts lt) n (unat (program_id_index ix)) (rev (map unat inds)))
        (instructions msg) (program_indices lt))"
proof -
  obtain accs h where rest: "load_program_indices I fetch (length accs) (instructions msg) [] accs h =
      (Ok (program_indices lt, lt_accounts lt), g')" and len: "length accs = n"
    using assms(1,2) by (elim load_transaction_accounts_parts) simp
  have bound: "length (lt_accounts lt) \<le> n + 4 * m"
    using load_program_indices_length[OF rest] len assms(3) by simp
  obtain chains where chains: "program_indices lt = map (\<lambda>js. map of_nat (rev js)) chains"
    "list_all2 (\<lambda>ix js. length js \<le> 5 \<and> is_chain I (lt_accounts lt) n
        (unat (program_id_index ix)) js) (instructions msg) chains"
    using load_program_indices_ok[OF rest] len by auto
  have "rev (map unat (map of_nat (rev js) :: u16 list)) = js"
    if "n + 4 * m \<le> 65536" "is_chain I (lt_accounts lt) n i js" for i js
  proof -
    have "unat (of_nat j :: u16) = j" if "j \<in> set js" for j
      using is_chain_less[OF \<open>is_chain _ _ _ i js\<close> that] \<open>n + 4 * m \<le> 65536\<close> bound
      by (simp add: unat_of_nat)
    then have "map (\<lambda>j. unat (of_nat j :: u16)) js = js"
      by (intro map_idI) simp
    then show ?thesis
      by (simp add: rev_map[symmetric] comp_def)
  qed
  with chains bound show ?thesis
    by (auto simp: list_all2_map2 elim!: list_all2_mono)
qed

theorem load_transaction_accounts_bounds_witness:
  "length (lt_accounts sample_loaded) \<le> 6 \<and>
   list_all2 (\<lambda>ix inds. length inds \<le> 5 \<and>
     is_chain sample_ids (lt_accounts sample_loaded) 2 (unat (program_id_index ix)) (rev (map unat inds)))
     (instructions sample_message) (program_indices sample_loaded)"
  using load_transaction_accounts_bounds[OF sample_load[of "\<lambda>msg. []"] refl refl]
  by (simp add: sample_message_def numeral_2_eq_2)

subsection \<open>Programs\<close>

text \<open>
  C33.  The programs that \<open>replenish_program_cache\<close> asks its cache for: every key of the messages whose
  account is owned by a loader, and every builtin, each exactly once, in increasing order, as the
  cache's search expects them, and without any requirement.  So neither the order of the messages and
  their keys nor the order in which a \<open>HashSet\<close> gives the builtins matters.
\<close>

theorem missing_programs_exact:
  assumes "account_source fetch settled"
    and "collect_missing owners fetch keys [] g = (Ok missing0, g')"
    and "missing = fold insert_missing builtins missing0"
  shows "missing = map (\<lambda>k. (k, NoCriteria, 0)) (sorted_list_of_set
    ({k \<in> set keys. \<exists>a. fst (fetch k g') = Some a \<and> owner a \<in> set owners} \<union> set builtins))"
proof -
  note collect = account_source.collect_missing_ok[OF assms(1,2)]
  have sorted: "missing_sorted missing0"
    using collect by simp
  have "(\<exists>a. settled g' k (Some a) \<and> owner a \<in> set owners) \<longleftrightarrow>
      (\<exists>a. fst (fetch k g') = Some a \<and> owner a \<in> set owners)" if "k \<in> set keys" for k
    using account_source.collect_settled[OF assms(1,2) that] account_source.answers[OF assms(1)]
    by (metis option.inject)
  with collect fold_insert_missing_ok[OF sorted, of builtins]
  have keys: "fst ` set missing =
      {k \<in> set keys. \<exists>a. fst (fetch k g') = Some a \<and> owner a \<in> set owners} \<union> set builtins"
    and order: "missing_sorted missing" and plain: "\<forall>e \<in> set missing. snd e = (NoCriteria, 0)"
    unfolding assms(3) by auto
  have "map fst missing = sorted_list_of_set (fst ` set missing)"
    using sorted_list_of_set.idem_if_sorted_distinct[of "map fst missing"] order by (simp add: strict_sorted_iff)
  moreover have "missing = map (\<lambda>k. (k, NoCriteria, 0)) (map fst missing)"
    using plain by (auto simp: map_idI prod_eq_iff intro!: map_idI[symmetric])
  ultimately show ?thesis
    unfolding keys by simp
qed

theorem missing_programs_exact_witness:
  "\<exists>missing. collect_missing [pubkey_repeat 5, pubkey_repeat 6] sample_fetch [pubkey_repeat 30, pubkey_repeat 20]
      [] sample_start = (Ok missing, sample_second) \<and>
    fst ` set (insert_missing (pubkey_repeat 9) missing) =
      {pubkey_repeat 30, pubkey_repeat 20, pubkey_repeat 9}"
proof -
  obtain missing where run: "collect_missing [pubkey_repeat 5, pubkey_repeat 6] sample_fetch
      [pubkey_repeat 30, pubkey_repeat 20] [] sample_start = (Ok missing, sample_second)"
    by (simp add: require_account_run sample_answers)
  have "fst (sample_fetch (pubkey_repeat 30) sample_second) = Some upgradeable_program"
    by (simp add: sample_fetch_def simulate_fetch_def sample_second_def)
  then have keys: "{k \<in> set [pubkey_repeat 30, pubkey_repeat 20]. \<exists>a. fst (sample_fetch k sample_second) = Some a \<and>
      owner a \<in> set [pubkey_repeat 5, pubkey_repeat 6]} \<union> set [pubkey_repeat 9] =
      {pubkey_repeat 30, pubkey_repeat 20, pubkey_repeat 9}"
    by (auto simp: sample_answers)
  have "insert_missing (pubkey_repeat 9) missing = fold insert_missing [pubkey_repeat 9] missing"
    by simp
  from missing_programs_exact[OF sample_source run this]
  have "fst ` set (insert_missing (pubkey_repeat 9) missing) = {pubkey_repeat 30, pubkey_repeat 20, pubkey_repeat 9}"
    unfolding keys by (auto simp: image_image)
  with run show ?thesis
    by blast
qed

text \<open>
  What a program is in a world \<open>f\<close> of accounts: the account of the program data that an upgradeable program
  names; whether an account is missing; the bytes of the program, the size of its accounts and the slot of
  its deployment, when the accounts hold a program; and what the runtime makes of these.
\<close>

definition programdata_address ::
  "sdk_ids \<Rightarrow> ('cache, 'envs, 'env, 'batch, 'prog, 'fs) program_api \<Rightarrow> account \<Rightarrow> pubkey option" where
  "programdata_address I A a =
     (if owner a = bpf_loader_upgradeable_id I \<and> owner a \<noteq> loader_v4_id I
      then (case upgradeable_state A (data a) of Inr (Program addr) \<Rightarrow> Some addr | _ \<Rightarrow> None)
      else None)"

definition program_missing ::
  "sdk_ids \<Rightarrow> ('cache, 'envs, 'env, 'batch, 'prog, 'fs) program_api \<Rightarrow> (pubkey \<Rightarrow> account option) \<Rightarrow> pubkey \<Rightarrow> bool" where
  "program_missing I A f key =
     (case f key of None \<Rightarrow> True
      | Some a \<Rightarrow> (case programdata_address I A a of None \<Rightarrow> False | Some addr \<Rightarrow> f addr = None))"

definition program_code ::
  "sdk_ids \<Rightarrow> ('cache, 'envs, 'env, 'batch, 'prog, 'fs) program_api \<Rightarrow> (pubkey \<Rightarrow> account option) \<Rightarrow> account \<Rightarrow>
   (bytes \<times> nat \<times> u64) option" where
  "program_code I A f a =
     (let behind = (\<lambda>meta a. if meta \<le> length (data a) then Some (drop meta (data a)) else None) in
      if owner a = loader_v4_id I
      then (case v4_state A (data a) of
          Inr (deployed, status) \<Rightarrow> if status = Retracted then None
            else map_option (\<lambda>elf. (elf, length (data a), deployed)) (behind (v4_program_data_offset A) a)
        | Inl e \<Rightarrow> None)
      else if owner a = bpf_loader_upgradeable_id I
      then Option.bind (Option.bind (programdata_address I A a) f) (\<lambda>pd.
        case upgradeable_state A (data pd) of
          Inr (ProgramData deployed authority) \<Rightarrow>
            map_option (\<lambda>elf. (elf, min (length (data a) + length (data pd)) (2 ^ 64 - 1), deployed))
              (behind (size_of_programdata_metadata A) pd)
        | _ \<Rightarrow> None)
      else Some (data a, length (data a), 0))"

definition verified_code ::
  "sdk_ids \<Rightarrow> ('cache, 'envs, 'env, 'batch, 'prog, 'fs) program_api \<Rightarrow> 'fs \<Rightarrow> 'env \<Rightarrow> pubkey \<Rightarrow>
   bytes \<times> nat \<times> u64 \<Rightarrow> 'prog option" where
  "verified_code I A features env own code =
     (case code of (elf, n, deployed) \<Rightarrow>
        if own = loader_v4_id I
        then loaded_program_new A own env deployed (saturating_add deployed (DELAY_VISIBILITY_SLOT_OFFSET A)) elf n
        else (case load_program_from_bytes A (delay_visibility_active A features) elf own n deployed env False of
            Inr program \<Rightarrow> Some program | Inl e \<Rightarrow> None))"

text \<open>The slot of the tombstone of a failed verification: a program of the fourth loader has its own.\<close>

definition tombstone_slot ::
  "sdk_ids \<Rightarrow> ('cache, 'envs, 'env, 'batch, 'prog, 'fs) program_api \<Rightarrow> u64 \<Rightarrow> account \<Rightarrow> u64" where
  "tombstone_slot I A slot a =
     (case v4_state A (data a) of
        Inr (deployed, status) \<Rightarrow> if owner a = loader_v4_id I \<and> status \<noteq> Retracted then deployed else slot
      | Inl e \<Rightarrow> slot)"

text \<open>
  C34.  Loading one program never fails, whatever the accounts hold: its result is, in terms of the accounts
  that the source gives, the tombstone of a closed program when an account of the program is missing, the
  verified program when the accounts hold one and the runtime verifies it, and in every other case the
  tombstone of a failed verification, in the environment of the program's loader, and at the current slot,
  except that a deployed program of the fourth loader has the slot of its deployment.  The cache of the
  loader does not change.
\<close>

theorem load_program_never_fails:
  assumes "account_source fetch settled"
    and "envs = environments_for_epoch A (ld_cache l) (slot div DEFAULT_SLOTS_PER_EPOCH A)"
  shows "\<exists>g' f. f = (\<lambda>k. fst (fetch k g')) \<and> load_program I A fetch slot pubkey l =
    (Ok (if program_missing I A f pubkey then new_tombstone A slot Closed
       else let a = the (f pubkey);
           env = if owner a = loader_v4_id I then program_runtime_v2 A envs else program_runtime_v1 A envs
         in case Option.bind (program_code I A f a) (verified_code I A (ld_feature_set l) env (owner a)) of
             Some program \<Rightarrow> program
           | None \<Rightarrow> new_tombstone A (tombstone_slot I A slot a) (FailedVerification env)),
     l\<lparr>ld_g := g'\<rparr>)"
proof -
  note source_defs = load_program_accounts_def get_account_with_fixed_root_def act_bind_def
  note code_defs = verify_program_def program_missing_def program_code_def verified_code_def
    tombstone_slot_def slice_from_def Let_def
  note laws = account_source.settles[OF assms(1)] account_source.answers[OF assms(1)] account_source.stays[OF assms(1)]
  obtain x g1 where first: "fetch pubkey (ld_g l) = (x, g1)"
    by (cases "fetch pubkey (ld_g l)")
  have again: "fst (fetch pubkey g1) = x"
    using laws(1)[OF first] laws(2) by blast
  have once: ?thesis if x: "\<And>a. x = Some a \<Longrightarrow> programdata_address I A a = None"
  proof (cases x)
    case None
    then have "load_program_accounts I A fetch pubkey (ld_g l) = (Ok LoadAccountNotFound, g1)"
      using first by (simp add: source_defs)
    from load_program_run[OF this assms(2)] show ?thesis
      using again None by (intro exI[of _ g1]) (simp add: code_defs)
  next
    case (Some a)
    have none: "programdata_address I A a = None"
      using x Some .
    then obtain r where r: "load_program_accounts I A fetch pubkey (ld_g l) = (Ok r, g1)"
      "r = (if owner a = loader_v4_id I then v4_program A a
        else if owner a = bpf_loader_upgradeable_id I then LoadInvalidAccountData else ProgramOfLoaderV1orV2 a)"
      using first Some
      by (auto simp: source_defs programdata_address_def
          split: if_splits sum.splits upgradeable_loader_state.splits)
    note run = load_program_run[OF r(1)[unfolded r(2)] assms(2)]
    consider (v4) "owner a = loader_v4_id I" | (v3) "owner a = bpf_loader_upgradeable_id I" "owner a \<noteq> loader_v4_id I"
      | (v1) "owner a \<noteq> bpf_loader_upgradeable_id I" "owner a \<noteq> loader_v4_id I"
      by blast
    then show ?thesis
      using again Some none
      by (cases; intro exI[of _ g1]; simp add: run code_defs v4_program_def split: sum.split prod.split option.split)
  qed
  have twice: ?thesis if a: "x = Some a" and addr: "programdata_address I A a = Some addr" for a addr
  proof -
    have own: "owner a = bpf_loader_upgradeable_id I" "owner a \<noteq> loader_v4_id I"
      "upgradeable_state A (data a) = Inr (Program addr)"
      using addr by (auto simp: programdata_address_def split: if_splits sum.splits upgradeable_loader_state.splits)
    obtain y g2 where second: "fetch addr g1 = (y, g2)"
      by (cases "fetch addr g1")
    have f: "fst (fetch addr g2) = y" "fst (fetch pubkey g2) = x"
      using laws(1)[OF second] laws(2,3) laws(3)[OF laws(1)[OF first], of addr] second by simp_all
    define r where "r = (case y of None \<Rightarrow> LoadAccountNotFound
      | Some pd \<Rightarrow> (case upgradeable_state A (data pd) of
          Inr (ProgramData d auth) \<Rightarrow> ProgramOfLoaderV3 a pd d | _ \<Rightarrow> LoadInvalidAccountData))"
    have "load_program_accounts I A fetch pubkey (ld_g l) = (Ok r, g2)"
      using first second own a
      by (simp add: source_defs r_def split: option.split sum.split upgradeable_loader_state.split)
    from load_program_run[OF this assms(2)] show ?thesis
      using f a addr own
      by (intro exI[of _ g2])
        (simp add: code_defs r_def split: option.split sum.split upgradeable_loader_state.split)
  qed
  show ?thesis
    using once twice by (metis option.exhaust)
qed

text \<open>A world with an upgradeable program that has lost its data, and a program of the fourth loader.\<close>

definition sample_world :: "pubkey \<Rightarrow> account option" where
  "sample_world key =
     (if key = pubkey_repeat 30 then Some upgradeable_program
      else if key = pubkey_repeat 33 then Some (account_default\<lparr>data := [3, 7, 8], owner := pubkey_repeat 4\<rparr>)
      else None)"

theorem load_program_never_fails_witness:
  "\<forall>verifies. \<exists>g1 g2 g3. let A = sample_api\<lparr>v4_state := (\<lambda>bs. Inr (55, Deployed)),
        loaded_program_new := (\<lambda>i e s s' bs n. if verifies then Some (Inr bs) else None)\<rparr>;
      l = account_loader_new () () [] [] [] in
    load_program sample_ids A (\<lambda>k g. (sample_world k, g)) 100 (pubkey_repeat 31) l = (Ok (Inl Closed), l\<lparr>ld_g := g1\<rparr>) \<and>
    load_program sample_ids A (\<lambda>k g. (sample_world k, g)) 100 (pubkey_repeat 30) l = (Ok (Inl Closed), l\<lparr>ld_g := g2\<rparr>) \<and>
    load_program sample_ids A (\<lambda>k g. (sample_world k, g)) 100 (pubkey_repeat 33) l =
      (Ok (if verifies then Inr [7, 8] else Inl (FailedVerification ())), l\<lparr>ld_g := g3\<rparr>)"
proof
  fix verifies
  define A where "A = sample_api\<lparr>v4_state := (\<lambda>bs. Inr (55, Deployed)),
    loaded_program_new := (\<lambda>i e s s' bs n. if verifies then Some (Inr bs) else None)\<rparr>"
  have api: "v4_state A bs = Inr (55, Deployed)" "new_tombstone A s t = Inl t" "v4_program_data_offset A = 1"
    "loaded_program_new A i e s s' bs n = (if verifies then Some (Inr bs) else None)"
    "upgradeable_state A [2] = Inr (Program (pubkey_repeat 31))" for bs s t i e s' n
    by (simp_all add: A_def sample_api_def)
  have source: "account_source (\<lambda>k g. (sample_world k, g)) (\<lambda>g k r. r = sample_world k)"
    by unfold_locales simp_all
  let ?load = "\<lambda>key l. load_program sample_ids A (\<lambda>k g. (sample_world k, g)) 100 key l"
  let ?l = "account_loader_new () () [] [] []"
  note result = load_program_never_fails[OF source refl, where I = sample_ids and A = A and slot = 100 and l = ?l]
  note unfold = program_missing_def programdata_address_def program_code_def verified_code_def tombstone_slot_def
    sample_world_def api Let_def
  have "\<exists>g. ?load (pubkey_repeat 31) ?l = (Ok (Inl Closed), ?l\<lparr>ld_g := g\<rparr>)"
    using result[of "pubkey_repeat 31"] by (simp add: unfold)
  moreover have "\<exists>g. ?load (pubkey_repeat 30) ?l = (Ok (Inl Closed), ?l\<lparr>ld_g := g\<rparr>)"
    using result[of "pubkey_repeat 30"] by (simp add: unfold)
  moreover have "\<exists>g. ?load (pubkey_repeat 33) ?l =
      (Ok (if verifies then Inr [7, 8] else Inl (FailedVerification ())), ?l\<lparr>ld_g := g\<rparr>)"
    using result[of "pubkey_repeat 33"] by (simp add: unfold)
  ultimately show "\<exists>g1 g2 g3. let A = sample_api\<lparr>v4_state := (\<lambda>bs. Inr (55, Deployed)),
        loaded_program_new := (\<lambda>i e s s' bs n. if verifies then Some (Inr bs) else None)\<rparr>;
      l = account_loader_new () () [] [] [] in
    load_program sample_ids A (\<lambda>k g. (sample_world k, g)) 100 (pubkey_repeat 31) l = (Ok (Inl Closed), l\<lparr>ld_g := g1\<rparr>) \<and>
    load_program sample_ids A (\<lambda>k g. (sample_world k, g)) 100 (pubkey_repeat 30) l = (Ok (Inl Closed), l\<lparr>ld_g := g2\<rparr>) \<and>
    load_program sample_ids A (\<lambda>k g. (sample_world k, g)) 100 (pubkey_repeat 33) l =
      (Ok (if verifies then Inr [7, 8] else Inl (FailedVerification ())), l\<lparr>ld_g := g3\<rparr>)"
    unfolding Let_def A_def[symmetric] by blast
qed

text \<open>
  C35.  A program of the upgradeable loader: its account names the account of the program data, whose
  bytes behind the metadata are verified as of the slot of the deployment, with the sizes of both
  accounts; shorter program data is refused without a panic.
\<close>

theorem load_program_upgradeable:
  assumes "fetch pubkey (ld_g l) = (Some prog, g1)" and "owner prog = bpf_loader_upgradeable_id I"
    and "bpf_loader_upgradeable_id I \<noteq> loader_v4_id I"
    and "upgradeable_state A (data prog) = Inr (Program addr)" and "fetch addr g1 = (Some pd, g2)"
    and "upgradeable_state A (data pd) = Inr (ProgramData deployed authority)"
    and "envs = environments_for_epoch A (ld_cache l) (slot div DEFAULT_SLOTS_PER_EPOCH A)"
    and "length (data prog) + length (data pd) < 2 ^ 64"
    and "verified = load_program_from_bytes A (delay_visibility_active A (ld_feature_set l))
      (drop (size_of_programdata_metadata A) (data pd)) (owner prog)
      (length (data prog) + length (data pd)) deployed (program_runtime_v1 A envs) False"
  shows "load_program I A fetch slot pubkey l = (Ok
    (if size_of_programdata_metadata A \<le> length (data pd)
     then (case verified of Inr program \<Rightarrow> program
       | Inl e \<Rightarrow> new_tombstone A slot (FailedVerification (program_runtime_v1 A envs)))
     else new_tombstone A slot (FailedVerification (program_runtime_v1 A envs))), l\<lparr>ld_g := g2\<rparr>)"
proof -
  have "load_program_accounts I A fetch pubkey (ld_g l) = (Ok (ProgramOfLoaderV3 prog pd deployed), g2)"
    using assms(1-6) by (simp add: load_program_accounts_def get_account_with_fixed_root_def act_bind_def)
  from load_program_run[OF this assms(7)] show ?thesis
    using assms(8,9) by (simp add: verify_program_def slice_from_def)
qed

theorem load_program_upgradeable_witness:
  "\<exists>g. load_program sample_ids sample_api sample_fetch 100 (pubkey_repeat 30)
      (account_loader_new sample_start () [] [] []) =
    (Ok (Inr [7, 8]), account_loader_new g () [] [] [])"
proof -
  obtain g where g: "sample_fetch (pubkey_repeat 31) sample_second = (Some upgradeable_data, g)"
    by (simp add: sample_fetch_def simulate_fetch_def sample_second_def sample_node_def unwrap_or_default_def)
  show ?thesis
    using load_program_upgradeable[of sample_fetch "pubkey_repeat 30" "account_loader_new sample_start () [] [] []"
        upgradeable_program sample_second sample_ids sample_api "pubkey_repeat 31" upgradeable_data g 55 None
        _ 100 "Inr (Inr [7, 8])"] g
    by (simp add: account_loader_new_def sample_answers sample_api_def)
qed

end
