(* ===== verification/Command_Properties.thy ===== *)
theory Command_Properties
  imports Message_Samples
begin

text \<open>
  The properties of the executor of messages and of the two commands: what a new executor knows, what
  the simulator runs, that it comes to an end, and what \<open>GetProgramData\<close> does to its file.
\<close>

subsection \<open>A new executor\<close>

lemma add_builtins_cache:
  "me_loaded_programs (fold (add_builtin T A) bs this) =
   fold (\<lambda>b cache. snd (cache_replenish A cache (bp_program_id b)
       (loaded_program_builtin T 0 (length (bp_name b)) (bp_entrypoint b))))
     (filter (\<lambda>b. \<forall>f. bp_feature_id b = Some f \<longrightarrow> feature_active T (me_feature_set this) f) bs)
     (me_loaded_programs this)"
proof (induction bs arbitrary: this)
  case (Cons b bs)
  then show ?case
    by (simp add: add_builtin_def Let_def split: option.split)
qed simp

text \<open>
  C36.  A new executor: exactly the given features are active; the builtin programs are those that need no
  feature or an active one, each once, and they are put into the cache in the order of the table, with
  the environments of the features; the owners of programs are the four loaders and there is a log.
\<close>

theorem message_executor_new_builtins:
  assumes "feature_laws T" and "message_executor_new I T A enabled = Ok sbf"
    and "applied = filter (\<lambda>b. \<forall>f. bp_feature_id b = Some f \<longrightarrow> f \<in> set enabled) (BUILTINS T)"
  shows "(\<forall>f. feature_active T (me_feature_set sbf) f \<longleftrightarrow> f \<in> set enabled) \<and>
    set (me_builtin_programs sbf) = bp_program_id ` set applied \<and> distinct (me_builtin_programs sbf) \<and>
    (\<exists>cache. set_environments T (me_feature_set sbf) (loaded_programs_new T (DEFAULT_SLOTS_PER_EPOCH A) 1) =
        Some cache \<and>
      me_loaded_programs sbf = fold (\<lambda>b cache. snd (cache_replenish A cache (bp_program_id b)
        (loaded_program_builtin T 0 (length (bp_name b)) (bp_entrypoint b)))) applied cache) \<and>
    set (me_program_owners sbf) =
      {loader_v4_id I, bpf_loader_upgradeable_id I, bpf_loader_id I, bpf_loader_deprecated_id I} \<and>
    me_logger sbf = Some (log_collector_new T)"
proof -
  let ?features = "fold (\<lambda>feat fs. feature_activate T fs feat) enabled (features_default T)"
  have active: "feature_active T ?features f \<longleftrightarrow> f \<in> set enabled" for f
    using assms(1) by (simp add: feature_active_fold) (simp add: feature_laws_def)
  obtain me cache where cache: "set_environments T ?features
      (loaded_programs_new T (DEFAULT_SLOTS_PER_EPOCH A) 1) = Some cache"
    and me: "me_feature_set me = ?features" "me_loaded_programs me = cache" "me_builtin_programs me = []"
      "me_program_owners me = remdups [loader_v4_id I, bpf_loader_upgradeable_id I, bpf_loader_id I,
        bpf_loader_deprecated_id I]" "me_logger me = Some (log_collector_new T)"
    and sbf: "sbf = fold (add_builtin T A) (BUILTINS T) me"
    using assms(2) by (force simp: message_executor_new_def Let_def)
  show ?thesis
    using add_builtins_kept[of T A "BUILTINS T" me] add_builtins_programs[of T A "BUILTINS T" me]
      add_builtins_cache[of T A "BUILTINS T" me] cache
    unfolding sbf assms(3) by (auto simp: me active simp del: remdups.simps)
qed

theorem message_executor_new_builtins_witness:
  "\<exists>sbf. message_executor_new sample_ids sample_runtime sample_api [pubkey_repeat 50] = Ok sbf \<and>
    set (me_builtin_programs sbf) = {pubkey_repeat 40, pubkey_repeat 41}"
proof -
  obtain sbf where sbf: "message_executor_new sample_ids sample_runtime sample_api [pubkey_repeat 50] = Ok sbf"
    by (simp add: message_executor_new_def Let_def sample_runtime_def)
  have "feature_laws sample_runtime"
    by (simp add: feature_laws_def sample_runtime_def)
  from message_executor_new_builtins[OF this sbf refl] sbf show ?thesis
    by (simp add: sample_runtime_def insert_commute)
qed

subsection \<open>\<open>GetProgramData\<close>\<close>

text \<open>
  The bytes of the program under an id, as the node tells them: the data of an account of the loader, or
  the data behind the metadata of the account that an upgradeable program names.
\<close>

definition program_on_chain ::
  "sdk_ids \<Rightarrow> ('cache, 'envs, 'env, 'batch, 'prog, 'fs) program_api \<Rightarrow> 'rpc rpc_client \<Rightarrow> pubkey \<Rightarrow> 'rpc \<Rightarrow>
   bytes \<Rightarrow> bool" where
  "program_on_chain I A rpc pid s elf \<longleftrightarrow> (\<exists>acc s1. rpc pid s = (Inr acc, s1) \<and>
     (if owner acc = bpf_loader_upgradeable_id I
      then \<exists>addr pd s2. upgradeable_state A (data acc) = Inr (Program addr) \<and> rpc addr s1 = (Inr pd, s2) \<and>
        size_of_programdata_metadata A \<le> length (data pd) \<and>
        elf = drop (size_of_programdata_metadata A) (data pd)
      else owner acc = bpf_loader_id I \<and> elf = data acc))"

lemma get_program_data_ok:
  assumes "get_program_data I A F rpc args ((fs, out), s0) = (Ok (), ((fs', out'), s'))"
  shows "\<exists>fs1 elf. open_truncate F (gpd_destination args) fs = Some fs1 \<and>
    file_write_all F (gpd_destination args) fs1 elf = (True, fs') \<and> out' = out \<and>
    program_on_chain I A rpc (gpd_program_id args) s0 elf"
proof -
  obtain fs1 where fs1: "open_truncate F (gpd_destination args) fs = Some fs1"
    using assms by (auto simp: get_program_data_def act_bind_eq_Ok open_file_def split: option.splits)
  then have opened: "open_file F (gpd_destination args) ((fs, out), s0) = (Ok (), ((fs1, out), s0))"
    by (simp add: open_file_def)
  obtain acc s1 where acc: "rpc (gpd_program_id args) s0 = (Inr acc, s1)"
    using assms opened by (auto simp: get_program_data_def act_bind_eq_Ok rpc_get_account_def
        split: prod.splits sum.splits)
  then have run: "rpc_get_account rpc (gpd_program_id args) ((fs1, out), s0) = (Ok acc, ((fs1, out), s1))"
    by (simp add: rpc_get_account_def)
  have finish: ?thesis
    if "write_file F (gpd_destination args) elf ((fs1, out), s2) = (Ok (), ((fs', out'), s'))"
      and "program_on_chain I A rpc (gpd_program_id args) s0 elf" for elf s2
    using that fs1 by (auto simp: write_file_def split: prod.splits if_splits)
  show ?thesis
  proof (cases "owner acc = bpf_loader_upgradeable_id I")
    case False
    then have "owner acc = bpf_loader_id I"
      using assms opened run by (auto simp: get_program_data_def split: if_splits)
    with False assms opened run show ?thesis
      by (intro finish[of "data acc" s1]) (auto simp: get_program_data_def program_on_chain_def acc)
  next
    case True
    then obtain addr where addr: "upgradeable_state A (data acc) = Inr (Program addr)"
      using assms opened run
      by (auto simp: get_program_data_def split: sum.splits upgradeable_loader_state.splits)
    obtain pd s2 where pd: "rpc addr s1 = (Inr pd, s2)"
      using assms opened run True addr
      by (auto simp: get_program_data_def act_bind_eq_Ok rpc_get_account_def split: prod.splits sum.splits)
    then have run': "rpc_get_account rpc addr ((fs1, out), s1) = (Ok pd, ((fs1, out), s2))"
      by (simp add: rpc_get_account_def)
    have "get_program_data I A F rpc args ((fs, out), s0) =
        (if size_of_programdata_metadata A \<le> length (data pd)
         then write_file F (gpd_destination args) (drop (size_of_programdata_metadata A) (data pd)) ((fs1, out), s2)
         else (Panics, ((fs1, out), s2)))"
      using opened run True addr run' by (simp add: get_program_data_def slice_from_def)
    with assms True addr pd show ?thesis
      by (intro finish[of "drop (size_of_programdata_metadata A) (data pd)" s2])
        (simp_all add: program_on_chain_def acc split: if_splits)
  qed
qed

lemma get_program_data_fails:
  assumes "get_program_data I A F rpc args ((fs, out), s0) = (r, ((fs', out'), s'))" and "r \<noteq> Ok ()"
    and "open_truncate F (gpd_destination args) fs = Some fs1"
  shows "fs' = fs1 \<or> (\<exists>elf. file_write_all F (gpd_destination args) fs1 elf = (False, fs'))"
proof (cases "rpc (gpd_program_id args) s0")
  case (Pair answer s1)
  have opened: "open_file F (gpd_destination args) ((fs, out), s0) = (Ok (), ((fs1, out), s0))"
    using assms(3) by (simp add: open_file_def)
  show ?thesis
  proof (cases answer)
    case (Inl e)
    with Pair assms opened show ?thesis
      by (auto simp: get_program_data_def rpc_get_account_def)
  next
    case (Inr acc)
    have run: "rpc_get_account rpc (gpd_program_id args) ((fs1, out), s0) = (Ok acc, ((fs1, out), s1))"
      using Pair Inr by (simp add: rpc_get_account_def)
    consider (upgradeable) "owner acc = bpf_loader_upgradeable_id I"
      | (loader) "owner acc \<noteq> bpf_loader_upgradeable_id I" "owner acc = bpf_loader_id I"
      | (unknown) "owner acc \<noteq> bpf_loader_upgradeable_id I" "owner acc \<noteq> bpf_loader_id I"
      by blast
    then show ?thesis
      using assms run opened
      by cases (auto simp: get_program_data_def rpc_get_account_def write_file_def slice_from_def act_bind_def
          split: sum.splits upgradeable_loader_state.splits prod.splits if_splits)
  qed
qed

text \<open>
  C37.  The file of \<open>GetProgramData\<close>: it is truncated before the node is asked.  On success it was written
  once, with the bytes of the program as the node tells them.  Any other end leaves it truncated, or
  with what a failing write left.
\<close>

theorem get_program_data_writes:
  assumes "get_program_data I A F rpc args ((fs, out), s0) = (r, ((fs', out'), s'))"
    and "open_truncate F (gpd_destination args) fs = Some fs1"
  shows "(r = Ok () \<longrightarrow> (\<exists>elf. file_write_all F (gpd_destination args) fs1 elf = (True, fs') \<and>
      program_on_chain I A rpc (gpd_program_id args) s0 elf)) \<and>
    (r \<noteq> Ok () \<longrightarrow> fs' = fs1 \<or> (\<exists>elf. file_write_all F (gpd_destination args) fs1 elf = (False, fs')))"
  using get_program_data_ok[of I A F rpc args fs out s0 fs' out' s'] get_program_data_fails[OF assms(1) _ assms(2)]
    assms by auto

definition sample_files :: "(string \<Rightarrow> bytes option) file_system" where
  "sample_files =
     \<lparr>open_truncate = (\<lambda>path fs. Some (fs(path \<mapsto> []))),
      file_write_all = (\<lambda>path fs bs. (True, fs(path \<mapsto> the (fs path) @ bs))),
      read_file = (\<lambda>path fs. fs path)\<rparr>"

definition sample_dump :: get_program_data_args where
  "sample_dump = \<lparr>gpd_program_id = pubkey_repeat 30, gpd_destination = ''p''\<rparr>"

lemma sample_dump_run:
  "get_program_data sample_ids sample_api sample_files sample_node sample_dump ((Map.empty, out), 0) =
    (Ok (), (([''p'' \<mapsto> [7, 8]], out), 2))"
  by (simp add: get_program_data_def sample_files_def sample_dump_def open_file_def rpc_get_account_def
      sample_node_def write_file_def slice_from_def sample_api_def act_bind_def)

theorem get_program_data_writes_witness:
  "\<exists>elf. file_write_all sample_files ''p'' [''p'' \<mapsto> []] elf = (True, [''p'' \<mapsto> [7, 8]])"
  using get_program_data_writes[OF sample_dump_run[of "()"], of "[''p'' \<mapsto> []]"]
  by (auto simp: sample_files_def sample_dump_def)

subsection \<open>\<open>Simulate\<close>\<close>

lemma process_total:
  assumes "me_logger this \<noteq> None"
  shows "\<exists>r this' lg. process T A slot message lt lps this = (r, this') \<and> r \<noteq> Panics \<and> me_logger this' = Some lg"
  using assms
  by (auto simp: process_def Let_def split: prod.split sum.split)

lemma process_and_report_total:
  "\<exists>rep. process_and_report T A S sbf slot message lt lps ((fs, out), rpc_st) = (Ok (), ((fs, out @ [rep]), rpc_st))"
proof -
  obtain r this' lg where "process T A slot message lt lps (record_log T sbf) = (r, this')" "r \<noteq> Panics"
    "me_logger this' = Some lg"
    using process_total[of "record_log T sbf" T A slot message lt lps] by (auto simp: record_log_def)
  then show ?thesis
    by (cases r) (simp_all add: process_and_report_def logger_def)
qed

lemma load_for_message_total:
  fixes rpc :: "'rpc rpc_client"
  assumes "\<forall>ix \<in> set (instructions message). unat (program_id_index ix) < length (account_keys message)"
    and "fetch = simulate_fetch rpc pid program_data"
  shows "(\<exists>x l'. load_for_message I ix_sysvar A fetch slot message l = (Ok x, l')) \<or>
    (\<exists>l'. load_for_message I ix_sysvar A fetch slot message l = (Err (TransactionFailure CallChainTooDeep), l'))"
  using simulate_load_total[OF assms(1), of I ix_sysvar rpc pid program_data "ld_g l"]
proof (elim disjE exE)
  fix lt s'
  assume load: "load_transaction_accounts I ix_sysvar (simulate_fetch rpc pid program_data) message (ld_g l) =
    (Ok lt, s')"
  let ?l = "l\<lparr>ld_g := s'\<rparr>"
  obtain missing g' where "collect_missing (ld_program_owners ?l) fetch (message_keys [message]) [] (ld_g ?l) =
      (Ok missing, g')"
    using collect_missing_total[OF simulate_require] assms(2) by blast
  from replenish_collected[OF this] load show ?thesis
    unfolding load_for_message_def assms(2) by (auto simp: on_source_def act_bind_eq_Ok)
qed (simp add: load_for_message_def on_source_def assms(2))

text \<open>
  C38.  The simulator comes to an end: once the node has given a clock that decodes, the file is readable
  and the instruction decodes, it either reports the message exactly once, failed or not, and returns,
  or refuses it because a program has more than four owners above it.  No answer of the node for an
  account, no program and no failure of the message can end it otherwise.
\<close>

theorem simulate_run_reports:
  assumes "message_executor_new I T A (map (pubkey_literal S) FEATURES) = Ok sbf"
    and "rpc (clock_id S) s0 = (Inr clock_account, s1)"
    and "clock_deserialize S (data clock_account) = Inr clock"
    and "read_file F (sim_program args) fs = Some elf" and "bs58_decode S (sim_instruction args) = Inr ix_bytes"
    and "message = simulate_message S args ix_bytes"
    and "\<forall>ix \<in> set (instructions message). unat (program_id_index ix) < length (account_keys message)"
  shows "(\<exists>rep s'. simulate_run I T A S F rpc args ((fs, out), s0) = (Ok (), ((fs, out @ [rep]), s'))) \<or>
    (\<exists>s'. simulate_run I T A S F rpc args ((fs, out), s0) = (Err (TransactionFailure CallChainTooDeep), ((fs, out), s')))"
proof -
  let ?sbf = "sbf\<lparr>me_sysvar_cache := set_clock S (me_sysvar_cache sbf) clock\<rparr>"
  let ?load = "load_for_message I (construct_instructions_data S) A
    (simulate_fetch rpc (sim_program_id args) (simulated_program I elf)) (clock_slot S clock) message
    (executor_loader \<lparr>fetched = Map.empty, rpc_state = s1\<rparr> ?sbf)"
  have clock: "rpc_get_account rpc (clock_id S) ((fs, out), s0) = (Ok clock_account, ((fs, out), s1))"
    using assms(2) by (simp add: rpc_get_account_def)
  have run: "simulate_run I T A S F rpc args ((fs, out), s0) = simulate_loaded I T A S rpc (sim_program_id args)
      (simulated_program I elf) ?sbf (clock_slot S clock) message ((fs, out), s1)"
    using assms(1,3-6) clock by (simp add: simulate_run_def unwrap_result_def wrap_error_def open_and_read_def Let_def)
  show ?thesis
    using load_for_message_total[OF assms(7) refl, of I "construct_instructions_data S" A rpc
        "sim_program_id args" "simulated_program I elf" "clock_slot S clock"
        "executor_loader \<lparr>fetched = Map.empty, rpc_state = s1\<rparr> ?sbf"]
  proof (elim disjE exE)
    fix x l'
    assume load: "?load = (Ok x, l')"
    obtain lt lps where x: "x = (lt, lps)"
      by (cases x)
    obtain rep where "process_and_report T A S (?sbf\<lparr>me_loaded_programs := ld_cache l'\<rparr>) (clock_slot S clock)
        message lt lps ((fs, out), rpc_state (ld_g l')) = (Ok (), ((fs, out @ [rep]), rpc_state (ld_g l')))"
      using process_and_report_total[of T A S "?sbf\<lparr>me_loaded_programs := ld_cache l'\<rparr>" "clock_slot S clock"
          message lt lps fs out "rpc_state (ld_g l')"] ..
    with load x show ?thesis
      by (simp add: run simulate_loaded_def Let_def)
  qed (simp add: run simulate_loaded_def Let_def)
qed

theorem simulate_run_reports_witness:
  "(\<exists>rep s'. simulate_run sample_ids sample_runtime sample_api sample_sdk sample_files sample_node sample_args
      (([''program.so'' \<mapsto> [7, 7]], []), 0) = (Ok (), (([''program.so'' \<mapsto> [7, 7]], [rep]), s'))) \<or>
   (\<exists>s'. simulate_run sample_ids sample_runtime sample_api sample_sdk sample_files sample_node sample_args
      (([''program.so'' \<mapsto> [7, 7]], []), 0) = (Err (TransactionFailure CallChainTooDeep),
        (([''program.so'' \<mapsto> [7, 7]], []), s')))"
proof -
  obtain sbf where sbf: "message_executor_new sample_ids sample_runtime sample_api
      (map (pubkey_literal sample_sdk) FEATURES) = Ok sbf"
    by (simp add: message_executor_new_def Let_def sample_runtime_def)
  show ?thesis
    using simulate_run_reports[OF sbf, of sample_node 0 account_default 1 100 sample_files sample_args
        "[''program.so'' \<mapsto> [7, 7]]" "[7, 7]" "[9]" sample_message "[]"]
    by (simp add: sample_files_def sample_args_def sample_sdk_def sample_node_def simulate_message_def sample_message_def)
qed

lemma load_simulated:
  assumes "bpf_loader_id I \<noteq> loader_v4_id I" and "bpf_loader_id I \<noteq> bpf_loader_upgradeable_id I"
  shows "load_program_accounts I A (simulate_fetch rpc pid (simulated_program I elf)) pid g =
    (Ok (ProgramOfLoaderV1orV2 (simulated_program I elf)), g)"
  using assms by (simp add: load_program_accounts_def get_account_with_fixed_root_def simulate_fetch_def
      simulated_program_def act_bind_def)

text \<open>
  C39.  What is simulated is the file: whatever the node knows under the id of the program, the loaded
  transaction has the account with the bytes of the file there, and these bytes, from the first to the
  last, are what the loader verifies as the program, without a request to the node.
\<close>

theorem simulate_runs_file:
  assumes "fetch = simulate_fetch rpc pid (simulated_program I elf)"
    and "load_transaction_accounts I ix_sysvar fetch msg s = (Ok lt, s')" and "pid \<noteq> sysvar_instructions_id I"
    and "bpf_loader_id I \<noteq> loader_v4_id I" and "bpf_loader_id I \<noteq> bpf_loader_upgradeable_id I"
    and "envs = environments_for_epoch A (ld_cache l) (slot div DEFAULT_SLOTS_PER_EPOCH A)"
    and "verified = load_program_from_bytes A (delay_visibility_active A (ld_feature_set l)) elf
      (bpf_loader_id I) (length elf) 0 (program_runtime_v1 A envs) False"
  shows "(\<forall>a. (pid, a) \<in> set (lt_accounts lt) \<longrightarrow> a = simulated_program I elf) \<and>
    load_program I A fetch slot pid l = (Ok (case verified of Inr program \<Rightarrow> program
      | Inl e \<Rightarrow> new_tombstone A slot (FailedVerification (program_runtime_v1 A envs))), l)"
proof -
  have fetch: "fetch pid g = (Some (simulated_program I elf), g)" for g
    by (simp add: assms(1) simulate_fetch_def)
  note settled = account_source.loaded_accounts_settled[OF simulate_source.account_source_axioms
      assms(2)[unfolded assms(1)]]
  have "a = simulated_program I elf" if "(pid, a) \<in> set (lt_accounts lt)" for a
    using settled[OF that assms(3)] by (simp add: simulate_settled_def)
  moreover from load_program_run[OF load_simulated[OF assms(4,5)] assms(6)] assms(7) have "load_program I A fetch slot pid l =
      (Ok (case verified of Inr program \<Rightarrow> program
      | Inl e \<Rightarrow> new_tombstone A slot (FailedVerification (program_runtime_v1 A envs))), l)"
    by (simp add: verify_program_def simulated_program_def assms(1))
  ultimately show ?thesis
    by blast
qed

theorem simulate_runs_file_witness:
  "snd (lt_accounts sample_loaded ! 0) = simulated_program sample_ids [7, 7] \<and>
   load_program sample_ids sample_api sample_fetch 100 (pubkey_repeat 20)
     (account_loader_new sample_third () [] [] []) =
   (Ok (Inr [7, 7]), account_loader_new sample_third () [] [] [])"
  using simulate_runs_file[OF sample_fetch_def sample_load[of "\<lambda>msg. []"], where A = sample_api
      and l = "account_loader_new sample_third () [] [] []" and slot = 100 and verified = "Inr (Inr [7, 7])"]
  by (simp add: sample_api_def sample_loaded_def)

subsection \<open>Both commands\<close>

lemma on_chain_loads:
  assumes "program_on_chain I A (\<lambda>k s. (node k, s)) pid s elf"
    and "onchain = (\<lambda>k g. (case node k of Inl e \<Rightarrow> None | Inr a \<Rightarrow> Some a, g))"
    and "loader_v4_id I \<noteq> bpf_loader_id I" and "loader_v4_id I \<noteq> bpf_loader_upgradeable_id I"
    and "fst (load_program_accounts I A onchain pid g) \<noteq> Ok LoadInvalidAccountData"
  shows "\<exists>loaded own n d. load_program_accounts I A onchain pid g = (Ok loaded, g) \<and>
    (\<forall>features envs slot. verify_program I A features envs slot loaded =
      load_program_from_bytes A (delay_visibility_active A features) elf own n d (program_runtime_v1 A envs) False)"
proof -
  obtain acc where acc: "node pid = Inr acc"
    using assms(1) by (auto simp: program_on_chain_def)
  then have bytes: "if owner acc = bpf_loader_upgradeable_id I
      then \<exists>addr pd. upgradeable_state A (data acc) = Inr (Program addr) \<and> node addr = Inr pd \<and>
        size_of_programdata_metadata A \<le> length (data pd) \<and>
        elf = drop (size_of_programdata_metadata A) (data pd)
      else owner acc = bpf_loader_id I \<and> elf = data acc"
    using assms(1) by (auto simp: program_on_chain_def split: if_splits)
  show ?thesis
  proof (cases "owner acc = bpf_loader_upgradeable_id I")
    case False
    with bytes acc assms(3) have "load_program_accounts I A onchain pid g = (Ok (ProgramOfLoaderV1orV2 acc), g)"
      by (auto simp: load_program_accounts_def get_account_with_fixed_root_def act_bind_def assms(2))
    with False bytes show ?thesis
      by (intro exI[of _ "ProgramOfLoaderV1orV2 acc"] exI[of _ "owner acc"] exI[of _ "length (data acc)"]
          exI[of _ 0]) (simp add: verify_program_def)
  next
    case True
    then obtain addr pd where addr: "upgradeable_state A (data acc) = Inr (Program addr)" and pd: "node addr = Inr pd"
      and elf: "size_of_programdata_metadata A \<le> length (data pd)"
        "elf = drop (size_of_programdata_metadata A) (data pd)"
      using bytes by auto
    obtain d auth where state: "upgradeable_state A (data pd) = Inr (ProgramData d auth)"
      using assms(4,5) True acc addr pd
      by (cases "upgradeable_state A (data pd)")
        (auto simp: load_program_accounts_def get_account_with_fixed_root_def act_bind_def assms(2)
          split: upgradeable_loader_state.splits)
    have "load_program_accounts I A onchain pid g = (Ok (ProgramOfLoaderV3 acc pd d), g)"
      using True assms(4) acc addr pd state
      by (auto simp: load_program_accounts_def get_account_with_fixed_root_def act_bind_def assms(2))
    with elf show ?thesis
      by (intro exI[of _ "ProgramOfLoaderV3 acc pd d"] exI[of _ "owner acc"]
          exI[of _ "min (length (data acc) + length (data pd)) (2 ^ 64 - 1)"] exI[of _ d])
        (simp add: verify_program_def slice_from_def)
  qed
qed

text \<open>
  C40.  The two commands fit together.  With a node that keeps its answers: when \<open>GetProgramData\<close> has
  succeeded, the file holds bytes that \<open>Simulate\<close>, given the same id and the file, verifies as the program,
  and they are the bytes that are verified when the program itself is loaded from the node, unless its
  accounts are not those of a program.
\<close>

theorem dump_then_simulate:
  assumes "file_laws F" and "rpc = (\<lambda>k s. (node k, s))" and "pid = gpd_program_id dump"
    and "run_command I T A S F rpc (GetProgramDataCommand dump) ((fs, out), s) = (Ok (), ((fs', out'), s'))"
    and "onchain = (\<lambda>k g. (case node k of Inl e \<Rightarrow> None | Inr a \<Rightarrow> Some a, g))"
    and "distinct [loader_v4_id I, bpf_loader_id I, bpf_loader_upgradeable_id I]"
    and "verified = (\<lambda>cache features elf own n deployed. let envs =
        environments_for_epoch A cache (slot div DEFAULT_SLOTS_PER_EPOCH A) in
      case load_program_from_bytes A (delay_visibility_active A features) elf own n deployed
        (program_runtime_v1 A envs) False of
        Inr program \<Rightarrow> program | Inl e \<Rightarrow> new_tombstone A slot (FailedVerification (program_runtime_v1 A envs)))"
  shows "\<exists>elf. read_file F (gpd_destination dump) fs' = Some elf \<and>
    load_program I A (simulate_fetch rpc pid (simulated_program I elf)) slot pid sim =
      (Ok (verified (ld_cache sim) (ld_feature_set sim) elf (bpf_loader_id I) (length elf) 0), sim) \<and>
    (fst (load_program_accounts I A onchain pid (ld_g l)) \<noteq> Ok LoadInvalidAccountData \<longrightarrow>
      (\<exists>own n deployed. load_program I A onchain slot pid l = (Ok (verified (ld_cache l) (ld_feature_set l) elf own n deployed), l)))"
proof -
  obtain fs1 elf where written: "open_truncate F (gpd_destination dump) fs = Some fs1"
    "file_write_all F (gpd_destination dump) fs1 elf = (True, fs')"
    and onch: "program_on_chain I A (\<lambda>k s. (node k, s)) pid s elf"
    using get_program_data_ok[of I A F rpc dump fs out s fs' out' s'] assms(2-4) by (auto simp: run_command_def)
  have content: "read_file F (gpd_destination dump) fs' = Some elf"
    using assms(1) written unfolding file_laws_def by blast
  have simulated: "load_program I A (simulate_fetch rpc pid (simulated_program I elf)) slot pid sim =
      (Ok (verified (ld_cache sim) (ld_feature_set sim) elf (bpf_loader_id I) (length elf) 0), sim)"
  proof -
    have "load_program_accounts I A (simulate_fetch rpc pid (simulated_program I elf)) pid (ld_g sim) =
        (Ok (ProgramOfLoaderV1orV2 (simulated_program I elf)), ld_g sim)"
      using assms(6) by (intro load_simulated) auto
    from load_program_run[OF this refl, of slot] show ?thesis
      by (simp add: assms(7) Let_def verify_program_def simulated_program_def)
  qed
  have "\<exists>own n deployed. load_program I A onchain slot pid l = (Ok (verified (ld_cache l) (ld_feature_set l) elf own n deployed), l)"
    if valid: "fst (load_program_accounts I A onchain pid (ld_g l)) \<noteq> Ok LoadInvalidAccountData"
  proof -
    obtain loaded own n d where loaded: "load_program_accounts I A onchain pid (ld_g l) = (Ok loaded, ld_g l)"
      and verify: "\<forall>features envs slot. verify_program I A features envs slot loaded =
        load_program_from_bytes A (delay_visibility_active A features) elf own n d (program_runtime_v1 A envs) False"
      using on_chain_loads[OF onch assms(5) _ _ valid] assms(6) by auto
    show ?thesis
      using load_program_run[OF loaded refl, of slot] verify
      by (auto simp: assms(7) Let_def)
  qed
  with content simulated show ?thesis
    by blast
qed

definition sample_answer :: "pubkey \<Rightarrow> string + account" where
  "sample_answer key = fst (sample_node key 0)"

theorem dump_then_simulate_witness:
  "\<exists>own n deployed. load_program sample_ids sample_api
      (\<lambda>k g. (case sample_answer k of Inl e \<Rightarrow> None | Inr a \<Rightarrow> Some a, g)) 100 (pubkey_repeat 30)
      (account_loader_new () () [] [] []) =
    (Ok (case load_program_from_bytes sample_api False [7, 8] own n deployed () False of
       Inr program \<Rightarrow> program | Inl e \<Rightarrow> Inl (FailedVerification ())), account_loader_new () () [] [] [])"
proof -
  have run: "run_command sample_ids sample_runtime sample_api sample_sdk sample_files (\<lambda>k s. (sample_answer k, s))
      (GetProgramDataCommand sample_dump) ((Map.empty, []), ()) = (Ok (), (([''p'' \<mapsto> [7, 8]], []), ()))"
    by (simp add: run_command_def get_program_data_def sample_files_def sample_dump_def open_file_def
        rpc_get_account_def sample_answer_def sample_node_def write_file_def slice_from_def sample_api_def act_bind_def)
  have laws: "file_laws sample_files"
    by (auto simp: file_laws_def sample_files_def)
  have valid: "fst (load_program_accounts sample_ids sample_api
      (\<lambda>k g. (case sample_answer k of Inl e \<Rightarrow> None | Inr a \<Rightarrow> Some a, g)) (pubkey_repeat 30) ()) \<noteq>
      Ok LoadInvalidAccountData"
    by (simp add: load_program_accounts_def get_account_with_fixed_root_def act_bind_def sample_answer_def
        sample_node_def sample_api_def)
  show ?thesis
    using dump_then_simulate[OF laws refl refl run refl _ refl, where slot = 100
        and sim = "account_loader_new \<lparr>fetched = Map.empty, rpc_state = ()\<rparr> () [] [] []" and l = "account_loader_new () () [] [] []"] valid
    by (simp add: sample_files_def sample_dump_def account_loader_new_def sample_api_def Let_def)
qed

end
