(* ===== verification/Spec2Isabelle.thy ===== *)
theory Spec2Isabelle
  imports Executor_Properties Session_Properties Example_Properties Vm_Properties Mem_Chunks_Properties
    Message_Properties Command_Properties
begin

text \<open>
  \<^bold>\<open>A verification development of solana-bpf-simulator\<close>

  \<^bold>\<open>The program.\<close>  The crate runs Solana programs outside of a validator, in two independent ways.  The
  \<^emph>\<open>instruction executor\<close> (\<open>src/instruction_executor\<close>) serializes accounts and an instruction into a
  buffer, hands it with a stack and a heap to the virtual machine of \<open>solana_rbpf\<close>, offers the program
  eight system calls, and reads the accounts back.  The \<^emph>\<open>message executor\<close>
  (\<open>src/message_executor\<close>) loads the accounts and programs of a whole transaction message from a
  closure and hands them to the message processor of \<open>solana_program_runtime\<close>.  The binary
  (\<open>src/main.rs\<close>) has two commands on top of it, and \<open>src/examples\<close> two drivers that run an example
  program in either way.

  \<^bold>\<open>Conventions.\<close>  A call that can fail returns an \<open>outcome\<close>: \<open>Ok\<close>, \<open>Err\<close> or \<open>Panics\<close>.  A call that
  changes state is an \<open>act\<close>, which returns its outcome and the state it leaves, also when it fails.  An
  integer of the program that can wrap is a word; a length or an index is a natural number, with the
  check against \<open>usize\<close> written out.  Memory is a byte list per allocation for the buffer, and a map
  from host addresses for the system calls, so that overlap and aliasing are visible.  All of this is in
  \<open>Prelude\<close>.

  \<^bold>\<open>Theories and source files.\<close>
  \<^item> \<open>Prelude\<close>, \<open>Byte_Ranges\<close>, \<open>Pubkeys\<close>, \<open>Errors\<close>, \<open>Utf8\<close>, \<open>Binary_Search\<close>: shared notions; the error
    enumerations of \<open>errors.rs\<close> and \<open>syscall_errors.rs\<close>; the standard library's UTF-8 check and binary
    search.
  \<^item> \<open>Externals\<close>: the interface of the virtual machine and of the SDK that the instruction executor uses,
    the records \<open>sdk\<close> and \<open>aligned_memory\<close> with their documented laws \<open>sdk_laws\<close> and
    \<open>aligned_memory_laws\<close>; the machine itself is the record \<open>rbpf\<close> of \<open>Executor\<close>.
  \<^item> \<open>Account_Sizes\<close> (\<open>account_sizes.rs\<close>), \<open>Context\<close> (\<open>context.rs\<close>), \<open>Registry\<close> (\<open>get_syscalls\<close>),
    \<open>Account_Buffer\<close> (the writers at the end of \<open>instruction_executor/mod.rs\<close>), \<open>Executor\<close> (every method
    of \<open>InstructionExecutor\<close>).
  \<^item> \<open>Executor_Layout\<close>: the abstract input (accounts, instruction, program id) and its serialization, which
    the executor refines; \<open>Executor_Properties\<close>: C1, C4, C5, C7, C8 and C10.
  \<^item> \<open>Call_Sequences\<close> (the locale \<open>call_simulation\<close>: a simulation of single calls is one of sequences) and
    \<open>Executor_Sessions\<close>: an executor as it is used, that is sequences of updates, for which it interprets the
    locale, arbitrary uses with runs of programs as an inductive relation, and updating everything again;
    \<open>Entrypoint\<close>: a parser of the input from the side of the program; \<open>Session_Properties\<close>: C2, C3, C9, C25, C28.
  \<^item> \<open>Host_Memory\<close>, \<open>Translate\<close> (the translation helpers of \<open>syscalls/mod.rs\<close>), \<open>Syscall_Base\<close> and
    \<open>Syscalls\<close> (\<open>syscalls/mod.rs\<close>, \<open>syscalls/sysvar.rs\<close>, the first part of \<open>syscalls/mem_ops.rs\<close>).  The
    locale \<open>syscall_contract\<close> states what the machine relies on in a system call: what it may change and
    what it may depend on.  \<open>Syscall_Contracts\<close> interprets it for each of the eight;
    \<open>Syscall_Properties\<close> holds C12 to C18 and C20.
  \<^item> \<open>Vm_Runs\<close>: the runs of a program as an inductive step relation, whose steps are the writes of the program
    and its system calls; \<open>Vm_Properties\<close>: C21 to C24.
  \<^item> \<open>Mem_Chunks\<close> (the rest of \<open>mem_ops.rs\<close>: copies across memory regions), \<open>Mem_Chunks_Walk\<close> (the locale
    \<open>chunk_source\<close>, interpreted for the walk from either end), \<open>Mem_Chunks_Properties\<close>: C26 and C27.
  \<^item> \<open>Account_Source\<close>: the closure of \<open>AccountLoader\<close>, with the locale \<open>account_source\<close> of a closure that does
    not change its answers; \<open>Transaction_Loader\<close> (\<open>loader/transaction_loader.rs\<close>); \<open>Slots\<close> and \<open>Features\<close>
    (\<open>message_executor/mod.rs\<close>, with the locale \<open>fork_contract\<close> of the program cache);
    \<open>Program_Loader\<close> (\<open>loader/mod.rs\<close>, \<open>loader/program_loader.rs\<close>); \<open>Message_Executor\<close> (\<open>executor.rs\<close>).
  \<^item> \<open>Simulate\<close> and \<open>Simulate_Run\<close>: the two commands of \<open>main.rs\<close>.  The closure of \<open>Simulate\<close> is the
    interpretation of \<open>account_source\<close> on the code.
  \<^item> \<open>Examples\<close>: the drivers (\<open>check.rs\<close> of the raw and the anchor example); \<open>Source_Simulation\<close>: two sources of
    accounts with the same answers are the same to the loaders, the locale \<open>source_simulation\<close>;
    \<open>Example_Properties\<close>: C6, C11 and C19, with the interpretation of that locale on the closures of the drivers
    and of \<open>Simulate\<close>.
  \<^item> \<open>Message_Properties\<close> (C29 to C35) and \<open>Command_Properties\<close> (C36 to C40); \<open>Samples\<close> and \<open>Message_Samples\<close>:
    concrete parameters for the witnesses.
\<close>

text \<open>
  \<^bold>\<open>What the lemmas show.\<close>
  \<^item> The input buffer (C1 to C5, C10).  \<open>new\<close> computes exactly the capacity that its writes need; any sequence of
    updates, failing ones included, does what the same updates do to the abstract input; what was stored is
    read back, by \<open>get_account\<close> and by a parser of the format; and an execution gives the machine exactly the
    image of the abstract input, and zeroed memory.  C5 and C10 state where the code departs from what it
    seems to mean: the stored instruction length, and where the rent epoch is looked for after a program
    made the data of an account longer or shorter.
  \<^item> Using an executor again (C9, C25, C28).  Nothing a program writes changes the layout or the result of
    an update, which panics for an index without a slot only; updating everything restores the whole buffer
    but the number of accounts and what stands behind a shorter instruction; and \<open>get_account\<close> panics exactly
    when there is no such slot, or when the place of the rent epoch behind the data and the space reserved
    for it, computed from the length that the program left, is not inside the buffer.
  \<^item> Running (C7, C8, C24).  A run starts from cleared memory, is independent of the run before it, and its
    return data is the program's own.
  \<^item> Drivers (C6, C11, C19).  From the file and the answers of the node to what is printed: which input the
    machine is given, and that asking the node every time changes nothing if it keeps its answers.
  \<^item> System calls (C12 to C18, C20).  The result of each on every branch, atomicity of failing copies, the
    search for the greatest bump seed.
  \<^item> Confinement (C21 to C23).  No call, and no sequence of calls and writes, changes the host outside of the
    writable regions, or lets a program observe memory it cannot read; the meter never grows.
  \<^item> Copies across regions (C26, C27).  They terminate and are a \<open>memmove\<close> on the program's addresses.
  \<^item> Messages (C29 to C35).  The accounts and chains of owners of a loaded transaction, how many there are
    and that their 16-bit indices are exact; which programs are asked for, each once and in the order
    that the binary search needs, and that the processor is given all of them; what loading one program gives
    in terms of the accounts there are, which is never an error: the verified program, or which tombstone.
  \<^item> Commands (C36 to C40).  A new executor has exactly the given features and their builtins; what
    \<open>GetProgramData\<close> writes; a simulation ends with one report; what is simulated is the given file; and
    the two commands together: the file of the first is the program of the second.

  \<^bold>\<open>Bounds and fuel.\<close>
  \<^item> \<open>pair_loop\<close>, the only loop with fuel, runs while bytes are left; each round moves at least one byte, so any
    fuel above the number of bytes is enough, and C26 proves that the loop then returns.
  \<^item> \<open>find_bump\<close> is the code's own loop over \<open>u8::MAX\<close> rounds, \<open>owner_chain\<close> its loop of five rounds; both are
    structural in the number of rounds that are left.
  \<^item> \<open>search_between\<close> recurses on the size of the window, with a termination proof.

  \<^bold>\<open>What is assumed of code that is not in the repository.\<close>  The SDK's
  constants, address hashing and aligned memory are the records of \<open>Externals\<close>, the virtual machine the
  record \<open>rbpf\<close>, the runtime behind the system calls \<open>runtime_api\<close>, and the mapping of memory
  \<open>memory_mapping\<close>.  The program cache, its verification of programs, the runtime's environments, the
  message processor and the table of builtins are the fields of \<open>program_api\<close> and \<open>runtime\<close>; what the macros
  of anchor generate is in \<open>driver_sdk\<close>.  \<open>pubkey!\<close>,
  \<open>bs58\<close>, \<open>bincode\<close> and the construction of messages are the fields of \<open>command_sdk\<close>, files those of
  \<open>file_system\<close>, and the RPC node is the argument \<open>rpc\<close>.
  Their laws are hypotheses of the theorems that need them, and each such theorem has a witness that
  instantiates them.  A \<open>HashSet\<close> is a list without duplicates in an order the theorems do not fix.
  Of the arguments of \<open>process_message\<close> the parameter leaves out the constants (default rent, default compute
  budget, the timings and the two zeros) and the blockhash of the message, which the code passes on unread.
  An addition
  on \<open>usize\<close> that overflows is a panic, as in a build with overflow checks; a build without them wraps, which
  makes a difference only for sizes near \<open>2 ^ 64\<close>.  \<open>run_regions\<close>, \<open>vm_step\<close> and \<open>executor_uses\<close> translate no
  code: they state what is expected of \<open>execute\<close>, what a program can do between two system calls, and in
  which orders an executor is used.

  \<^bold>\<open>Not modelled.\<close>  The parsing of the command line and the set-up of the log subscriber in \<open>main\<close>; the
  text of errors (\<open>thiserror\<close>) and of \<open>log::debug!\<close>; the metrics of \<open>load_program\<close>, which nothing reads;
  \<open>MessageExecutorError\<close>, which has no variants; the re-exports of \<open>lib.rs\<close>; and the two example programs
  under \<open>src/examples\<close>, which are compiled for the virtual machine and only run on it.  The drivers of
  the examples name the executors by older names and do not build against the crate as it is; they are
  modelled on the executors it has.
\<close>

end
